(* ===== verification/Net_Prelude.thy ===== *)
theory Net_Prelude
  imports Main "HOL-Library.Word" "HOL-Library.Char_ord"
begin

text \<open>
  Prelude: the part of the Go language and of its standard library that the network
  service relies on in every component.

  \<^item> \<open>go_time\<close> is a \<^verbatim>\<open>time.Time\<close> as nanoseconds since the zero time, \<open>duration\<close> a
    \<^verbatim>\<open>time.Duration\<close> (an int64 of nanoseconds, with the wrap-around of \<open>*\<close> and the
    saturation of \<^verbatim>\<open>Time.Sub\<close> written out).
  \<^item> A Go string is a sequence of bytes: \<open>string\<close>. UTF-8 decoding follows
    \<^verbatim>\<open>utf8.DecodeRuneInString\<close>; \<^verbatim>\<open>range\<close> over a string, \<^verbatim>\<open>utf8.ValidString\<close>,
    \<^verbatim>\<open>utf8.RuneCountInString\<close> and \<^verbatim>\<open>strings.TrimSpace\<close> are defined from it.
  \<^item> Errors are values: \<open>goerr\<close> has the error types of the service with their causes, so
    that \<^verbatim>\<open>errors.Is\<close> and \<^verbatim>\<open>errors.As\<close> walk the chain as the code does.
\<close>

named_theorems step_simps \<open>rewrite rules that evaluate one operation of a component\<close>
named_theorems frame_simps \<open>what an operation leaves unchanged\<close>

section \<open>Time and durations\<close>

type_synonym go_time = int
type_synonym duration = int

definition max_int64 :: int where "max_int64 = 2 ^ 63 - 1"
definition min_int64 :: int where "min_int64 = - (2 ^ 63)"

definition wrap64 :: "int \<Rightarrow> int" where
  "wrap64 x = (x + 2 ^ 63) mod 2 ^ 64 - 2 ^ 63"

definition wrap32 :: "int \<Rightarrow> int" where
  "wrap32 x = (x + 2 ^ 31) mod 2 ^ 32 - 2 ^ 31"

definition time_is_zero :: "go_time \<Rightarrow> bool" where
  "time_is_zero t \<longleftrightarrow> t = 0"

definition time_after :: "go_time \<Rightarrow> go_time \<Rightarrow> bool" where
  "time_after t u \<longleftrightarrow> u < t"

definition time_before :: "go_time \<Rightarrow> go_time \<Rightarrow> bool" where
  "time_before t u \<longleftrightarrow> t < u"

definition time_sub :: "go_time \<Rightarrow> go_time \<Rightarrow> duration" where
  "time_sub t u = max min_int64 (min max_int64 (t - u))"

abbreviation "ns_microsecond \<equiv> (1000 :: duration)"
abbreviation "ns_millisecond \<equiv> (1000000 :: duration)"
abbreviation "ns_second \<equiv> (1000000000 :: duration)"
abbreviation "ns_minute \<equiv> (60000000000 :: duration)"

lemma wrap64_id [simp]: "min_int64 \<le> x \<Longrightarrow> x \<le> max_int64 \<Longrightarrow> wrap64 x = x"
  by (simp add: wrap64_def min_int64_def max_int64_def)

lemma wrap64_range: "min_int64 \<le> wrap64 x \<and> wrap64 x \<le> max_int64"
  unfolding wrap64_def min_int64_def max_int64_def
  using pos_mod_bound[of "2^64" "x + 2^63"] pos_mod_sign[of "2^64" "x + 2^63"]
  by simp

lemma wrap32_id [simp]: "- (2 ^ 31) \<le> x \<Longrightarrow> x < 2 ^ 31 \<Longrightarrow> wrap32 x = x"
  by (simp add: wrap32_def)

lemma time_sub_le_iff:
  "0 \<le> d \<Longrightarrow> d < max_int64 \<Longrightarrow> time_sub t u \<le> d \<longleftrightarrow> t - u \<le> d"
  by (auto simp: time_sub_def max_int64_def min_int64_def)

section \<open>Strings\<close>

abbreviation byte_of :: "char \<Rightarrow> nat" where "byte_of \<equiv> of_char"
abbreviation chr_of :: "nat \<Rightarrow> char" where "chr_of \<equiv> char_of"

definition hasPrefix :: "string \<Rightarrow> string \<Rightarrow> bool" where
  "hasPrefix s p \<longleftrightarrow> take (length p) s = p"

definition lower_hex :: "char \<Rightarrow> bool" where
  "lower_hex c \<longleftrightarrow> c \<in> set ''0123456789abcdef''"

definition ascii_digit :: "char \<Rightarrow> bool" where
  "ascii_digit c \<longleftrightarrow> 48 \<le> byte_of c \<and> byte_of c \<le> 57"

definition ascii_lower :: "char \<Rightarrow> bool" where
  "ascii_lower c \<longleftrightarrow> 97 \<le> byte_of c \<and> byte_of c \<le> 122"

definition ascii_upper :: "char \<Rightarrow> bool" where
  "ascii_upper c \<longleftrightarrow> 65 \<le> byte_of c \<and> byte_of c \<le> 90"

text \<open>\<^verbatim>\<open>strings.Cut\<close> at the first occurrence of a separator.\<close>

fun cut :: "string \<Rightarrow> string \<Rightarrow> (string \<times> string) option" where
  "cut sep [] = (if sep = [] then Some ([], []) else None)"
| "cut sep (c # cs) =
     (if hasPrefix (c # cs) sep then Some ([], drop (length sep) (c # cs))
      else map_option (\<lambda>(l, r). (c # l, r)) (cut sep cs))"

text \<open>Decimal printing of an unsigned integer (\<^verbatim>\<open>strconv.FormatUint\<close> in base ten).\<close>

definition digit_char :: "nat \<Rightarrow> char" where
  "digit_char d = chr_of (48 + d)"

fun decimal :: "nat \<Rightarrow> string" where
  "decimal n = (if n < 10 then [digit_char n] else decimal (n div 10) @ [digit_char (n mod 10)])"

declare decimal.simps [simp del]

section \<open>UTF-8\<close>

abbreviation rune_error :: nat where "rune_error \<equiv> 65533"

definition in_range :: "nat \<Rightarrow> nat \<Rightarrow> char \<Rightarrow> bool" where
  "in_range lo hi c \<longleftrightarrow> lo \<le> byte_of c \<and> byte_of c \<le> hi"

text \<open>The second byte of a sequence is restricted by the first one (shortest form, no
  surrogates, at most U+10FFFF); an invalid sequence is \<open>U+FFFD\<close> of width one.\<close>

definition second_range :: "nat \<Rightarrow> nat \<times> nat" where
  "second_range b =
     (if b = 224 then (160, 191) else if b = 237 then (128, 159)
      else if b = 240 then (144, 191) else if b = 244 then (128, 143) else (128, 191))"

fun decode_rune :: "string \<Rightarrow> nat \<times> nat" where
  "decode_rune [] = (rune_error, 0)"
| "decode_rune (c # cs) =
     (let b = byte_of c; (lo, hi) = second_range b in
      if b < 128 then (b, 1)
      else if 194 \<le> b \<and> b \<le> 223 then
        (case cs of c1 # _ \<Rightarrow>
           if in_range 128 191 c1 then ((b - 192) * 64 + (byte_of c1 - 128), 2) else (rune_error, 1)
         | [] \<Rightarrow> (rune_error, 1))
      else if 224 \<le> b \<and> b \<le> 239 then
        (case cs of c1 # c2 # _ \<Rightarrow>
           if in_range lo hi c1 \<and> in_range 128 191 c2
           then ((b - 224) * 4096 + (byte_of c1 - 128) * 64 + (byte_of c2 - 128), 3) else (rune_error, 1)
         | _ \<Rightarrow> (rune_error, 1))
      else if 240 \<le> b \<and> b \<le> 244 then
        (case cs of c1 # c2 # c3 # _ \<Rightarrow>
           if in_range lo hi c1 \<and> in_range 128 191 c2 \<and> in_range 128 191 c3
           then ((b - 240) * 262144 + (byte_of c1 - 128) * 4096 + (byte_of c2 - 128) * 64 + (byte_of c3 - 128), 4)
           else (rune_error, 1)
         | _ \<Rightarrow> (rune_error, 1))
      else (rune_error, 1))"

lemma decode_rune_width: "s \<noteq> [] \<Longrightarrow> 1 \<le> snd (decode_rune s)"
  by (cases s) (auto simp: Let_def split: list.splits prod.splits)

text \<open>The runes of a string with the bytes each one was decoded from.\<close>

function runes :: "string \<Rightarrow> (nat \<times> string) list" where
  "runes s = (if s = [] then []
     else (fst (decode_rune s), take (snd (decode_rune s)) s) # runes (drop (snd (decode_rune s)) s))"
  by pat_completeness auto
termination
proof (relation "measure length", goal_cases)
  case (2 s)
  then have "1 \<le> snd (decode_rune s)" by (rule decode_rune_width)
  with 2 show ?case by (cases s) auto
qed simp

declare runes.simps [simp del]

definition rune_values :: "string \<Rightarrow> nat list" where
  "rune_values s = map fst (runes s)"

definition rune_count :: "string \<Rightarrow> nat" where
  "rune_count s = length (runes s)"

definition valid_utf8 :: "string \<Rightarrow> bool" where
  "valid_utf8 s \<longleftrightarrow> list_all (\<lambda>(r, bs). \<not> (r = rune_error \<and> length bs = 1)) (runes s)"

definition is_control :: "nat \<Rightarrow> bool" where
  "is_control r \<longleftrightarrow> r < 32 \<or> (127 \<le> r \<and> r < 160)"

definition is_space :: "nat \<Rightarrow> bool" where
  "is_space r \<longleftrightarrow> (9 \<le> r \<and> r \<le> 13) \<or> r = 32 \<or> r = 133 \<or> r = 160 \<or> r = 5760
     \<or> (8192 \<le> r \<and> r \<le> 8202) \<or> r = 8232 \<or> r = 8233 \<or> r = 8239 \<or> r = 8287 \<or> r = 12288"

definition trim_space :: "string \<Rightarrow> string" where
  "trim_space s = concat (map snd (rev (dropWhile (\<lambda>(r, _). is_space r)
     (rev (dropWhile (\<lambda>(r, _). is_space r) (runes s))))))"

lemma runes_Nil [simp]: "runes [] = []"
  by (simp add: runes.simps)

lemma runes_eq_Nil_iff [simp]: "runes s = [] \<longleftrightarrow> s = []"
  by (subst runes.simps) simp

lemma runes_ascii: "list_all (\<lambda>c. byte_of c < 128) s \<Longrightarrow> runes s = map (\<lambda>c. (byte_of c, [c])) s"
proof (induction s)
  case (Cons c s)
  then show ?case by (subst runes.simps) (simp add: Let_def split: prod.splits)
qed simp

lemma concat_runes [simp]: "concat (map snd (runes s)) = s"
proof (induction s rule: runes.induct)
  case (1 s)
  then show ?case by (cases "s = []") (simp_all add: runes.simps [of s])
qed

lemma runes_bytes: "(r, bs) \<in> set (runes s) \<Longrightarrow> 1 \<le> length bs"
proof (induction s arbitrary: r bs rule: runes.induct)
  case (1 s)
  show ?case
  proof (cases "s = []")
    case False
    with 1 decode_rune_width [OF False] show ?thesis
      by (auto simp: runes.simps [of s] Suc_le_eq)
  qed (use 1 in simp)
qed

lemma sum_list_ge_length:
  "(\<And>x. x \<in> set xs \<Longrightarrow> (1::nat) \<le> f x) \<Longrightarrow> length xs \<le> sum_list (map f xs)"
  by (induction xs) fastforce+

lemma rune_count_le_length: "rune_count s \<le> length s"
proof -
  have "length (runes s) \<le> sum_list (map (length \<circ> snd) (runes s))"
    by (rule sum_list_ge_length) (auto dest: runes_bytes)
  also have "\<dots> = length (concat (map snd (runes s)))"
    by (simp only: length_concat map_map)
  finally show ?thesis by (simp add: rune_count_def)
qed

section \<open>Errors\<close>

text \<open>The reasons of \<^verbatim>\<open>biz.Reason\<close>; \<open>NoReason\<close> is the empty string.\<close>

datatype reason =
    NoReason
  | InvalidArgument | TenantRequired | InvalidCursor | ResourceNotFound | IdempotencyConflict
  | ResourceInUse | ResourceBusy | DependencyUnavailable
  | CIDROverlap | ParentNotReady | NetworkNotReady | PlacementMismatch
  | BaseConnectivityNotReady
  | ProviderUnavailable | ProviderNotReady | ProviderRejected | ProviderOwnership
  | ProviderUnknown | ProviderMissing | CleanupPending
  | AttachmentConflict | VersionConflict | ConsumerUnclosed | ConsumerUnavailable | AttachmentProtocol
  | PermissionDenied | PublicEgressNotReady | EIPPoolExhausted | EIPInUse | VPCSnatExists
  | ProviderStateMismatch
  | LoadBalancerNotReady | BackendIdentityMismatch | VIPInUse
  | CreateTerminated | MutationTerminated

datatype provider_failure =
  ProviderTemporary | ProviderInUse | ProviderReject | ProviderConflict | ProviderUncertain

text \<open>\<open>BizError\<close> is \<^verbatim>\<open>biz.Error\<close> (reason, message, cause), \<open>ProviderError\<close> is
  \<^verbatim>\<open>biz.ProviderError\<close> (kind, cause); the others are sentinel values and foreign errors.\<close>

datatype goerr =
    BizError reason string "goerr option"
  | ProviderError provider_failure "goerr option"
  | ErrLeaseLost
  | ErrNoRows
  | Canceled
  | DeadlineExceeded
  | OtherError string

type_synonym 'a res = "goerr + 'a"

definition Fail :: "reason \<Rightarrow> string \<Rightarrow> goerr" where
  "Fail r m = BizError r m None"

fun cause :: "goerr \<Rightarrow> goerr option" where
  "cause (BizError _ _ c) = c"
| "cause (ProviderError _ c) = c"
| "cause _ = None"

text \<open>\<^verbatim>\<open>errors.Is\<close> for the sentinel values (compared by identity along the chain).\<close>

fun errors_is :: "goerr \<Rightarrow> goerr \<Rightarrow> bool" where
  "errors_is (BizError r m c) t \<longleftrightarrow> BizError r m c = t \<or> (case c of None \<Rightarrow> False | Some e \<Rightarrow> errors_is e t)"
| "errors_is (ProviderError k c) t \<longleftrightarrow> ProviderError k c = t \<or> (case c of None \<Rightarrow> False | Some e \<Rightarrow> errors_is e t)"
| "errors_is e t \<longleftrightarrow> e = t"

text \<open>\<^verbatim>\<open>ReasonOf\<close>: the reason of the first \<^verbatim>\<open>biz.Error\<close> in the chain.\<close>

fun reason_of :: "goerr \<Rightarrow> reason" where
  "reason_of (BizError r _ _) = r"
| "reason_of (ProviderError _ c) = (case c of None \<Rightarrow> NoReason | Some e \<Rightarrow> reason_of e)"
| "reason_of _ = NoReason"

text \<open>Sequencing of fallible calls: the error of the first one is returned.\<close>

definition bind_res :: "'a res \<Rightarrow> ('a \<Rightarrow> 'b res) \<Rightarrow> 'b res" where
  "bind_res r f = (case r of Inl e \<Rightarrow> Inl e | Inr a \<Rightarrow> f a)"

lemma bind_res_simps [simp]:
  "bind_res (Inl e) f = Inl e" "bind_res (Inr a) f = f a"
  by (simp_all add: bind_res_def)

lemma bind_res_InrE:
  assumes "bind_res r f = Inr b"
  obtains a where "r = Inr a" and "f a = Inr b"
  using assms by (cases r) auto

lemma bind_res_Inr_iff: "bind_res r f = Inr b \<longleftrightarrow> (\<exists>a. r = Inr a \<and> f a = Inr b)"
  by (cases r) auto

lemma reason_of_Fail [simp]: "reason_of (Fail r m) = r"
  by (simp add: Fail_def)

lemma errors_is_Fail [simp]:
  "\<not> errors_is (Fail r m) ErrLeaseLost" "\<not> errors_is (Fail r m) ErrNoRows"
  "\<not> errors_is (Fail r m) Canceled" "\<not> errors_is (Fail r m) DeadlineExceeded"
  by (simp_all add: Fail_def)

end
