(* ===== verification/Net_Netip.thy ===== *)
theory Net_Netip
  imports Net_Prelude
begin

text \<open>
  The part of \<^verbatim>\<open>net/netip\<close> the service uses: textual addresses and prefixes, containment,
  masking, the successor of an address, and \<^verbatim>\<open>lastPoolAddress\<close> of
  \<^verbatim>\<open>internal/biz/network/egress.go\<close>. An IPv4 address is a \<open>32 word\<close>; IPv6 addresses
  are kept (they are parsed and then refused by the callers, except for the link-local
  test on node interfaces). The lemmas show that textual IPv4 addresses and prefixes
  round-trip, that a masked prefix is the interval from its address to its last address,
  and that two prefixes share an address exactly when one contains the other's network.
\<close>

unbundle bit_operations_syntax

section \<open>Addresses\<close>

datatype addr = IPv4 "32 word" | IPv6 "128 word" string

type_synonym v4 = "32 word"

datatype prefix = Prefix (pfx_addr: addr) (pfx_bits: nat)

fun is4 :: "addr \<Rightarrow> bool" where
  "is4 (IPv4 _) = True"
| "is4 (IPv6 _ _) = False"

fun v4_of :: "addr \<Rightarrow> v4" where
  "v4_of (IPv4 w) = w"
| "v4_of (IPv6 _ _) = 0"

section \<open>Parsing\<close>

fun ipv4_fields :: "string \<Rightarrow> nat \<Rightarrow> nat \<Rightarrow> nat list \<Rightarrow> nat list option" where
  "ipv4_fields [] v dl fs = (if length fs < 3 then None else Some (fs @ [v]))"
| "ipv4_fields (c # cs) v dl fs =
     (if ascii_digit c then
        (if dl = 1 \<and> v = 0 then None
         else let v' = v * 10 + (byte_of c - 48) in
           if 255 < v' then None else ipv4_fields cs v' (dl + 1) fs)
      else if c = CHR ''.'' then
        (if dl = 0 \<or> cs = [] then None
         else if length fs = 3 then None
         else ipv4_fields cs 0 0 (fs @ [v]))
      else None)"

fun word_of_bytes :: "nat list \<Rightarrow> nat \<Rightarrow> nat" where
  "word_of_bytes [] acc = acc"
| "word_of_bytes (b # bs) acc = word_of_bytes bs (acc * 256 + b)"

definition parseIPv4 :: "string \<Rightarrow> addr option" where
  "parseIPv4 s = map_option (\<lambda>fs. IPv4 (of_nat (word_of_bytes fs 0))) (ipv4_fields s 0 0 [])"

definition hex_value :: "char \<Rightarrow> nat option" where
  "hex_value c =
     (let b = byte_of c in
      if ascii_digit c then Some (b - 48)
      else if 97 \<le> b \<and> b \<le> 102 then Some (b - 87)
      else if 65 \<le> b \<and> b \<le> 70 then Some (b - 55) else None)"

text \<open>The longest run of hexadecimal digits at the front, at most four of them.\<close>

fun hex_group :: "string \<Rightarrow> nat \<Rightarrow> nat \<Rightarrow> (nat \<times> nat \<times> string) option" where
  "hex_group [] off acc = Some (off, acc, [])"
| "hex_group (c # cs) off acc =
     (case hex_value c of
        None \<Rightarrow> Some (off, acc, c # cs)
      | Some h \<Rightarrow> if 3 < off then None else hex_group cs (off + 1) (acc * 16 + h))"

fun ipv6_loop :: "nat \<Rightarrow> nat option \<Rightarrow> nat list \<Rightarrow> string \<Rightarrow> (nat list \<times> nat option) option" where
  "ipv6_loop 0 ell ip s = (if s = [] then Some (ip, ell) else None)"
| "ipv6_loop (Suc n) ell ip s =
     (case hex_group s 0 0 of
        None \<Rightarrow> None
      | Some (off, acc, rest) \<Rightarrow>
          if off = 0 then None
          else if rest \<noteq> [] \<and> hd rest = CHR ''.'' then
            (if ell = None \<and> length ip \<noteq> 12 then None
             else if 16 < length ip + 4 then None
             else map_option (\<lambda>fs. (ip @ fs, ell)) (ipv4_fields s 0 0 []))
          else let ip' = ip @ [acc div 256, acc mod 256] in
            case rest of
              [] \<Rightarrow> Some (ip', ell)
            | c # s1 \<Rightarrow>
                if c \<noteq> CHR '':'' \<or> s1 = [] then None
                else if hd s1 = CHR '':'' then
                  (if ell \<noteq> None then None
                   else if tl s1 = [] then Some (ip', Some (length ip'))
                   else ipv6_loop n (Some (length ip')) ip' (tl s1))
                else ipv6_loop n ell ip' s1)"

definition ipv6_expand :: "nat list \<times> nat option \<Rightarrow> nat list option" where
  "ipv6_expand = (\<lambda>(ip, ell).
     if length ip < 16 then
       (case ell of None \<Rightarrow> None
        | Some e \<Rightarrow> Some (take e ip @ replicate (16 - length ip) 0 @ drop e ip))
     else if ell \<noteq> None then None else Some ip)"

definition parseIPv6 :: "string \<Rightarrow> addr option" where
  "parseIPv6 s =
     (let (body, zone) = (case cut ''%'' s of None \<Rightarrow> (s, None) | Some (l, r) \<Rightarrow> (l, Some r)) in
      if zone = Some [] then None
      else let z = (case zone of None \<Rightarrow> [] | Some z \<Rightarrow> z) in
        if hasPrefix body ''::'' then
          (if drop 2 body = [] then Some (IPv6 0 z)
           else map_option (\<lambda>bs. IPv6 (of_nat (word_of_bytes bs 0)) z)
                  (Option.bind (ipv6_loop 8 (Some 0) [] (drop 2 body)) ipv6_expand))
        else map_option (\<lambda>bs. IPv6 (of_nat (word_of_bytes bs 0)) z)
               (Option.bind (ipv6_loop 8 None [] body) ipv6_expand))"

text \<open>\<^verbatim>\<open>netip.ParseAddr\<close>: the first of \<open>. : %\<close> decides.\<close>

fun parse_addr_scan :: "string \<Rightarrow> string \<Rightarrow> addr option" where
  "parse_addr_scan s [] = None"
| "parse_addr_scan s (c # cs) =
     (if c = CHR ''.'' then parseIPv4 s
      else if c = CHR '':'' then parseIPv6 s
      else if c = CHR ''%'' then None
      else parse_addr_scan s cs)"

definition ParseAddr :: "string \<Rightarrow> addr option" where
  "ParseAddr s = parse_addr_scan s s"

text \<open>\<^verbatim>\<open>strconv.Atoi\<close> restricted to what \<^verbatim>\<open>ParsePrefix\<close> lets through: one character, or a
  string that starts with a non-zero digit; a longer number is out of range for every
  address width, so the int range of \<^verbatim>\<open>Atoi\<close> does not matter.\<close>

fun atoi_digits :: "string \<Rightarrow> nat \<Rightarrow> nat option" where
  "atoi_digits [] acc = Some acc"
| "atoi_digits (c # cs) acc =
     (if ascii_digit c then atoi_digits cs (acc * 10 + (byte_of c - 48)) else None)"

definition prefix_bits :: "string \<Rightarrow> nat option" where
  "prefix_bits s =
     (if s = [] \<or> (1 < length s \<and> \<not> (49 \<le> byte_of (hd s) \<and> byte_of (hd s) \<le> 57)) then None
      else atoi_digits s 0)"

fun split_last_slash :: "string \<Rightarrow> (string \<times> string) option" where
  "split_last_slash [] = None"
| "split_last_slash (c # cs) =
     (case split_last_slash cs of
        Some (l, r) \<Rightarrow> Some (c # l, r)
      | None \<Rightarrow> if c = CHR ''/'' then Some ([], cs) else None)"

definition ParsePrefix :: "string \<Rightarrow> prefix option" where
  "ParsePrefix s =
     (case split_last_slash s of None \<Rightarrow> None
      | Some (l, r) \<Rightarrow>
          (case ParseAddr l of None \<Rightarrow> None
           | Some a \<Rightarrow>
               (case a of IPv6 _ z \<Rightarrow> if z \<noteq> [] then None else
                    (case prefix_bits r of None \<Rightarrow> None
                     | Some n \<Rightarrow> if 128 < n then None else Some (Prefix a n))
                | IPv4 _ \<Rightarrow>
                    (case prefix_bits r of None \<Rightarrow> None
                     | Some n \<Rightarrow> if 32 < n then None else Some (Prefix a n)))))"

section \<open>Printing\<close>

definition octets :: "v4 \<Rightarrow> nat list" where
  "octets w = [unat w div 16777216, unat w div 65536 mod 256, unat w div 256 mod 256, unat w mod 256]"

definition v4_string :: "v4 \<Rightarrow> string" where
  "v4_string w =
     (case octets w of [a, b, c, d] \<Rightarrow>
        decimal a @ ''.'' @ decimal b @ ''.'' @ decimal c @ ''.'' @ decimal d)"

definition v4_prefix_string :: "v4 \<Rightarrow> nat \<Rightarrow> string" where
  "v4_prefix_string w n = v4_string w @ ''/'' @ decimal n"

section \<open>IPv4 prefixes\<close>

definition v4_masked :: "v4 \<Rightarrow> nat \<Rightarrow> v4" where
  "v4_masked w n = push_bit (32 - n) (drop_bit (32 - n) w)"

definition v4_contains :: "v4 \<Rightarrow> nat \<Rightarrow> v4 \<Rightarrow> bool" where
  "v4_contains p n a \<longleftrightarrow> drop_bit (32 - n) (a XOR p) = 0"

text \<open>\<^verbatim>\<open>Addr.Next\<close>: none after the last address.\<close>

definition v4_next :: "v4 \<Rightarrow> v4 option" where
  "v4_next a = (if a = - 1 then None else Some (a + 1))"

definition v4_contains_opt :: "v4 \<Rightarrow> nat \<Rightarrow> v4 option \<Rightarrow> bool" where
  "v4_contains_opt p n a = (case a of None \<Rightarrow> False | Some b \<Rightarrow> v4_contains p n b)"

definition lastPoolAddress :: "v4 \<Rightarrow> nat \<Rightarrow> v4" where
  "lastPoolAddress a n = a OR drop_bit n (- 1)"

text \<open>\<^verbatim>\<open>Addr.IsPrivate\<close> on an IPv4 address.\<close>

definition v4_is_private :: "v4 \<Rightarrow> bool" where
  "v4_is_private w \<longleftrightarrow> unat w div 16777216 = 10
     \<or> (unat w div 16777216 = 172 \<and> unat w div 65536 mod 256 div 16 = 1)
     \<or> (unat w div 16777216 = 192 \<and> unat w div 65536 mod 256 = 168)"

fun is_link_local_unicast :: "addr \<Rightarrow> bool" where
  "is_link_local_unicast (IPv4 w) \<longleftrightarrow> unat w div 65536 = 169 * 256 + 254"
| "is_link_local_unicast (IPv6 w z) \<longleftrightarrow>
     (if drop_bit 32 w = 65535 then unat w mod 2 ^ 32 div 65536 = 169 * 256 + 254
      else unat w div 2 ^ 118 = 65152 div 64)"

text \<open>A textual IPv4 address or prefix: what every caller tests with \<^verbatim>\<open>Is4\<close> right after parsing.\<close>

definition parse_v4 :: "string \<Rightarrow> v4 option" where
  "parse_v4 s = (case ParseAddr s of Some (IPv4 w) \<Rightarrow> Some w | _ \<Rightarrow> None)"

definition parse_v4_prefix :: "string \<Rightarrow> (v4 \<times> nat) option" where
  "parse_v4_prefix s = (case ParsePrefix s of Some (Prefix (IPv4 w) n) \<Rightarrow> Some (w, n) | _ \<Rightarrow> None)"

section \<open>Prefixes as intervals\<close>

lemma unat_v4_lt: "unat (w :: v4) < 4294967296"
  using unsigned_less [of w, where ?'a = nat] by simp

lemma unat_v4_drop_bit: "unat (drop_bit k (w :: v4)) = unat w div 2 ^ k"
proof -
  have "take_bit LENGTH(32) (unat w) = unat w"
    by (simp add: take_bit_nat_eq_self unat_v4_lt)
  then show ?thesis
    by (simp only: unsigned_drop_bit_eq drop_bit_eq_div [where ?'a = nat])
qed

lemma unat_v4_masked: "unat (v4_masked w n) = unat w div 2 ^ (32 - n) * 2 ^ (32 - n)"
proof -
  have "unat w div 2 ^ (32 - n) * 2 ^ (32 - n) \<le> unat w"
    by (simp add: div_times_less_eq_dividend)
  also have "\<dots> < 2 ^ 32" using unat_v4_lt [of w] by simp
  finally have b: "unat w div 2 ^ (32 - n) * 2 ^ (32 - n) < 2 ^ LENGTH(32)" by simp
  have "unat (v4_masked w n) = take_bit LENGTH(32) (push_bit (32 - n) (unat (drop_bit (32 - n) w)))"
    by (simp only: v4_masked_def unsigned_push_bit_eq)
  also have "\<dots> = unat w div 2 ^ (32 - n) * 2 ^ (32 - n)"
    using b by (simp only: unat_v4_drop_bit push_bit_eq_mult [where ?'a = nat] take_bit_nat_eq_self)
  finally show ?thesis .
qed

lemma word_xor_eq_0_iff: "a XOR b = 0 \<longleftrightarrow> a = (b :: v4)"
proof
  assume "a XOR b = 0"
  then have "(a XOR b) XOR b = 0 XOR b" by (simp only:)
  then show "a = b" by (simp only: xor.assoc xor_self_eq xor.left_neutral xor.right_neutral)
qed (simp only: xor_self_eq)

lemma v4_contains_div:
  "v4_contains p n a \<longleftrightarrow> unat a div 2 ^ (32 - n) = unat p div 2 ^ (32 - n)"
proof -
  have "v4_contains p n a \<longleftrightarrow> drop_bit (32 - n) a = drop_bit (32 - n) p"
    by (simp only: v4_contains_def drop_bit_xor word_xor_eq_0_iff)
  also have "\<dots> \<longleftrightarrow> unat (drop_bit (32 - n) a) = unat (drop_bit (32 - n) p)"
    by (simp only: word_unat_eq_iff)
  finally show ?thesis by (simp only: unat_v4_drop_bit)
qed

lemma div_interval: "0 < (k::nat) \<Longrightarrow> a div k = q \<longleftrightarrow> q * k \<le> a \<and> a \<le> q * k + (k - 1)"
proof -
  assume k: "0 < k"
  show ?thesis
  proof
    assume "a div k = q"
    then show "q * k \<le> a \<and> a \<le> q * k + (k - 1)"
      using k div_mult_mod_eq [of a k] mod_less_divisor [OF k, of a] by auto
  next
    assume "q * k \<le> a \<and> a \<le> q * k + (k - 1)"
    with k show "a div k = q" by (intro div_nat_eqI) (auto simp: mult.commute)
  qed
qed

lemma pow32_pred_div: "n \<le> 32 \<Longrightarrow> (2 ^ 32 - 1) div 2 ^ n = (2 ^ (32 - n) - 1 :: nat)"
proof -
  assume n: "n \<le> 32"
  have "(2 ^ 32 - 1 :: nat) = (2 ^ (32 - n) - 1) * 2 ^ n + (2 ^ n - 1)"
    using n one_le_power [of "2::nat" n] power_increasing [OF n, of "2::nat"]
    by (simp add: diff_mult_distrib flip: power_add)
  then have "(2 ^ (32 - n) - 1) * 2 ^ n \<le> (2 ^ 32 - 1 :: nat) \<and>
      2 ^ 32 - 1 \<le> (2 ^ (32 - n) - 1) * 2 ^ n + (2 ^ n - 1 :: nat)"
    by linarith
  then show ?thesis by (intro div_interval [THEN iffD2]) simp
qed

lemma unat_low_ones: "n \<le> 32 \<Longrightarrow> unat (drop_bit n (- 1 :: v4)) = 2 ^ (32 - n) - 1"
  by (simp only: unat_v4_drop_bit unsigned_minus_1_eq_mask mask_eq_exp_minus_1) (simp add: pow32_pred_div [simplified])

lemma unat_lastPoolAddress:
  assumes "n \<le> 32" and m: "v4_masked p n = p"
  shows "unat (lastPoolAddress p n) = unat p + (2 ^ (32 - n) - 1)"
proof -
  let ?k = "32 - n"
  have p: "unat p = unat p div 2 ^ ?k * 2 ^ ?k"
    using unat_v4_masked [of p n] m by simp
  have "p AND drop_bit n (- 1) = 0"
  proof (rule bit_word_eqI)
    fix i assume i: "i < LENGTH(32)"
    have "bit p i \<longleftrightarrow> bit (push_bit ?k (drop_bit ?k p)) i" using m by (simp add: v4_masked_def)
    then have "i < ?k \<Longrightarrow> \<not> bit p i" by (simp add: bit_push_bit_iff)
    moreover have "bit (drop_bit n (- 1 :: v4)) i \<Longrightarrow> i < ?k"
      by (auto simp only: bit_drop_bit_eq comp_def bit_minus_1_iff) simp
    ultimately show "bit (p AND drop_bit n (- 1)) i \<longleftrightarrow> bit (0 :: v4) i"
      by (auto simp only: bit_and_iff bit_0_eq bot_apply bot_bool_def)
  qed
  then have "lastPoolAddress p n = p + drop_bit n (- 1)"
    unfolding lastPoolAddress_def by (simp only: disjunctive_add_eq_or)
  moreover have "unat p + unat (drop_bit n (- 1 :: v4)) < 2 ^ LENGTH(32)"
  proof -
    have "unat p < 2 ^ n * 2 ^ ?k"
      using unat_v4_lt [of p] assms(1) by (simp flip: power_add)
    then have "unat p div 2 ^ ?k < 2 ^ n" by (simp add: less_mult_imp_div_less)
    then have "(unat p div 2 ^ ?k + 1) * 2 ^ ?k \<le> 2 ^ n * 2 ^ ?k"
      by (intro mult_le_mono1) simp
    then have "unat p + 2 ^ ?k \<le> 2 ^ 32"
      using p assms(1) by (simp add: distrib_right flip: power_add)
    then show ?thesis unfolding unat_low_ones [OF assms(1)]
      using zero_less_power [of "2::nat" ?k] by simp
  qed
  ultimately show ?thesis
    by (simp only: unat_word_ariths mod_less unat_low_ones [OF assms(1)])
qed

lemma v4_contains_interval:
  assumes "n \<le> 32" and "v4_masked p n = p"
  shows "v4_contains p n a \<longleftrightarrow> p \<le> a \<and> a \<le> lastPoolAddress p n"
proof -
  have p: "unat p = unat p div 2 ^ (32 - n) * 2 ^ (32 - n)"
    using unat_v4_masked [of p n] assms(2) by simp
  show ?thesis
    unfolding v4_contains_div word_le_nat_alt unat_lastPoolAddress [OF assms]
    using p div_interval [of "2 ^ (32 - n)" "unat a" "unat p div 2 ^ (32 - n)"] by simp
qed

lemma v4_contains_self [simp]: "v4_contains p n p"
  by (simp add: v4_contains_div)

lemma div_pow_mono: "(x::nat) div 2 ^ k = y div 2 ^ k \<Longrightarrow> k \<le> l \<Longrightarrow> x div 2 ^ l = y div 2 ^ l"
  by (metis div_mult2_eq le_add_diff_inverse power_add)

lemma v4_contains_widen: "v4_contains p n a \<Longrightarrow> m \<le> n \<Longrightarrow> v4_contains p m a"
  unfolding v4_contains_div by (erule div_pow_mono) simp

text \<open>Two prefixes share an address exactly when the wider one contains the other's address:
  the test behind the containment check of a subnet and the overlap query.\<close>

lemma v4_share_iff:
  assumes "m \<le> n"
  shows "(\<exists>a. v4_contains p m a \<and> v4_contains q n a) \<longleftrightarrow> v4_contains p m q"
proof
  assume "\<exists>a. v4_contains p m a \<and> v4_contains q n a"
  then obtain a where "v4_contains p m a" and "v4_contains q m a"
    using v4_contains_widen assms by blast
  then show "v4_contains p m q" by (simp add: v4_contains_div)
next
  assume "v4_contains p m q"
  then show "\<exists>a. v4_contains p m a \<and> v4_contains q n a"
    using v4_contains_self by blast
qed

lemma v4_contains_subset:
  assumes "m \<le> n" and "v4_contains p m q" and "v4_contains q n a"
  shows "v4_contains p m a"
  using assms v4_contains_widen [of q n a m] by (simp add: v4_contains_div)

section \<open>Textual IPv4 addresses\<close>

lemma byte_of_digit_char [simp]: "d < 10 \<Longrightarrow> byte_of (digit_char d) = 48 + d"
  by (simp add: digit_char_def)

lemma ascii_digit_digit_char [simp]: "d < 10 \<Longrightarrow> ascii_digit (digit_char d)"
  by (simp add: ascii_digit_def)

lemma digit_char_byte: "ascii_digit c \<Longrightarrow> digit_char (byte_of c - 48) = c"
  by (simp add: ascii_digit_def digit_char_def)

lemma decimal_digits: "c \<in> set (decimal n) \<Longrightarrow> ascii_digit c"
  by (induction n rule: decimal.induct) (subst (asm) (2) decimal.simps, auto split: if_splits)

lemma decimal_ne [simp]: "decimal n \<noteq> []"
  by (subst decimal.simps) simp

lemma decimal_step: "0 < n \<Longrightarrow> d < 10 \<Longrightarrow> decimal (n * 10 + d) = decimal n @ [digit_char d]"
  by (subst decimal.simps) simp

lemma decimal_small: "d < 10 \<Longrightarrow> decimal d = [digit_char d]"
  by (subst decimal.simps) simp

lemma dot_slash_not_digit [simp]:
  "\<not> ascii_digit CHR ''.''" "\<not> ascii_digit CHR ''/''" "\<not> ascii_digit CHR '':''" "\<not> ascii_digit CHR ''%''"
  by (simp_all add: ascii_digit_def)

fun dotjoin :: "nat list \<Rightarrow> string" where
  "dotjoin [] = []"
| "dotjoin [n] = decimal n"
| "dotjoin (n # m # ns) = decimal n @ CHR ''.'' # dotjoin (m # ns)"

lemma dotjoin_ne: "ns \<noteq> [] \<Longrightarrow> dotjoin ns \<noteq> []"
  by (induction ns rule: dotjoin.induct) auto

lemma v4_string_dotjoin: "v4_string w = dotjoin (octets w)"
  by (simp add: v4_string_def octets_def)

text \<open>Reading a printed octet.\<close>

lemma ipv4_fields_decimal:
  "n \<le> 255 \<Longrightarrow> ipv4_fields (decimal n @ rest) 0 0 fs = ipv4_fields rest n (length (decimal n)) fs"
proof -
  assume n: "n \<le> 255"
  consider "n < 10" | "10 \<le> n" "n < 100" | "100 \<le> n" by linarith
  then show ?thesis
  proof cases
    case 1
    then show ?thesis by (simp add: decimal_small)
  next
    case 2
    then have "decimal n = [digit_char (n div 10), digit_char (n mod 10)]"
      by (subst decimal.simps) (simp add: decimal_small)
    moreover have "0 < n div 10" "n div 10 \<le> 255" using 2 by (simp_all add: div_greater_zero_iff)
    ultimately show ?thesis using 2 by (simp add: Let_def)
  next
    case 3
    then have "decimal n = [digit_char (n div 100), digit_char (n div 10 mod 10), digit_char (n mod 10)]"
      using n by (subst decimal.simps, subst decimal.simps) (simp add: decimal_small div_mult2_eq [symmetric])
    moreover have "n div 100 * 10 + n div 10 mod 10 = n div 10"
      using div_mult_mod_eq [of "n div 10" 10] by (simp add: div_mult2_eq [symmetric])
    moreover have "0 < n div 100" "n div 100 \<le> 255" "n div 10 \<le> 255" "n div 100 < 10" "0 < n div 10"
      using 3 n by (simp_all add: div_greater_zero_iff)
    ultimately show ?thesis using 3 n by (simp add: Let_def)
  qed
qed

lemma ipv4_fields_dotjoin:
  "ns \<noteq> [] \<Longrightarrow> \<forall>n \<in> set ns. n \<le> 255 \<Longrightarrow> length fs + length ns = 4 \<Longrightarrow>
     ipv4_fields (dotjoin ns) 0 0 fs = Some (fs @ ns)"
proof (induction ns arbitrary: fs rule: dotjoin.induct)
  case (2 n)
  then have "n \<le> 255" "length fs = 3" by simp_all
  then show ?case using ipv4_fields_decimal [of n "[]" fs] by simp
next
  case (3 n m ns)
  then have "ipv4_fields (dotjoin (n # m # ns)) 0 0 fs =
      ipv4_fields (CHR ''.'' # dotjoin (m # ns)) n (length (decimal n)) fs"
    by (simp add: ipv4_fields_decimal)
  also have "\<dots> = ipv4_fields (dotjoin (m # ns)) 0 0 (fs @ [n])"
    using 3(4) dotjoin_ne [of "m # ns"] by simp
  finally show ?case using 3 by simp
qed simp

text \<open>The fields a successful parse returns print back to the string it read.\<close>

lemma ipv4_fields_print:
  assumes "ipv4_fields s v dl fs = Some r"
    and "if dl = 0 then v = 0 \<and> s \<noteq> [] else length (decimal v) = dl" and "v \<le> 255" and "length fs \<le> 3"
  shows "\<exists>ns. r = fs @ ns \<and> ns \<noteq> [] \<and> length r = 4 \<and> (\<forall>n \<in> set ns. n \<le> 255) \<and>
     (if dl = 0 then [] else decimal v) @ s = dotjoin ns"
  using assms
proof (induction s v dl fs rule: ipv4_fields.induct)
  case (1 v dl fs)
  then show ?case by (intro exI [of _ "[v]"]) (auto split: if_splits)
next
  case (2 c cs v dl fs)
  show ?case
  proof (cases "ascii_digit c")
    case True
    let ?v = "v * 10 + (byte_of c - 48)"
    have d: "byte_of c - 48 < 10" using True unfolding ascii_digit_def by linarith
    have g: "\<not> (dl = 1 \<and> v = 0)" "\<not> 255 < ?v" "ipv4_fields cs ?v (dl + 1) fs = Some r"
      using 2(3) True by (auto simp: Let_def split: if_splits)
    have dec: "decimal ?v = (if dl = 0 then [] else decimal v) @ [c]"
    proof (cases "dl = 0")
      case True
      with 2(4) d have "?v = byte_of c - 48" by simp
      with True d \<open>ascii_digit c\<close> show ?thesis by (simp add: decimal_small digit_char_byte)
    next
      case False
      have "0 < v"
      proof (rule ccontr)
        assume "\<not> 0 < v"
        with False 2(4) have "dl = 1" by (simp add: decimal_small)
        with g(1) \<open>\<not> 0 < v\<close> show False by simp
      qed
      with False d \<open>ascii_digit c\<close> show ?thesis by (simp add: decimal_step digit_char_byte)
    qed
    have "if dl + 1 = 0 then ?v = 0 \<and> cs \<noteq> [] else length (decimal ?v) = dl + 1"
      using dec 2(4) by simp
    from 2(1) [OF True g(1) refl g(2) g(3) this] g(2) 2(6) obtain ns where
      "r = fs @ ns" "ns \<noteq> []" "length r = 4" "\<forall>n \<in> set ns. n \<le> 255" "decimal ?v @ cs = dotjoin ns"
      by auto
    with dec show ?thesis by (intro exI [of _ ns]) simp
  next
    case False
    with 2(3) have g: "c = CHR ''.''" "dl \<noteq> 0" "cs \<noteq> []" "length fs \<noteq> 3"
        "ipv4_fields cs 0 0 (fs @ [v]) = Some r"
      by (auto split: if_splits)
    from 2(2) [OF False g(1) _ g(4) g(5)] g 2(6) obtain ns where ns:
      "r = (fs @ [v]) @ ns" "ns \<noteq> []" "length r = 4" "\<forall>n \<in> set ns. n \<le> 255" "cs = dotjoin ns"
      by auto
    then have "dotjoin (v # ns) = decimal v @ CHR ''.'' # cs" by (cases ns) auto
    with ns g 2(5) show ?thesis by (intro exI [of _ "v # ns"]) simp
  qed
qed

lemma div_256_split: "(n::nat) div 65536 = n div 256 div 256" "n div 16777216 = n div 256 div 256 div 256"
  by (simp_all add: div_mult2_eq [symmetric])

lemma byte_div: "d < 256 \<Longrightarrow> ((q::nat) * 256 + d) div 256 = q"
  and byte_mod: "d < 256 \<Longrightarrow> ((q::nat) * 256 + d) mod 256 = d"
  by simp_all

lemma octets_word_of_bytes:
  assumes "length fs = 4" and "\<forall>n \<in> set fs. n \<le> 255"
  shows "octets (of_nat (word_of_bytes fs 0)) = fs"
proof -
  obtain a b c d where fs: "fs = [a, b, c, d]"
    using assms(1) by (auto simp: length_Suc_conv eval_nat_numeral)
  with assms(2) have r: "a < 256" "b < 256" "c < 256" "d < 256" by auto
  let ?n = "((a * 256 + b) * 256 + c) * 256 + d"
  have "?n < 4294967296" using r by simp
  then have "unat (of_nat ?n :: v4) = ?n" by (simp only: unat_of_nat) simp
  moreover have "?n div 16777216 = a" "?n div 65536 mod 256 = b" "?n div 256 mod 256 = c" "?n mod 256 = d"
    using r by (simp_all only: div_256_split byte_div byte_mod mod_less div_less add_0 mult_0)
  ultimately show ?thesis unfolding fs by (simp only: octets_def word_of_bytes.simps mult_0 add_0)
qed

lemma of_nat_unat_self: "of_nat (unat (w :: v4)) = w"
  by simp

lemma word_of_bytes_octets: "of_nat (word_of_bytes (octets w) 0) = w"
proof -
  let ?n = "unat w"
  have "((?n div 16777216 * 256 + ?n div 65536 mod 256) * 256 + ?n div 256 mod 256) * 256 + ?n mod 256 = ?n"
    by (simp only: div_256_split div_mult_mod_eq)
  then show ?thesis by (simp only: octets_def word_of_bytes.simps mult_0 add_0 of_nat_unat_self)
qed

lemma octets_le: "n \<in> set (octets w) \<Longrightarrow> n \<le> 255"
  using unat_v4_lt [of w] by (auto simp: octets_def)

lemma octets_length [simp]: "length (octets w) = 4"
  by (simp add: octets_def)

lemma parseIPv4_v4_string: "parseIPv4 (v4_string w) = Some (IPv4 w)"
proof -
  have "ipv4_fields (dotjoin (octets w)) 0 0 [] = Some ([] @ octets w)"
    by (rule ipv4_fields_dotjoin) (auto simp: octets_le, simp add: octets_def)
  then show ?thesis by (simp add: parseIPv4_def v4_string_dotjoin word_of_bytes_octets)
qed

lemma parseIPv4_print: "parseIPv4 s = Some a \<Longrightarrow> \<exists>w. a = IPv4 w \<and> s = v4_string w"
proof -
  assume "parseIPv4 s = Some a"
  then obtain r where r: "ipv4_fields s 0 0 [] = Some r" and a: "a = IPv4 (of_nat (word_of_bytes r 0))"
    by (auto simp: parseIPv4_def)
  from r have "s \<noteq> []" by auto
  with ipv4_fields_print [OF r] obtain ns where
    "r = ns" "length r = 4" "\<forall>n \<in> set ns. n \<le> 255" "s = dotjoin ns" by auto
  with a octets_word_of_bytes [of ns] show ?thesis by (auto simp: v4_string_dotjoin)
qed

lemma scan_digits:
  "(\<And>c. c \<in> set ds \<Longrightarrow> ascii_digit c) \<Longrightarrow> parse_addr_scan s (ds @ cs) = parse_addr_scan s cs"
proof (induction ds)
  case (Cons d ds)
  then have "d \<noteq> CHR ''.''" "d \<noteq> CHR '':''" "d \<noteq> CHR ''%''" by fastforce+
  with Cons show ?case by simp
qed simp

lemma ParseAddr_v4_string [simp]: "ParseAddr (v4_string w) = Some (IPv4 w)"
proof -
  obtain a t where v: "v4_string w = decimal a @ CHR ''.'' # t"
    by (simp add: v4_string_def octets_def)
  then have "parse_addr_scan (v4_string w) (decimal a @ CHR ''.'' # t) = parseIPv4 (v4_string w)"
    by (simp add: scan_digits decimal_digits)
  then show ?thesis unfolding ParseAddr_def v [symmetric] by (simp only: parseIPv4_v4_string)
qed

lemma parseIPv6_v6: "parseIPv6 s = Some a \<Longrightarrow> \<not> is4 a"
  by (auto simp: parseIPv6_def Let_def split: if_splits option.splits prod.splits)

lemma scan_v4: "parse_addr_scan s cs = Some (IPv4 w) \<Longrightarrow> parseIPv4 s = Some (IPv4 w)"
  by (induction cs) (auto split: if_splits dest: parseIPv6_v6)

text \<open>A string denotes an IPv4 address exactly when it is the printed form of that address: the
  canonical-form tests \<^verbatim>\<open>ip.String() == raw\<close> of the service never refuse an IPv4 address.\<close>

lemma parse_v4_iff: "parse_v4 s = Some w \<longleftrightarrow> s = v4_string w"
proof
  assume "parse_v4 s = Some w"
  then have "parse_addr_scan s s = Some (IPv4 w)"
    by (auto simp: parse_v4_def ParseAddr_def split: option.splits addr.splits)
  then show "s = v4_string w" by (auto dest: scan_v4 parseIPv4_print)
qed (simp add: parse_v4_def)

lemma split_last_slash_append:
  "CHR ''/'' \<notin> set r \<Longrightarrow> split_last_slash (l @ CHR ''/'' # r) = Some (l, r)"
proof (induction l)
  case Nil
  then have "split_last_slash r = None" by (induction r) auto
  then show ?case by simp
qed simp

lemma atoi_digits_append:
  "atoi_digits (s @ t) acc = Option.bind (atoi_digits s acc) (atoi_digits t)"
  by (induction s arbitrary: acc) auto

lemma atoi_decimal: "atoi_digits (decimal n) 0 = Some n"
proof (induction n rule: decimal.induct)
  case (1 n)
  show ?case
  proof (cases "n < 10")
    case True
    then show ?thesis by (simp add: decimal_small)
  next
    case False
    then have d: "decimal n = decimal (n div 10) @ [digit_char (n mod 10)]"
      by (subst decimal.simps) simp
    show ?thesis unfolding d atoi_digits_append using False 1 by simp
  qed
qed

lemma decimal_hd: "10 \<le> n \<Longrightarrow> 49 \<le> byte_of (hd (decimal n)) \<and> byte_of (hd (decimal n)) \<le> 57"
proof (induction n rule: less_induct)
  case (less n)
  then have d: "decimal n = decimal (n div 10) @ [digit_char (n mod 10)]"
    by (subst decimal.simps) simp
  show ?case
  proof (cases "n div 10 < 10")
    case True
    moreover have "1 \<le> n div 10" using less.prems by simp
    ultimately show ?thesis unfolding d by (simp add: decimal_small)
  next
    case False
    then show ?thesis unfolding d using less.IH [of "n div 10"] less.prems by simp
  qed
qed

lemma prefix_bits_decimal [simp]: "prefix_bits (decimal n) = Some n"
proof -
  have "1 < length (decimal n) \<Longrightarrow> 10 \<le> n"
    by (cases "n < 10") (simp_all add: decimal_small)
  then show ?thesis by (auto simp: prefix_bits_def atoi_decimal dest: decimal_hd)
qed

text \<open>\<^verbatim>\<open>ParsePrefix\<close> reads back a printed prefix.\<close>

lemma parse_v4_prefix_string [simp]:
  "n \<le> 32 \<Longrightarrow> parse_v4_prefix (v4_prefix_string w n) = Some (w, n)"
proof -
  assume "n \<le> 32"
  have "CHR ''/'' \<notin> set (decimal n)" using decimal_digits by fastforce
  then have "split_last_slash (v4_prefix_string w n) = Some (v4_string w, decimal n)"
    by (simp add: v4_prefix_string_def split_last_slash_append)
  with \<open>n \<le> 32\<close> show ?thesis by (simp add: parse_v4_prefix_def ParsePrefix_def)
qed

lemma parse_v4_prefix_bits: "parse_v4_prefix s = Some (w, n) \<Longrightarrow> n \<le> 32"
  by (auto simp: parse_v4_prefix_def ParsePrefix_def
      split: option.splits prefix.splits addr.splits prod.splits if_splits)

section \<open>Evaluation\<close>

lemma digit_chars [simp]:
  "digit_char 0 = CHR ''0''" "digit_char (Suc 0) = CHR ''1''" "digit_char 1 = CHR ''1''" "digit_char 2 = CHR ''2''"
  "digit_char 3 = CHR ''3''" "digit_char 4 = CHR ''4''" "digit_char 5 = CHR ''5''" "digit_char 6 = CHR ''6''"
  "digit_char 7 = CHR ''7''" "digit_char 8 = CHR ''8''" "digit_char 9 = CHR ''9''"
  by code_simp+

lemmas v4_eval = v4_string_def v4_prefix_string_def octets_def decimal.simps

lemma parse_v4_prefix_eval: "s = v4_prefix_string w n \<Longrightarrow> n \<le> 32 \<Longrightarrow> parse_v4_prefix s = Some (w, n)"
  by simp

end
