(* ===== verification/Net_Codec.thy ===== *)
theory Net_Codec
  imports Net_Prelude
begin

text \<open>
  The encoders of the Go standard library the service uses for request fingerprints and list
  cursors: \<^verbatim>\<open>crypto/sha256\<close>, \<^verbatim>\<open>crypto/hmac\<close>, \<^verbatim>\<open>encoding/hex\<close>,
  \<^verbatim>\<open>base64.RawURLEncoding\<close> and the compact form of \<^verbatim>\<open>json.Marshal\<close>. The lemmas show that
  unpadded base64 round-trips, so that a decoder followed by the canonical-form test
  accepts exactly the outputs of the encoder.
\<close>

unbundle bit_operations_syntax

section \<open>Hexadecimal\<close>

definition hex_char :: "nat \<Rightarrow> char" where
  "hex_char n = (if n < 10 then chr_of (48 + n) else chr_of (87 + n))"

definition hex_encode :: "string \<Rightarrow> string" where
  "hex_encode s = concat (map (\<lambda>c. [hex_char (byte_of c div 16), hex_char (byte_of c mod 16)]) s)"

section \<open>SHA-256 and HMAC\<close>

type_synonym w32 = "32 word"

definition rotr :: "nat \<Rightarrow> w32 \<Rightarrow> w32" where
  "rotr n x = drop_bit n x OR push_bit (32 - n) x"

text \<open>The constants are the first 32 bits of the fractional parts of the cube roots of the first 64
  primes, and of the square roots of the first eight: \<open>root_bits\<close> finds the integer root of \<open>n\<close> bit by bit.\<close>

fun root_bits :: "nat \<Rightarrow> int \<Rightarrow> nat \<Rightarrow> int \<Rightarrow> int" where
  "root_bits k n 0 acc = acc"
| "root_bits k n (Suc b) acc = root_bits k n b (if (acc + 2 ^ b) ^ k \<le> n then acc + 2 ^ b else acc)"

definition root_fraction :: "nat \<Rightarrow> nat \<Rightarrow> w32" where
  "root_fraction k p = of_int (root_bits k (int p * 2 ^ (32 * k)) 36 0)"

definition sha_primes :: "nat list" where
  "sha_primes = filter (\<lambda>p. list_all (\<lambda>d. p mod d \<noteq> 0) [2..<p]) [2..<312]"

definition sha_k :: "w32 list" where
  "sha_k = map (root_fraction 3) sha_primes"

definition sha_h0 :: "w32 list" where
  "sha_h0 = map (root_fraction 2) (take 8 sha_primes)"

definition sha_pad :: "string \<Rightarrow> string" where
  "sha_pad m =
     (let l = length m; z = (119 - l mod 64) mod 64 in
      m @ [chr_of 128] @ replicate z (chr_of 0)
        @ map (\<lambda>i. chr_of (8 * l div 256 ^ (7 - i) mod 256)) [0..<8])"

fun words_of :: "string \<Rightarrow> w32 list" where
  "words_of (a # b # c # d # r) =
     of_nat (((byte_of a * 256 + byte_of b) * 256 + byte_of c) * 256 + byte_of d) # words_of r"
| "words_of _ = []"

text \<open>The message schedule, built in reverse: the head is the newest word.\<close>

fun sha_schedule :: "nat \<Rightarrow> w32 list \<Rightarrow> w32 list" where
  "sha_schedule 0 ws = ws"
| "sha_schedule (Suc n) ws =
     (let s0 = rotr 7 (ws ! 14) XOR rotr 18 (ws ! 14) XOR drop_bit 3 (ws ! 14);
          s1 = rotr 17 (ws ! 1) XOR rotr 19 (ws ! 1) XOR drop_bit 10 (ws ! 1)
      in sha_schedule n ((ws ! 15 + s0 + ws ! 6 + s1) # ws))"

fun sha_rounds :: "(w32 \<times> w32) list \<Rightarrow> w32 list \<Rightarrow> w32 list" where
  "sha_rounds ((k, w) # kws) [a, b, c, d, e, f, g, h] =
     (let s1 = rotr 6 e XOR rotr 11 e XOR rotr 25 e;
          ch = (e AND f) XOR (NOT e AND g);
          t1 = h + s1 + ch + k + w;
          s0 = rotr 2 a XOR rotr 13 a XOR rotr 22 a;
          maj = (a AND b) XOR (a AND c) XOR (b AND c);
          t2 = s0 + maj
      in sha_rounds kws [t1 + t2, a, b, c, d + t1, e, f, g])"
| "sha_rounds _ v = v"

definition sha_block :: "w32 list \<Rightarrow> w32 list \<Rightarrow> w32 list" where
  "sha_block h ws = map2 (+) h (sha_rounds (zip sha_k (rev (sha_schedule 48 (rev ws)))) h)"

function sha_blocks :: "w32 list \<Rightarrow> w32 list \<Rightarrow> w32 list" where
  "sha_blocks h ws = (if length ws < 16 then h else sha_blocks (sha_block h (take 16 ws)) (drop 16 ws))"
  by pat_completeness auto
termination by (relation "measure (length \<circ> snd)") auto

declare sha_blocks.simps [simp del]

definition bytes_of_word :: "w32 \<Rightarrow> string" where
  "bytes_of_word w = map (\<lambda>i. chr_of (unat w div 256 ^ (3 - i) mod 256)) [0..<4]"

definition sha256 :: "string \<Rightarrow> string" where
  "sha256 m = concat (map bytes_of_word (sha_blocks sha_h0 (words_of (sha_pad m))))"

definition xor_pad :: "nat \<Rightarrow> string \<Rightarrow> string" where
  "xor_pad p s = map (\<lambda>c. chr_of (p XOR byte_of c)) s"

definition hmac_sha256 :: "string \<Rightarrow> string \<Rightarrow> string" where
  "hmac_sha256 key m =
     (let k0 = (if 64 < length key then sha256 key else key);
          k = k0 @ replicate (64 - length k0) (chr_of 0)
      in sha256 (xor_pad 92 k @ sha256 (xor_pad 54 k @ m)))"

section \<open>Unpadded URL-safe base64\<close>

definition b64_char :: "nat \<Rightarrow> char" where
  "b64_char n =
     (if n < 26 then chr_of (65 + n) else if n < 52 then chr_of (71 + n)
      else if n < 62 then chr_of (n - 4) else if n = 62 then CHR ''-'' else CHR ''_'')"

definition b64_value :: "char \<Rightarrow> nat option" where
  "b64_value c =
     (let b = byte_of c in
      if 65 \<le> b \<and> b \<le> 90 then Some (b - 65)
      else if 97 \<le> b \<and> b \<le> 122 then Some (b - 71)
      else if 48 \<le> b \<and> b \<le> 57 then Some (b + 4)
      else if c = CHR ''-'' then Some 62 else if c = CHR ''_'' then Some 63 else None)"

fun b64_encode :: "string \<Rightarrow> string" where
  "b64_encode [] = []"
| "b64_encode [a] = [b64_char (byte_of a div 4), b64_char (byte_of a mod 4 * 16)]"
| "b64_encode [a, b] =
     [b64_char (byte_of a div 4), b64_char (byte_of a mod 4 * 16 + byte_of b div 16),
      b64_char (byte_of b mod 16 * 4)]"
| "b64_encode (a # b # c # r) =
     b64_char (byte_of a div 4) # b64_char (byte_of a mod 4 * 16 + byte_of b div 16)
       # b64_char (byte_of b mod 16 * 4 + byte_of c div 64) # b64_char (byte_of c mod 64)
       # b64_encode r"

fun b64_quads :: "nat list \<Rightarrow> string option" where
  "b64_quads [] = Some []"
| "b64_quads [_] = None"
| "b64_quads [a, b] = Some [chr_of (a * 4 + b div 16)]"
| "b64_quads [a, b, c] = Some [chr_of (a * 4 + b div 16), chr_of (b mod 16 * 16 + c div 4)]"
| "b64_quads (a # b # c # d # r) =
     map_option (\<lambda>t. chr_of (a * 4 + b div 16) # chr_of (b mod 16 * 16 + c div 4)
                       # chr_of (c mod 4 * 64 + d) # t) (b64_quads r)"

fun all_some :: "'a option list \<Rightarrow> 'a list option" where
  "all_some [] = Some []"
| "all_some (None # _) = None"
| "all_some (Some a # r) = map_option ((#) a) (all_some r)"

text \<open>The decoder skips line breaks and does not check unused trailing bits.\<close>

definition b64_decode :: "string \<Rightarrow> string option" where
  "b64_decode s =
     Option.bind (all_some (map b64_value (filter (\<lambda>c. byte_of c \<noteq> 10 \<and> byte_of c \<noteq> 13) s))) b64_quads"

section \<open>JSON\<close>

datatype json = JInt int | JBool bool | JStr string | JNull | JArr "json list" | JObj "(string \<times> json) list"

definition json_rune :: "nat \<times> string \<Rightarrow> string" where
  "json_rune = (\<lambda>(r, bs).
     let bs1 = CHR 0x5C # [] in
     if r = rune_error \<and> length bs = 1 then bs1 @ ''ufffd''
     else if r = 34 then bs1 @ [CHR 0x22]
     else if r = 92 then bs1 @ bs1
     else if r = 8 then bs1 @ ''b''
     else if r = 12 then bs1 @ ''f''
     else if r = 10 then bs1 @ ''n''
     else if r = 13 then bs1 @ ''r''
     else if r = 9 then bs1 @ ''t''
     else if r < 32 \<or> r = 60 \<or> r = 62 \<or> r = 38 then
       bs1 @ ''u00'' @ [hex_char (r div 16), hex_char (r mod 16)]
     else if r = 8232 then bs1 @ ''u2028''
     else if r = 8233 then bs1 @ ''u2029''
     else bs)"

definition json_body :: "string \<Rightarrow> string" where
  "json_body s = concat (map json_rune (runes s))"

definition json_string :: "string \<Rightarrow> string" where
  "json_string s = [CHR 0x22] @ json_body s @ [CHR 0x22]"

definition json_int :: "int \<Rightarrow> string" where
  "json_int i = (if i < 0 then ''-'' @ decimal (nat (- i)) else decimal (nat i))"

fun json_join :: "string list \<Rightarrow> string" where
  "json_join [] = []"
| "json_join [x] = x"
| "json_join (x # y # r) = x @ '','' @ json_join (y # r)"

fun json_encode :: "json \<Rightarrow> string" where
  "json_encode (JInt i) = json_int i"
| "json_encode (JBool b) = (if b then ''true'' else ''false'')"
| "json_encode (JStr s) = json_string s"
| "json_encode JNull = ''null''"
| "json_encode (JArr vs) = ''['' @ json_join (map json_encode vs) @ '']''"
| "json_encode (JObj fs) = ''{'' @ json_join (map (\<lambda>(k, v). json_string k @ '':'' @ json_encode v) fs) @ ''}''"

definition fingerprint_of :: "json \<Rightarrow> string" where
  "fingerprint_of v = hex_encode (sha256 (json_encode v))"

section \<open>Base64 round trip\<close>

lemma byte_of_lt [simp]: "byte_of c < 256"
  using nat_of_char_less_256 [of c] by simp

lemma byte_of_chr [simp]: "n < 256 \<Longrightarrow> byte_of (chr_of n) = n"
  by simp

lemma b64_value_char: "n < 64 \<Longrightarrow> b64_value (b64_char n) = Some n"
proof -
  assume n: "n < 64"
  consider "n < 26" | "26 \<le> n" "n < 52" | "52 \<le> n" "n < 62" | "n = 62" | "n = 63" using n by linarith
  then show ?thesis
    by cases (simp_all add: b64_char_def b64_value_def Let_def, linarith)
qed

lemma b64_value_break: "b64_value c \<noteq> None \<Longrightarrow> byte_of c \<noteq> 10 \<and> byte_of c \<noteq> 13"
  by (auto simp: b64_value_def Let_def split: if_splits)

lemma all_some_map_Some: "all_some (map Some xs) = Some xs"
  by (induction xs) auto

fun b64_values :: "string \<Rightarrow> nat list" where
  "b64_values [] = []"
| "b64_values [a] = [byte_of a div 4, byte_of a mod 4 * 16]"
| "b64_values [a, b] = [byte_of a div 4, byte_of a mod 4 * 16 + byte_of b div 16, byte_of b mod 16 * 4]"
| "b64_values (a # b # c # r) =
     byte_of a div 4 # (byte_of a mod 4 * 16 + byte_of b div 16)
       # (byte_of b mod 16 * 4 + byte_of c div 64) # byte_of c mod 64 # b64_values r"

lemma b64_encode_values: "b64_encode s = map b64_char (b64_values s)"
  by (induction s rule: b64_values.induct) simp_all

lemma byte_parts:
  "byte_of a div 4 < 64" "byte_of a mod 4 * 16 < 64" "byte_of a mod 4 * 16 + byte_of b div 16 < 64"
  "byte_of b mod 16 * 4 < 64" "byte_of b mod 16 * 4 + byte_of c div 64 < 64" "byte_of c mod 64 < 64"
proof -
  have d: "byte_of a div 4 < 64" "byte_of b div 16 < 16" "byte_of c div 64 < 4"
    by (simp_all add: less_mult_imp_div_less)
  have m: "byte_of a mod 4 < 4" "byte_of b mod 16 < 16" by simp_all
  from d m show "byte_of a div 4 < 64" "byte_of a mod 4 * 16 < 64"
    "byte_of a mod 4 * 16 + byte_of b div 16 < 64" "byte_of b mod 16 * 4 < 64"
    "byte_of b mod 16 * 4 + byte_of c div 64 < 64" "byte_of c mod 64 < 64"
    by linarith+
qed

lemma b64_values_lt: "n \<in> set (b64_values s) \<Longrightarrow> n < 64"
  by (induction s rule: b64_values.induct) (auto intro: byte_parts)

lemma quad_bytes:
  "chr_of (byte_of a div 4 * 4 + (byte_of a mod 4 * 16 + byte_of b div 16) div 16) = a"
  "chr_of (byte_of a div 4 * 4 + (byte_of a mod 4 * 16) div 16) = a"
  "chr_of ((byte_of a mod 4 * 16 + byte_of b div 16) mod 16 * 16 + (byte_of b mod 16 * 4 + byte_of c div 64) div 4) = b"
  "chr_of ((byte_of a mod 4 * 16 + byte_of b div 16) mod 16 * 16 + (byte_of b mod 16 * 4) div 4) = b"
  "chr_of ((byte_of b mod 16 * 4 + byte_of c div 64) mod 4 * 64 + byte_of c mod 64) = c"
proof -
  have d: "byte_of b div 16 < 16" "byte_of c div 64 < 4" by (simp_all add: less_mult_imp_div_less)
  then have "(byte_of a mod 4 * 16 + byte_of b div 16) div 16 = byte_of a mod 4"
    "(byte_of a mod 4 * 16 + byte_of b div 16) mod 16 = byte_of b div 16"
    "(byte_of b mod 16 * 4 + byte_of c div 64) div 4 = byte_of b mod 16"
    "(byte_of b mod 16 * 4 + byte_of c div 64) mod 4 = byte_of c div 64"
    by simp_all
  then show "chr_of (byte_of a div 4 * 4 + (byte_of a mod 4 * 16 + byte_of b div 16) div 16) = a"
    "chr_of (byte_of a div 4 * 4 + (byte_of a mod 4 * 16) div 16) = a"
    "chr_of ((byte_of a mod 4 * 16 + byte_of b div 16) mod 16 * 16 + (byte_of b mod 16 * 4 + byte_of c div 64) div 4) = b"
    "chr_of ((byte_of a mod 4 * 16 + byte_of b div 16) mod 16 * 16 + (byte_of b mod 16 * 4) div 4) = b"
    "chr_of ((byte_of b mod 16 * 4 + byte_of c div 64) mod 4 * 64 + byte_of c mod 64) = c"
    by (simp_all only: div_mult_mod_eq nonzero_mult_div_cancel_right numeral_neq_zero) simp_all
qed

lemma b64_quads_values: "b64_quads (b64_values s) = Some s"
  by (induction s rule: b64_values.induct) (simp_all only: b64_values.simps b64_quads.simps quad_bytes map_option_case option.case)

lemma b64_decode_encode [simp]: "b64_decode (b64_encode s) = Some s"
proof -
  have v: "map b64_value (b64_encode s) = map Some (b64_values s)"
    by (simp add: b64_encode_values b64_value_char b64_values_lt)
  have "filter (\<lambda>c. byte_of c \<noteq> 10 \<and> byte_of c \<noteq> 13) (b64_encode s) = b64_encode s"
  proof (rule filter_True, rule ballI)
    fix c assume "c \<in> set (b64_encode s)"
    then obtain n where "n < 64" "c = b64_char n" by (auto simp: b64_encode_values dest: b64_values_lt)
    then have "b64_value c \<noteq> None" by (simp add: b64_value_char)
    then show "byte_of c \<noteq> 10 \<and> byte_of c \<noteq> 13" by (rule b64_value_break)
  qed
  with v show ?thesis by (simp add: b64_decode_def all_some_map_Some b64_quads_values)
qed

text \<open>Decoding followed by the canonical-form test accepts exactly the encoder's outputs.\<close>

definition b64_canonical :: "string \<Rightarrow> string option" where
  "b64_canonical s =
     (case b64_decode s of None \<Rightarrow> None | Some b \<Rightarrow> if b64_encode b \<noteq> s then None else Some b)"

lemma b64_canonical_iff: "b64_canonical s = Some b \<longleftrightarrow> s = b64_encode b"
  by (auto simp: b64_canonical_def split: option.splits)

end
