(* ===== verification/Net_Domain.thy ===== *)
theory Net_Domain
  imports Net_Netip Net_Codec
begin

text \<open>
  The domain layer of \<^verbatim>\<open>internal/biz/network/network.go\<close>, \<^verbatim>\<open>vpc.go\<close> and \<^verbatim>\<open>subnet.go\<close>:
  resources and operations as records, the request grammar (tenants, names, CIDRs,
  idempotency keys, gateways, attributions) and the fingerprints of accepted intents.

  \<^verbatim>\<open>uuid.Parse\<close> of the package \<^verbatim>\<open>github.com/google/uuid\<close> is a parameter of the
  definitions that use it: \<open>uuid_Parse s\<close> is \<open>Some t\<close> with \<open>t\<close> the canonical text
  (\<^verbatim>\<open>UUID.String\<close>) of the parsed value, or \<open>None\<close> on a parse error.
\<close>

section \<open>Resources and operations\<close>

datatype resource_state = Provisioning | Available | Degraded | Failed | Deleting | Deleted

datatype operation_state = Queued | Running | Retrying | Blocked | Succeeded | OpFailed

fun state_name :: "resource_state \<Rightarrow> string" where
  "state_name Provisioning = ''provisioning''"
| "state_name Available = ''available''"
| "state_name Degraded = ''degraded''"
| "state_name Failed = ''failed''"
| "state_name Deleting = ''deleting''"
| "state_name Deleted = ''deleted''"

fun op_final :: "operation_state \<Rightarrow> bool" where
  "op_final Succeeded = True"
| "op_final OpFailed = True"
| "op_final _ = False"

record BaseConnectivity =
  bc_State :: string
  bc_Reason :: reason
  bc_ObservedAt :: "go_time option"
  bc_ObservationStale :: bool

record VPC =
  vpc_BaseConnectivity :: "BaseConnectivity option"
  vpc_ID :: string
  vpc_TenantID :: string
  vpc_Name :: string
  vpc_CIDR :: string
  vpc_Description :: string
  vpc_State :: resource_state
  vpc_Reason :: reason
  vpc_Version :: int
  vpc_CreatedAt :: go_time
  vpc_UpdatedAt :: go_time
  vpc_ObservedAt :: "go_time option"
  vpc_ObservationStale :: bool
  vpc_LastOperationID :: string
  vpc_SubnetCount :: int

record Operation =
  op_ID :: string
  op_TenantID :: string
  op_ResourceID :: string
  op_ResourceType :: string
  op_Kind :: string
  op_State :: operation_state
  op_Reason :: reason
  op_CreatedAt :: go_time
  op_UpdatedAt :: go_time
  op_CompletedAt :: "go_time option"
  op_NextAttemptAt :: "go_time option"

record Attribution =
  at_Actor :: string
  at_DirectCaller :: string
  at_CorrelationID :: string

record CreateVPC =
  cv_TenantID :: string
  cv_Name :: string
  cv_CIDR :: string
  cv_Description :: string
  cv_IdempotencyKey :: string
  cv_Attribution :: Attribution

record Subnet =
  sn_ID :: string
  sn_TenantID :: string
  sn_VPCID :: string
  sn_Name :: string
  sn_CIDR :: string
  sn_Gateway :: string
  sn_Description :: string
  sn_State :: resource_state
  sn_Reason :: reason
  sn_Version :: int
  sn_CreatedAt :: go_time
  sn_UpdatedAt :: go_time
  sn_ObservedAt :: "go_time option"
  sn_ObservationStale :: bool
  sn_LastOperationID :: string

record CreateSubnet =
  cs_TenantID :: string
  cs_VPCID :: string
  cs_Name :: string
  cs_CIDR :: string
  cs_Description :: string
  cs_IdempotencyKey :: string
  cs_Gateway :: "string option"
  cs_Attribution :: Attribution

record VPCIntent =
  vi_TenantID :: string
  vi_Name :: string
  vi_CIDR :: string
  vi_Description :: string
  vi_IdempotencyKey :: string

record SubnetIntent =
  si_VPCIntent :: VPCIntent
  si_VPCID :: string
  si_Gateway :: string

section \<open>Identities\<close>

definition uuid_Nil :: string where
  "uuid_Nil = ''00000000-0000-0000-0000-000000000000''"

definition ParseTenant :: "(string \<Rightarrow> string option) \<Rightarrow> string \<Rightarrow> string res" where
  "ParseTenant uuid_Parse value =
     (case uuid_Parse value of
        None \<Rightarrow> Inl (Fail TenantRequired ''a nonzero UUID tenant_id is required'')
      | Some u \<Rightarrow>
          if length value \<noteq> 36 \<or> u = uuid_Nil
          then Inl (Fail TenantRequired ''a nonzero UUID tenant_id is required'')
          else Inr u)"

definition validVPCID :: "string \<Rightarrow> bool" where
  "validVPCID s \<longleftrightarrow> length s = 36 \<and> hasPrefix s ''vpc_'' \<and> list_all lower_hex (drop 4 s)"

definition validSubnetID :: "string \<Rightarrow> bool" where
  "validSubnetID s \<longleftrightarrow> length s = 39 \<and> hasPrefix s ''subnet_'' \<and> list_all lower_hex (drop 7 s)"

section \<open>The request grammar\<close>

definition has_control :: "string \<Rightarrow> bool" where
  "has_control s \<longleftrightarrow> list_ex is_control (rune_values s)"

definition attribution_value :: "string \<Rightarrow> goerr option" where
  "attribution_value v =
     (if \<not> valid_utf8 v \<or> 256 < rune_count v
      then Some (Fail InvalidArgument ''attribution exceeds 256 characters'')
      else if has_control v
      then Some (Fail InvalidArgument ''attribution contains a control character'')
      else None)"

fun first_error :: "goerr option list \<Rightarrow> goerr option" where
  "first_error [] = None"
| "first_error (None # r) = first_error r"
| "first_error (Some e # r) = Some e"

definition validateAttribution :: "Attribution \<Rightarrow> goerr option" where
  "validateAttribution a =
     first_error (map attribution_value [at_Actor a, at_DirectCaller a, at_CorrelationID a])"

definition rfc1918 :: "(v4 \<times> nat) list" where
  "rfc1918 = [(167772160, 8), (2886729728, 12), (3232235520, 16)]"

definition private_prefix :: "v4 \<Rightarrow> nat \<Rightarrow> bool" where
  "private_prefix w n \<longleftrightarrow> list_ex (\<lambda>(pw, pn). pn \<le> n \<and> v4_contains pw pn w) rfc1918"

definition printable_key :: "string \<Rightarrow> bool" where
  "printable_key key \<longleftrightarrow> list_all (\<lambda>c. 33 \<le> byte_of c \<and> byte_of c \<le> 126) key"

definition NewVPCIntent ::
  "(string \<Rightarrow> string option) \<Rightarrow> string \<Rightarrow> string \<Rightarrow> string \<Rightarrow> string \<Rightarrow> string \<Rightarrow> VPCIntent res" where
  "NewVPCIntent uuid_Parse tenant name cidr description key =
     (case ParseTenant uuid_Parse tenant of Inl e \<Rightarrow> Inl e | Inr tenant \<Rightarrow>
      let name = trim_space name in
      if \<not> valid_utf8 name \<or> rune_count name < 1 \<or> 128 < rune_count name
      then Inl (Fail InvalidArgument ''name must contain 1..128 Unicode characters'')
      else if has_control name
      then Inl (Fail InvalidArgument ''name must not contain control characters'')
      else if \<not> valid_utf8 description \<or> 1024 < rune_count description
      then Inl (Fail InvalidArgument ''description must contain at most 1024 Unicode characters'')
      else case parse_v4_prefix cidr of
        None \<Rightarrow> Inl (Fail InvalidArgument ''cidr must be a canonical IPv4 network with prefix at most /30'')
      | Some (w, n) \<Rightarrow>
          if v4_masked w n \<noteq> w \<or> 30 < n
          then Inl (Fail InvalidArgument ''cidr must be a canonical IPv4 network with prefix at most /30'')
          else if \<not> private_prefix w n
          then Inl (Fail InvalidArgument ''cidr must be contained in one RFC1918 private network'')
          else if length key < 1 \<or> 128 < length key
          then Inl (Fail InvalidArgument ''idempotency_key must contain 1..128 printable non-whitespace ASCII characters'')
          else if \<not> printable_key key
          then Inl (Fail InvalidArgument ''idempotency_key contains an invalid character'')
          else Inr \<lparr>vi_TenantID = tenant, vi_Name = name, vi_CIDR = v4_prefix_string w n,
                     vi_Description = description, vi_IdempotencyKey = key\<rparr>)"

definition VPCIntent_Fingerprint :: "VPCIntent \<Rightarrow> string" where
  "VPCIntent_Fingerprint v = fingerprint_of (JObj
     [(''Version'', JInt 1), (''Name'', JStr (vi_Name v)), (''CIDR'', JStr (vi_CIDR v)),
      (''Description'', JStr (vi_Description v))])"

text \<open>\<^verbatim>\<open>netip.MustParsePrefix\<close> on an accepted CIDR cannot panic: it is the printed form of a
  prefix (lemma \<open>NewVPCIntent_cidr\<close>); the \<open>None\<close> branch below is that panic.\<close>

definition NewSubnetIntent :: "(string \<Rightarrow> string option) \<Rightarrow> CreateSubnet \<Rightarrow> SubnetIntent res" where
  "NewSubnetIntent uuid_Parse r =
     (case NewVPCIntent uuid_Parse (cs_TenantID r) (cs_Name r) (cs_CIDR r) (cs_Description r) (cs_IdempotencyKey r) of
        Inl e \<Rightarrow> Inl e
      | Inr common \<Rightarrow>
          if \<not> validVPCID (cs_VPCID r) then Inl (Fail ResourceNotFound ''parent VPC not found'')
          else case parse_v4_prefix (vi_CIDR common) of
            None \<Rightarrow> Inl (OtherError ''panic: netip.MustParsePrefix'')
          | Some (w, n) \<Rightarrow>
              (case (case cs_Gateway r of None \<Rightarrow> v4_next w | Some g \<Rightarrow> parse_v4 g) of
                 None \<Rightarrow>
                   (if cs_Gateway r = None
                    then Inl (Fail InvalidArgument ''gateway must be a usable host within the subnet'')
                    else Inl (Fail InvalidArgument ''gateway must be an IPv4 host address''))
               | Some g \<Rightarrow>
                   if \<not> v4_contains w n g \<or> g = w \<or> \<not> v4_contains_opt w n (v4_next g)
                   then Inl (Fail InvalidArgument ''gateway must be a usable host within the subnet'')
                   else Inr \<lparr>si_VPCIntent = common, si_VPCID = cs_VPCID r, si_Gateway = v4_string g\<rparr>))"

definition SubnetIntent_Fingerprint :: "SubnetIntent \<Rightarrow> string" where
  "SubnetIntent_Fingerprint s = fingerprint_of (JObj
     [(''Version'', JInt 1), (''Name'', JStr (vi_Name (si_VPCIntent s))), (''CIDR'', JStr (vi_CIDR (si_VPCIntent s))),
      (''Description'', JStr (vi_Description (si_VPCIntent s))), (''VPCID'', JStr (si_VPCID s)),
      (''Gateway'', JStr (si_Gateway s))])"

section \<open>Reason codes\<close>

text \<open>The stable codes of the reasons, as the code declares them.\<close>

fun reason_code :: "reason \<Rightarrow> string" where
  "reason_code NoReason = ''''"
| "reason_code InvalidArgument = ''INVALID_ARGUMENT''"
| "reason_code TenantRequired = ''TENANT_REQUIRED''"
| "reason_code InvalidCursor = ''INVALID_CURSOR''"
| "reason_code ResourceNotFound = ''RESOURCE_NOT_FOUND''"
| "reason_code IdempotencyConflict = ''IDEMPOTENCY_CONFLICT''"
| "reason_code ResourceInUse = ''RESOURCE_IN_USE''"
| "reason_code ResourceBusy = ''RESOURCE_BUSY''"
| "reason_code DependencyUnavailable = ''DEPENDENCY_UNAVAILABLE''"
| "reason_code CIDROverlap = ''CIDR_OVERLAP''"
| "reason_code ParentNotReady = ''PARENT_NOT_READY''"
| "reason_code NetworkNotReady = ''NETWORK_NOT_READY''"
| "reason_code PlacementMismatch = ''PLACEMENT_MISMATCH''"
| "reason_code BaseConnectivityNotReady = ''BASE_CONNECTIVITY_NOT_READY''"
| "reason_code ProviderUnavailable = ''PROVIDER_UNAVAILABLE''"
| "reason_code ProviderNotReady = ''PROVIDER_NOT_READY''"
| "reason_code ProviderRejected = ''PROVIDER_REJECTED''"
| "reason_code ProviderOwnership = ''PROVIDER_OWNERSHIP_CONFLICT''"
| "reason_code ProviderUnknown = ''PROVIDER_RESULT_UNKNOWN''"
| "reason_code ProviderMissing = ''PROVIDER_OBJECT_MISSING''"
| "reason_code CleanupPending = ''CLEANUP_PENDING''"
| "reason_code AttachmentConflict = ''ATTACHMENT_CONFLICT''"
| "reason_code VersionConflict = ''VERSION_CONFLICT''"
| "reason_code ConsumerUnclosed = ''CONSUMER_NOT_CLOSED''"
| "reason_code ConsumerUnavailable = ''CONSUMER_UNAVAILABLE''"
| "reason_code AttachmentProtocol = ''ATTACHMENT_PROTOCOL_VIOLATION''"
| "reason_code PermissionDenied = ''PERMISSION_DENIED''"
| "reason_code PublicEgressNotReady = ''PUBLIC_EGRESS_NOT_READY''"
| "reason_code EIPPoolExhausted = ''EIP_POOL_EXHAUSTED''"
| "reason_code EIPInUse = ''EIP_IN_USE''"
| "reason_code VPCSnatExists = ''VPC_SNAT_EXISTS''"
| "reason_code ProviderStateMismatch = ''PROVIDER_STATE_MISMATCH''"
| "reason_code LoadBalancerNotReady = ''LOAD_BALANCER_NOT_READY''"
| "reason_code BackendIdentityMismatch = ''BACKEND_IDENTITY_MISMATCH''"
| "reason_code VIPInUse = ''VIP_IN_USE''"
| "reason_code CreateTerminated = ''CREATE_TERMINATED''"
| "reason_code MutationTerminated = ''LOAD_BALANCER_MUTATION_TERMINATED''"

lemma reason_code_inj: "reason_code a = reason_code b \<Longrightarrow> a = b"
  by (cases a; cases b) simp_all

section \<open>Public messages\<close>

definition Reason_Message :: "reason \<Rightarrow> string" where
  "Reason_Message r =
     (case r of
        NoReason \<Rightarrow> ''''
      | ProviderUnavailable \<Rightarrow> ''The network provider is temporarily unavailable.''
      | ProviderNotReady \<Rightarrow> ''The requested configuration is not ready yet.''
      | ProviderRejected \<Rightarrow> ''The network provider rejected the creation request.''
      | ProviderOwnership \<Rightarrow> ''The provider object identity or configuration conflicts with this resource.''
      | ProviderUnknown \<Rightarrow> ''The external request result is unknown; Network is observing the original request.''
      | ProviderMissing \<Rightarrow> ''The previously recorded provider object is missing.''
      | CleanupPending \<Rightarrow> ''Provider cleanup has been requested and awaits confirmation.''
      | BaseConnectivityNotReady \<Rightarrow> ''VPC base connectivity is not ready''
      | LoadBalancerNotReady \<Rightarrow> ''The load balancer capability is not ready.''
      | BackendIdentityMismatch \<Rightarrow> ''The backend no longer matches its accepted network identity.''
      | VIPInUse \<Rightarrow> ''The private address is reserved by another network resource.''
      | CreateTerminated \<Rightarrow> ''VPC creation was terminated; cleanup is tracked by its delete operation''
      | PublicEgressNotReady \<Rightarrow> ''The public egress configuration or acceptance evidence is not ready.''
      | ProviderStateMismatch \<Rightarrow> ''The observed provider configuration differs from the requested state.''
      | EIPInUse \<Rightarrow> ''The EIP is reserved by a binding.''
      | VPCSnatExists \<Rightarrow> ''The VPC has a binding that must be released first.''
      | PermissionDenied \<Rightarrow> ''The trusted caller does not have permission for this operation.''
      | ResourceInUse \<Rightarrow> ''Dependent network resources must be released before deletion.''
      | _ \<Rightarrow> ''The network resource requires attention.'')"

section \<open>Accepted intents\<close>

lemma NewVPCIntent_cidr:
  assumes "NewVPCIntent up t nm c d k = Inr i"
  obtains w n where "vi_CIDR i = v4_prefix_string w n" and "parse_v4_prefix c = Some (w, n)"
    and "v4_masked w n = w" and "n \<le> 30" and "private_prefix w n"
  using assms by (auto simp: NewVPCIntent_def Let_def split: sum.splits if_splits option.splits prod.splits)

lemma NewVPCIntent_fields:
  assumes "NewVPCIntent up t nm c d k = Inr i"
  shows "ParseTenant up t = Inr (vi_TenantID i)" and "vi_Name i = trim_space nm" and "vi_Description i = d"
    and "vi_IdempotencyKey i = k" and "valid_utf8 (vi_Name i)" and "1 \<le> rune_count (vi_Name i)"
    and "rune_count (vi_Name i) \<le> 128" and "\<not> has_control (vi_Name i)" and "valid_utf8 d"
    and "rune_count d \<le> 1024" and "1 \<le> length k" and "length k \<le> 128" and "printable_key k"
  using assms by (auto simp: NewVPCIntent_def Let_def Suc_le_eq split: sum.splits if_splits option.splits prod.splits)

lemma NewVPCIntent_Inr_iff:
  "NewVPCIntent up t nm c d k = Inr i \<longleftrightarrow>
     (\<exists>tn w n. ParseTenant up t = Inr tn \<and> parse_v4_prefix c = Some (w, n) \<and> v4_masked w n = w \<and> n \<le> 30
        \<and> private_prefix w n \<and> valid_utf8 (trim_space nm) \<and> 1 \<le> rune_count (trim_space nm)
        \<and> rune_count (trim_space nm) \<le> 128 \<and> \<not> has_control (trim_space nm) \<and> valid_utf8 d
        \<and> rune_count d \<le> 1024 \<and> 1 \<le> length k \<and> length k \<le> 128 \<and> printable_key k
        \<and> i = \<lparr>vi_TenantID = tn, vi_Name = trim_space nm, vi_CIDR = v4_prefix_string w n,
                vi_Description = d, vi_IdempotencyKey = k\<rparr>)"
  by (auto simp: NewVPCIntent_def Let_def not_less Suc_le_eq
      split: sum.splits if_splits option.splits prod.splits)

lemma NewVPCIntent_error:
  "NewVPCIntent up t nm c d k = Inl e \<Longrightarrow> reason_of e = InvalidArgument \<or> reason_of e = TenantRequired"
  by (auto simp: NewVPCIntent_def ParseTenant_def Let_def
      split: sum.splits if_splits option.splits prod.splits)

lemma div_nat_chain: "(n::nat) div 1048576 = n div 65536 div 16" "n div 16777216 = n div 65536 div 256"
  by (simp_all add: div_mult2_eq [symmetric])

lemma private_prefix_addr:
  assumes "private_prefix w n" and "v4_contains w n a"
  shows "v4_is_private a"
proof -
  from assms(1) obtain pw pn where p: "(pw, pn) \<in> set rfc1918" "pn \<le> n" "v4_contains pw pn w"
    by (auto simp: private_prefix_def list_ex_iff)
  then have "v4_contains pw pn a" using assms(2) by (blast intro: v4_contains_subset)
  with p(1) consider "unat a div 2 ^ 24 = 10" | "unat a div 2 ^ 20 = 2753" | "unat a div 2 ^ 16 = 49320"
    by (auto simp: rfc1918_def v4_contains_div)
  then show ?thesis
  proof cases
    case 2
    then have "unat a div 65536 div 16 = 2753" by (simp add: div_nat_chain)
    then have "unat a div 65536 = 172 * 256 + (16 + unat a div 65536 mod 16)"
      using div_mult_mod_eq [of "unat a div 65536" 16] by linarith
    moreover have "unat a div 65536 mod 16 < 16" by simp
    ultimately obtain r where "unat a div 65536 = 172 * 256 + (16 + r)" and "r < 16" by blast
    moreover from \<open>r < 16\<close> have "(16 + r) div 16 = 1" "16 + r < 256" by (simp_all add: div_nat_eqI)
    ultimately have "unat a div 65536 div 256 = 172 \<and> unat a div 65536 mod 256 div 16 = 1"
      by (simp only: byte_div byte_mod)
    then show ?thesis by (simp add: v4_is_private_def div_nat_chain)
  next
    case 3
    then have "unat a div 65536 = 49320" by simp
    then show ?thesis by (simp add: v4_is_private_def div_nat_chain)
  qed (simp add: v4_is_private_def)
qed

section \<open>Normalization is idempotent\<close>

lemma decode_rune_short1:
  "snd (decode_rune (c # cs)) \<le> 1 \<Longrightarrow> decode_rune [c] = decode_rune (c # cs)"
  by (cases "second_range (byte_of c)"; cases cs; cases "tl cs"; cases "tl (tl cs)")
    (auto simp: Let_def split: if_splits)

lemma decode_rune_short2:
  "snd (decode_rune (c # c1 # cs)) \<le> 2 \<Longrightarrow> decode_rune [c, c1] = decode_rune (c # c1 # cs)"
  by (cases "second_range (byte_of c)"; cases cs; cases "tl cs") (auto simp: Let_def split: if_splits)

lemma decode_rune_short3:
  "snd (decode_rune (c # c1 # c2 # cs)) \<le> 3 \<Longrightarrow> decode_rune [c, c1, c2] = decode_rune (c # c1 # c2 # cs)"
  by (cases "second_range (byte_of c)"; cases cs) (auto simp: Let_def split: if_splits)

lemma decode_rune_short4: "decode_rune (c # c1 # c2 # c3 # cs) = decode_rune [c, c1, c2, c3]"
  by (cases "second_range (byte_of c)") (simp add: Let_def)

lemma decode_rune_take:
  assumes "snd (decode_rune s) \<le> m"
  shows "decode_rune (take m s) = decode_rune s"
proof -
  consider "s = []" | "s \<noteq> []" "m = 1" | c where "s = [c]" | c c1 cs where "s = c # c1 # cs" "2 \<le> m"
    using assms decode_rune_width [of s] by (cases s rule: remdups_adj.cases; cases "m \<le> 1") fastforce+
  then show ?thesis
  proof cases
    case 2
    with assms show ?thesis by (cases s) (simp_all add: decode_rune_short1 del: decode_rune.simps)
  next
    case (3 c)
    with assms decode_rune_width [of s] show ?thesis by (cases m) auto
  next
    case (4 c c1 cs)
    show ?thesis
    proof (cases "m = 2")
      case True
      with 4 assms show ?thesis
        by (simp add: decode_rune_short2 eval_nat_numeral del: decode_rune.simps)
    next
      case False
      with 4 obtain k where m: "m = Suc (Suc (Suc k))"
        by (metis Suc_le_D Suc_le_mono le_antisym not_less_eq_eq numeral_2_eq_2)
      show ?thesis
      proof (cases cs)
        case Nil
        with 4 m show ?thesis by simp
      next
        case (Cons c2 r)
        show ?thesis
        proof (cases k)
          case 0
          with 4 m Cons assms show ?thesis
            by (simp add: decode_rune_short3 eval_nat_numeral del: decode_rune.simps)
        next
          case (Suc k')
          with 4 m Cons show ?thesis
            by (cases r) (simp_all add: decode_rune_short4 [of c c1 c2 _ "_ # _"]
                decode_rune_short4 [of c c1 c2 _ "take _ _"] decode_rune_short4 [of c c1 c2 _ r] del: decode_rune.simps,
              metis decode_rune_short4)
        qed
      qed
    qed
  qed simp
qed

lemma decode_rune_width_le: "s \<noteq> [] \<Longrightarrow> snd (decode_rune s) \<le> length s"
  by (cases s) (auto simp: Let_def split: list.splits prod.splits)

lemma dropWhile_trim_both:
  "dropWhile P (rev (dropWhile P (rev (dropWhile P xs)))) = rev (dropWhile P (rev (dropWhile P xs)))"
proof (cases "dropWhile P xs")
  case (Cons y ys)
  then have "\<not> P y" by (metis dropWhile_eq_Cons_conv)
  then show ?thesis unfolding Cons by (simp add: dropWhile_append)
next
  case Nil
  show ?thesis by (simp only: Nil) simp
qed

lemma dropWhile_idem: "dropWhile P (dropWhile P xs) = dropWhile P xs"
  by (induction xs) auto

lemma runes_Cons:
  "s \<noteq> [] \<Longrightarrow> runes s = (fst (decode_rune s), take (snd (decode_rune s)) s) # runes (drop (snd (decode_rune s)) s)"
  by (subst runes.simps) simp

text \<open>Cutting a string at rune boundaries keeps the decoding of the runes that stay.\<close>

lemma runes_drop: "runes (concat (map snd (drop k (runes s)))) = drop k (runes s)"
proof (induction k arbitrary: s)
  case (Suc k)
  show ?case
  proof (cases "s = []")
    case False
    have "drop (Suc k) (runes s) = drop k (runes (drop (snd (decode_rune s)) s))"
      using False by (subst runes_Cons) simp_all
    then show ?thesis using Suc by simp
  qed simp
qed simp

lemma runes_take: "runes (concat (map snd (take k (runes s)))) = take k (runes s)"
proof (induction k arbitrary: s)
  case (Suc k)
  show ?case
  proof (cases "s = []")
    case False
    let ?w = "snd (decode_rune s)" let ?t = "drop ?w s"
    let ?rest = "concat (map snd (take k (runes ?t)))"
    have tk: "take (Suc k) (runes s) = (fst (decode_rune s), take ?w s) # take k (runes ?t)"
      using False by (subst runes_Cons) simp_all
    have "?t = concat (map snd (take k (runes ?t))) @ concat (map snd (drop k (runes ?t)))"
      by (metis append_take_drop_id concat_append concat_runes map_append)
    then have pre: "take ?w s @ ?rest = take (?w + length ?rest) s"
      by (metis append_eq_conv_conj append_take_drop_id take_add)
    have d: "decode_rune (take ?w s @ ?rest) = decode_rune s"
      unfolding pre by (rule decode_rune_take) simp
    have w: "1 \<le> ?w" "?w \<le> length s"
      using False decode_rune_width [OF False] decode_rune_width_le [OF False] by simp_all
    have "runes (take ?w s @ ?rest) = (fst (decode_rune s), take ?w s) # runes ?rest"
      using w False by (subst runes_Cons) (auto simp: d)
    then show ?thesis using Suc [of ?t] by (simp add: tk)
  qed simp
qed simp

lemma trim_space_take_drop:
  obtains j k where "runes (trim_space s) = take j (drop k (runes s))"
    and "take j (drop k (runes s)) = rev (dropWhile (\<lambda>(r, _). is_space r) (rev (dropWhile (\<lambda>(r, _). is_space r) (runes s))))"
proof -
  let ?P = "\<lambda>(r, _). is_space r"
  let ?d = "dropWhile ?P (runes s)"
  obtain k where k: "?d = drop k (runes s)" by (metis dropWhile_eq_drop)
  obtain j where j: "rev (dropWhile ?P (rev ?d)) = take j ?d"
    by (metis dropWhile_eq_drop rev_drop rev_rev_ident)
  have "runes (concat (map snd (take j ?d))) = take j ?d"
    unfolding k using runes_take [of j "concat (map snd (drop k (runes s)))"] by (simp add: runes_drop)
  with j k that show thesis by (simp add: trim_space_def)
qed

lemma trim_space_idem [simp]: "trim_space (trim_space s) = trim_space s"
proof -
  let ?P = "\<lambda>(r, _). is_space r"
  obtain j k where r: "runes (trim_space s) = take j (drop k (runes s))"
    and e: "take j (drop k (runes s)) = rev (dropWhile ?P (rev (dropWhile ?P (runes s))))"
    by (rule trim_space_take_drop)
  let ?t = "rev (dropWhile ?P (rev (dropWhile ?P (runes s))))"
  have "dropWhile ?P ?t = ?t" by (rule dropWhile_trim_both)
  moreover have "rev (dropWhile ?P (rev ?t)) = ?t" by (simp add: dropWhile_idem)
  ultimately have "trim_space (trim_space s) = concat (map snd ?t)"
    unfolding trim_space_def [of "trim_space s"] r e by simp
  then show ?thesis by (simp add: trim_space_def)
qed

end
