(* ===== verification/Net_Types.thy ===== *)
theory Net_Types
  imports Net_Domain
begin

text \<open>
  The data of the egress, platform and load balancer products: the struct declarations of
  \<^verbatim>\<open>internal/biz/network/egress.go\<close>, \<^verbatim>\<open>observation.go\<close>, \<^verbatim>\<open>load_balancer.go\<close> and
  \<^verbatim>\<open>load_balancer_worker.go\<close>. They come before the workers because durable work carries
  them. An embedded struct is a field of its own, a Go pointer an \<open>option\<close>, a
  \<^verbatim>\<open>uint32\<close> a \<open>32 word\<close>, signed integers are \<open>int\<close>.
\<close>

section \<open>Observation evidence\<close>

record ObservationProof =
  pr_CollectedAt :: go_time
  pr_Hash :: string
  pr_CoveredGeneration :: int

record ObservationRequirement =
  rq_RequestedGeneration :: int
  rq_AppliedAt :: go_time
  rq_Hash :: string

definition Covers :: "ObservationProof \<Rightarrow> ObservationRequirement \<Rightarrow> bool" where
  "Covers p r \<longleftrightarrow> \<not> time_is_zero (pr_CollectedAt p) \<and> rq_RequestedGeneration r \<le> pr_CoveredGeneration p
     \<and> (\<not> time_before (pr_CollectedAt p) (rq_AppliedAt r) \<or> (pr_Hash p \<noteq> [] \<and> pr_Hash p = rq_Hash r))"

definition zero_proof :: ObservationProof where
  "zero_proof = \<lparr>pr_CollectedAt = 0, pr_Hash = [], pr_CoveredGeneration = 0\<rparr>"

section \<open>Egress and platform resources\<close>

record EgressMetadata =
  em_ID :: string
  em_Name :: string
  em_Description :: string
  em_State :: resource_state
  em_Reason :: reason
  em_Version :: int
  em_CreatedAt :: go_time
  em_UpdatedAt :: go_time
  em_ObservedAt :: "go_time option"
  em_ObservationStale :: bool
  em_LastOperationID :: string

record EIPBindingTarget =
  bt_Kind :: string
  bt_ID :: string
  bt_State :: string

record EIP =
  eip_Metadata :: EgressMetadata
  eip_TenantID :: string
  eip_Address :: string
  eip_BindingID :: string
  eip_BindingState :: string
  eip_BindingTarget :: "EIPBindingTarget option"
  eip_Scope :: string
  eip_ManagedBy :: string

record VPCSnatBinding =
  snat_Metadata :: EgressMetadata
  snat_TenantID :: string
  snat_VPCID :: string
  snat_EIPID :: string
  snat_EIPAddress :: string
  snat_Purpose :: string
  snat_DesiredEnabled :: bool
  snat_AppliedEnabled :: "bool option"

record PublicPoolConfig =
  pp_Scope :: string
  pp_DefaultVPCName :: string
  pp_DefaultVPCUID :: string
  pp_IntranetNetworks :: "string list"
  pp_Mode :: string
  pp_GatewayID :: string
  pp_CIDR :: string
  pp_OVNGatewayIP :: string
  pp_ExcludedIPs :: "string list"
  pp_VlanNetworkID :: string
  pp_UpstreamGatewayIP :: string

record PublicPoolVerification =
  pv_ProviderSourceRevision :: string
  pv_ProviderImageDigests :: "string list"
  pv_TopologyFingerprint :: string
  pv_EvidenceReference :: string
  pv_Scope :: string
  pv_VerifiedAt :: go_time
  pv_ExpiresAt :: go_time

record NodeInterface =
  ni_NodeName :: string
  ni_NodeUID :: string
  ni_Name :: string
  ni_Kind :: string
  ni_MAC :: string
  ni_MTU :: int
  ni_LinkUp :: bool
  ni_Carrier :: bool
  ni_Addresses :: "string list"
  ni_Master :: string
  ni_OVSManaged :: bool
  ni_KCManaged :: bool
  ni_DefaultRoute :: bool
  ni_Management :: bool
  ni_KCBridgeReady :: bool
  ni_KCConfigured :: bool
  ni_KCConfigUID :: string
  ni_KCDeviceOwner :: string
  ni_Selectable :: bool
  ni_UnavailableReasons :: "string list"
  ni_VlanNetworkIDs :: "string list"
  ni_ObservedAt :: go_time

record InterfaceInventory =
  inv_CollectedAt :: go_time
  inv_Items :: "NodeInterface list"
  inv_Fingerprint :: string

record DeviceConfig =
  dc_DeviceName :: string
  dc_InventoryFingerprint :: string
  dc_Nodes :: "NodeInterface list"

record VlanConfig =
  vc_DeviceID :: string
  vc_VlanID :: int

record PlatformResource =
  plr_Metadata :: EgressMetadata
  plr_ClusterID :: string
  plr_Kind :: string
  plr_Device :: "DeviceConfig option"
  plr_Vlan :: "VlanConfig option"
  plr_Pool :: "PublicPoolConfig option"
  plr_AllocationEnabled :: bool
  plr_IsDefault :: bool
  plr_ConfigRevision :: int
  plr_TopologyFingerprint :: string
  plr_ObservedProviderImages :: "string list"
  plr_Verification :: "PublicPoolVerification option"

record EgressWorkSpec =
  es_EIPID :: string
  es_PoolID :: string
  es_DesiredEnabled :: bool
  es_TargetGeneration :: int
  es_Platform :: "PlatformResource option"

record EgressAppliedFacts =
  ef_ProviderImages :: "string list"
  ef_Address :: string
  ef_AppliedEnabled :: "bool option"
  ef_TargetGeneration :: int
  ef_DeviceNodes :: "NodeInterface list"

section \<open>Load balancers\<close>

type_synonym u32 = "32 word"

record LoadBalancerHealth =
  lh_IntervalSeconds :: u32
  lh_TimeoutSeconds :: u32
  lh_UnhealthyThreshold :: u32
  lh_HealthyThreshold :: u32
  lh_Port :: u32

record LoadBalancerListener =
  ll_ID :: string
  ll_Port :: u32

record LoadBalancerBackend =
  lbb_ID :: string
  lbb_SubnetID :: string
  lbb_Address :: string
  lbb_Port :: u32
  lbb_Weight :: u32
  lbb_AttachmentID :: string
  lbb_State :: string
  lbb_Reason :: reason
  lbb_ObservedAt :: "go_time option"
  lbb_ObservationStale :: bool

record LoadBalancer =
  lb_Metadata :: EgressMetadata
  lb_TenantID :: string
  lb_VPCID :: string
  lb_SubnetID :: string
  lb_Exposure :: string
  lb_Flavor :: string
  lb_PublicEIPID :: string
  lb_PrivateIP :: string
  lb_PublicAddress :: string
  lb_Listener :: LoadBalancerListener
  lb_Backends :: "LoadBalancerBackend list"
  lb_Health :: LoadBalancerHealth
  lb_DesiredVersion :: int
  lb_AppliedVersion :: int
  lb_ConfigurationState :: string
  lb_DataPlaneState :: string
  lb_DataPlaneObservedAt :: "go_time option"

record LoadBalancerResult =
  lr_LoadBalancer :: LoadBalancer
  lr_Operation :: Operation

section \<open>Load balancer work\<close>

text \<open>Provider actions; \<open>NoAction\<close> is the empty string.\<close>

datatype action = NoAction | ActCreate | ActUpdate | ActDelete

datatype lb_kind = CBackend | CGateway | CPolicy | CRoute | COther string

record LoadBalancerComponent =
  co_ID :: string
  co_Kind :: lb_kind
  co_MemberID :: string
  co_Name :: string
  co_Identity :: string
  co_PendingAction :: action
  co_CreateDispatched :: bool
  co_Deleted :: bool
  co_TargetVersion :: int
  co_AppliedVersion :: int

record LoadBalancerMemberIdentity =
  mi_Backend :: LoadBalancerBackend
  mi_PodName :: string
  mi_PodUID :: string
  mi_VNicName :: string
  mi_VNicUID :: string
  mi_VNicIPName :: string
  mi_VNicIPUID :: string

record LoadBalancerWork =
  lw_VIPOccupiedRevision :: string
  lw_VIPAbsenceRevision :: string
  lw_LoadBalancer :: LoadBalancer
  lw_Members :: "LoadBalancerMemberIdentity list"
  lw_Components :: "LoadBalancerComponent list"

record LoadBalancerComponentObservation =
  cb_Conflict :: bool
  cb_ID :: string
  cb_Identity :: string
  cb_Exists :: bool
  cb_Matches :: bool
  cb_Ready :: bool
  cb_Deleting :: bool
  cb_ClearPending :: bool
  cb_Deleted :: bool
  cb_AppliedVersion :: int

record LoadBalancerMemberObservation =
  mo_ID :: string
  mo_Eligible :: bool
  mo_Reason :: reason

record LoadBalancerGeneratedResource =
  gr_Kind :: string
  gr_Namespace :: string
  gr_Name :: string
  gr_Identity :: string
  gr_GatewayIdentity :: string
  gr_Released :: bool

record LoadBalancerObservation =
  lo_GeneratedConflict :: bool
  lo_VIPOccupiedRevision :: string
  lo_VIPAbsenceRevision :: string
  lo_Proof :: ObservationProof
  lo_Components :: "LoadBalancerComponentObservation list"
  lo_Members :: "LoadBalancerMemberObservation list"
  lo_Generated :: "LoadBalancerGeneratedResource list"
  lo_DependenciesReady :: bool
  lo_GeneratedReady :: bool
  lo_GeneratedReleased :: bool
  lo_AddressReleased :: bool
  lo_ConfigurationState :: string
  lo_AppliedVersion :: int

end
