(* ===== verification/Net_Float.thy ===== *)
theory Net_Float
  imports Net_Prelude "HOL-Library.Log_Nat"
begin

text \<open>
  Go's \<^verbatim>\<open>float64\<close> as far as the retry delay uses it. A value is a mantissa and a binary exponent; every operation is exact and
  then rounded to 53 bits, to nearest and to even. The values of the delay stay far from the limits of the exponent, so that
  infinities, subnormal numbers and the signed zero do not occur.
\<close>

type_synonym float64 = "int \<times> int"

definition round_even :: "int \<Rightarrow> nat \<Rightarrow> int" where
  "round_even m k = (let q = m div 2 ^ k; r = m mod 2 ^ k in if 2 * r < 2 ^ k \<or> (2 * r = 2 ^ k \<and> even q) then q else q + 1)"

fun float_round :: "float64 \<Rightarrow> float64" where
  "float_round (m, e) = (let k = nat (bitlen \<bar>m\<bar> - 53) in (round_even m k, e + int k))"

fun float_mult :: "float64 \<Rightarrow> float64 \<Rightarrow> float64" where
  "float_mult (m, e) (n, f) = float_round (m * n, e + f)"

fun float_add :: "float64 \<Rightarrow> float64 \<Rightarrow> float64" where
  "float_add (m, e) (n, f) = (let g = min e f in float_round (m * 2 ^ nat (e - g) + n * 2 ^ nat (f - g), g))"

definition float_of_int64 :: "int \<Rightarrow> float64" where
  "float_of_int64 n = float_round (n, 0)"

text \<open>The conversion to \<^verbatim>\<open>int64\<close> discards the fraction. What it gives out of range is up to the implementation; on amd64 it is
  the least integer.\<close>

fun float_trunc :: "float64 \<Rightarrow> int" where
  "float_trunc (m, e) = (if 0 \<le> e then m * 2 ^ nat e else sgn m * (\<bar>m\<bar> div 2 ^ nat (- e)))"

definition int64_of_float :: "float64 \<Rightarrow> int" where
  "int64_of_float x = (let n = float_trunc x in if min_int64 \<le> n \<and> n \<le> max_int64 then n else min_int64)"

text \<open>\<^verbatim>\<open>rand.Float64\<close> of \<^verbatim>\<open>math/rand/v2\<close>: the low 53 bits of a random word, as a fraction.\<close>

definition rand_Float64 :: "64 word \<Rightarrow> float64" where
  "rand_Float64 u = (uint (drop_bit 11 (push_bit 11 u)), - 53)"

text \<open>The constants 0.8 and 0.4, rounded.\<close>

definition float_0_8 :: float64 where
  "float_0_8 = (7205759403792794, - 53)"

definition float_0_4 :: float64 where
  "float_0_4 = (7205759403792794, - 54)"

section \<open>Rounding errors\<close>

definition float_value :: "float64 \<Rightarrow> real" where
  "float_value x = of_int (fst x) * 2 powi snd x"

lemma round_even_error: "2 * \<bar>round_even m k * 2 ^ k - m\<bar> \<le> 2 ^ k"
proof -
  define p :: int where "p = 2 ^ k"
  define q r where "q = m div p" and "r = m mod p"
  have "m = q * p + r" unfolding q_def r_def by (rule div_mult_mod_eq [symmetric])
  moreover have "0 \<le> r" "r < p" unfolding r_def p_def by simp_all
  ultimately have "2 * \<bar>(if 2 * r < p \<or> (2 * r = p \<and> even q) then q else q + 1) * p - m\<bar> \<le> p"
    by (auto simp: algebra_simps)
  then show ?thesis unfolding round_even_def Let_def q_def r_def p_def .
qed

lemma float_round_error: "\<bar>float_value (float_round x) - float_value x\<bar> \<le> \<bar>float_value x\<bar> / 2 ^ 53"
proof (cases x)
  case (Pair m e)
  define k where "k = nat (bitlen \<bar>m\<bar> - 53)"
  let ?err = "round_even m k * 2 ^ k - m"
  have error: "float_value (float_round x) - float_value x = of_int ?err * 2 powi e"
    by (simp add: float_value_def Pair k_def [symmetric] Let_def power_int_add algebra_simps)
  have "2 ^ 53 * \<bar>?err\<bar> \<le> \<bar>m\<bar>"
  proof (cases "k = 0")
    case True then show ?thesis by (simp add: round_even_def Let_def)
  next
    case False
    then have "m \<noteq> 0" by (auto simp: k_def)
    then have "2 ^ nat (bitlen \<bar>m\<bar> - 1) \<le> \<bar>m\<bar>" using bitlen_bounds [of "\<bar>m\<bar>"] by simp
    moreover have "nat (bitlen \<bar>m\<bar> - 1) = k + 52" using False by (simp add: k_def)
    ultimately have "2 ^ k * 2 ^ 52 \<le> \<bar>m\<bar>" by (simp add: power_add)
    moreover have "2 ^ 52 * (2 * \<bar>?err\<bar>) \<le> 2 ^ 52 * 2 ^ k"
      by (rule mult_left_mono [OF round_even_error]) simp
    ultimately show ?thesis by (simp add: mult.commute)
  qed
  then have "of_int (2 ^ 53 * \<bar>?err\<bar>) \<le> (of_int \<bar>m\<bar> :: real)" by (simp only: of_int_le_iff)
  then have "\<bar>of_int ?err\<bar> * 2 powi e * 2 ^ 53 \<le> \<bar>of_int m :: real\<bar> * 2 powi e"
    using mult_right_mono [of "2 ^ 53 * \<bar>of_int ?err\<bar>" "\<bar>of_int m :: real\<bar>" "2 powi e"] by (simp add: mult.commute mult.left_commute)
  moreover have "\<bar>float_value x\<bar> = \<bar>of_int m\<bar> * 2 powi e" by (simp add: float_value_def Pair abs_mult)
  ultimately show ?thesis
    unfolding error by (simp add: abs_mult field_simps del: of_int_diff of_int_mult)
qed

lemma float_round_bounds:
  assumes "0 \<le> float_value x"
  shows "float_value x * (1 - 1 / 2 ^ 53) \<le> float_value (float_round x)" "float_value (float_round x) \<le> float_value x * (1 + 1 / 2 ^ 53)"
  using float_round_error [of x] assms by (auto simp: field_simps abs_if split: if_splits)

lemma float_value_mult: "float_value (m * n, e + f) = float_value (m, e) * float_value (n, f)"
  by (simp add: float_value_def power_int_add)

lemma float_value_add:
  assumes "g \<le> e" and "g \<le> f"
  shows "float_value (m * 2 ^ nat (e - g) + n * 2 ^ nat (f - g), g) = float_value (m, e) + float_value (n, f)"
proof -
  have "(2::real) ^ nat (h - g) * 2 powi g = 2 powi h" if "g \<le> h" for h
    using that by (simp add: power_int_add [symmetric] flip: power_int_of_nat)
  then show ?thesis using assms by (simp add: float_value_def algebra_simps)
qed

lemma float_trunc_floor:
  assumes "0 \<le> float_value x"
  shows "float_trunc x = \<lfloor>float_value x\<rfloor>"
proof (cases x)
  case (Pair m e)
  with assms have "0 \<le> m"
    using zero_less_power_int [of "2 :: real" e] by (auto simp: float_value_def zero_le_mult_iff simp del: zero_less_power_int)
  show ?thesis
  proof (cases "0 \<le> e")
    case True
    then have "float_value x = of_int (m * 2 ^ nat e)" by (simp add: float_value_def Pair power_int_def)
    then show ?thesis using True by (simp add: Pair del: of_int_mult)
  next
    case False
    then have "float_value x = of_int m / of_int (2 ^ nat (- e))" by (simp add: float_value_def Pair power_int_def inverse_eq_divide power_one_over)
    then have "\<lfloor>float_value x\<rfloor> = m div 2 ^ nat (- e)" by (simp only: floor_divide_of_int_eq)
    then show ?thesis using False \<open>0 \<le> m\<close> by (cases "m = 0") (simp_all add: Pair)
  qed
qed

lemma float_mult_bounds:
  assumes "0 \<le> float_value x" and "0 \<le> float_value y"
  shows "float_value x * float_value y * (1 - 1 / 2 ^ 53) \<le> float_value (float_mult x y)"
    and "float_value (float_mult x y) \<le> float_value x * float_value y * (1 + 1 / 2 ^ 53)"
  using float_round_bounds [of "(fst x * fst y, snd x + snd y)"] assms
  by (cases x; cases y; simp add: float_value_mult del: float_round.simps)+

lemma float_add_bounds:
  assumes "0 \<le> float_value x" and "0 \<le> float_value y"
  shows "(float_value x + float_value y) * (1 - 1 / 2 ^ 53) \<le> float_value (float_add x y)"
    and "float_value (float_add x y) \<le> (float_value x + float_value y) * (1 + 1 / 2 ^ 53)"
  using float_round_bounds [of "(fst x * 2 ^ nat (snd x - min (snd x) (snd y)) + fst y * 2 ^ nat (snd y - min (snd x) (snd y)), min (snd x) (snd y))"] assms
  by (cases x; cases y; simp add: float_value_add Let_def del: float_round.simps)+

section \<open>A random factor between 0.8 and 1.2\<close>

definition jitter_factor :: "64 word \<Rightarrow> float64" where
  "jitter_factor u = float_add float_0_8 (float_mult float_0_4 (rand_Float64 u))"

definition jittered :: "int \<Rightarrow> 64 word \<Rightarrow> int" where
  "jittered n u = int64_of_float (float_mult (float_of_int64 n) (jitter_factor u))"

lemma rand_Float64_bounds: "0 \<le> float_value (rand_Float64 u)" "float_value (rand_Float64 u) \<le> 1"
proof -
  have "uint (drop_bit 11 (push_bit 11 u)) = take_bit 53 (uint u)"
    by (rule bit_eqI) (auto simp: bit_simps bit_uint_iff)
  moreover have "take_bit 53 (uint u) < 2 ^ 53" by (rule take_bit_int_less_exp)
  moreover have "0 \<le> take_bit 53 (uint u)" by simp
  ultimately show "0 \<le> float_value (rand_Float64 u)" "float_value (rand_Float64 u) \<le> 1"
    by (simp_all add: float_value_def rand_Float64_def power_int_minus_left field_simps)
qed

lemma jitter_factor_bounds: "799 / 1000 \<le> float_value (jitter_factor u)" "float_value (jitter_factor u) \<le> 1201 / 1000"
proof -
  have const: "float_value float_0_4 = 7205759403792794 / 2 ^ 54" "float_value float_0_8 = 7205759403792794 / 2 ^ 53"
    by (simp_all add: float_value_def float_0_4_def float_0_8_def power_int_minus_left field_simps)
  let ?p = "float_mult float_0_4 (rand_Float64 u)"
  have "float_value float_0_4 * float_value (rand_Float64 u) \<le> float_value float_0_4" "0 \<le> float_value float_0_4 * float_value (rand_Float64 u)"
    using rand_Float64_bounds [of u] const by (simp_all add: mult_left_le)
  then have p: "0 \<le> float_value ?p" "float_value ?p \<le> 4001 / 10000"
    using float_mult_bounds [of float_0_4 "rand_Float64 u"] rand_Float64_bounds [of u] const by (simp_all add: field_simps)
  then show "799 / 1000 \<le> float_value (jitter_factor u)" "float_value (jitter_factor u) \<le> 1201 / 1000"
    using float_add_bounds [of float_0_8 ?p] const by (simp_all add: jitter_factor_def field_simps)
qed

lemma jittered_bounds:
  assumes "0 \<le> n" and "n \<le> 2 ^ 62"
  shows "79 * n \<le> 100 * jittered n u + 100" and "100 * jittered n u \<le> 121 * n"
proof -
  let ?x = "float_of_int64 n" and ?f = "jitter_factor u" and ?n = "of_int n :: real"
  let ?v = "float_value (float_mult ?x ?f)"
  have "float_value (n, 0) = ?n" by (simp add: float_value_def)
  then have x: "?n * (1 - 1 / 2 ^ 53) \<le> float_value ?x" "float_value ?x \<le> ?n * (1 + 1 / 2 ^ 53)"
    using float_round_bounds [of "(n, 0)"] assms(1) by (simp_all add: float_of_int64_def del: float_round.simps)
  have n0: "0 \<le> ?n" using assms(1) by simp
  then have "0 \<le> ?n * (1 - 1 / 2 ^ 53)" by simp
  with x(1) have x0: "0 \<le> float_value ?x" by linarith
  have f0: "0 \<le> float_value ?f" using jitter_factor_bounds(1) [of u] by linarith
  have "(?n * (1 - 1 / 2 ^ 53)) * (799 / 1000) \<le> float_value ?x * float_value ?f"
    by (rule mult_mono [OF x(1) jitter_factor_bounds(1) x0]) simp
  moreover have "float_value ?x * float_value ?f \<le> (?n * (1 + 1 / 2 ^ 53)) * (1201 / 1000)"
    by (rule mult_mono [OF x(2) jitter_factor_bounds(2)]) (use n0 f0 in simp_all)
  ultimately have v: "79 / 100 * ?n \<le> ?v" "?v \<le> 121 / 100 * ?n"
    using float_mult_bounds [OF x0 f0] n0 by (simp_all add: field_simps)
  then have v0: "0 \<le> ?v" using n0 by linarith
  define t where "t = float_trunc (float_mult ?x ?f)"
  have t: "t = \<lfloor>?v\<rfloor>" unfolding t_def by (rule float_trunc_floor [OF v0])
  have "of_int t \<le> ?v" "?v < of_int t + 1" unfolding t by linarith+
  with v have "(of_int (79 * n) :: real) < of_int (100 * t + 100)" "(of_int (100 * t) :: real) \<le> of_int (121 * n)" by simp_all
  then have r: "79 * n < 100 * t + 100" "100 * t \<le> 121 * n" by (simp_all only: of_int_less_iff of_int_le_iff)
  moreover have "0 \<le> t" unfolding t using v0 by simp
  ultimately have "jittered n u = t"
    using assms(2) by (simp add: jittered_def int64_of_float_def Let_def t_def [symmetric] min_int64_def max_int64_def)
  with r show "79 * n \<le> 100 * jittered n u + 100" "100 * jittered n u \<le> 121 * n" by simp_all
qed

end
