(* ===== verification/Net_Worker.thy ===== *)
theory Net_Worker
  imports Net_Types Net_Float
begin

text \<open>
  The lifecycle worker: \<^verbatim>\<open>internal/biz/network/worker.go\<close>, \<^verbatim>\<open>egress_worker.go\<close> and
  \<^verbatim>\<open>observation.go\<close>. One \<open>Step\<close> claims a durable task, observes the provider, decides
  and persists the outcome. The repository and the provider are interfaces of the code:
  records of operations on a world state \<open>'w\<close>, so that a call may change the world in
  any way, fail, time out (an error value) or lose its answer.

  The random draws of \<^verbatim>\<open>retryDelay\<close> are the parameter \<open>jitter\<close>: \<open>jitter k\<close> is the random
  word of the k-th draw of the step.
\<close>

section \<open>Work, targets, observations and progress\<close>

text \<open>Resource kinds are closed at the repository boundary; \<open>OtherKind\<close> is any other text.\<close>

datatype kind = KVpc | KSubnet | KEip | KSnat | KDevice | KVlan | KEgressGateway | KPublicPool
  | KLoadBalancer | OtherKind string

record ResourceWork =
  rw_LoadBalancer :: "LoadBalancerWork option"
  rw_BaseRequired :: bool
  rw_SystemManaged :: bool
  rw_Egress :: "EgressWorkSpec option"
  rw_ID :: string
  rw_TenantID :: string
  rw_Kind :: kind
  rw_VPCID :: string
  rw_CIDR :: string
  rw_Gateway :: string
  rw_LastOperationID :: string
  rw_State :: resource_state
  rw_Reason :: reason
  rw_Version :: int
  rw_UpdatedAt :: go_time
  rw_ObservedAt :: "go_time option"

record Work =
  wk_GateReason :: reason
  wk_CancelUnsent :: bool
  wk_Requirement :: ObservationRequirement
  wk_Resource :: ResourceWork
  wk_Operation :: Operation
  wk_ActiveOperation :: bool
  wk_BindingID :: string
  wk_KnownIdentity :: string
  wk_PendingAction :: action
  wk_Owner :: string
  wk_Epoch :: int
  wk_Attempt :: int
  wk_Now :: go_time

record ProviderTarget =
  pt_Egress :: "EgressWorkSpec option"
  pt_Requirement :: ObservationRequirement
  pt_Direct :: bool
  pt_TenantID :: string
  pt_ResourceID :: string
  pt_BindingID :: string
  pt_KnownIdentity :: string
  pt_CIDR :: string
  pt_Kind :: kind
  pt_VPCID :: string
  pt_Gateway :: string

record ProviderObservation =
  po_Egress :: "EgressAppliedFacts option"
  po_NeedsUpdate :: bool
  po_Proof :: ObservationProof
  po_Exists :: bool
  po_Ready :: bool
  po_HasDependencies :: bool
  po_Identity :: string

record Progress =
  pg_LoadBalancer :: "LoadBalancerObservation option"
  pg_Egress :: "EgressAppliedFacts option"
  pg_Proof :: ObservationProof
  pg_Backoff :: bool
  pg_State :: resource_state
  pg_OperationState :: "operation_state option"
  pg_Reason :: reason
  pg_Observed :: bool
  pg_Identity :: string
  pg_ClearPending :: bool
  pg_NextDelay :: duration

text \<open>\<open>None\<close> is the empty \<^verbatim>\<open>OperationState\<close>, the value for work without an active operation.\<close>

definition zero_progress :: Progress where
  "zero_progress = \<lparr>pg_LoadBalancer = None, pg_Egress = None, pg_Proof = zero_proof, pg_Backoff = False, pg_State = Provisioning,
     pg_OperationState = None, pg_Reason = NoReason, pg_Observed = False, pg_Identity = [],
     pg_ClearPending = False, pg_NextDelay = 0\<rparr>"

section \<open>Policy\<close>

record WorkerPolicy =
  wp_Lease :: duration
  wp_RequestTimeout :: duration
  wp_ObserveEvery :: duration
  wp_StaleAfter :: duration
  wp_RetryMin :: duration
  wp_RetryMax :: duration

definition DefaultWorkerPolicy :: WorkerPolicy where
  "DefaultWorkerPolicy = \<lparr>wp_Lease = 20 * ns_second, wp_RequestTimeout = 5 * ns_second,
     wp_ObserveEvery = 10 * ns_second, wp_StaleAfter = ns_minute,
     wp_RetryMin = ns_second, wp_RetryMax = ns_minute\<rparr>"

text \<open>The guard of \<^verbatim>\<open>NewWorker\<close> on its timing policy (int64 arithmetic).\<close>

definition worker_policy_ok :: "WorkerPolicy \<Rightarrow> bool" where
  "worker_policy_ok p \<longleftrightarrow> \<not> (wp_RequestTimeout p \<le> 0 \<or> wp_Lease p < wrap64 (3 * wp_RequestTimeout p)
     \<or> wp_ObserveEvery p \<le> 0 \<or> wp_StaleAfter p \<le> wp_ObserveEvery p \<or> wp_RetryMin p \<le> 0
     \<or> wp_RetryMax p < wp_RetryMin p)"

section \<open>Provider errors and the retry delay\<close>

fun providerKind :: "goerr \<Rightarrow> provider_failure" where
  "providerKind (ProviderError k _) = k"
| "providerKind (BizError _ _ c) = (case c of None \<Rightarrow> ProviderUncertain | Some e \<Rightarrow> providerKind e)"
| "providerKind _ = ProviderUncertain"

definition providerReason :: "goerr \<Rightarrow> reason" where
  "providerReason e =
     (case providerKind e of
        ProviderTemporary \<Rightarrow> ProviderUnavailable
      | ProviderReject \<Rightarrow> ProviderRejected
      | ProviderConflict \<Rightarrow> ProviderOwnership
      | ProviderInUse \<Rightarrow> ResourceInUse
      | ProviderUncertain \<Rightarrow> ProviderUnknown)"

definition retry_base :: "WorkerPolicy \<Rightarrow> int \<Rightarrow> duration" where
  "retry_base p attempt =
     min (wp_RetryMax p) (wrap64 (wp_RetryMin p * 2 ^ nat (min (max (wrap32 (attempt - 1)) 0) 16)))"

definition retryDelay :: "WorkerPolicy \<Rightarrow> 64 word \<Rightarrow> int \<Rightarrow> duration" where
  "retryDelay p u attempt = min (wp_RetryMax p) (jittered (retry_base p attempt) u)"

section \<open>The interfaces of the worker\<close>

record 'w Repo =
  rp_Claim :: "string \<Rightarrow> duration \<Rightarrow> 'w \<Rightarrow> (Work \<times> bool) res \<times> 'w"
  rp_BeginMutation :: "Work \<Rightarrow> action \<Rightarrow> string \<Rightarrow> 'w \<Rightarrow> goerr option \<times> 'w"
  rp_Finish :: "Work \<Rightarrow> Progress \<Rightarrow> 'w \<Rightarrow> goerr option \<times> 'w"
  rp_BeginLoadBalancerMutation ::
    "(Work \<Rightarrow> LoadBalancerComponent \<Rightarrow> action \<Rightarrow> string \<Rightarrow> 'w \<Rightarrow> goerr option \<times> 'w) option"

record 'w Prov =
  prov_Observe :: "ProviderTarget \<Rightarrow> 'w \<Rightarrow> ProviderObservation res \<times> 'w"
  prov_EnsureVPC :: "ProviderTarget \<Rightarrow> 'w \<Rightarrow> ProviderObservation res \<times> 'w"
  prov_EnsureSubnet :: "ProviderTarget \<Rightarrow> 'w \<Rightarrow> ProviderObservation res \<times> 'w"
  prov_Delete :: "ProviderTarget \<Rightarrow> 'w \<Rightarrow> goerr option \<times> 'w"
  prov_Egress :: "((ProviderTarget \<Rightarrow> 'w \<Rightarrow> ProviderObservation res \<times> 'w)
                 \<times> (ProviderTarget \<Rightarrow> 'w \<Rightarrow> ProviderObservation res \<times> 'w)) option"
  prov_LoadBalancer :: "((Work \<Rightarrow> 'w \<Rightarrow> LoadBalancerObservation res \<times> 'w)
    \<times> (Work \<Rightarrow> LoadBalancerComponent \<Rightarrow> action \<Rightarrow> LoadBalancerObservation \<Rightarrow> 'w
        \<Rightarrow> LoadBalancerComponentObservation res \<times> 'w)) option"

record 'w Worker =
  wr_repository :: "'w Repo"
  wr_provider :: "'w Prov"
  wr_owner :: string
  wr_policy :: WorkerPolicy

text \<open>\<^verbatim>\<open>NewWorker\<close>: \<open>None\<close> for a nil dependency, \<open>observers\<close> the number of variadic observers.\<close>

definition NewWorker ::
  "(string \<Rightarrow> string option) \<Rightarrow> 'w Repo option \<Rightarrow> 'w Prov option \<Rightarrow> string \<Rightarrow> WorkerPolicy \<Rightarrow> nat \<Rightarrow> 'w Worker res" where
  "NewWorker uuid_Parse repository provider owner policy observers =
     (case (repository, provider) of
        (Some r, Some p) \<Rightarrow>
          if 1 < observers \<or> \<not> worker_policy_ok policy
          then Inl (OtherError ''invalid worker dependencies or bounded timing policy'')
          else (case uuid_Parse owner of
             None \<Rightarrow> Inl (OtherError ''worker owner must be a UUID'')
           | Some parsed \<Rightarrow>
               if parsed = uuid_Nil then Inl (OtherError ''worker owner must be a UUID'')
               else Inr \<lparr>wr_repository = r, wr_provider = p, wr_owner = parsed, wr_policy = policy\<rparr>)
      | _ \<Rightarrow> Inl (OtherError ''invalid worker dependencies or bounded timing policy''))"

definition isEgressKind :: "kind \<Rightarrow> bool" where
  "isEgressKind k \<longleftrightarrow> k \<in> {KEip, KSnat, KDevice, KVlan, KEgressGateway, KPublicPool}"

text \<open>The optional members are interfaces a value may or may not implement: \<open>prov_Egress\<close> is \<open>None\<close> when the provider does not implement \<^verbatim>\<open>EgressResourceProvider\<close>.\<close>

definition mutateEgress ::
  "'w Worker \<Rightarrow> ProviderTarget \<Rightarrow> bool \<Rightarrow> 'w \<Rightarrow> ProviderObservation res \<times> 'w" where
  "mutateEgress w target update s =
     (case prov_Egress (wr_provider w) of
        None \<Rightarrow> (Inl (ProviderError ProviderTemporary None), s)
      | Some (ensure, upd) \<Rightarrow> if update then upd target s else ensure target s)"

definition applyEgressFacts :: "Progress \<Rightarrow> ProviderObservation \<Rightarrow> Progress" where
  "applyEgressFacts p obs =
     (case po_Egress obs of None \<Rightarrow> p | Some f \<Rightarrow> p\<lparr>pg_Egress := Some f\<rparr>)"

section \<open>ensure\<close>

text \<open>The tail of \<^verbatim>\<open>ensure\<close> once the object exists in the requested configuration.\<close>

definition ensure_ready :: "'w Worker \<Rightarrow> Work \<Rightarrow> ProviderObservation \<Rightarrow> Progress \<Rightarrow> Progress" where
  "ensure_ready w work obs p =
     (if po_Ready obs then
        (let p = p\<lparr>pg_State := Available, pg_Reason := NoReason\<rparr>;
             p = (if wk_ActiveOperation work then p\<lparr>pg_OperationState := Some Succeeded\<rparr> else p)
         in p\<lparr>pg_NextDelay := wp_ObserveEvery (wr_policy w)\<rparr>)
      else
        (let p = p\<lparr>pg_Reason := ProviderNotReady\<rparr> in
         if rw_State (wk_Resource work) = Available \<or> rw_State (wk_Resource work) = Degraded
         then p\<lparr>pg_State := Degraded\<rparr> else p))"

text \<open>The second half of \<^verbatim>\<open>ensure\<close>: an existing object that differs from the requested
  configuration is updated only by a \<^verbatim>\<open>set_snat_enabled\<close> operation on a SNAT binding.\<close>

definition ensure_existing ::
  "'w Worker \<Rightarrow> Work \<Rightarrow> ProviderTarget \<Rightarrow> ProviderObservation \<Rightarrow> Progress \<Rightarrow> 'w
     \<Rightarrow> (Progress \<times> goerr option) \<times> 'w" where
  "ensure_existing w work target obs p s =
     (if po_NeedsUpdate obs then
        (if \<not> wk_ActiveOperation work \<or> op_Kind (wk_Operation work) \<noteq> ''set_snat_enabled'' \<or> pt_Kind target \<noteq> KSnat
         then ((p\<lparr>pg_State := Degraded, pg_Reason := ProviderStateMismatch\<rparr>, None), s)
         else case rp_BeginMutation (wr_repository w) work ActUpdate (po_Identity obs) s of
           (Some e, s) \<Rightarrow> ((p, Some e), s)
         | (None, s) \<Rightarrow>
             (case mutateEgress w (target\<lparr>pt_KnownIdentity := po_Identity obs\<rparr>) True s of
                (Inl e, s) \<Rightarrow>
                  (let p = p\<lparr>pg_Observed := False, pg_Reason := providerReason e,
                             pg_ClearPending := (providerKind e \<noteq> ProviderUncertain)\<rparr>;
                       p = (if providerKind e = ProviderConflict then p\<lparr>pg_OperationState := Some Blocked\<rparr> else p)
                   in ((p, None), s))
              | (Inr value, s) \<Rightarrow>
                  if \<not> po_Exists value \<or> po_Identity value \<noteq> po_Identity obs
                  then ((p\<lparr>pg_Observed := False, pg_ClearPending := False, pg_Reason := ProviderUnknown,
                           pg_OperationState := Some Blocked\<rparr>, None), s)
                  else
                    (let p = applyEgressFacts p value;
                         p = (if \<not> time_is_zero (pr_CollectedAt (po_Proof value)) then p\<lparr>pg_Proof := po_Proof value\<rparr> else p);
                         p = p\<lparr>pg_ClearPending := \<not> po_NeedsUpdate value\<rparr>
                     in ((ensure_ready w work value p, None), s))))
      else
        (let p = (if wk_PendingAction work = ActUpdate then p\<lparr>pg_ClearPending := True\<rparr> else p)
         in ((ensure_ready w work obs p, None), s)))"

definition create_call :: "'w Worker \<Rightarrow> ProviderTarget \<Rightarrow> 'w \<Rightarrow> ProviderObservation res \<times> 'w" where
  "create_call w target s =
     (if isEgressKind (pt_Kind target) then mutateEgress w target False s
      else if pt_Kind target = KSubnet then prov_EnsureSubnet (wr_provider w) target s
      else prov_EnsureVPC (wr_provider w) target s)"

definition worker_ensure ::
  "'w Worker \<Rightarrow> Work \<Rightarrow> ProviderTarget \<Rightarrow> ProviderObservation \<Rightarrow> Progress \<Rightarrow> 'w
     \<Rightarrow> (Progress \<times> goerr option) \<times> 'w" where
  "worker_ensure w work target obs p s =
     (if \<not> po_Exists obs then
        (if wk_PendingAction work = ActCreate
         then ((p\<lparr>pg_Reason := ProviderUnknown, pg_OperationState := Some Blocked\<rparr>, None), s)
         else if wk_KnownIdentity work \<noteq> [] \<or> \<not> wk_ActiveOperation work
         then (let p = p\<lparr>pg_Reason := ProviderMissing, pg_OperationState := Some Blocked\<rparr>;
                   p = (if rw_State (wk_Resource work) = Available \<or> rw_State (wk_Resource work) = Degraded
                        then p\<lparr>pg_State := Degraded\<rparr> else p)
               in ((p, None), s))
         else case rp_BeginMutation (wr_repository w) work ActCreate [] s of
           (Some e, s) \<Rightarrow> ((p, Some e), s)
         | (None, s) \<Rightarrow>
             (case create_call w target s of
                (Inl e, s) \<Rightarrow>
                  (let p = p\<lparr>pg_Observed := False, pg_Reason := providerReason e,
                             pg_ClearPending := (providerKind e \<noteq> ProviderUncertain)\<rparr>;
                       p = (if providerKind e = ProviderReject
                            then p\<lparr>pg_State := Failed, pg_OperationState := Some OpFailed\<rparr>
                            else if providerKind e \<noteq> ProviderTemporary
                            then p\<lparr>pg_OperationState := Some Blocked\<rparr> else p)
                   in ((p, None), s))
              | (Inr value, s) \<Rightarrow>
                  if \<not> po_Exists value \<or> po_Identity value = []
                  then ((p\<lparr>pg_Reason := ProviderUnknown, pg_OperationState := Some Blocked, pg_Observed := False\<rparr>, None), s)
                  else
                    (let p = applyEgressFacts p value;
                         p = (if \<not> time_is_zero (pr_CollectedAt (po_Proof value)) then p\<lparr>pg_Proof := po_Proof value\<rparr> else p);
                         p = p\<lparr>pg_Identity := po_Identity value, pg_ClearPending := True\<rparr>
                     in ensure_existing w work target value p s)))
      else ensure_existing w work target obs p s)"

section \<open>delete\<close>

definition worker_delete ::
  "'w Worker \<Rightarrow> Work \<Rightarrow> ProviderTarget \<Rightarrow> ProviderObservation \<Rightarrow> Progress \<Rightarrow> 'w
     \<Rightarrow> (Progress \<times> goerr option) \<times> 'w" where
  "worker_delete w work target obs p s =
     (if po_HasDependencies obs
      then ((p\<lparr>pg_Reason := ResourceInUse, pg_OperationState := Some Blocked\<rparr>, None), s)
      else if \<not> po_Exists obs then
        (if wk_PendingAction work = ActCreate
         then ((p\<lparr>pg_Reason := ProviderUnknown, pg_OperationState := Some Blocked\<rparr>, None), s)
         else ((p\<lparr>pg_State := Deleted, pg_OperationState := Some Succeeded, pg_Reason := NoReason,
                  pg_ClearPending := True\<rparr>, None), s))
      else case rp_BeginMutation (wr_repository w) work ActDelete (po_Identity obs) s of
        (Some e, s) \<Rightarrow> ((p, Some e), s)
      | (None, s) \<Rightarrow>
          (case prov_Delete (wr_provider w) (target\<lparr>pt_KnownIdentity := po_Identity obs\<rparr>) s of
             (r, s) \<Rightarrow>
               let p = p\<lparr>pg_ClearPending := False\<rparr> in
               (case r of
                  Some e \<Rightarrow>
                    (let p = p\<lparr>pg_Reason := providerReason e\<rparr>;
                         p = (if providerKind e \<noteq> ProviderTemporary then p\<lparr>pg_OperationState := Some Blocked\<rparr> else p)
                     in ((p, None), s))
                | None \<Rightarrow>
                    ((p\<lparr>pg_Reason := CleanupPending, pg_NextDelay := wp_RetryMin (wr_policy w)\<rparr>, None), s))))"

section \<open>Step\<close>

definition start_progress :: "'w Worker \<Rightarrow> (nat \<Rightarrow> 64 word) \<Rightarrow> Work \<Rightarrow> Progress" where
  "start_progress w jitter work =
     (let p = zero_progress\<lparr>pg_State := rw_State (wk_Resource work), pg_Identity := wk_KnownIdentity work,
                            pg_NextDelay := wp_ObserveEvery (wr_policy w)\<rparr> in
      if wk_ActiveOperation work
      then p\<lparr>pg_OperationState := Some Retrying, pg_NextDelay := retryDelay (wr_policy w) (jitter 0) (wk_Attempt work)\<rparr>
      else p)"

definition target_of :: "Work \<Rightarrow> ProviderTarget" where
  "target_of work =
     \<lparr>pt_Egress = rw_Egress (wk_Resource work), pt_Requirement = wk_Requirement work,
      pt_Direct = (wk_ActiveOperation work \<or> wk_PendingAction work \<noteq> NoAction \<or> rw_State (wk_Resource work) = Deleted),
      pt_TenantID = rw_TenantID (wk_Resource work), pt_ResourceID = rw_ID (wk_Resource work),
      pt_BindingID = wk_BindingID work, pt_KnownIdentity = wk_KnownIdentity work,
      pt_CIDR = rw_CIDR (wk_Resource work), pt_Kind = rw_Kind (wk_Resource work),
      pt_VPCID = rw_VPCID (wk_Resource work), pt_Gateway = rw_Gateway (wk_Resource work)\<rparr>"

text \<open>The branch of \<^verbatim>\<open>Step\<close> for a failed observation.\<close>

definition observe_failed :: "'w Worker \<Rightarrow> Work \<Rightarrow> goerr \<Rightarrow> Progress \<Rightarrow> Progress" where
  "observe_failed w work e p =
     (let p = p\<lparr>pg_Reason := providerReason e\<rparr>;
          p = (if wk_ActiveOperation work \<and> pg_Reason p = ProviderOwnership then p\<lparr>pg_OperationState := Some Blocked\<rparr> else p)
      in if rw_State (wk_Resource work) = Available \<and>
            (pg_Reason p = ProviderOwnership \<or>
             (case rw_ObservedAt (wk_Resource work) of None \<Rightarrow> True
              | Some t \<Rightarrow> wp_StaleAfter (wr_policy w) < time_sub (wk_Now work) t))
         then p\<lparr>pg_State := Degraded\<rparr> else p)"

text \<open>The branch for an accepted observation: facts, proof and identity are recorded before
  the state decides between deletion, the historical failure and \<^verbatim>\<open>ensure\<close>.\<close>

definition observed_progress :: "Work \<Rightarrow> ProviderObservation \<Rightarrow> Progress \<Rightarrow> Progress" where
  "observed_progress work obs p =
     (let p = applyEgressFacts p obs;
          p = p\<lparr>pg_Observed := True, pg_Proof := po_Proof obs\<rparr>;
          p = (if time_is_zero (pr_CollectedAt (pg_Proof p))
               then p\<lparr>pg_Proof := \<lparr>pr_CollectedAt = wk_Now work, pr_Hash = [],
                                    pr_CoveredGeneration = rq_RequestedGeneration (wk_Requirement work)\<rparr>\<rparr> else p);
          p = p\<lparr>pg_Identity := po_Identity obs\<rparr>;
          p = (if pg_Identity p = [] then p\<lparr>pg_Identity := wk_KnownIdentity work\<rparr> else p)
      in if po_Exists obs \<and> wk_PendingAction work = ActCreate then p\<lparr>pg_ClearPending := True\<rparr> else p)"

definition foreign_identity :: "Work \<Rightarrow> ProviderObservation \<Rightarrow> bool" where
  "foreign_identity work obs \<longleftrightarrow> po_Exists obs \<and>
     (po_Identity obs = [] \<or> (wk_KnownIdentity work \<noteq> [] \<and> po_Identity obs \<noteq> wk_KnownIdentity work))"

definition decide ::
  "'w Worker \<Rightarrow> Work \<Rightarrow> ProviderObservation res \<Rightarrow> Progress \<Rightarrow> 'w \<Rightarrow> (Progress \<times> goerr option) \<times> 'w" where
  "decide w work r p s =
     (case r of
        Inl e \<Rightarrow> ((observe_failed w work e p, None), s)
      | Inr obs \<Rightarrow>
          if foreign_identity work obs then
            (let p = p\<lparr>pg_Reason := ProviderOwnership, pg_OperationState := Some Blocked\<rparr>;
                 p = (if rw_State (wk_Resource work) = Available then p\<lparr>pg_State := Degraded\<rparr> else p)
             in ((p, None), s))
          else
            (let p = observed_progress work obs p in
             case rw_State (wk_Resource work) of
               Deleting \<Rightarrow> worker_delete w work (target_of work) obs p s
             | Deleted \<Rightarrow> worker_delete w work (target_of work) obs p s
             | Failed \<Rightarrow> ((p\<lparr>pg_Reason := op_Reason (wk_Operation work)\<rparr>, None), s)
             | _ \<Rightarrow> worker_ensure w work (target_of work) obs p s))"

definition final_backoff ::
  "'w Worker \<Rightarrow> (nat \<Rightarrow> 64 word) \<Rightarrow> Work \<Rightarrow> bool \<Rightarrow> Progress \<Rightarrow> Progress" where
  "final_backoff w jitter work failed p =
     (let p = p\<lparr>pg_Backoff := (failed \<or> (wk_ActiveOperation work \<and> pg_OperationState p \<noteq> Some Succeeded
                                           \<and> pg_OperationState p \<noteq> Some OpFailed))\<rparr> in
      if pg_Backoff p
      then p\<lparr>pg_NextDelay := retryDelay (wr_policy w) (jitter 1) (wk_Attempt work)\<rparr> else p)"

text \<open>\<^verbatim>\<open>Step\<close> after a successful claim, for every kind but load balancers (their lifecycle is
  in the theory of the load balancer worker). The optional observer callback only records
  telemetry and has no result. \<^verbatim>\<open>finish\<close> runs under a fresh bounded context, so a
  cancelled step still persists its outcome.\<close>

definition run_work ::
  "'w Worker \<Rightarrow> (nat \<Rightarrow> 64 word) \<Rightarrow> Work \<Rightarrow> 'w \<Rightarrow> goerr option \<times> 'w" where
  "run_work w jitter work s =
     (let p = start_progress w jitter work in
      if wk_CancelUnsent work then
        rp_Finish (wr_repository w) work
          (p\<lparr>pg_State := Deleted, pg_OperationState := Some Succeeded, pg_ClearPending := True, pg_Reason := NoReason\<rparr>) s
      else if wk_GateReason work \<noteq> NoReason then
        rp_Finish (wr_repository w) work
          (p\<lparr>pg_Reason := wk_GateReason work, pg_Backoff := True, pg_NextDelay := wp_RetryMin (wr_policy w)\<rparr>) s
      else case prov_Observe (wr_provider w) (target_of work) s of
        (r, s) \<Rightarrow>
          (case decide w work r p s of
             ((p, Some e), s) \<Rightarrow> (Some e, s)
           | ((p, None), s) \<Rightarrow>
               rp_Finish (wr_repository w) work (final_backoff w jitter work (isl r) p) s))"

definition lease_result :: "goerr option \<Rightarrow> goerr option" where
  "lease_result r = (case r of None \<Rightarrow> None | Some e \<Rightarrow> if errors_is e ErrLeaseLost then None else Some e)"

section \<open>The lifecycle the worker implements\<close>

text \<open>The transitions a reconciliation may make: deletion is final, a failed creation is kept
  until an explicit deletion, and nothing returns to \<open>Provisioning\<close>.\<close>

fun lifecycle :: "resource_state \<Rightarrow> resource_state \<Rightarrow> bool" where
  "lifecycle Deleted t = (t = Deleted)"
| "lifecycle Deleting t = (t = Deleting \<or> t = Deleted)"
| "lifecycle Failed t = (t = Failed)"
| "lifecycle Provisioning t = (t \<notin> {Deleting, Deleted})"
| "lifecycle s t = (t \<notin> {Provisioning, Deleting, Deleted})"

lemma lifecycle_refl [simp]: "lifecycle s s"
  by (cases s) auto

lemmas progress_defs = Let_def applyEgressFacts_def ensure_ready_def

lemma applyEgressFacts_frame [frame_simps]:
  "pg_State (applyEgressFacts p v) = pg_State p" "pg_Reason (applyEgressFacts p v) = pg_Reason p"
  "pg_OperationState (applyEgressFacts p v) = pg_OperationState p" "pg_ClearPending (applyEgressFacts p v) = pg_ClearPending p"
  "pg_Observed (applyEgressFacts p v) = pg_Observed p" "pg_Identity (applyEgressFacts p v) = pg_Identity p"
  "pg_Proof (applyEgressFacts p v) = pg_Proof p"
  by (simp_all add: applyEgressFacts_def split: option.split)

lemma observed_progress_frame [frame_simps]:
  "pg_State (observed_progress work obs p) = pg_State p"
  "pg_Reason (observed_progress work obs p) = pg_Reason p"
  "pg_OperationState (observed_progress work obs p) = pg_OperationState p"
  "pg_Observed (observed_progress work obs p) = True"
  "pg_ClearPending (observed_progress work obs p) =
     (pg_ClearPending p \<or> (po_Exists obs \<and> wk_PendingAction work = ActCreate))"
  "pg_Identity (observed_progress work obs p) =
     (if po_Identity obs = [] then wk_KnownIdentity work else po_Identity obs)"
  by (auto simp: observed_progress_def Let_def frame_simps)

lemma start_progress_frame [frame_simps]:
  "pg_State (start_progress w j work) = rw_State (wk_Resource work)"
  "pg_ClearPending (start_progress w j work) = False"
  "pg_Observed (start_progress w j work) = False"
  "pg_Identity (start_progress w j work) = wk_KnownIdentity work"
  "pg_OperationState (start_progress w j work) = (if wk_ActiveOperation work then Some Retrying else None)"
  "pg_Reason (start_progress w j work) = NoReason"
  by (simp_all add: start_progress_def zero_progress_def Let_def)

lemma final_backoff_frame [frame_simps]:
  "pg_State (final_backoff w j work f p) = pg_State p" "pg_Reason (final_backoff w j work f p) = pg_Reason p"
  "pg_OperationState (final_backoff w j work f p) = pg_OperationState p"
  "pg_ClearPending (final_backoff w j work f p) = pg_ClearPending p"
  "pg_Observed (final_backoff w j work f p) = pg_Observed p"
  "pg_Identity (final_backoff w j work f p) = pg_Identity p"
  "pg_Proof (final_backoff w j work f p) = pg_Proof p"
  by (simp_all add: final_backoff_def Let_def)

lemma observe_failed_frame [frame_simps]:
  "pg_ClearPending (observe_failed w work e p) = pg_ClearPending p"
  "pg_Observed (observe_failed w work e p) = pg_Observed p"
  "pg_Identity (observe_failed w work e p) = pg_Identity p"
  "pg_Reason (observe_failed w work e p) = providerReason e"
  by (simp_all add: observe_failed_def Let_def)

lemma ensure_ready_frame [frame_simps]:
  "pg_ClearPending (ensure_ready w work obs p) = pg_ClearPending p"
  "pg_Observed (ensure_ready w work obs p) = pg_Observed p"
  "pg_Identity (ensure_ready w work obs p) = pg_Identity p"
  "pg_State (ensure_ready w work obs p) =
     (if po_Ready obs then Available
      else if rw_State (wk_Resource work) = Available \<or> rw_State (wk_Resource work) = Degraded then Degraded
      else pg_State p)"
  by (simp_all add: ensure_ready_def Let_def)

lemmas path_splits = if_splits option.splits sum.splits prod.splits resource_state.splits

text \<open>The state a decision leaves, by the state it started from.\<close>

lemma ensure_existing_state:
  assumes "ensure_existing w work t obs p s = ((p', None), s')" and "pg_State p = rw_State (wk_Resource work)"
    and "rw_State (wk_Resource work) \<in> {Provisioning, Available, Degraded}"
  shows "lifecycle (rw_State (wk_Resource work)) (pg_State p')"
  using assms by (auto simp: ensure_existing_def Let_def frame_simps split: path_splits)

lemma worker_ensure_cases:
  assumes "worker_ensure w work t obs p s = ((p', e), s')"
  obtains (existing) "po_Exists obs" "ensure_existing w work t obs p s = ((p', e), s')"
  | (lost) "\<not> po_Exists obs" "wk_PendingAction work = ActCreate" "e = None" "s' = s"
      "p' = p\<lparr>pg_Reason := ProviderUnknown, pg_OperationState := Some Blocked\<rparr>"
  | (missing) "\<not> po_Exists obs" "wk_PendingAction work \<noteq> ActCreate" "e = None" "s' = s"
      "pg_Reason p' = ProviderMissing" "pg_State p' = pg_State p \<or> pg_State p' = Degraded" "pg_ClearPending p' = pg_ClearPending p"
  | (begin_error) err where "\<not> po_Exists obs" "wk_PendingAction work \<noteq> ActCreate" "rp_BeginMutation (wr_repository w) work ActCreate [] s = (Some err, s')" "e = Some err"
  | (create_error) err s1 where "\<not> po_Exists obs" "wk_PendingAction work \<noteq> ActCreate" "wk_KnownIdentity work = []" "wk_ActiveOperation work"
      "rp_BeginMutation (wr_repository w) work ActCreate [] s = (None, s1)" "create_call w t s1 = (Inl err, s')" "e = None"
      "pg_Reason p' = providerReason err" "pg_ClearPending p' = (providerKind err \<noteq> ProviderUncertain)"
      "pg_State p' = (if providerKind err = ProviderReject then Failed else pg_State p)"
  | (create_unclear) v s1 where "\<not> po_Exists obs" "wk_PendingAction work \<noteq> ActCreate" "wk_KnownIdentity work = []" "wk_ActiveOperation work"
      "rp_BeginMutation (wr_repository w) work ActCreate [] s = (None, s1)" "create_call w t s1 = (Inr v, s')" "e = None"
      "p' = p\<lparr>pg_Reason := ProviderUnknown, pg_OperationState := Some Blocked, pg_Observed := False\<rparr>"
  | (created) v s1 s2 q where "\<not> po_Exists obs" "wk_PendingAction work \<noteq> ActCreate" "wk_KnownIdentity work = []" "wk_ActiveOperation work"
      "rp_BeginMutation (wr_repository w) work ActCreate [] s = (None, s1)" "create_call w t s1 = (Inr v, s2)"
      "po_Exists v" "po_Identity v \<noteq> []" "pg_State q = pg_State p" "pg_Identity q = po_Identity v" "pg_ClearPending q"
      "ensure_existing w work t v q s2 = ((p', e), s')"
proof (cases "po_Exists obs")
  case True
  with assms show thesis by (intro existing) (simp_all add: worker_ensure_def)
next
  case False
  show thesis
  proof (cases "wk_PendingAction work = ActCreate \<or> wk_KnownIdentity work \<noteq> [] \<or> \<not> wk_ActiveOperation work")
    case True
    with False assms show thesis
      by (auto simp: worker_ensure_def Let_def intro: lost missing split: if_splits)
  next
    case go: False
    obtain r s1 where b: "rp_BeginMutation (wr_repository w) work ActCreate [] s = (r, s1)" by (cases "rp_BeginMutation (wr_repository w) work ActCreate [] s")
    obtain c s2 where k: "create_call w t s1 = (c, s2)" by (cases "create_call w t s1")
    show thesis
    proof (cases r)
      case (Some err)
      with False go b assms show thesis by (intro begin_error) (auto simp: worker_ensure_def)
    next
      case None
      note facts = False go b k None assms
      show thesis
      proof (cases c)
        case (Inl err)
        with facts show thesis
          by (intro create_error [of s1 err]) (auto simp: worker_ensure_def Let_def split: if_splits)
      next
        case (Inr v)
        show thesis
        proof (cases "po_Exists v \<and> po_Identity v \<noteq> []")
          case True
          let ?q = "applyEgressFacts p v"
          let ?q = "(if \<not> time_is_zero (pr_CollectedAt (po_Proof v)) then ?q\<lparr>pg_Proof := po_Proof v\<rparr> else ?q)
                      \<lparr>pg_Identity := po_Identity v, pg_ClearPending := True\<rparr>"
          from True facts Inr have "ensure_existing w work t v ?q s2 = ((p', e), s')"
            by (simp add: worker_ensure_def Let_def split: if_splits)
          with True facts Inr show thesis by (intro created [of s1 v s2 ?q]) (auto simp: frame_simps)
        next
          case False
          with facts Inr show thesis by (intro create_unclear [of s1 v]) (auto simp: worker_ensure_def Let_def)
        qed
      qed
    qed
  qed
qed

lemma worker_ensure_state:
  assumes "worker_ensure w work t obs p s = ((p', None), s')" and "pg_State p = rw_State (wk_Resource work)"
    and "rw_State (wk_Resource work) \<in> {Provisioning, Available, Degraded}"
  shows "lifecycle (rw_State (wk_Resource work)) (pg_State p')"
  using assms(1)
proof (cases rule: worker_ensure_cases)
  case existing
  with assms show ?thesis by (blast intro: ensure_existing_state)
next
  case created
  with assms show ?thesis by (metis ensure_existing_state)
qed (use assms in \<open>auto split: if_splits\<close>)

lemma worker_delete_state:
  assumes "worker_delete w work t obs p s = ((p', None), s')"
  shows "pg_State p' = pg_State p \<or> pg_State p' = Deleted"
    and "pg_State p' = Deleted \<Longrightarrow> pg_State p \<noteq> Deleted \<Longrightarrow>
           \<not> po_Exists obs \<and> \<not> po_HasDependencies obs \<and> wk_PendingAction work \<noteq> ActCreate"
  using assms by (auto simp: worker_delete_def Let_def split: path_splits)

lemma decide_lifecycle:
  assumes "decide w work r p s = ((p', None), s')" and "pg_State p = rw_State (wk_Resource work)"
  shows "lifecycle (rw_State (wk_Resource work)) (pg_State p')"
proof -
  consider e where "r = Inl e" | obs where "r = Inr obs" "foreign_identity work obs"
    | obs where "r = Inr obs" "\<not> foreign_identity work obs" by (cases r) auto
  then show ?thesis
  proof cases
    case 1
    with assms show ?thesis by (auto simp: decide_def observe_failed_def Let_def split: if_splits)
  next
    case 2
    with assms show ?thesis by (auto simp: decide_def Let_def split: if_splits)
  next
    case (3 obs)
    let ?q = "observed_progress work obs p"
    have q: "pg_State ?q = rw_State (wk_Resource work)" using assms(2) by (simp add: frame_simps)
    show ?thesis
    proof (cases "rw_State (wk_Resource work)")
      case Failed
      with 3 assms q show ?thesis by (auto simp: decide_def Let_def)
    next
      case Deleting
      with 3 assms have "worker_delete w work (target_of work) obs ?q s = ((p', None), s')"
        by (simp add: decide_def Let_def)
      from worker_delete_state(1) [OF this] q Deleting show ?thesis by auto
    next
      case Deleted
      with 3 assms have "worker_delete w work (target_of work) obs ?q s = ((p', None), s')"
        by (simp add: decide_def Let_def)
      from worker_delete_state(1) [OF this] q Deleted show ?thesis by auto
    qed (use 3 assms q worker_ensure_state [of w work "target_of work" obs ?q s p' s'] in
          \<open>simp_all add: decide_def Let_def\<close>)
  qed
qed

section \<open>The calls of a step\<close>

text \<open>A worker whose world records the calls it makes: every repository transaction and every
  provider request with its outcome.\<close>

datatype event =
    EvObserve "ProviderObservation res"
  | EvBegin action string bool
  | EvMutate action "provider_failure option"
  | EvFinish Progress
  | EvObserveLB "LoadBalancerObservation res"
  | EvBeginLB string action string bool
  | EvMutateLB string action "provider_failure option"

definition outcome :: "'a res \<Rightarrow> provider_failure option" where
  "outcome r = (case r of Inl e \<Rightarrow> Some (providerKind e) | Inr _ \<Rightarrow> None)"

definition log_obs ::
  "(ProviderObservation res \<Rightarrow> event) \<Rightarrow> (ProviderTarget \<Rightarrow> 'w \<Rightarrow> ProviderObservation res \<times> 'w)
     \<Rightarrow> ProviderTarget \<Rightarrow> 'w \<times> event list \<Rightarrow> ProviderObservation res \<times> ('w \<times> event list)" where
  "log_obs ev f = (\<lambda>t (s, l). case f t s of (r, s') \<Rightarrow> (r, (s', l @ [ev r])))"

definition logged :: "'w Worker \<Rightarrow> ('w \<times> event list) Worker" where
  "logged w =
     \<lparr>wr_repository =
        \<lparr>rp_Claim = (\<lambda>ow d (s, l). case rp_Claim (wr_repository w) ow d s of (r, s') \<Rightarrow> (r, (s', l))),
         rp_BeginMutation = (\<lambda>wk a i (s, l). case rp_BeginMutation (wr_repository w) wk a i s of
            (r, s') \<Rightarrow> (r, (s', l @ [EvBegin a i (r = None)]))),
         rp_Finish = (\<lambda>wk p (s, l). case rp_Finish (wr_repository w) wk p s of
            (r, s') \<Rightarrow> (r, (s', l @ [EvFinish p]))),
         rp_BeginLoadBalancerMutation = map_option (\<lambda>f wk c a i (s, l). case f wk c a i s of
            (r, s') \<Rightarrow> (r, (s', l @ [EvBeginLB (co_ID c) a i (r = None)]))) (rp_BeginLoadBalancerMutation (wr_repository w))\<rparr>,
      wr_provider =
        \<lparr>prov_Observe = log_obs EvObserve (prov_Observe (wr_provider w)),
         prov_EnsureVPC = log_obs (\<lambda>r. EvMutate ActCreate (outcome r)) (prov_EnsureVPC (wr_provider w)),
         prov_EnsureSubnet = log_obs (\<lambda>r. EvMutate ActCreate (outcome r)) (prov_EnsureSubnet (wr_provider w)),
         prov_Delete = (\<lambda>t (s, l). case prov_Delete (wr_provider w) t s of
            (r, s') \<Rightarrow> (r, (s', l @ [EvMutate ActDelete (map_option providerKind r)]))),
         prov_Egress = map_option (\<lambda>(en, up).
            (log_obs (\<lambda>r. EvMutate ActCreate (outcome r)) en, log_obs (\<lambda>r. EvMutate ActUpdate (outcome r)) up))
            (prov_Egress (wr_provider w)),
         prov_LoadBalancer = map_option (\<lambda>(ob, mu).
            ((\<lambda>wk (s, l). case ob wk s of (r, s') \<Rightarrow> (r, (s', l @ [EvObserveLB r]))),
             (\<lambda>wk c a o1 (s, l). case mu wk c a o1 s of
                (r, s') \<Rightarrow> (r, (s', l @ [EvMutateLB (co_ID c) a (outcome r)])))))
            (prov_LoadBalancer (wr_provider w))\<rparr>,
      wr_owner = wr_owner w, wr_policy = wr_policy w\<rparr>"

text \<open>Every provider write directly follows the committed intent of the same action (and of the
  same component, for a load balancer).\<close>

fun guarded :: "event list \<Rightarrow> bool" where
  "guarded [] = True"
| "guarded (EvMutate _ _ # _) = False"
| "guarded (EvMutateLB _ _ _ # _) = False"
| "guarded (EvBegin a i ok # EvMutate b r # l) = (ok \<and> a = b \<and> guarded l)"
| "guarded (EvBeginLB c a i ok # EvMutateLB d b r # l) = (ok \<and> c = d \<and> a = b \<and> guarded l)"
| "guarded (e # l) = guarded l"

definition mutations :: "event list \<Rightarrow> (action \<times> provider_failure option) list" where
  "mutations l = List.map_filter (\<lambda>e. case e of EvMutate a r \<Rightarrow> Some (a, r) | _ \<Rightarrow> None) l"

definition finishes :: "event list \<Rightarrow> Progress list" where
  "finishes l = List.map_filter (\<lambda>e. case e of EvFinish p \<Rightarrow> Some p | _ \<Rightarrow> None) l"


lemma guarded_Begin: "guarded b \<Longrightarrow> guarded (EvBegin a i ok # b)" "guarded b \<Longrightarrow> guarded (EvBeginLB c a i ok # b)"
  by (cases b; cases "hd b"; simp)+

lemma guarded_append: "guarded a \<Longrightarrow> guarded b \<Longrightarrow> guarded (a @ b)"
  by (induction a rule: guarded.induct) (auto intro: guarded_Begin)

lemma log_projections [simp]:
  "mutations [] = []" "mutations (a @ b) = mutations a @ mutations b"
  "mutations (EvMutate x r # l) = (x, r) # mutations l" "mutations (EvBegin x i ok # l) = mutations l"
  "mutations (EvObserve v # l) = mutations l" "mutations (EvFinish p # l) = mutations l"
  "finishes [] = []" "finishes (a @ b) = finishes a @ finishes b"
  "finishes (EvMutate x r # l) = finishes l" "finishes (EvBegin x i ok # l) = finishes l"
  "finishes (EvObserve v # l) = finishes l" "finishes (EvFinish p # l) = p # finishes l"
  by (simp_all add: mutations_def finishes_def List.map_filter_def)

lemma logged_repository [step_simps]:
  "rp_BeginMutation (wr_repository (logged w)) wk a i (s, l) =
     (case rp_BeginMutation (wr_repository w) wk a i s of (r, s') \<Rightarrow> (r, (s', l @ [EvBegin a i (r = None)])))"
  "rp_Finish (wr_repository (logged w)) wk p (s, l) =
     (case rp_Finish (wr_repository w) wk p s of (r, s') \<Rightarrow> (r, (s', l @ [EvFinish p])))"
  "wr_policy (logged w) = wr_policy w"
  by (simp_all add: logged_def)

lemma logged_provider [step_simps]:
  "prov_Observe (wr_provider (logged w)) t (s, l) =
     (case prov_Observe (wr_provider w) t s of (r, s') \<Rightarrow> (r, (s', l @ [EvObserve r])))"
  "prov_EnsureVPC (wr_provider (logged w)) t (s, l) =
     (case prov_EnsureVPC (wr_provider w) t s of (r, s') \<Rightarrow> (r, (s', l @ [EvMutate ActCreate (outcome r)])))"
  "prov_EnsureSubnet (wr_provider (logged w)) t (s, l) =
     (case prov_EnsureSubnet (wr_provider w) t s of (r, s') \<Rightarrow> (r, (s', l @ [EvMutate ActCreate (outcome r)])))"
  "prov_Delete (wr_provider (logged w)) t (s, l) =
     (case prov_Delete (wr_provider w) t s of (r, s') \<Rightarrow> (r, (s', l @ [EvMutate ActDelete (map_option providerKind r)])))"
  by (simp_all add: logged_def log_obs_def)

lemma logged_mutateEgress [step_simps]:
  "mutateEgress (logged w) t u (s, l) =
     (case prov_Egress (wr_provider w) of None \<Rightarrow> (Inl (ProviderError ProviderTemporary None), (s, l))
      | Some _ \<Rightarrow> (case mutateEgress w t u s of
          (r, s') \<Rightarrow> (r, (s', l @ [EvMutate (if u then ActUpdate else ActCreate) (outcome r)]))))"
  by (auto simp: mutateEgress_def logged_def log_obs_def split: option.splits prod.splits)

lemma logged_create_call:
  assumes "create_call (logged w) t (s, l) = (r, sl)"
  obtains s' where "sl = (s', l)" and "r = Inl (ProviderError ProviderTemporary None)"
    | s' where "sl = (s', l @ [EvMutate ActCreate (outcome r)])"
  using assms
  by (auto simp: create_call_def step_simps split: if_splits option.splits prod.splits)

text \<open>What the calls of a decision tell about the progress it leaves: an uncertain last
  outcome keeps the durable marker and never completes the operation.\<close>

definition uncertain_kept :: "event list \<Rightarrow> Progress \<Rightarrow> bool" where
  "uncertain_kept m p \<longleftrightarrow> (mutations m \<noteq> [] \<and> snd (last (mutations m)) = Some ProviderUncertain \<longrightarrow>
     \<not> pg_ClearPending p \<and> pg_Reason p = ProviderUnknown)"

lemma outcome_simps [simp]: "outcome (Inl e) = Some (providerKind e)" "outcome (Inr v) = None"
  by (simp_all add: outcome_def)

lemma providerReason_uncertain [simp]: "providerKind e = ProviderUncertain \<Longrightarrow> providerReason e = ProviderUnknown"
  by (simp add: providerReason_def)

lemma ensure_existing_log:
  assumes "ensure_existing (logged w) work t obs p (s, l) = ((p', e), sl)"
  obtains m where "snd sl = l @ m" and "guarded m" and "fst ` set (mutations m) \<subseteq> {ActUpdate}"
    and "finishes m = []" and "e = None \<Longrightarrow> uncertain_kept m p'"
  using assms
  by (auto simp: ensure_existing_def Let_def step_simps uncertain_kept_def split: path_splits)

lemma worker_delete_log:
  assumes "worker_delete (logged w) work t obs p (s, l) = ((p', e), sl)"
  obtains m where "snd sl = l @ m" and "guarded m" and "fst ` set (mutations m) \<subseteq> {ActDelete}"
    and "finishes m = []" and "e = None \<Longrightarrow> uncertain_kept m p'" and "mutations m \<noteq> [] \<Longrightarrow> po_Exists obs"
  using assms
  by (auto simp: worker_delete_def Let_def step_simps uncertain_kept_def split: path_splits)

lemma uncertain_kept_prefix:
  "uncertain_kept m p \<Longrightarrow> snd (last (mutations a)) \<noteq> Some ProviderUncertain \<Longrightarrow> uncertain_kept (a @ m) p"
  by (auto simp: uncertain_kept_def last_append split: if_splits)

lemma begin_logged:
  assumes "rp_BeginMutation (wr_repository (logged w)) wk a i (s, l) = (r, sl)"
  obtains s' where "sl = (s', l @ [EvBegin a i (r = None)])"
  using assms by (auto simp: step_simps split: prod.splits)

lemma worker_ensure_log:
  assumes "worker_ensure (logged w) work t obs p (s, l) = ((p', e), sl)"
  obtains m where "snd sl = l @ m" and "guarded m" and "fst ` set (mutations m) \<subseteq> {ActCreate, ActUpdate}"
    and "finishes m = []" and "e = None \<Longrightarrow> uncertain_kept m p'"
    and "ActCreate \<in> fst ` set (mutations m) \<Longrightarrow>
           \<not> po_Exists obs \<and> wk_PendingAction work \<noteq> ActCreate \<and> wk_KnownIdentity work = [] \<and> wk_ActiveOperation work"
    and "\<not> po_Exists obs \<and> wk_PendingAction work = ActCreate \<Longrightarrow> m = []"
  using assms
proof (cases rule: worker_ensure_cases)
  case existing
  from existing(2) show thesis
    by (rule ensure_existing_log) (rule that, use existing in auto)
next
  case (begin_error err)
  from begin_error(3) obtain s' where "sl = (s', l @ [EvBegin ActCreate [] False])"
    by (auto elim: begin_logged)
  with begin_error show thesis by (intro that [of "[EvBegin ActCreate [] False]"]) auto
next
  case (create_error err s1)
  from create_error(5) obtain sb where s1: "s1 = (sb, l @ [EvBegin ActCreate [] True])"
    by (auto elim: begin_logged)
  from create_error(6) s1
  consider s' where "sl = (s', l @ [EvBegin ActCreate [] True])" "err = ProviderError ProviderTemporary None"
    | s' where "sl = (s', l @ [EvBegin ActCreate [] True, EvMutate ActCreate (Some (providerKind err))])"
    by (auto elim!: logged_create_call)
  then show thesis
    by cases (use create_error in \<open>auto simp: uncertain_kept_def intro: that
       [of "[EvBegin ActCreate [] True]"] that [of "[EvBegin ActCreate [] True, EvMutate ActCreate (Some (providerKind err))]"]\<close>)
next
  case (create_unclear v s1)
  from create_unclear(5,6) obtain s' where "sl = (s', l @ [EvBegin ActCreate [] True, EvMutate ActCreate None])"
    by (auto elim!: begin_logged logged_create_call)
  with create_unclear show thesis
    by (intro that [of "[EvBegin ActCreate [] True, EvMutate ActCreate None]"]) (auto simp: uncertain_kept_def)
next
  case (created v s1 s2 q)
  let ?c = "[EvBegin ActCreate [] True, EvMutate ActCreate None]"
  from created(5,6) obtain sb where s2: "s2 = (sb, l @ ?c)"
    by (auto elim!: begin_logged logged_create_call)
  from created(12) [unfolded s2] show thesis
  proof (rule ensure_existing_log)
    fix m assume m: "snd sl = (l @ ?c) @ m" "guarded m" "fst ` set (mutations m) \<subseteq> {ActUpdate}"
      "finishes m = []" "e = None \<Longrightarrow> uncertain_kept m p'"
    have "e = None \<Longrightarrow> uncertain_kept (?c @ m) p'"
      using m(5) by (rule uncertain_kept_prefix) simp_all
    with m created show thesis by (intro that [of "?c @ m"]) auto
  qed
qed (rule that [of "[]"], auto simp: uncertain_kept_def)+

lemma decide_log:
  assumes "decide (logged w) work r p (s, l) = ((p', e), sl)"
  obtains m where "snd sl = l @ m" and "guarded m" and "finishes m = []"
    and "e = None \<Longrightarrow> uncertain_kept m p'"
    and "ActCreate \<in> fst ` set (mutations m) \<Longrightarrow>
           wk_PendingAction work \<noteq> ActCreate \<and> wk_KnownIdentity work = [] \<and> wk_ActiveOperation work
           \<and> rw_State (wk_Resource work) \<in> {Provisioning, Available, Degraded}"
    and "mutations m \<noteq> [] \<Longrightarrow> \<exists>obs. r = Inr obs \<and> \<not> foreign_identity work obs
           \<and> (po_Exists obs \<or> wk_PendingAction work \<noteq> ActCreate)"
    and "ActDelete \<in> fst ` set (mutations m) \<Longrightarrow> rw_State (wk_Resource work) \<in> {Deleting, Deleted}"
proof (cases "\<exists>obs. r = Inr obs \<and> \<not> foreign_identity work obs \<and> rw_State (wk_Resource work) \<noteq> Failed")
  case False
  with assms have "snd sl = l @ []"
    by (auto simp: decide_def Let_def split: path_splits)
  then show thesis by (rule that) (simp_all add: uncertain_kept_def)
next
  case True
  then obtain obs where o1: "r = Inr obs" "\<not> foreign_identity work obs" "rw_State (wk_Resource work) \<noteq> Failed" by blast
  let ?q = "observed_progress work obs p"
  show thesis
  proof (cases "rw_State (wk_Resource work) \<in> {Deleting, Deleted}")
    case True
    with o1 assms have "worker_delete (logged w) work (target_of work) obs ?q (s, l) = ((p', e), sl)"
      by (auto simp: decide_def Let_def)
    then show thesis by (rule worker_delete_log) (rule that, use o1 True in auto)
  next
    case False
    with o1 assms have "worker_ensure (logged w) work (target_of work) obs ?q (s, l) = ((p', e), sl)"
      by (cases "rw_State (wk_Resource work)") (auto simp: decide_def Let_def)
    then obtain m where m: "snd sl = l @ m" "guarded m" "fst ` set (mutations m) \<subseteq> {ActCreate, ActUpdate}"
      "finishes m = []" "e = None \<Longrightarrow> uncertain_kept m p'"
      "ActCreate \<in> fst ` set (mutations m) \<Longrightarrow>
         \<not> po_Exists obs \<and> wk_PendingAction work \<noteq> ActCreate \<and> wk_KnownIdentity work = [] \<and> wk_ActiveOperation work"
      "\<not> po_Exists obs \<and> wk_PendingAction work = ActCreate \<Longrightarrow> m = []"
      by (rule worker_ensure_log) blast
    have st: "rw_State (wk_Resource work) \<in> {Provisioning, Available, Degraded}"
      using False o1(3) by (cases "rw_State (wk_Resource work)") auto
    have "ActDelete \<notin> fst ` set (mutations m)" using m(3) by auto
    moreover have "mutations m \<noteq> [] \<Longrightarrow> po_Exists obs \<or> wk_PendingAction work \<noteq> ActCreate"
      using m(7) by fastforce
    ultimately show thesis using m(6) o1(1,2) st by (intro that [OF m(1,2,4,5)]) simp_all
  qed
qed

section \<open>Properties of one reconciliation\<close>

abbreviation step_log :: "'w Worker \<Rightarrow> (nat \<Rightarrow> 64 word) \<Rightarrow> Work \<Rightarrow> 'w \<Rightarrow> event list" where
  "step_log w jitter work s \<equiv> snd (snd (run_work (logged w) jitter work (s, [])))"

lemma finish_logged:
  "snd (snd (rp_Finish (wr_repository (logged w)) work p (s, l))) = l @ [EvFinish p]"
  by (simp add: step_simps split: prod.splits)

lemma step_log_cases:
  obtains (cancel) p where "wk_CancelUnsent work" "step_log w j work s = [EvFinish p]"
      "pg_State p = Deleted" "pg_OperationState p = Some Succeeded" "pg_Reason p = NoReason"
  | (gate) p where "\<not> wk_CancelUnsent work" "wk_GateReason work \<noteq> NoReason" "step_log w j work s = [EvFinish p]"
      "pg_State p = rw_State (wk_Resource work)" "pg_Reason p = wk_GateReason work" "\<not> pg_ClearPending p"
      "pg_OperationState p = (if wk_ActiveOperation work then Some Retrying else None)"
  | (stopped) r s1 p e sl where "\<not> wk_CancelUnsent work" "prov_Observe (wr_provider w) (target_of work) s = (r, s1)"
      "decide (logged w) work r (start_progress w j work) (s1, [EvObserve r]) = ((p, Some e), sl)"
      "step_log w j work s = snd sl"
  | (decided) r s1 p sl where "\<not> wk_CancelUnsent work" "prov_Observe (wr_provider w) (target_of work) s = (r, s1)"
      "decide (logged w) work r (start_progress w j work) (s1, [EvObserve r]) = ((p, None), sl)"
      "step_log w j work s = snd sl @ [EvFinish (final_backoff w j work (isl r) p)]"
proof (cases "wk_CancelUnsent work")
  case True
  then show thesis
    by (intro cancel) (assumption, simp add: run_work_def Let_def finish_logged, simp_all)
next
  case nc: False
  show thesis
  proof (cases "wk_GateReason work = NoReason")
    case False
    with nc show thesis
      by (intro gate) (assumption, assumption, simp add: run_work_def Let_def finish_logged, simp_all add: frame_simps)
  next
    case True
    obtain r s1 where o1: "prov_Observe (wr_provider w) (target_of work) s = (r, s1)"
      by (cases "prov_Observe (wr_provider w) (target_of work) s")
    have st: "start_progress (logged w) j work = start_progress w j work"
      and fb: "\<And>f p. final_backoff (logged w) j work f p = final_backoff w j work f p"
      by (simp_all add: start_progress_def final_backoff_def step_simps Let_def)
    obtain p e sl where d: "decide (logged w) work r (start_progress w j work) (s1, [EvObserve r]) = ((p, e), sl)"
      by (metis prod.exhaust)
    obtain s2 l2 where sl: "sl = (s2, l2)" by (cases sl)
    have "run_work (logged w) j work (s, []) =
        (case e of Some e \<Rightarrow> (Some e, sl) | None \<Rightarrow>
           rp_Finish (wr_repository (logged w)) work (final_backoff w j work (isl r) p) sl)"
      using nc True o1 d by (simp add: run_work_def Let_def st fb step_simps split: option.split)
    then show thesis
      using nc o1 d sl stopped decided by (cases e) (simp_all add: finish_logged)
  qed
qed

lemma decide_obs_log:
  assumes "decide (logged w) work r p (s, [EvObserve r]) = ((p', e), sl)"
  obtains m where "snd sl = EvObserve r # m" and "guarded m" and "finishes m = []"
    and "e = None \<Longrightarrow> uncertain_kept m p'"
    and "ActCreate \<in> fst ` set (mutations m) \<Longrightarrow>
           wk_PendingAction work \<noteq> ActCreate \<and> wk_KnownIdentity work = [] \<and> wk_ActiveOperation work
           \<and> rw_State (wk_Resource work) \<in> {Provisioning, Available, Degraded}"
    and "mutations m \<noteq> [] \<Longrightarrow> \<exists>obs. r = Inr obs \<and> \<not> foreign_identity work obs
           \<and> (po_Exists obs \<or> wk_PendingAction work \<noteq> ActCreate)"
    and "ActDelete \<in> fst ` set (mutations m) \<Longrightarrow> rw_State (wk_Resource work) \<in> {Deleting, Deleted}"
  using assms by (rule decide_log) (rule that, simp_all)

lemma guarded_step [simp]: "guarded m \<Longrightarrow> guarded (m @ [EvFinish p])"
  by (simp add: guarded_append)

text \<open>C8: Every create, update and delete request the worker sends to the provider is directly preceded by
  a successful \<^verbatim>\<open>BeginMutation\<close> transaction for the same action in the same step, whatever the
  repository and the provider answer.\<close>

theorem run_work_guarded: "guarded (step_log w j work s)"
proof (cases rule: step_log_cases [of work w j s])
  case (stopped r s1 p e sl)
  from stopped(3) show ?thesis
    by (rule decide_obs_log) (simp add: stopped(4))
next
  case (decided r s1 p sl)
  from decided(3) show ?thesis
    by (rule decide_obs_log) (simp add: decided(4))
qed simp_all

text \<open>C12: The outcome a step persists follows the resource lifecycle: a deleted resource stays deleted, a
  resource being deleted only becomes deleted, a failed creation stays failed, nothing returns to
  provisioning. A work item cancelled before dispatch is the only other way to \<open>Deleted\<close>.\<close>

theorem run_work_lifecycle:
  "list_all (\<lambda>p. lifecycle (rw_State (wk_Resource work)) (pg_State p) \<or> (wk_CancelUnsent work \<and> pg_State p = Deleted))
     (finishes (step_log w j work s))"
proof (cases rule: step_log_cases [of work w j s])
  case (stopped r s1 p e sl)
  from stopped(3) show ?thesis
    by (rule decide_obs_log) (simp add: stopped(4))
next
  case (decided r s1 p sl)
  have "lifecycle (rw_State (wk_Resource work)) (pg_State p)"
    using decided(3) by (cases sl) (auto intro: decide_lifecycle simp: frame_simps)
  with decided(3) show ?thesis
    by (elim decide_obs_log) (simp add: decided(4) frame_simps)
qed simp_all

text \<open>What stops a step: a transaction that did not commit, never a provider.\<close>

lemma decide_error:
  assumes "decide w work r p s = ((p', Some e), s')"
  obtains a i s1 s2 where "rp_BeginMutation (wr_repository w) work a i s1 = (Some e, s2)"
  using assms
  by (auto simp: decide_def worker_delete_def worker_ensure_def ensure_existing_def ensure_ready_def Let_def split: path_splits)

lemma run_work_error:
  assumes "run_work w j work s = (Some e, s')"
  obtains a i s1 s2 where "rp_BeginMutation (wr_repository w) work a i s1 = (Some e, s2)"
  | q s1 s2 where "rp_Finish (wr_repository w) work q s1 = (Some e, s2)"
  using assms by (auto simp: run_work_def Let_def split: if_splits prod.splits option.splits elim: decide_error)

section \<open>A scripted environment\<close>

text \<open>A worker in an environment where every transaction commits and the provider gives fixed
  answers, to run the definitions on concrete inputs.\<close>

definition scripted ::
  "ProviderObservation res \<Rightarrow> ProviderObservation res \<Rightarrow> goerr option \<Rightarrow> unit Worker" where
  "scripted seen created deleted =
     \<lparr>wr_repository = \<lparr>rp_Claim = (\<lambda>_ _ s. (Inl ErrNoRows, s)), rp_BeginMutation = (\<lambda>_ _ _ s. (None, s)),
        rp_Finish = (\<lambda>_ _ s. (None, s)), rp_BeginLoadBalancerMutation = None\<rparr>,
      wr_provider = \<lparr>prov_Observe = (\<lambda>_ s. (seen, s)), prov_EnsureVPC = (\<lambda>_ s. (created, s)),
        prov_EnsureSubnet = (\<lambda>_ s. (created, s)), prov_Delete = (\<lambda>_ s. (deleted, s)),
        prov_Egress = None, prov_LoadBalancer = None\<rparr>,
      wr_owner = ''owner'', wr_policy = DefaultWorkerPolicy\<rparr>"

definition seen_object :: "bool \<Rightarrow> bool \<Rightarrow> string \<Rightarrow> ProviderObservation" where
  "seen_object exists ready identity = \<lparr>po_Egress = None, po_NeedsUpdate = False, po_Proof = zero_proof,
     po_Exists = exists, po_Ready = ready, po_HasDependencies = False, po_Identity = identity\<rparr>"

definition sample_operation :: Operation where
  "sample_operation = \<lparr>op_ID = ''op'', op_TenantID = ''t'', op_ResourceID = ''vpc'', op_ResourceType = ''vpc'',
     op_Kind = ''create_vpc'', op_State = Running, op_Reason = NoReason, op_CreatedAt = 1, op_UpdatedAt = 1,
     op_CompletedAt = None, op_NextAttemptAt = None\<rparr>"

definition sample_work :: "resource_state \<Rightarrow> action \<Rightarrow> string \<Rightarrow> Work" where
  "sample_work st pending known =
     \<lparr>wk_GateReason = NoReason, wk_CancelUnsent = False,
      wk_Requirement = \<lparr>rq_RequestedGeneration = 1, rq_AppliedAt = 0, rq_Hash = []\<rparr>,
      wk_Resource = \<lparr>rw_LoadBalancer = None, rw_BaseRequired = False, rw_SystemManaged = False, rw_Egress = None,
        rw_ID = ''vpc'', rw_TenantID = ''t'', rw_Kind = KVpc, rw_VPCID = ''vpc'', rw_CIDR = ''10.0.0.0/24'',
        rw_Gateway = [], rw_LastOperationID = ''op'', rw_State = st, rw_Reason = NoReason, rw_Version = 1,
        rw_UpdatedAt = 1, rw_ObservedAt = None\<rparr>,
      wk_Operation = sample_operation, wk_ActiveOperation = True, wk_BindingID = ''b'', wk_KnownIdentity = known,
      wk_PendingAction = pending, wk_Owner = ''owner'', wk_Epoch = 1, wk_Attempt = 1, wk_Now = 5\<rparr>"

lemmas scripted_defs = scripted_def seen_object_def sample_work_def sample_operation_def

lemmas step_eval = run_work_def start_progress_def decide_def observed_progress_def foreign_identity_def
  worker_delete_def worker_ensure_def ensure_existing_def create_call_def ensure_ready_def final_backoff_def
  observe_failed_def applyEgressFacts_def zero_progress_def zero_proof_def mutateEgress_def isEgressKind_def
  target_of_def logged_def log_obs_def scripted_defs
  DefaultWorkerPolicy_def time_is_zero_def Let_def

section \<open>Safety of deletion, of lost requests and of uncertain outcomes\<close>

lemma worker_delete_deleted:
  assumes "worker_delete w work t obs p s = ((p', None), s')" and "pg_State p = Deleting" and "pg_State p' = Deleted"
  shows "s' = s \<and> \<not> po_Exists obs \<and> \<not> po_HasDependencies obs \<and> wk_PendingAction work \<noteq> ActCreate"
  using assms by (auto simp: worker_delete_def Let_def split: path_splits)

lemma lifecycle_Deleted: "lifecycle a Deleted \<Longrightarrow> a = Deleting \<or> a = Deleted"
  by (cases a) auto

text \<open>C10: A step that records \<open>Deleted\<close> for a resource that was not yet deleted sends no request: an accepted delete request is
  never taken as its own confirmation. Such a step is for a resource being deleted and saw in the same step that the object and its
  dependencies are absent, while no create request was outstanding. The one exception is an item that its claim marked as never
  dispatched (\<open>CancelUnsent\<close>): there is nothing at the provider to be absent, and the step stores the outcome without any
  provider call.\<close>

theorem deleted_only_on_observed_absence:
  assumes "p \<in> set (finishes (step_log w j work s))" and "pg_State p = Deleted" and "rw_State (wk_Resource work) \<noteq> Deleted"
  shows "mutations (step_log w j work s) = []
    \<and> (if wk_CancelUnsent work then step_log w j work s = [EvFinish p]
       else rw_State (wk_Resource work) = Deleting \<and> wk_PendingAction work \<noteq> ActCreate
         \<and> (\<exists>obs. EvObserve (Inr obs) \<in> set (step_log w j work s) \<and> \<not> po_Exists obs \<and> \<not> po_HasDependencies obs))"
proof (cases rule: step_log_cases [of work w j s])
  case (stopped r s1 p' e sl)
  from stopped(3) show ?thesis by (rule decide_obs_log) (use stopped assms in simp)
next
  case (decided r s1 q sl)
  from decided(3) obtain m where m: "snd sl = EvObserve r # m" "finishes m = []" by (rule decide_obs_log) blast
  with decided assms have q: "pg_State q = Deleted" by (simp add: frame_simps)
  have "lifecycle (rw_State (wk_Resource work)) Deleted"
    using decided(3) q by (cases sl) (auto dest!: decide_lifecycle simp: frame_simps)
  with assms have st: "rw_State (wk_Resource work) = Deleting" by (auto dest: lifecycle_Deleted)
  with q decided(3) obtain obs where o1: "r = Inr obs" "\<not> foreign_identity work obs"
    by (auto simp: decide_def observe_failed_def frame_simps Let_def split: path_splits)
  let ?q = "observed_progress work obs (start_progress w j work)"
  have "worker_delete (logged w) work (target_of work) obs ?q (s1, [EvObserve r]) = ((q, None), sl)"
    using decided(3) o1 st by (simp add: decide_def Let_def)
  from worker_delete_deleted [OF this _ q] st
  have "sl = (s1, [EvObserve r]) \<and> \<not> po_Exists obs \<and> \<not> po_HasDependencies obs \<and> wk_PendingAction work \<noteq> ActCreate"
    by (simp add: frame_simps)
  with st o1 decided(1,4) show ?thesis by auto
qed (use assms in auto)

theorem deleted_only_on_observed_absence_witness:
  "let l = step_log (scripted (Inr (seen_object False False [])) (Inl ErrNoRows) None) (\<lambda>_. 0)
             (sample_work Deleting ActDelete ''uid'') () in
   finishes l \<noteq> [] \<and> pg_State (hd (finishes l)) = Deleted \<and> mutations l = []"
  using deleted_only_on_observed_absence
    [of "hd (finishes (step_log (scripted (Inr (seen_object False False [])) (Inl ErrNoRows) None) (\<lambda>_. 0)
             (sample_work Deleting ActDelete ''uid'') ()))"
        "scripted (Inr (seen_object False False [])) (Inl ErrNoRows) None" "\<lambda>_. 0"
        "sample_work Deleting ActDelete ''uid''" "()"]
  by (simp add: step_eval)

lemma decide_lost:
  assumes "decide w work (Inr obs) p s = ((p', e), s')" and "wk_PendingAction work = ActCreate"
    and "\<not> po_Exists obs" and "\<not> pg_ClearPending p"
  shows "e = None \<and> s' = s \<and> \<not> pg_ClearPending p' \<and> pg_State p' = pg_State p"
proof (cases "rw_State (wk_Resource work) \<in> {Deleting, Deleted}")
  case True
  with assms show ?thesis
    by (auto simp: decide_def worker_delete_def foreign_identity_def Let_def frame_simps split: if_splits)
next
  case False
  with assms show ?thesis
    by (cases "rw_State (wk_Resource work)")
      (auto simp: decide_def worker_ensure_def foreign_identity_def Let_def frame_simps)
qed

lemma step_log_create:
  assumes "ActCreate \<in> fst ` set (mutations (step_log w j work s))"
  shows "wk_PendingAction work \<noteq> ActCreate \<and> wk_KnownIdentity work = [] \<and> wk_ActiveOperation work
    \<and> rw_State (wk_Resource work) \<in> {Provisioning, Available, Degraded}"
proof (cases rule: step_log_cases [of work w j s])
  case (stopped r s1 p e sl)
  from stopped(3) show ?thesis by (rule decide_obs_log) (use assms stopped(4) in simp)
next
  case (decided r s1 p sl)
  from decided(3) show ?thesis by (rule decide_obs_log) (use assms decided(4) in simp)
qed (use assms in simp_all)

lemma step_log_lost:
  assumes "wk_PendingAction work = ActCreate" and "\<not> wk_CancelUnsent work"
    and "prov_Observe (wr_provider w) (target_of work) s = (Inr obs, s')" and "\<not> po_Exists obs"
  shows "mutations (step_log w j work s) = []"
    and "list_all (\<lambda>p. \<not> pg_ClearPending p \<and> pg_State p = rw_State (wk_Resource work)) (finishes (step_log w j work s))"
proof -
  have "mutations (step_log w j work s) = [] \<and>
    list_all (\<lambda>p. \<not> pg_ClearPending p \<and> pg_State p = rw_State (wk_Resource work)) (finishes (step_log w j work s))"
  proof (cases rule: step_log_cases [of work w j s])
    case (stopped r s1 p e sl)
    with assms decide_lost [of "logged w" work obs "start_progress w j work" "(s1, [EvObserve r])" p "Some e" sl]
    show ?thesis by (simp add: frame_simps)
  next
    case (decided r s1 p sl)
    with assms decide_lost [of "logged w" work obs "start_progress w j work" "(s1, [EvObserve r])" p None sl]
    show ?thesis by (simp add: frame_simps)
  qed (use assms in simp_all)
  then show "mutations (step_log w j work s) = []"
    and "list_all (\<lambda>p. \<not> pg_ClearPending p \<and> pg_State p = rw_State (wk_Resource work)) (finishes (step_log w j work s))"
    by simp_all
qed

text \<open>C9: While a create request is outstanding, a step never sends another create; and if the provider reports
  the object absent, the step sends no request at all, keeps the outstanding marker and leaves the state as it is
  (in particular absence neither rejects the lost request nor permits deletion).\<close>

theorem lost_create_is_never_resubmitted:
  assumes "wk_PendingAction work = ActCreate" and "\<not> wk_CancelUnsent work"
  shows "ActCreate \<notin> fst ` set (mutations (step_log w j work s)) \<and>
    (case fst (prov_Observe (wr_provider w) (target_of work) s) of
       Inl _ \<Rightarrow> True
     | Inr obs \<Rightarrow> po_Exists obs \<or> (mutations (step_log w j work s) = []
         \<and> list_all (\<lambda>p. \<not> pg_ClearPending p \<and> pg_State p = rw_State (wk_Resource work))
              (finishes (step_log w j work s))))"
proof -
  obtain r s' where "prov_Observe (wr_provider w) (target_of work) s = (r, s')" by (metis prod.exhaust)
  then show ?thesis
    using assms step_log_create [of w j work s] step_log_lost [OF assms, of w s _ s' j] by (cases r) auto
qed

theorem lost_create_is_never_resubmitted_witness:
  "let l = step_log (scripted (Inr (seen_object False False [])) (Inr (seen_object True True ''uid'')) None) (\<lambda>_. 0)
             (sample_work Provisioning ActCreate []) () in
   length (finishes l) = 1 \<and> ActCreate \<notin> fst ` set (mutations l) \<and> mutations l = []"
  using lost_create_is_never_resubmitted
    [of "sample_work Provisioning ActCreate []"
        "scripted (Inr (seen_object False False [])) (Inr (seen_object True True ''uid'')) None" "\<lambda>_. 0" "()"]
  by (simp add: step_eval)

text \<open>C11: When the last provider request of a step has an uncertain outcome (a lost answer, an error of unknown
  kind), the persisted progress keeps the outstanding marker and reports \<open>ProviderUnknown\<close>.\<close>

theorem uncertain_outcome_keeps_the_marker:
  assumes "mutations (step_log w j work s) \<noteq> []"
    and "snd (last (mutations (step_log w j work s))) = Some ProviderUncertain"
  shows "list_all (\<lambda>p. \<not> pg_ClearPending p \<and> pg_Reason p = ProviderUnknown) (finishes (step_log w j work s))"
proof (cases rule: step_log_cases [of work w j s])
  case (stopped r s1 p e sl)
  from stopped(3) show ?thesis by (rule decide_obs_log) (simp add: stopped(4))
next
  case (decided r s1 p sl)
  from decided(3) show ?thesis
    by (rule decide_obs_log) (use assms decided(4) in \<open>simp add: uncertain_kept_def frame_simps\<close>)
qed (use assms in simp_all)

theorem uncertain_outcome_keeps_the_marker_witness:
  "let l = step_log (scripted (Inr (seen_object False False [])) (Inl DeadlineExceeded) None) (\<lambda>_. 0)
             (sample_work Provisioning NoAction []) () in
   mutations l = [(ActCreate, Some ProviderUncertain)] \<and>
   list_all (\<lambda>p. \<not> pg_ClearPending p \<and> pg_Reason p = ProviderUnknown) (finishes l)"
  using uncertain_outcome_keeps_the_marker
    [of "scripted (Inr (seen_object False False [])) (Inl DeadlineExceeded) None" "\<lambda>_. 0"
        "sample_work Provisioning NoAction []" "()"]
  by (simp add: step_eval outcome_def)

section \<open>Evidence for success, failed creations, delays\<close>

lemma ensure_existing_available:
  assumes "ensure_existing w work t obs p s = ((p', None), s')" and "pg_OperationState p \<noteq> Some Succeeded"
    and "pg_OperationState p' = Some Succeeded"
  shows "pg_State p' = Available \<and> pg_Reason p' = NoReason"
  using assms by (auto simp: ensure_existing_def ensure_ready_def applyEgressFacts_def Let_def split: path_splits)

lemma worker_ensure_available:
  assumes "worker_ensure w work t obs p s = ((p', None), s')" and "pg_OperationState p \<noteq> Some Succeeded"
    and "pg_OperationState p' = Some Succeeded"
  shows "pg_State p' = Available \<and> pg_Reason p' = NoReason"
  using assms
  by (auto simp: worker_ensure_def applyEgressFacts_def Let_def
      dest: ensure_existing_available split: path_splits)

lemma worker_delete_succeeded:
  assumes "worker_delete w work t obs p s = ((p', None), s')" and "pg_OperationState p \<noteq> Some Succeeded"
    and "pg_OperationState p' = Some Succeeded"
  shows "pg_State p' = Deleted \<and> pg_Reason p' = NoReason"
  using assms by (auto simp: worker_delete_def Let_def split: path_splits)

lemma decide_succeeded:
  assumes "decide w work r p s = ((p', None), s')" and "pg_OperationState p \<noteq> Some Succeeded"
    and "pg_OperationState p' = Some Succeeded"
  shows "(pg_State p' = Available \<or> pg_State p' = Deleted) \<and> pg_Reason p' = NoReason"
proof -
  from assms obtain obs where o1: "r = Inr obs" "\<not> foreign_identity work obs" "rw_State (wk_Resource work) \<noteq> Failed"
    by (auto simp: decide_def observe_failed_def frame_simps Let_def split: path_splits)
  let ?q = "observed_progress work obs p"
  have q: "pg_OperationState ?q \<noteq> Some Succeeded" using assms(2) by (simp add: frame_simps)
  show ?thesis
  proof (cases "rw_State (wk_Resource work) \<in> {Deleting, Deleted}")
    case True
    with o1 assms(1) have "worker_delete w work (target_of work) obs ?q s = ((p', None), s')"
      by (auto simp: decide_def Let_def)
    from worker_delete_succeeded [OF this q assms(3)] show ?thesis by simp
  next
    case False
    with o1 assms(1) have "worker_ensure w work (target_of work) obs ?q s = ((p', None), s')"
      by (cases "rw_State (wk_Resource work)") (auto simp: decide_def Let_def)
    from worker_ensure_available [OF this q assms(3)] show ?thesis by simp
  qed
qed

text \<open>C13: An operation is recorded as succeeded only together with the state \<open>Available\<close> (a create or update) or
  \<open>Deleted\<close> (a deletion), with an empty reason.\<close>

theorem succeeded_only_with_final_state:
  assumes "p \<in> set (finishes (step_log w j work s))" and "pg_OperationState p = Some Succeeded"
  shows "(pg_State p = Available \<or> pg_State p = Deleted) \<and> pg_Reason p = NoReason"
proof (cases rule: step_log_cases [of work w j s])
  case (stopped r s1 p' e sl)
  from stopped(3) show ?thesis by (rule decide_obs_log) (use assms stopped(4) in simp)
next
  case (decided r s1 q sl)
  from decided(3) obtain m where m: "snd sl = EvObserve r # m" "finishes m = []" by (rule decide_obs_log) blast
  have "pg_OperationState (start_progress w j work) \<noteq> Some Succeeded" by (simp add: frame_simps)
  with decide_succeeded [of "logged w" work r "start_progress w j work" "(s1, [EvObserve r])" q sl]
    decided m assms show ?thesis by (simp add: frame_simps)
qed (use assms in \<open>auto split: if_splits\<close>)

theorem succeeded_only_with_final_state_witness:
  "let l = step_log (scripted (Inr (seen_object True True ''uid'')) (Inl ErrNoRows) None) (\<lambda>_. 0)
             (sample_work Provisioning ActCreate []) () in
   pg_OperationState (hd (finishes l)) = Some Succeeded \<and> pg_State (hd (finishes l)) = Available
   \<and> pg_ClearPending (hd (finishes l))"
  using succeeded_only_with_final_state
    [of "hd (finishes (step_log (scripted (Inr (seen_object True True ''uid'')) (Inl ErrNoRows) None) (\<lambda>_. 0)
             (sample_work Provisioning ActCreate []) ()))"
        "scripted (Inr (seen_object True True ''uid'')) (Inl ErrNoRows) None" "\<lambda>_. 0"
        "sample_work Provisioning ActCreate []" "()"]
  by (simp add: step_eval)

lemma wrap64_small: "0 \<le> x \<Longrightarrow> x < 2 ^ 63 \<Longrightarrow> wrap64 x = x"
  by (simp add: max_int64_def min_int64_def)

lemma retry_base_exact:
  assumes "0 < wp_RetryMin p" and "wp_RetryMin p \<le> 2 ^ 46" and "1 \<le> attempt" and "attempt \<le> 2 ^ 31 - 1"
  shows "retry_base p attempt = min (wp_RetryMax p) (wp_RetryMin p * 2 ^ nat (min (attempt - 1) 16))"
proof -
  have "wrap32 (attempt - 1) = attempt - 1" using assms(3,4) by (intro wrap32_id) simp_all
  moreover have "(2::int) ^ nat (min (attempt - 1) 16) \<le> 2 ^ 16" by (rule power_increasing) auto
  then have "wp_RetryMin p * 2 ^ nat (min (attempt - 1) 16) \<le> 2 ^ 46 * 2 ^ 16" using assms(1,2) by (intro mult_mono) auto
  then have "wrap64 (wp_RetryMin p * 2 ^ nat (min (attempt - 1) 16)) = wp_RetryMin p * 2 ^ nat (min (attempt - 1) 16)"
    using assms(1) by (intro wrap64_small) auto
  moreover have "max (attempt - 1) 0 = attempt - 1" using assms(3) by simp
  ultimately show ?thesis by (simp only: retry_base_def)
qed

text \<open>C19: With a retry minimum of at most 2^46 nanoseconds (about 19 hours) and a maximum of at most 2^62 nanoseconds neither the
  exponential delay nor its conversion from floating point overflows. The exponential delay of an attempt is the minimum, doubled
  for each earlier attempt up to sixteen times, and at most the maximum. Whatever the random draw, the returned delay is at least
  0.79 times that, less one nanosecond (the conversion discards the fraction), at most 1.21 times that, and never above the
  maximum.\<close>

theorem retryDelay_bounds:
  assumes "0 < wp_RetryMin p" and "wp_RetryMin p \<le> 2 ^ 46" and "wp_RetryMin p \<le> wp_RetryMax p" and "wp_RetryMax p \<le> 2 ^ 62"
    and "1 \<le> attempt" and "attempt \<le> 2 ^ 31 - 1"
  shows "let b = min (wp_RetryMax p) (wp_RetryMin p * 2 ^ nat (min (attempt - 1) 16)) in
    79 * b \<le> 100 * (retryDelay p u attempt + 1) \<and> 100 * retryDelay p u attempt \<le> 121 * b \<and> retryDelay p u attempt \<le> wp_RetryMax p"
proof -
  define b where "b = min (wp_RetryMax p) (wp_RetryMin p * 2 ^ nat (min (attempt - 1) 16))"
  have "0 \<le> b" "b \<le> wp_RetryMax p" "b \<le> 2 ^ 62" using assms by (auto simp: b_def)
  moreover have "retry_base p attempt = b" unfolding b_def by (rule retry_base_exact [OF assms(1,2,5,6)])
  ultimately have "79 * b \<le> 100 * (retryDelay p u attempt + 1) \<and> 100 * retryDelay p u attempt \<le> 121 * b \<and> retryDelay p u attempt \<le> wp_RetryMax p"
    using jittered_bounds [of b u] by (auto simp: retryDelay_def min_def)
  then show ?thesis unfolding Let_def b_def .
qed

theorem retryDelay_bounds_witness:
  "79 * ns_minute \<le> 100 * (retryDelay DefaultWorkerPolicy 12345 40 + 1) \<and> retryDelay DefaultWorkerPolicy 12345 40 \<le> ns_minute"
  using retryDelay_bounds [of DefaultWorkerPolicy 40 12345] by (simp add: DefaultWorkerPolicy_def)

end
