(* ===== verification/Net_LB_Worker.thy ===== *)
theory Net_LB_Worker
  imports Net_Worker
begin

text \<open>
  The load balancer lifecycle, \<^verbatim>\<open>internal/biz/network/load_balancer_worker.go\<close>: one task
  observes every component (route, policy, gateway, backends) and makes at most one provider
  request per step, in an order that depends on whether the load balancer is being deleted and
  on whether every member is still eligible. \<^verbatim>\<open>Worker.Step\<close> of \<^verbatim>\<open>worker.go\<close>, which
  dispatches on the kind of the claimed work, is defined at the end.
\<close>

section \<open>Component lookups\<close>

definition lbLeaseResult :: "goerr option \<Rightarrow> goerr option" where
  "lbLeaseResult r = (case r of None \<Rightarrow> None | Some e \<Rightarrow> if errors_is e ErrLeaseLost then None else Some e)"

definition lbComponentObservation ::
  "LoadBalancerObservation \<Rightarrow> string \<Rightarrow> LoadBalancerComponentObservation option" where
  "lbComponentObservation ob i = List.find (\<lambda>v. cb_ID v = i) (lo_Components ob)"

fun replace_first ::
  "LoadBalancerComponentObservation \<Rightarrow> LoadBalancerComponentObservation list \<Rightarrow> LoadBalancerComponentObservation list" where
  "replace_first v [] = []"
| "replace_first v (x # xs) = (if cb_ID x = cb_ID v then v # xs else x # replace_first v xs)"

definition lbReplaceObservation ::
  "LoadBalancerObservation \<Rightarrow> LoadBalancerComponentObservation \<Rightarrow> LoadBalancerObservation" where
  "lbReplaceObservation ob v = ob\<lparr>lo_Components := replace_first v (lo_Components ob)\<rparr>"

definition lbDesiredMember :: "LoadBalancerWork \<Rightarrow> string \<Rightarrow> bool" where
  "lbDesiredMember lw i \<longleftrightarrow> list_ex (\<lambda>m. lbb_ID m = i) (lb_Backends (lw_LoadBalancer lw))"

definition lbRouteCurrent :: "LoadBalancerWork \<Rightarrow> LoadBalancerObservation \<Rightarrow> bool" where
  "lbRouteCurrent lw ob =
     (case List.find (\<lambda>c. co_Kind c = CRoute) (lw_Components lw) of
        None \<Rightarrow> False
      | Some c \<Rightarrow> (case lbComponentObservation ob (co_ID c) of
          None \<Rightarrow> False | Some v \<Rightarrow> cb_Exists v \<and> cb_Matches v \<and> cb_Ready v))"

section \<open>The component loop\<close>

text \<open>What the loops read (\<open>lb_env\<close>) and what they assign (\<open>lb_st\<close>: the observation \<open>o\<close>, the progress
  \<open>p\<close>, \<open>allReady\<close>, \<open>acted\<close> and the world). A body ends with \<open>continue\<close>, \<open>break\<close> or a \<open>return\<close>.\<close>

record 'w lb_env =
  le_begin :: "Work \<Rightarrow> LoadBalancerComponent \<Rightarrow> action \<Rightarrow> string \<Rightarrow> 'w \<Rightarrow> goerr option \<times> 'w"
  le_mutate :: "Work \<Rightarrow> LoadBalancerComponent \<Rightarrow> action \<Rightarrow> LoadBalancerObservation \<Rightarrow> 'w
                  \<Rightarrow> LoadBalancerComponentObservation res \<times> 'w"
  le_policy :: WorkerPolicy
  le_work :: Work
  le_lb :: LoadBalancerWork
  le_deleting :: bool
  le_allEligible :: bool

record 'w lb_st =
  ls_o :: LoadBalancerObservation
  ls_p :: Progress
  ls_allReady :: bool
  ls_acted :: bool
  ls_world :: 'w

datatype lb_ctl = LNext | LBreak | LReturn goerr

definition lb_not_ready :: "reason \<Rightarrow> 'w lb_st \<Rightarrow> 'w lb_st" where
  "lb_not_ready r st = st\<lparr>ls_allReady := False, ls_p := (ls_p st)\<lparr>pg_Reason := r\<rparr>\<rparr>"

text \<open>The request part of the body: intent, request, outcome.\<close>

definition lb_act ::
  "'w lb_env \<Rightarrow> LoadBalancerComponent \<Rightarrow> LoadBalancerComponentObservation \<Rightarrow> action \<Rightarrow> 'w lb_st \<Rightarrow> 'w lb_st \<times> lb_ctl" where
  "lb_act env c v act st =
     (case le_begin env (le_work env) c act (cb_Identity v) (ls_world st) of
        (Some e, s) \<Rightarrow> (st\<lparr>ls_world := s\<rparr>, LReturn e)
      | (None, s) \<Rightarrow>
          (let c = (if cb_Identity v \<noteq> [] then c\<lparr>co_Identity := cb_Identity v\<rparr> else c) in
           case le_mutate env (le_work env) c act (ls_o st) s of
             (r, s) \<Rightarrow>
               let st = (case r of
                  Inl e \<Rightarrow> st\<lparr>ls_p := (ls_p st)\<lparr>pg_Reason := providerReason e, pg_Backoff := True\<rparr>,
                               ls_o := lbReplaceObservation (ls_o st)
                                 (v\<lparr>cb_ClearPending := (providerKind e \<noteq> ProviderUncertain)\<rparr>)\<rparr>
                | Inr result \<Rightarrow> st\<lparr>ls_o := lbReplaceObservation (ls_o st) (result\<lparr>cb_ClearPending := (act \<noteq> ActDelete)\<rparr>),
                               ls_p := (ls_p st)\<lparr>pg_Reason := ProviderNotReady\<rparr>\<rparr>)
               in (st\<lparr>ls_world := s, ls_allReady := False, ls_acted := True,
                      ls_p := (ls_p st)\<lparr>pg_NextDelay := wp_RetryMin (le_policy env)\<rparr>\<rparr>, LBreak)))"

definition lb_component :: "'w lb_env \<Rightarrow> LoadBalancerComponent \<Rightarrow> 'w lb_st \<Rightarrow> 'w lb_st \<times> lb_ctl" where
  "lb_component env c st =
     (case lbComponentObservation (ls_o st) (co_ID c) of
        None \<Rightarrow> (lb_not_ready ProviderUnknown st, LBreak)
      | Some v \<Rightarrow>
          if cb_Conflict v then (lb_not_ready ProviderOwnership st, LBreak)
          else
            (let retired = (co_Kind c = CBackend \<and> \<not> lbDesiredMember (le_lb env) (co_MemberID c));
                 remove = (le_deleting env \<or> retired) in
             if retired \<and> \<not> le_deleting env \<and> \<not> lbRouteCurrent (le_lb env) (ls_o st)
             then (st\<lparr>ls_allReady := False\<rparr>, LNext)
             else if cb_Exists v \<and> (cb_Identity v = [] \<or> (co_Identity c \<noteq> [] \<and> co_Identity c \<noteq> cb_Identity v))
             then (lb_not_ready ProviderOwnership st, LBreak)
             else if \<not> cb_Exists v \<and> co_PendingAction c = ActCreate
             then (lb_not_ready ProviderUnknown st, LBreak)
             else if remove then
               (if \<not> cb_Exists v
                then (st\<lparr>ls_o := lbReplaceObservation (ls_o st) (v\<lparr>cb_Deleted := True, cb_ClearPending := True\<rparr>)\<rparr>, LNext)
                else if \<not> cb_Deleting v then lb_act env c v ActDelete (st\<lparr>ls_allReady := False\<rparr>)
                else (lb_not_ready CleanupPending st, LNext))
             else if \<not> cb_Exists v then
               (if co_Identity c \<noteq> [] \<or> co_Deleted c \<or> \<not> wk_ActiveOperation (le_work env)
                then (lb_not_ready ProviderMissing st, LBreak)
                else if \<not> lo_DependenciesReady (ls_o st) \<or> \<not> le_allEligible env
                then (lb_not_ready ProviderNotReady st, LNext)
                else lb_act env c v ActCreate (st\<lparr>ls_allReady := False\<rparr>))
             else if \<not> cb_Matches v then
               (if co_Kind c = CGateway \<or> co_Kind c = CBackend
                then (lb_not_ready ProviderOwnership st, LBreak)
                else lb_act env c v ActUpdate (st\<lparr>ls_allReady := False\<rparr>))
             else
               (let v = v\<lparr>cb_ClearPending := (co_PendingAction c \<noteq> ActDelete)\<rparr>;
                    v = (if cb_Ready v then v\<lparr>cb_AppliedVersion := lb_DesiredVersion (lw_LoadBalancer (le_lb env))\<rparr> else v);
                    st = st\<lparr>ls_o := lbReplaceObservation (ls_o st) v\<rparr>
                in ((if \<not> cb_Ready v then lb_not_ready ProviderNotReady st else st), LNext))))"

fun lb_components ::
  "'w lb_env \<Rightarrow> lb_kind \<Rightarrow> LoadBalancerComponent list \<Rightarrow> 'w lb_st \<Rightarrow> 'w lb_st \<times> lb_ctl" where
  "lb_components env k [] st = (st, LNext)"
| "lb_components env k (c # cs) st =
     (if co_Kind c \<noteq> k then lb_components env k cs st
      else case lb_component env c st of
        (st, LNext) \<Rightarrow> lb_components env k cs st
      | (st, r) \<Rightarrow> (st, r))"

definition lb_stop :: "'w lb_env \<Rightarrow> 'w lb_st \<Rightarrow> bool" where
  "lb_stop env st \<longleftrightarrow> ls_acted st \<or> pg_Reason (ls_p st) = ProviderUnknown \<or> pg_Reason (ls_p st) = ProviderOwnership
     \<or> (le_deleting env \<and> \<not> ls_allReady st)"

fun lb_kinds :: "'w lb_env \<Rightarrow> lb_kind list \<Rightarrow> 'w lb_st \<Rightarrow> 'w lb_st \<times> goerr option" where
  "lb_kinds env [] st = (st, None)"
| "lb_kinds env (k # ks) st =
     (if k = CBackend \<and> le_deleting env \<and> (\<not> lo_GeneratedReleased (ls_o st) \<or> \<not> lo_AddressReleased (ls_o st))
      then (lb_not_ready CleanupPending st, None)
      else case lb_components env k (lw_Components (le_lb env)) st of
        (st, LReturn e) \<Rightarrow> (st, Some e)
      | (st, _) \<Rightarrow> if lb_stop env st then (st, None) else lb_kinds env ks st)"

section \<open>stepLoadBalancer\<close>

definition lb_order :: "bool \<Rightarrow> bool \<Rightarrow> bool \<Rightarrow> lb_kind list" where
  "lb_order conflict deleting allEligible =
     (if conflict then (if deleting then [CRoute, CPolicy] else if \<not> allEligible then [CRoute] else [])
      else if deleting then [CRoute, CPolicy, CGateway, CBackend]
      else if \<not> allEligible then [CRoute, CBackend, CGateway, CPolicy]
      else [CBackend, CGateway, CPolicy, CRoute])"

definition lb_all_eligible :: "LoadBalancerObservation \<Rightarrow> bool" where
  "lb_all_eligible ob \<longleftrightarrow> lo_Members ob \<noteq> [] \<and> list_all mo_Eligible (lo_Members ob)"

definition lb_binding :: "Work \<Rightarrow> LoadBalancerComponentObservation list \<Rightarrow> Progress \<Rightarrow> Progress" where
  "lb_binding work vs p =
     foldl (\<lambda>p v. if cb_ID v = wk_BindingID work
        then (let p = (if cb_Identity v \<noteq> [] then p\<lparr>pg_Identity := cb_Identity v\<rparr> else p)
              in p\<lparr>pg_ClearPending := cb_ClearPending v\<rparr>) else p) p vs"

text \<open>The part of the step after the component loop: the outcome of the whole load balancer.\<close>

definition lb_conclude :: "Work \<Rightarrow> LoadBalancerWork \<Rightarrow> bool \<Rightarrow> bool \<Rightarrow> 'w lb_st \<Rightarrow> Progress" where
  "lb_conclude work lw deleting allEligible st =
     (let ob = ls_o st; p = ls_p st;
          p = (if lo_GeneratedConflict ob then p\<lparr>pg_Reason := ProviderOwnership, pg_OperationState := Some Blocked\<rparr> else p);
          (p, ob) =
            (if deleting then
               (if ls_allReady st \<and> lo_GeneratedReleased ob \<and> lo_AddressReleased ob
                then (p\<lparr>pg_State := Deleted, pg_OperationState := Some Succeeded, pg_Reason := NoReason\<rparr>, ob) else (p, ob))
             else if ls_allReady st \<and> allEligible \<and> lo_DependenciesReady ob \<and> lo_GeneratedReady ob
             then (p\<lparr>pg_State := Available, pg_OperationState := Some Succeeded, pg_Reason := NoReason\<rparr>,
                   ob\<lparr>lo_ConfigurationState := ''configured'',
                      lo_AppliedVersion := lb_DesiredVersion (lw_LoadBalancer lw)\<rparr>)
             else if 0 < lb_AppliedVersion (lw_LoadBalancer lw)
             then (p\<lparr>pg_State := Degraded\<rparr>, ob\<lparr>lo_ConfigurationState := ''degraded''\<rparr>)
             else (p, ob));
          p = (if \<not> deleting \<and> pg_State p \<noteq> Available \<and> pg_Reason p = NoReason then p\<lparr>pg_Reason := ProviderNotReady\<rparr> else p);
          p = (if \<not> allEligible \<and> \<not> deleting then p\<lparr>pg_Reason := BackendIdentityMismatch\<rparr> else p);
          p = lb_binding work (lo_Components ob) p
      in p\<lparr>pg_LoadBalancer := Some ob\<rparr>)"

definition lb_final :: "WorkerPolicy \<Rightarrow> (nat \<Rightarrow> 64 word) \<Rightarrow> Work \<Rightarrow> Progress \<Rightarrow> Progress" where
  "lb_final policy jitter work p =
     (let p = (if pg_Reason p = ProviderUnknown \<or> pg_Reason p = ProviderOwnership \<or> pg_Reason p = CleanupPending
               then p\<lparr>pg_OperationState := Some Blocked\<rparr> else p);
          p = (if pg_Reason p \<noteq> NoReason \<and> \<not> pg_Backoff p
               then p\<lparr>pg_Backoff := (wk_ActiveOperation work \<and> pg_NextDelay p \<noteq> wp_RetryMin policy)\<rparr> else p)
      in if pg_Backoff p then p\<lparr>pg_NextDelay := retryDelay policy (jitter 0) (wk_Attempt work)\<rparr> else p)"

definition stepLoadBalancer ::
  "'w Worker \<Rightarrow> (nat \<Rightarrow> 64 word) \<Rightarrow> Work \<Rightarrow> 'w \<Rightarrow> goerr option \<times> 'w" where
  "stepLoadBalancer w jitter work s =
     (case (prov_LoadBalancer (wr_provider w), rp_BeginLoadBalancerMutation (wr_repository w), rw_LoadBalancer (wk_Resource work)) of
        (Some (observe, mutate), Some beginM, Some lw) \<Rightarrow>
          (let p = zero_progress\<lparr>pg_State := rw_State (wk_Resource work), pg_Identity := wk_KnownIdentity work,
                     pg_NextDelay := wp_ObserveEvery (wr_policy w), pg_OperationState := Some Retrying\<rparr> in
           case observe work s of
             (Inl e, s) \<Rightarrow>
               (let p = p\<lparr>pg_Reason := providerReason e, pg_OperationState := Some Blocked, pg_Backoff := True\<rparr>;
                    p = (if pg_State p = Available then p\<lparr>pg_State := Degraded\<rparr> else p)
                in case rp_Finish (wr_repository w) work (lb_final (wr_policy w) jitter work p) s of
                     (r, s) \<Rightarrow> (lbLeaseResult r, s))
           | (Inr ob, s) \<Rightarrow>
               (let p = p\<lparr>pg_Observed := True, pg_Proof := lo_Proof ob\<rparr>;
                    ob = ob\<lparr>lo_ConfigurationState := ''applying''\<rparr>;
                    deleting = (pg_State p = Deleting \<or> pg_State p = Deleted);
                    allEligible = lb_all_eligible ob;
                    env = \<lparr>le_begin = beginM, le_mutate = mutate, le_policy = wr_policy w, le_work = work, le_lb = lw,
                            le_deleting = deleting, le_allEligible = allEligible\<rparr>;
                    st = \<lparr>ls_o = ob, ls_p = p, ls_allReady = (\<not> lo_GeneratedConflict ob), ls_acted = False, ls_world = s\<rparr>
                in case lb_kinds env (lb_order (lo_GeneratedConflict ob) deleting allEligible) st of
                     (st, Some e) \<Rightarrow> (lbLeaseResult (Some e), ls_world st)
                   | (st, None) \<Rightarrow>
                       (case rp_Finish (wr_repository w) work
                               (lb_final (wr_policy w) jitter work (lb_conclude work lw deleting allEligible st)) (ls_world st) of
                          (r, s) \<Rightarrow> (lbLeaseResult r, s))))
      | _ \<Rightarrow> (Some (OtherError ''LB lifecycle dependencies unavailable''), s))"

section \<open>Worker.Step\<close>

text \<open>The result and whether a task was found; losing the lease is not an error.\<close>

definition worker_step ::
  "'w Worker \<Rightarrow> (nat \<Rightarrow> 64 word) \<Rightarrow> 'w \<Rightarrow> (bool \<times> goerr option) \<times> 'w" where
  "worker_step w jitter s =
     (case rp_Claim (wr_repository w) (wr_owner w) (wp_Lease (wr_policy w)) s of
        (Inl e, s) \<Rightarrow> ((False, lease_result (Some e)), s)
      | (Inr (work, found), s) \<Rightarrow>
          if \<not> found then ((False, None), s)
          else if rw_Kind (wk_Resource work) = KLoadBalancer then
            (case stepLoadBalancer w jitter work s of (r, s) \<Rightarrow> ((True, lease_result r), s))
          else (case run_work w jitter work s of (r, s) \<Rightarrow> ((True, lease_result r), s)))"

section \<open>What the loops keep\<close>

text \<open>A step that sends no request only rewrites the bookkeeping of component observations; their
  \<open>core\<close> (what the provider reported) stays.\<close>

definition core :: "LoadBalancerComponentObservation \<Rightarrow> LoadBalancerComponentObservation" where
  "core v = v\<lparr>cb_ClearPending := False, cb_Deleted := False, cb_AppliedVersion := 0\<rparr>"

definition same_facts :: "LoadBalancerObservation \<Rightarrow> LoadBalancerObservation \<Rightarrow> bool" where
  "same_facts a b \<longleftrightarrow> map core (lo_Components a) = map core (lo_Components b) \<and> lo_Members a = lo_Members b
     \<and> lo_DependenciesReady a = lo_DependenciesReady b \<and> lo_GeneratedReady a = lo_GeneratedReady b
     \<and> lo_GeneratedReleased a = lo_GeneratedReleased b \<and> lo_AddressReleased a = lo_AddressReleased b
     \<and> lo_GeneratedConflict a = lo_GeneratedConflict b"

lemma same_facts_refl [simp]: "same_facts a a"
  by (simp add: same_facts_def)

lemma same_facts_trans: "same_facts a b \<Longrightarrow> same_facts b c \<Longrightarrow> same_facts a c"
  by (simp add: same_facts_def)

lemma core_fields [simp]:
  "cb_ID (core v) = cb_ID v" "cb_Exists (core v) = cb_Exists v" "cb_Conflict (core v) = cb_Conflict v"
  "cb_Matches (core v) = cb_Matches v" "cb_Ready (core v) = cb_Ready v" "cb_Identity (core v) = cb_Identity v"
  "cb_Deleting (core v) = cb_Deleting v"
  by (simp_all add: core_def)

lemma core_upd [simp]:
  "core (v\<lparr>cb_ClearPending := a\<rparr>) = core v" "core (v\<lparr>cb_Deleted := a\<rparr>) = core v" "core (v\<lparr>cb_AppliedVersion := n\<rparr>) = core v"
  by (simp_all add: core_def)

lemma find_core: "map_option core (List.find (\<lambda>v. cb_ID v = i) vs) = List.find (\<lambda>v. cb_ID v = i) (map core vs)"
  by (induction vs) auto

lemma find_holds: "List.find P xs = Some x \<Longrightarrow> P x"
  by (induction xs) (auto split: if_splits)

lemma replace_first_core:
  "List.find (\<lambda>v. cb_ID v = i) vs = Some v \<Longrightarrow> core v' = core v \<Longrightarrow> map core (replace_first v' vs) = map core vs"
proof (induction vs)
  case (Cons x xs)
  from Cons.prems have "cb_ID v' = cb_ID v" by (metis core_fields(1))
  moreover have "cb_ID v = i" using Cons.prems(1) by (rule find_holds)
  ultimately show ?case using Cons by (auto split: if_splits)
qed simp

lemma same_facts_replace:
  "lbComponentObservation ob i = Some v \<Longrightarrow> core v' = core v \<Longrightarrow> same_facts ob (lbReplaceObservation ob v')"
  by (simp add: same_facts_def lbReplaceObservation_def lbComponentObservation_def replace_first_core)

lemma same_facts_bookkeeping:
  assumes "lbComponentObservation ob i = Some v"
  shows "same_facts ob (lbReplaceObservation ob (v\<lparr>cb_Deleted := a, cb_ClearPending := b\<rparr>))"
    and "same_facts ob (lbReplaceObservation ob (v\<lparr>cb_ClearPending := b\<rparr>))"
    and "same_facts ob (lbReplaceObservation ob (v\<lparr>cb_ClearPending := b, cb_AppliedVersion := n\<rparr>))"
  by (rule same_facts_replace [OF assms], simp)+

text \<open>A component that needs nothing more: gone when it is to be removed, otherwise present, owned,
  matching and ready.\<close>

definition component_done :: "'w lb_env \<Rightarrow> LoadBalancerObservation \<Rightarrow> LoadBalancerComponent \<Rightarrow> bool" where
  "component_done env ob c \<longleftrightarrow>
     (case map_option core (lbComponentObservation ob (co_ID c)) of
        None \<Rightarrow> False
      | Some v \<Rightarrow> \<not> cb_Conflict v \<and>
          (if le_deleting env \<or> (co_Kind c = CBackend \<and> \<not> lbDesiredMember (le_lb env) (co_MemberID c))
           then \<not> cb_Exists v \<and> co_PendingAction c \<noteq> ActCreate
           else cb_Exists v \<and> cb_Identity v \<noteq> [] \<and> (co_Identity c = [] \<or> co_Identity c = cb_Identity v)
                \<and> cb_Matches v \<and> cb_Ready v))"

lemma component_done_same: "same_facts a b \<Longrightarrow> component_done env b c \<longleftrightarrow> component_done env a c"
  by (simp add: component_done_def lbComponentObservation_def find_core same_facts_def)

lemma lb_act_not_ready: "lb_act env c v act st = (st', r) \<Longrightarrow> \<not> ls_allReady st \<Longrightarrow> \<not> ls_allReady st'"
  by (auto simp: lb_act_def Let_def split: prod.splits option.splits sum.splits)

lemma lb_component_ready:
  assumes "lb_component env c st = (st', r)" and "ls_allReady st'"
  shows "r = LNext \<and> ls_allReady st \<and> component_done env (ls_o st) c \<and> same_facts (ls_o st) (ls_o st')
    \<and> ls_p st' = ls_p st \<and> ls_acted st' = ls_acted st \<and> ls_world st' = ls_world st"
  using assms
  by (auto simp: lb_component_def Let_def lb_not_ready_def component_done_def
      intro: same_facts_bookkeeping dest: lb_act_not_ready split: option.splits if_splits)

lemma lb_components_ready:
  assumes "lb_components env k cs st = (st', r)" and "ls_allReady st'"
  shows "r = LNext \<and> ls_allReady st \<and> (\<forall>c\<in>set cs. co_Kind c = k \<longrightarrow> component_done env (ls_o st) c)
    \<and> same_facts (ls_o st) (ls_o st') \<and> ls_p st' = ls_p st \<and> ls_acted st' = ls_acted st \<and> ls_world st' = ls_world st"
  using assms
proof (induction cs arbitrary: st)
  case (Cons c cs)
  show ?case
  proof (cases "co_Kind c = k")
    case True
    obtain st1 r1 where c: "lb_component env c st = (st1, r1)" by (cases "lb_component env c st")
    show ?thesis
    proof (cases "r1 = LNext")
      case next_: True
      with True c Cons.prems have rest: "lb_components env k cs st1 = (st', r)" by simp
      note IH = Cons.IH [OF rest Cons.prems(2)]
      then have sf: "same_facts (ls_o st) (ls_o st1)" using lb_component_ready [OF c] by simp
      from IH lb_component_ready [OF c] show ?thesis
        by (auto simp: component_done_same [OF sf] intro: same_facts_trans)
    next
      case False
      with True c Cons.prems have "st' = st1" by (auto split: lb_ctl.splits)
      with lb_component_ready [OF c] Cons.prems(2) False show ?thesis by simp
    qed
  qed (use Cons in simp)
qed simp

lemma lb_kinds_mono: "lb_kinds env ks st = (st', e) \<Longrightarrow> ls_allReady st' \<Longrightarrow> ls_allReady st"
proof (induction ks arbitrary: st)
  case (Cons k ks)
  obtain st1 r1 where "lb_components env k (lw_Components (le_lb env)) st = (st1, r1)"
    by (cases "lb_components env k (lw_Components (le_lb env)) st")
  with Cons lb_components_ready [OF this] show ?case
    by (auto simp: lb_not_ready_def split: if_splits lb_ctl.splits)
qed simp

lemma lb_kinds_ready:
  assumes "lb_kinds env ks st = (st', e)" and "ls_allReady st'" and "pg_Reason (ls_p st) = NoReason" and "\<not> ls_acted st"
  shows "e = None \<and> ls_allReady st \<and> ls_world st' = ls_world st \<and> same_facts (ls_o st) (ls_o st')
    \<and> (\<forall>c\<in>set (lw_Components (le_lb env)). co_Kind c \<in> set ks \<longrightarrow> component_done env (ls_o st) c)"
  using assms
proof (induction ks arbitrary: st)
  case (Cons k ks)
  obtain st1 r1 where c: "lb_components env k (lw_Components (le_lb env)) st = (st1, r1)"
    by (cases "lb_components env k (lw_Components (le_lb env)) st")
  have nb: "\<not> (k = CBackend \<and> le_deleting env \<and> (\<not> lo_GeneratedReleased (ls_o st) \<or> \<not> lo_AddressReleased (ls_o st)))"
    using Cons.prems(1,2) by (auto simp: lb_not_ready_def split: if_splits)
  show ?case
  proof (cases "ls_allReady st1")
    case True
    note R = lb_components_ready [OF c True]
    have "\<not> lb_stop env st1" using R Cons.prems(3,4) True by (simp add: lb_stop_def)
    then have rest: "lb_kinds env ks st1 = (st', e)" using nb c R Cons.prems(1) by (auto split: if_splits)
    from R have sf: "same_facts (ls_o st) (ls_o st1)" by simp
    from Cons.IH [OF rest Cons.prems(2)] R Cons.prems(3,4) show ?thesis
      by (auto simp: component_done_same [OF sf] intro: same_facts_trans)
  next
    case False
    then have "\<not> ls_allReady st'" using c nb Cons.prems(1) lb_kinds_mono [of env ks st1 st' e]
      by (auto split: lb_ctl.splits if_splits)
    with Cons.prems(2) show ?thesis by simp
  qed
qed simp

section \<open>The requests of a load balancer step\<close>

text \<open>When a component may be written, by the facts of the observation.\<close>

definition wants :: "'w lb_env \<Rightarrow> LoadBalancerObservation \<Rightarrow> LoadBalancerComponent \<Rightarrow> action \<Rightarrow> bool" where
  "wants env ob c act =
     (let retired = (co_Kind c = CBackend \<and> \<not> lbDesiredMember (le_lb env) (co_MemberID c)) in
      case act of
        NoAction \<Rightarrow> False
      | ActCreate \<Rightarrow> \<not> le_deleting env \<and> \<not> retired \<and> le_allEligible env \<and> lo_DependenciesReady ob \<and> co_Identity c = []
          \<and> \<not> co_Deleted c \<and> co_PendingAction c \<noteq> ActCreate \<and> wk_ActiveOperation (le_work env)
      | ActUpdate \<Rightarrow> \<not> le_deleting env \<and> co_Kind c \<notin> {CGateway, CBackend}
      | ActDelete \<Rightarrow> (le_deleting env \<or> (retired \<and> lbRouteCurrent (le_lb env) ob))
          \<and> map_option cb_Exists (lbComponentObservation ob (co_ID c)) = Some True)"

lemma find_exists_core:
  "map_option cb_Exists (lbComponentObservation ob i) = map_option cb_Exists (List.find (\<lambda>v. cb_ID v = i) (map core (lo_Components ob)))"
  by (simp add: lbComponentObservation_def flip: find_core) (simp add: option.map_comp comp_def)

lemma lbRouteCurrent_core:
  "lbRouteCurrent lw ob =
     (case List.find (\<lambda>c. co_Kind c = CRoute) (lw_Components lw) of
        None \<Rightarrow> False
      | Some c \<Rightarrow> (case List.find (\<lambda>v. cb_ID v = co_ID c) (map core (lo_Components ob)) of
          None \<Rightarrow> False | Some v \<Rightarrow> cb_Exists v \<and> cb_Matches v \<and> cb_Ready v))"
  by (simp add: lbRouteCurrent_def lbComponentObservation_def flip: find_core split: option.split)

lemma wants_same:
  assumes "same_facts a b"
  shows "wants env b c act \<longleftrightarrow> wants env a c act"
proof -
  from assms have e: "map core (lo_Components b) = map core (lo_Components a)" "lo_DependenciesReady b = lo_DependenciesReady a"
    by (simp_all add: same_facts_def)
  show ?thesis by (simp only: wants_def lbRouteCurrent_core find_exists_core e)
qed

text \<open>An environment that records its calls in the world.\<close>

definition recording :: "('w \<times> event list) lb_env \<Rightarrow> bool" where
  "recording env \<longleftrightarrow>
     (\<forall>wk c a i s l. \<exists>r s'. le_begin env wk c a i (s, l) = (r, (s', l @ [EvBeginLB (co_ID c) a i (r = None)]))) \<and>
     (\<forall>wk c a ob s l. \<exists>r s'. le_mutate env wk c a ob (s, l) = (r, (s', l @ [EvMutateLB (co_ID c) a (outcome r)])))"

text \<open>A quiet state change sends nothing; a request is an intent that failed or an intent and its call.\<close>

definition quiet :: "('w \<times> event list) lb_st \<Rightarrow> ('w \<times> event list) lb_st \<Rightarrow> bool" where
  "quiet st st' \<longleftrightarrow> ls_world st' = ls_world st \<and> ls_acted st' = ls_acted st \<and> same_facts (ls_o st) (ls_o st')"

definition requested ::
  "LoadBalancerComponent \<Rightarrow> action \<Rightarrow> event list \<Rightarrow> ('w \<times> event list) lb_st \<Rightarrow> bool \<Rightarrow> bool" where
  "requested c act l st' stopped \<longleftrightarrow>
     (\<exists>i. (stopped \<and> snd (ls_world st') = l @ [EvBeginLB (co_ID c) act i False]) \<or>
          (\<not> stopped \<and> ls_acted st' \<and> \<not> ls_allReady st' \<and>
           (\<exists>out. snd (ls_world st') = l @ [EvBeginLB (co_ID c) act i True, EvMutateLB (co_ID c) act out])))"

lemma quiet_trans: "quiet a b \<Longrightarrow> quiet b c \<Longrightarrow> quiet a c"
  by (auto simp: quiet_def intro: same_facts_trans)

lemma quiet_not_ready [simp]: "quiet st (lb_not_ready r st)" "quiet st (st\<lparr>ls_allReady := a\<rparr>)" "quiet st st"
  by (simp_all add: quiet_def lb_not_ready_def)

lemma quiet_replace:
  assumes "lbComponentObservation (ls_o st) i = Some v" and "core v' = core v"
  shows "quiet st (st\<lparr>ls_o := lbReplaceObservation (ls_o st) v'\<rparr>)"
    and "quiet st (lb_not_ready r (st\<lparr>ls_o := lbReplaceObservation (ls_o st) v'\<rparr>))"
  using assms by (simp_all add: quiet_def lb_not_ready_def same_facts_replace)

lemma lb_act_requested:
  assumes "recording env" and "lb_act env c v act st = (st', r)"
  shows "(r = LBreak \<or> (\<exists>e. r = LReturn e)) \<and> requested c act (snd (ls_world st)) st' (r \<noteq> LBreak)"
proof -
  obtain s l where w: "ls_world st = (s, l)" by (cases "ls_world st")
  obtain b s1 where b: "le_begin env (le_work env) c act (cb_Identity v) (s, l) = (b, (s1, l @ [EvBeginLB (co_ID c) act (cb_Identity v) (b = None)]))"
    using assms(1) unfolding recording_def by metis
  let ?c = "if cb_Identity v \<noteq> [] then c\<lparr>co_Identity := cb_Identity v\<rparr> else c"
  let ?l = "l @ [EvBeginLB (co_ID c) act (cb_Identity v) True]"
  obtain m s2 where m: "le_mutate env (le_work env) ?c act (ls_o st) (s1, ?l) = (m, (s2, ?l @ [EvMutateLB (co_ID ?c) act (outcome m)]))"
    using assms(1) unfolding recording_def by metis
  show ?thesis
  proof (cases b)
    case None
    with assms(2) w b m show ?thesis
      by (cases "cb_Identity v = []"; cases m) (auto simp: lb_act_def requested_def Let_def)
  next
    case (Some e)
    with assms(2) w b show ?thesis by (auto simp: lb_act_def requested_def)
  qed
qed

lemma lb_component_log:
  assumes "recording env" and "lb_component env c st = (st', r)"
  shows "(quiet st st' \<and> (r = LNext \<or> r = LBreak)) \<or>
    (\<exists>act. wants env (ls_o st) c act \<and> r \<noteq> LNext \<and> requested c act (snd (ls_world st)) st' (r \<noteq> LBreak))"
proof (cases "quiet st st' \<and> (r = LNext \<or> r = LBreak)")
  case False
  have "\<exists>act v. lb_act env c v act (st\<lparr>ls_allReady := False\<rparr>) = (st', r) \<and> wants env (ls_o st) c act"
    using assms(2) False
    by (auto simp: lb_component_def Let_def wants_def quiet_replace split: option.splits if_splits)
  then obtain act v where a: "lb_act env c v act (st\<lparr>ls_allReady := False\<rparr>) = (st', r)" "wants env (ls_o st) c act"
    by blast
  from lb_act_requested [OF assms(1) a(1)] a(2) show ?thesis by auto
qed simp

lemma quiet_facts: "quiet st st' \<Longrightarrow> ls_world st' = ls_world st" "quiet st st' \<Longrightarrow> same_facts (ls_o st) (ls_o st')"
  "quiet st st' \<Longrightarrow> ls_acted st' = ls_acted st"
  by (simp_all add: quiet_def)

lemma lb_components_log:
  assumes "recording env" and "lb_components env k cs st = (st', r)"
  shows "(quiet st st' \<and> (r = LNext \<or> r = LBreak)) \<or>
    (\<exists>c\<in>set cs. \<exists>act. co_Kind c = k \<and> wants env (ls_o st) c act \<and> r \<noteq> LNext \<and>
       requested c act (snd (ls_world st)) st' (r \<noteq> LBreak))"
  using assms(2)
proof (induction cs arbitrary: st)
  case (Cons c cs)
  show ?case
  proof (cases "co_Kind c = k")
    case False
    with Cons show ?thesis by fastforce
  next
    case True
    obtain st1 r1 where c: "lb_component env c st = (st1, r1)" by (cases "lb_component env c st")
    show ?thesis
    proof (cases "r1 = LNext")
      case next_: True
      with True c Cons.prems have rest: "lb_components env k cs st1 = (st', r)" by simp
      from lb_component_log [OF assms(1) c] next_ have q: "quiet st st1" by auto
      show ?thesis using Cons.IH [OF rest] q
        by (auto simp: wants_same [OF quiet_facts(2) [OF q]] quiet_facts(1) [OF q] intro: quiet_trans [OF q])
    next
      case False
      with True c Cons.prems have "st' = st1 \<and> r = r1" by (auto split: lb_ctl.splits)
      with lb_component_log [OF assms(1) c] True show ?thesis by auto
    qed
  qed
qed simp

lemma lb_kinds_log:
  assumes "recording env" and "lb_kinds env ks st = (st', e)" and "\<not> ls_acted st"
  shows "(quiet st st' \<and> e = None) \<or>
    (\<exists>c\<in>set (lw_Components (le_lb env)). \<exists>act. co_Kind c \<in> set ks \<and> wants env (ls_o st) c act
       \<and> (co_Kind c = CBackend \<and> le_deleting env \<longrightarrow> lo_GeneratedReleased (ls_o st) \<and> lo_AddressReleased (ls_o st))
       \<and> requested c act (snd (ls_world st)) st' (e \<noteq> None))"
  using assms(2,3)
proof (induction ks arbitrary: st)
  case (Cons k ks)
  obtain st1 r1 where c: "lb_components env k (lw_Components (le_lb env)) st = (st1, r1)"
    by (cases "lb_components env k (lw_Components (le_lb env)) st")
  show ?case
  proof (cases "k = CBackend \<and> le_deleting env \<and> (\<not> lo_GeneratedReleased (ls_o st) \<or> \<not> lo_AddressReleased (ls_o st))")
    case True
    with Cons.prems(1) show ?thesis by auto
  next
    case rel: False
    from lb_components_log [OF assms(1) c]
    consider (calm) "quiet st st1" "r1 = LNext \<or> r1 = LBreak"
      | (asked) cc act where "cc \<in> set (lw_Components (le_lb env))" "co_Kind cc = k" "wants env (ls_o st) cc act" "r1 \<noteq> LNext"
          "requested cc act (snd (ls_world st)) st1 (r1 \<noteq> LBreak)"
      by blast
    then show ?thesis
    proof cases
      case calm
      then have q: "quiet st st1" and r: "r1 = LNext \<or> r1 = LBreak" by simp_all
      have na: "\<not> ls_acted st1" using q Cons.prems(2) by (simp add: quiet_def)
      have sf: "same_facts (ls_o st) (ls_o st1)" using q by (simp add: quiet_def)
      show ?thesis
      proof (cases "lb_stop env st1")
        case True
        with rel c r Cons.prems(1) q show ?thesis by (auto split: if_splits)
      next
        case False
        with rel c r Cons.prems(1) have rest: "lb_kinds env ks st1 = (st', e)" by (auto split: if_splits)
        have rl: "lo_GeneratedReleased (ls_o st1) = lo_GeneratedReleased (ls_o st)"
          "lo_AddressReleased (ls_o st1) = lo_AddressReleased (ls_o st)" using sf by (simp_all add: same_facts_def)
        from Cons.IH [OF rest na] show ?thesis
          unfolding wants_same [OF sf] rl quiet_facts(1) [OF q] using quiet_trans [OF q] by fastforce
      qed
    next
      case a: (asked cc act)
      have "st' = st1 \<and> (e \<noteq> None) = (r1 \<noteq> LBreak)"
        using rel c a(4,5) Cons.prems(1)
        by (cases r1) (auto simp: requested_def lb_stop_def split: if_splits)
      with a rel show ?thesis by auto
    qed
  qed
qed simp

abbreviation lb_log :: "'w Worker \<Rightarrow> (nat \<Rightarrow> 64 word) \<Rightarrow> Work \<Rightarrow> 'w \<Rightarrow> event list" where
  "lb_log w jitter work s \<equiv> snd (snd (stepLoadBalancer (logged w) jitter work (s, [])))"

definition lb_requests :: "event list \<Rightarrow> (string \<times> action) list" where
  "lb_requests l = List.map_filter (\<lambda>e. case e of EvMutateLB c a _ \<Rightarrow> Some (c, a) | _ \<Rightarrow> None) l"

lemma lb_projections [simp]:
  "lb_requests [] = []" "lb_requests (a @ b) = lb_requests a @ lb_requests b"
  "lb_requests (EvMutateLB c x r # l) = (c, x) # lb_requests l" "lb_requests (EvBeginLB c x i ok # l) = lb_requests l"
  "lb_requests (EvObserveLB v # l) = lb_requests l" "lb_requests (EvFinish p # l) = lb_requests l"
  "finishes (EvMutateLB c x r # l) = finishes l" "finishes (EvBeginLB c x i ok # l) = finishes l"
  "finishes (EvObserveLB v # l) = finishes l"
  by (simp_all add: lb_requests_def finishes_def List.map_filter_def)

definition lb_deleting :: "Work \<Rightarrow> bool" where
  "lb_deleting work \<longleftrightarrow> rw_State (wk_Resource work) = Deleting \<or> rw_State (wk_Resource work) = Deleted"

text \<open>The loop of a step as the proofs see it: its environment, its first state and its result.\<close>

definition lb_loop ::
  "Work \<Rightarrow> LoadBalancerWork \<Rightarrow> LoadBalancerObservation \<Rightarrow> ('w \<times> event list) lb_env \<Rightarrow> ('w \<times> event list) lb_st \<Rightarrow> bool" where
  "lb_loop work lw ob env st \<longleftrightarrow> recording env \<and> le_lb env = lw \<and> le_work env = work \<and> le_deleting env = lb_deleting work
     \<and> le_allEligible env = lb_all_eligible ob \<and> same_facts ob (ls_o st) \<and> pg_Reason (ls_p st) = NoReason
     \<and> pg_OperationState (ls_p st) = Some Retrying \<and> pg_State (ls_p st) = rw_State (wk_Resource work)
     \<and> \<not> ls_acted st \<and> ls_allReady st = (\<not> lo_GeneratedConflict ob) \<and> snd (ls_world st) = [EvObserveLB (Inr ob)]"

lemma lb_final_frame [frame_simps]:
  "pg_State (lb_final pol j work p) = pg_State p" "pg_Reason (lb_final pol j work p) = pg_Reason p"
  "pg_LoadBalancer (lb_final pol j work p) = pg_LoadBalancer p"
  "pg_OperationState (lb_final pol j work p) =
     (if pg_Reason p \<in> {ProviderUnknown, ProviderOwnership, CleanupPending} then Some Blocked else pg_OperationState p)"
  by (simp_all add: lb_final_def Let_def)

lemma lb_log_cases:
  fixes w :: "'w Worker"
  obtains (unavailable) "lb_log w j work s = []"
  | (blind) e p where "lb_log w j work s = [EvObserveLB (Inl e), EvFinish p]" "pg_OperationState p = Some Blocked"
      "pg_State p = (if rw_State (wk_Resource work) = Available then Degraded else rw_State (wk_Resource work))"
  | (seen) lw ob and env :: "('w \<times> event list) lb_env" and st st' e where "rw_LoadBalancer (wk_Resource work) = Some lw" "lb_loop work lw ob env st"
      "lb_kinds env (lb_order (lo_GeneratedConflict ob) (lb_deleting work) (lb_all_eligible ob)) st = (st', e)"
      "lb_log w j work s = snd (ls_world st') @ (if e = None then
         [EvFinish (lb_final (wr_policy w) j work (lb_conclude work lw (lb_deleting work) (lb_all_eligible ob) st'))] else [])"
proof (cases "prov_LoadBalancer (wr_provider w) = None \<or> rp_BeginLoadBalancerMutation (wr_repository w) = None
    \<or> rw_LoadBalancer (wk_Resource work) = None")
  case True
  then show thesis
    by (intro unavailable) (auto simp: stepLoadBalancer_def logged_def split: option.splits prod.splits)
next
  case False
  then obtain observe mutate beginM lw where p: "prov_LoadBalancer (wr_provider w) = Some (observe, mutate)"
    "rp_BeginLoadBalancerMutation (wr_repository w) = Some beginM" "rw_LoadBalancer (wk_Resource work) = Some lw"
    by fastforce
  obtain r s1 where o1: "observe work s = (r, s1)" by (cases "observe work s")
  have pol: "wr_policy (logged w) = wr_policy w" by (simp add: logged_def)
  show thesis
  proof (cases r)
    case (Inl e)
    let ?q = "zero_progress\<lparr>pg_State := rw_State (wk_Resource work), pg_Identity := wk_KnownIdentity work,
       pg_NextDelay := wp_ObserveEvery (wr_policy w), pg_OperationState := Some Blocked, pg_Reason := providerReason e,
       pg_Backoff := True, pg_State := if rw_State (wk_Resource work) = Available then Degraded else rw_State (wk_Resource work)\<rparr>"
    show thesis
    proof (rule blind [of e "lb_final (wr_policy w) j work ?q"])
      show "lb_log w j work s = [EvObserveLB (Inl e), EvFinish (lb_final (wr_policy w) j work ?q)]"
        using p o1 Inl by (simp add: stepLoadBalancer_def logged_def zero_progress_def Let_def split: prod.splits)
    qed (simp_all add: lb_final_frame)
  next
    case (Inr ob)
    let ?env = "\<lparr>le_begin = (\<lambda>wk c a i (s, l). case beginM wk c a i s of (r, s') \<Rightarrow> (r, (s', l @ [EvBeginLB (co_ID c) a i (r = None)]))),
      le_mutate = (\<lambda>wk c a o1 (s, l). case mutate wk c a o1 s of (r, s') \<Rightarrow> (r, (s', l @ [EvMutateLB (co_ID c) a (outcome r)]))),
      le_policy = wr_policy w, le_work = work, le_lb = lw, le_deleting = lb_deleting work, le_allEligible = lb_all_eligible ob\<rparr>"
    let ?p = "zero_progress\<lparr>pg_State := rw_State (wk_Resource work), pg_Identity := wk_KnownIdentity work,
       pg_NextDelay := wp_ObserveEvery (wr_policy w), pg_OperationState := Some Retrying, pg_Observed := True, pg_Proof := lo_Proof ob\<rparr>"
    let ?st = "\<lparr>ls_o = ob\<lparr>lo_ConfigurationState := ''applying''\<rparr>, ls_p = ?p, ls_allReady = (\<not> lo_GeneratedConflict ob),
       ls_acted = False, ls_world = (s1, [EvObserveLB (Inr ob)])\<rparr>"
    obtain st' e where k: "lb_kinds ?env (lb_order (lo_GeneratedConflict ob) (lb_deleting work) (lb_all_eligible ob)) ?st = (st', e)"
      by (rule prod.exhaust)
    have el: "lb_all_eligible (ob\<lparr>lo_ConfigurationState := a\<rparr>) = lb_all_eligible ob" for a by (simp add: lb_all_eligible_def)
    have rec: "recording ?env" by (auto simp: recording_def split: prod.splits)
    show thesis
    proof (rule seen [OF p(3) _ k])
      show "lb_loop work lw ob ?env ?st" using rec by (simp add: lb_loop_def zero_progress_def same_facts_def)
      show "lb_log w j work s = snd (ls_world st') @ (if e = None then
         [EvFinish (lb_final (wr_policy w) j work (lb_conclude work lw (lb_deleting work) (lb_all_eligible ob) st'))] else [])"
        using p o1 Inr k
        by (cases "ls_world st'"; cases e) (simp_all add: stepLoadBalancer_def logged_def Let_def el lb_deleting_def zero_progress_def split: prod.splits)
    qed
  qed
qed

lemma lb_component_frame:
  "lb_component env c st = (st', r) \<Longrightarrow> pg_OperationState (ls_p st') = pg_OperationState (ls_p st) \<and> pg_State (ls_p st') = pg_State (ls_p st)"
  by (auto simp: lb_component_def lb_act_def lb_not_ready_def Let_def split: option.splits if_splits prod.splits sum.splits)

lemma lb_components_frame:
  "lb_components env k cs st = (st', r) \<Longrightarrow> pg_OperationState (ls_p st') = pg_OperationState (ls_p st) \<and> pg_State (ls_p st') = pg_State (ls_p st)"
  by (induction cs arbitrary: st) (auto split: if_splits prod.splits lb_ctl.splits dest!: lb_component_frame)

lemma lb_kinds_frame:
  "lb_kinds env ks st = (st', e) \<Longrightarrow> pg_OperationState (ls_p st') = pg_OperationState (ls_p st) \<and> pg_State (ls_p st') = pg_State (ls_p st)"
proof (induction ks arbitrary: st)
  case (Cons k ks)
  obtain st1 r1 where c: "lb_components env k (lw_Components (le_lb env)) st = (st1, r1)"
    by (cases "lb_components env k (lw_Components (le_lb env)) st")
  show ?case using Cons.prems Cons.IH [of st1] lb_components_frame [OF c] c
    by (auto simp: lb_not_ready_def split: if_splits lb_ctl.splits)
qed simp

lemma lb_binding_frame [frame_simps]:
  "pg_State (lb_binding work vs p) = pg_State p" "pg_Reason (lb_binding work vs p) = pg_Reason p"
  "pg_OperationState (lb_binding work vs p) = pg_OperationState p"
  unfolding lb_binding_def by (induction vs arbitrary: p) (simp_all add: Let_def)

lemma lb_conclude_succeeded:
  assumes "pg_OperationState (lb_conclude work lw deleting el st) = Some Succeeded"
    and "pg_OperationState (ls_p st) = Some Retrying"
  shows "ls_allReady st \<and> (if deleting then lo_GeneratedReleased (ls_o st) \<and> lo_AddressReleased (ls_o st)
      else el \<and> lo_DependenciesReady (ls_o st) \<and> lo_GeneratedReady (ls_o st))
    \<and> pg_State (lb_conclude work lw deleting el st) = (if deleting then Deleted else Available)"
  using assms by (auto simp: lb_conclude_def Let_def frame_simps split: if_splits)

lemma lb_conclude_deleted:
  assumes "pg_State (lb_conclude work lw deleting el st) = Deleted" and "pg_State (ls_p st) \<noteq> Deleted"
  shows "deleting \<and> ls_allReady st \<and> lo_GeneratedReleased (ls_o st) \<and> lo_AddressReleased (ls_o st)"
  using assms by (auto simp: lb_conclude_def Let_def frame_simps split: if_splits)

section \<open>Properties of a load balancer step\<close>

lemma requested_log:
  assumes "requested c act l st' stopped"
  obtains i where "stopped" "snd (ls_world st') = l @ [EvBeginLB (co_ID c) act i False]"
    | i out where "\<not> stopped" "snd (ls_world st') = l @ [EvBeginLB (co_ID c) act i True, EvMutateLB (co_ID c) act out]"
  using assms by (auto simp: requested_def)

text \<open>The log of a step that reached the component loop, in its three shapes.\<close>

lemma lb_loop_log:
  assumes "lb_loop work lw ob env st"
    and "lb_kinds env (lb_order (lo_GeneratedConflict ob) (lb_deleting work) (lb_all_eligible ob)) st = (st', e)"
  obtains (calm) "e = None" "snd (ls_world st') = [EvObserveLB (Inr ob)]"
  | (refused) c act i err where "e = Some err" "snd (ls_world st') = [EvObserveLB (Inr ob), EvBeginLB c act i False]"
  | (sent) c act i out where "e = None" "c \<in> set (lw_Components lw)" "wants env ob c act"
      "co_Kind c \<in> set (lb_order (lo_GeneratedConflict ob) (lb_deleting work) (lb_all_eligible ob))"
      "co_Kind c = CBackend \<and> lb_deleting work \<longrightarrow> lo_GeneratedReleased ob \<and> lo_AddressReleased ob"
      "snd (ls_world st') = [EvObserveLB (Inr ob), EvBeginLB (co_ID c) act i True, EvMutateLB (co_ID c) act out]"
proof -
  from assms(1) have L: "recording env" "\<not> ls_acted st" "same_facts ob (ls_o st)" "le_lb env = lw"
    "le_deleting env = lb_deleting work" "snd (ls_world st) = [EvObserveLB (Inr ob)]" by (simp_all add: lb_loop_def)
  have rl: "lo_GeneratedReleased (ls_o st) = lo_GeneratedReleased ob" "lo_AddressReleased (ls_o st) = lo_AddressReleased ob"
    using L(3) by (simp_all add: same_facts_def)
  from lb_kinds_log [OF L(1) assms(2) L(2)]
  consider "quiet st st'" "e = None"
    | c act where "c \<in> set (lw_Components lw)" "co_Kind c \<in> set (lb_order (lo_GeneratedConflict ob) (lb_deleting work) (lb_all_eligible ob))"
        "wants env ob c act" "co_Kind c = CBackend \<and> lb_deleting work \<longrightarrow> lo_GeneratedReleased ob \<and> lo_AddressReleased ob"
        "requested c act [EvObserveLB (Inr ob)] st' (e \<noteq> None)"
    unfolding wants_same [OF L(3)] rl L(4,5,6) by blast
  then show thesis
  proof cases
    case 1
    with L(6) show thesis by (intro calm) (simp_all add: quiet_def)
  next
    case (2 c act)
    from 2(5) show thesis
      by (rule requested_log) (use 2 in \<open>auto intro: refused sent\<close>)
  qed
qed

text \<open>C14: A load balancer step sends at most one provider request, and only directly after the committed intent for
  the same component and action; whatever the provider and the repository answer.\<close>

theorem lb_step_one_guarded_request:
  "guarded (lb_log w j work s) \<and> length (lb_requests (lb_log w j work s)) \<le> 1"
proof (cases rule: lb_log_cases [of w j work s])
  case (seen lw ob env st st' e)
  from seen(2,3) show ?thesis by (rule lb_loop_log) (simp_all add: seen(4))
qed simp_all

text \<open>A scripted provider and repository for load balancer work, with one backend.\<close>

definition scripted_lb ::
  "LoadBalancerObservation res \<Rightarrow> LoadBalancerComponentObservation res \<Rightarrow> unit Worker" where
  "scripted_lb seen result = (scripted (Inl ErrNoRows) (Inl ErrNoRows) None)
     \<lparr>wr_repository := (wr_repository (scripted (Inl ErrNoRows) (Inl ErrNoRows) None))
        \<lparr>rp_BeginLoadBalancerMutation := Some (\<lambda>_ _ _ _ s. (None, s))\<rparr>,
      wr_provider := (wr_provider (scripted (Inl ErrNoRows) (Inl ErrNoRows) None))
        \<lparr>prov_LoadBalancer := Some ((\<lambda>_ s. (seen, s)), (\<lambda>_ _ _ _ s. (result, s)))\<rparr>\<rparr>"

definition sample_lb :: LoadBalancer where
  "sample_lb = \<lparr>lb_Metadata = \<lparr>em_ID = ''lb'', em_Name = ''lb'', em_Description = [], em_State = Provisioning,
       em_Reason = NoReason, em_Version = 1, em_CreatedAt = 1, em_UpdatedAt = 1, em_ObservedAt = None,
       em_ObservationStale = False, em_LastOperationID = ''op''\<rparr>,
     lb_TenantID = ''t'', lb_VPCID = ''vpc'', lb_SubnetID = ''sub'', lb_Exposure = ''private'', lb_Flavor = ''small'',
     lb_PublicEIPID = [], lb_PrivateIP = ''10.0.0.9'', lb_PublicAddress = [],
     lb_Listener = \<lparr>ll_ID = ''l'', ll_Port = 8080\<rparr>,
     lb_Backends = [\<lparr>lbb_ID = ''m1'', lbb_SubnetID = ''sub'', lbb_Address = ''10.0.0.5'', lbb_Port = 80, lbb_Weight = 1,
       lbb_AttachmentID = ''att'', lbb_State = [], lbb_Reason = NoReason, lbb_ObservedAt = None, lbb_ObservationStale = False\<rparr>],
     lb_Health = \<lparr>lh_IntervalSeconds = 5, lh_TimeoutSeconds = 3, lh_UnhealthyThreshold = 3, lh_HealthyThreshold = 1, lh_Port = 80\<rparr>,
     lb_DesiredVersion = 1, lb_AppliedVersion = 0, lb_ConfigurationState = [], lb_DataPlaneState = [],
     lb_DataPlaneObservedAt = None\<rparr>"

definition sample_component :: "string \<Rightarrow> lb_kind \<Rightarrow> string \<Rightarrow> string \<Rightarrow> LoadBalancerComponent" where
  "sample_component i k member identity = \<lparr>co_ID = i, co_Kind = k, co_MemberID = member, co_Name = i, co_Identity = identity,
     co_PendingAction = NoAction, co_CreateDispatched = False, co_Deleted = False, co_TargetVersion = 1, co_AppliedVersion = 0\<rparr>"

definition sample_lb_work :: "resource_state \<Rightarrow> string \<Rightarrow> Work" where
  "sample_lb_work st identity = (sample_work st NoAction [])\<lparr>wk_Resource := (wk_Resource (sample_work st NoAction []))
     \<lparr>rw_Kind := KLoadBalancer, rw_LoadBalancer := Some \<lparr>lw_VIPOccupiedRevision = [], lw_VIPAbsenceRevision = [],
        lw_LoadBalancer = sample_lb, lw_Members = [],
        lw_Components = [sample_component ''b'' CBackend ''m1'' identity, sample_component ''r'' CRoute [] identity]\<rparr>\<rparr>\<rparr>"

definition sample_seen :: "bool \<Rightarrow> bool \<Rightarrow> LoadBalancerObservation" where
  "sample_seen exists released = \<lparr>lo_GeneratedConflict = False, lo_VIPOccupiedRevision = [], lo_VIPAbsenceRevision = [],
     lo_Proof = zero_proof,
     lo_Components = map (\<lambda>i. \<lparr>cb_Conflict = False, cb_ID = i, cb_Identity = (if exists then ''uid'' else []), cb_Exists = exists,
        cb_Matches = exists, cb_Ready = exists, cb_Deleting = False, cb_ClearPending = False, cb_Deleted = False,
        cb_AppliedVersion = 0\<rparr>) [''b'', ''r''],
     lo_Members = [\<lparr>mo_ID = ''m1'', mo_Eligible = True, mo_Reason = NoReason\<rparr>], lo_Generated = [],
     lo_DependenciesReady = True, lo_GeneratedReady = exists, lo_GeneratedReleased = released, lo_AddressReleased = released,
     lo_ConfigurationState = [], lo_AppliedVersion = 0\<rparr>"

lemmas lb_eval = stepLoadBalancer_def scripted_lb_def sample_lb_work_def sample_component_def sample_seen_def sample_lb_def
  lb_all_eligible_def lb_order_def lb_component_def lb_act_def lb_not_ready_def lb_stop_def lb_conclude_def lb_final_def
  lb_binding_def lbComponentObservation_def lbDesiredMember_def lbRouteCurrent_def lbReplaceObservation_def

text \<open>C15: A load balancer request is justified by the observation of the same step: a component is created only for an
  active operation of a load balancer that is not being deleted, with ready dependencies, every member eligible and no
  known or outstanding object; only policies and routes are updated; a component is deleted only when it was observed,
  and then only during deletion of the load balancer (backends after the generated resources and the address are
  released) or as a retired backend that the current route no longer uses.\<close>

theorem lb_request_is_justified:
  assumes "(i, act) \<in> set (lb_requests (lb_log w j work s))"
  shows "\<exists>lw ob c. rw_LoadBalancer (wk_Resource work) = Some lw \<and> EvObserveLB (Inr ob) \<in> set (lb_log w j work s)
    \<and> c \<in> set (lw_Components lw) \<and> co_ID c = i \<and>
    (let retired = (co_Kind c = CBackend \<and> \<not> lbDesiredMember lw (co_MemberID c)) in
     case act of
       NoAction \<Rightarrow> False
     | ActCreate \<Rightarrow> wk_ActiveOperation work \<and> \<not> lb_deleting work \<and> \<not> retired \<and> lb_all_eligible ob \<and> lo_DependenciesReady ob
         \<and> co_Identity c = [] \<and> \<not> co_Deleted c \<and> co_PendingAction c \<noteq> ActCreate
     | ActUpdate \<Rightarrow> \<not> lb_deleting work \<and> co_Kind c \<notin> {CGateway, CBackend}
     | ActDelete \<Rightarrow> map_option cb_Exists (lbComponentObservation ob i) = Some True
         \<and> (if lb_deleting work then co_Kind c \<noteq> CBackend \<or> (lo_GeneratedReleased ob \<and> lo_AddressReleased ob)
            else retired \<and> lbRouteCurrent lw ob))"
proof (cases rule: lb_log_cases [of w j work s])
  case (seen lw ob env st st' e)
  from seen(2) have env: "le_lb env = lw" "le_work env = work" "le_deleting env = lb_deleting work"
    "le_allEligible env = lb_all_eligible ob" by (simp_all add: lb_loop_def)
  from seen(2,3) show ?thesis
  proof (cases rule: lb_loop_log)
    case (sent c act' k out)
    with assms seen(4) have a: "i = co_ID c" "act' = act" by (simp_all split: if_splits)
    from sent(3,5) env a show ?thesis
      by (intro exI [of _ lw] exI [of _ ob] exI [of _ c])
        (use seen(1,4) sent in \<open>auto simp: wants_def Let_def split: action.splits if_splits\<close>)
  qed (use assms seen(4) in simp_all)
qed (use assms in simp_all)

theorem lb_request_is_justified_witness:
  "lb_requests (lb_log (scripted_lb (Inr (sample_seen False False)) (Inl DeadlineExceeded)) (\<lambda>_. 0)
     (sample_lb_work Provisioning []) ()) = [(''b'', ActCreate)]
   \<and> (\<exists>lw ob c. rw_LoadBalancer (wk_Resource (sample_lb_work Provisioning [])) = Some lw \<and> c \<in> set (lw_Components lw)
        \<and> co_ID c = ''b'' \<and> lb_all_eligible ob)"
proof -
  let ?w = "scripted_lb (Inr (sample_seen False False)) (Inl DeadlineExceeded)" let ?work = "sample_lb_work Provisioning []"
  have l: "lb_requests (lb_log ?w (\<lambda>_. 0) ?work ()) = [(''b'', ActCreate)]"
    by (simp add: lb_eval step_eval)
  from lb_request_is_justified [of "''b''" ActCreate ?w "\<lambda>_. 0" ?work "()"] l show ?thesis by auto
qed

text \<open>The components a load balancer has are of the four kinds the step orders.\<close>

definition known_kinds :: "LoadBalancerWork \<Rightarrow> bool" where
  "known_kinds lw \<longleftrightarrow> list_all (\<lambda>c. co_Kind c \<in> {CBackend, CGateway, CPolicy, CRoute}) (lw_Components lw)"

lemma lb_loop_ready:
  assumes "lb_loop work lw ob env st" and "known_kinds lw" and "ls_allReady st'"
    and "lb_kinds env (lb_order (lo_GeneratedConflict ob) (lb_deleting work) (lb_all_eligible ob)) st = (st', e)"
  shows "\<not> lo_GeneratedConflict ob \<and> same_facts ob (ls_o st') \<and> snd (ls_world st') = [EvObserveLB (Inr ob)]
    \<and> list_all (component_done env ob) (lw_Components lw)"
proof -
  from assms(1) have L: "same_facts ob (ls_o st)" "pg_Reason (ls_p st) = NoReason" "\<not> ls_acted st" "le_lb env = lw"
    "ls_allReady st = (\<not> lo_GeneratedConflict ob)" "snd (ls_world st) = [EvObserveLB (Inr ob)]" by (simp_all add: lb_loop_def)
  note R = lb_kinds_ready [OF assms(4,3) L(2,3)]
  with L(5) have nc: "\<not> lo_GeneratedConflict ob" by simp
  then have "set (lb_order (lo_GeneratedConflict ob) (lb_deleting work) (lb_all_eligible ob)) = {CBackend, CGateway, CPolicy, CRoute}"
    by (auto simp: lb_order_def)
  with R L assms(2) nc show ?thesis
    by (auto simp: component_done_same [OF L(1)] list_all_iff known_kinds_def intro: same_facts_trans)
qed

text \<open>C16: A load balancer is recorded as deleted only by a step that sends no request and observed every component
  absent with no create outstanding and no conflicting owner, and the generated resources and the address released.\<close>

theorem lb_deleted_only_when_released:
  assumes "p \<in> set (finishes (lb_log w j work s))" and "pg_State p = Deleted" and "rw_State (wk_Resource work) \<noteq> Deleted"
    and "rw_LoadBalancer (wk_Resource work) = Some lw" and "known_kinds lw"
  shows "lb_requests (lb_log w j work s) = [] \<and>
    (\<exists>ob. EvObserveLB (Inr ob) \<in> set (lb_log w j work s) \<and> lo_GeneratedReleased ob \<and> lo_AddressReleased ob
       \<and> \<not> lo_GeneratedConflict ob
       \<and> list_all (\<lambda>c. (case lbComponentObservation ob (co_ID c) of None \<Rightarrow> False | Some v \<Rightarrow> \<not> cb_Exists v \<and> \<not> cb_Conflict v)
            \<and> co_PendingAction c \<noteq> ActCreate) (lw_Components lw))"
proof (cases rule: lb_log_cases [of w j work s])
  case (seen lw' ob env st st' e)
  with assms(4) have lw: "lw' = lw" by simp
  from seen(2) have st: "pg_State (ls_p st) = rw_State (wk_Resource work)" "le_deleting env = lb_deleting work"
    by (simp_all add: lb_loop_def)
  from seen(2,3) have nf: "finishes (snd (ls_world st')) = []" by (rule lb_loop_log) simp_all
  with assms(1) seen(4) have e: "e = None" and p: "p = lb_final (wr_policy w) j work (lb_conclude work lw (lb_deleting work) (lb_all_eligible ob) st')"
    by (auto simp: lw split: if_splits)
  have "pg_State (ls_p st') \<noteq> Deleted" using lb_kinds_frame [OF seen(3)] st assms(3) by simp
  from lb_conclude_deleted [OF _ this, of work lw "lb_deleting work" "lb_all_eligible ob"] assms(2) p
  have d: "lb_deleting work" "ls_allReady st'" "lo_GeneratedReleased (ls_o st')" "lo_AddressReleased (ls_o st')"
    by (simp_all add: frame_simps)
  from lb_loop_ready [OF seen(2) [unfolded lw] assms(5) d(2) seen(3)]
  have R: "\<not> lo_GeneratedConflict ob" "same_facts ob (ls_o st')" "snd (ls_world st') = [EvObserveLB (Inr ob)]"
    "list_all (component_done env ob) (lw_Components lw)" by simp_all
  have "lo_GeneratedReleased ob" "lo_AddressReleased ob" using R(2) d by (simp_all add: same_facts_def)
  moreover have "list_all (\<lambda>c. (case lbComponentObservation ob (co_ID c) of None \<Rightarrow> False | Some v \<Rightarrow> \<not> cb_Exists v \<and> \<not> cb_Conflict v)
            \<and> co_PendingAction c \<noteq> ActCreate) (lw_Components lw)"
    using R(4) st(2) d(1) by (auto simp: list_all_iff component_done_def split: option.splits dest!: bspec)
  ultimately show ?thesis using R e seen(4) by auto
qed (use assms in \<open>auto split: if_splits\<close>)

theorem lb_deleted_only_when_released_witness:
  "(let l = lb_log (scripted_lb (Inr (sample_seen False True)) (Inl ErrNoRows)) (\<lambda>_. 0) (sample_lb_work Deleting ''uid'') () in
    map pg_State (finishes l) = [Deleted] \<and> lb_requests l = [])"
proof -
  let ?w = "scripted_lb (Inr (sample_seen False True)) (Inl ErrNoRows)" let ?work = "sample_lb_work Deleting ''uid''"
  have f: "map pg_State (finishes (lb_log ?w (\<lambda>_. 0) ?work ())) = [Deleted]"
    by (simp add: lb_eval step_eval)
  then obtain p where p: "p \<in> set (finishes (lb_log ?w (\<lambda>_. 0) ?work ()))" "pg_State p = Deleted"
    by (cases "finishes (lb_log ?w (\<lambda>_. 0) ?work ())") auto
  obtain lw where lw: "rw_LoadBalancer (wk_Resource ?work) = Some lw" "known_kinds lw"
    by (simp add: sample_lb_work_def known_kinds_def sample_component_def)
  have "rw_State (wk_Resource ?work) \<noteq> Deleted" by (simp add: sample_lb_work_def sample_work_def)
  from lb_deleted_only_when_released [OF p this lw] f show ?thesis by simp
qed

text \<open>C17: A load balancer operation that is not a deletion succeeds only by a step that observed every member eligible,
  the dependencies and the generated resources ready, every wanted component present with a matching identity and
  configuration and ready, and every retired backend absent.\<close>

theorem lb_configured_only_when_all_ready:
  assumes "p \<in> set (finishes (lb_log w j work s))" and "pg_OperationState p = Some Succeeded" and "\<not> lb_deleting work"
    and "rw_LoadBalancer (wk_Resource work) = Some lw" and "known_kinds lw"
  shows "pg_State p = Available \<and>
    (\<exists>ob. EvObserveLB (Inr ob) \<in> set (lb_log w j work s) \<and> lb_all_eligible ob \<and> lo_DependenciesReady ob \<and> lo_GeneratedReady ob
       \<and> list_all (\<lambda>c. case lbComponentObservation ob (co_ID c) of None \<Rightarrow> False | Some v \<Rightarrow>
            if co_Kind c = CBackend \<and> \<not> lbDesiredMember lw (co_MemberID c) then \<not> cb_Exists v
            else cb_Exists v \<and> cb_Matches v \<and> cb_Ready v \<and> (co_Identity c = [] \<or> co_Identity c = cb_Identity v))
          (lw_Components lw))"
proof (cases rule: lb_log_cases [of w j work s])
  case (seen lw' ob env st st' e)
  with assms(4) have lw: "lw' = lw" by simp
  from seen(2) have st: "pg_OperationState (ls_p st) = Some Retrying" "le_deleting env = lb_deleting work" "le_lb env = lw"
    by (simp_all add: lb_loop_def lw)
  from seen(2,3) have nf: "finishes (snd (ls_world st')) = []" by (rule lb_loop_log) simp_all
  with assms(1) seen(4) have e: "e = None" and p: "p = lb_final (wr_policy w) j work (lb_conclude work lw (lb_deleting work) (lb_all_eligible ob) st')"
    by (auto simp: lw split: if_splits)
  have "pg_OperationState (ls_p st') = Some Retrying" using lb_kinds_frame [OF seen(3)] st by simp
  from lb_conclude_succeeded [OF _ this, of work lw "lb_deleting work" "lb_all_eligible ob"] assms(2,3) p
  have d: "ls_allReady st'" "lb_all_eligible ob" "lo_DependenciesReady (ls_o st')" "lo_GeneratedReady (ls_o st')" "pg_State p = Available"
    by (auto simp: frame_simps split: if_splits)
  from lb_loop_ready [OF seen(2) [unfolded lw] assms(5) d(1) seen(3)]
  have R: "same_facts ob (ls_o st')" "snd (ls_world st') = [EvObserveLB (Inr ob)]"
    "list_all (component_done env ob) (lw_Components lw)" by simp_all
  have "lo_DependenciesReady ob" "lo_GeneratedReady ob" using R(1) d by (simp_all add: same_facts_def)
  moreover have "list_all (\<lambda>c. case lbComponentObservation ob (co_ID c) of None \<Rightarrow> False | Some v \<Rightarrow>
            if co_Kind c = CBackend \<and> \<not> lbDesiredMember lw (co_MemberID c) then \<not> cb_Exists v
            else cb_Exists v \<and> cb_Matches v \<and> cb_Ready v \<and> (co_Identity c = [] \<or> co_Identity c = cb_Identity v)) (lw_Components lw)"
    using R(3) st(2,3) assms(3)
    by (auto simp: list_all_iff component_done_def split: option.splits if_splits dest!: bspec)
  ultimately show ?thesis using R(2) d e seen(4) by auto
qed (use assms in \<open>auto split: if_splits\<close>)

theorem lb_configured_only_when_all_ready_witness:
  "(let l = lb_log (scripted_lb (Inr (sample_seen True False)) (Inl ErrNoRows)) (\<lambda>_. 0) (sample_lb_work Provisioning []) () in
    map pg_OperationState (finishes l) = [Some Succeeded] \<and> map pg_State (finishes l) = [Available])"
proof -
  let ?w = "scripted_lb (Inr (sample_seen True False)) (Inl ErrNoRows)" let ?work = "sample_lb_work Provisioning []"
  have f: "map pg_OperationState (finishes (lb_log ?w (\<lambda>_. 0) ?work ())) = [Some Succeeded]"
    by (simp add: lb_eval step_eval)
  then obtain p where p: "finishes (lb_log ?w (\<lambda>_. 0) ?work ()) = [p]" "pg_OperationState p = Some Succeeded"
    by (cases "finishes (lb_log ?w (\<lambda>_. 0) ?work ())") auto
  obtain lw where lw: "rw_LoadBalancer (wk_Resource ?work) = Some lw" "known_kinds lw"
    by (simp add: sample_lb_work_def known_kinds_def sample_component_def)
  have "\<not> lb_deleting ?work" by (simp add: lb_deleting_def sample_lb_work_def sample_work_def)
  from lb_configured_only_when_all_ready [of p ?w "\<lambda>_. 0" ?work "()" lw] this p lw f show ?thesis by simp
qed

section \<open>What stops a step\<close>

lemma lb_component_error:
  assumes "lb_component env c st = (st', LReturn e)"
  obtains a i s1 s2 where "le_begin env (le_work env) c a i s1 = (Some e, s2)"
  using assms by (auto simp: lb_component_def lb_act_def Let_def split: if_splits option.splits prod.splits sum.splits)

lemma lb_components_error:
  assumes "lb_components env k cs st = (st', LReturn e)"
  obtains c a i s1 s2 where "le_begin env (le_work env) c a i s1 = (Some e, s2)"
  using assms
  by (induction cs arbitrary: st) (auto split: if_splits prod.splits lb_ctl.splits elim: lb_component_error)

lemma lb_kinds_error:
  assumes "lb_kinds env ks st = (st', Some e)"
  obtains c a i s1 s2 where "le_begin env (le_work env) c a i s1 = (Some e, s2)"
  using assms
  by (induction ks arbitrary: st) (auto split: if_splits prod.splits lb_ctl.splits elim: lb_components_error)

lemma lbLeaseResult_Some: "lbLeaseResult r = Some e \<Longrightarrow> r = Some e"
  by (auto simp: lbLeaseResult_def split: option.splits if_splits)

lemma stepLoadBalancer_error:
  assumes "stepLoadBalancer w j work s = (Some e, s')"
  obtains "e = OtherError ''LB lifecycle dependencies unavailable''"
  | begin_lb c a i s1 s2 where "rp_BeginLoadBalancerMutation (wr_repository w) = Some begin_lb" "begin_lb work c a i s1 = (Some e, s2)"
  | q s1 s2 where "rp_Finish (wr_repository w) work q s1 = (Some e, s2)"
  using assms
  by (auto simp: stepLoadBalancer_def Let_def split: option.splits prod.splits sum.splits dest!: lbLeaseResult_Some elim: lb_kinds_error)

text \<open>C18: Every error that a step of the worker reports is one that a transaction of the repository returned (or that the load
  balancer interfaces are not wired), and it is never the loss of a lease. So a provider that fails, rejects a request, loses the
  answer or reports a foreign object never makes a step fail, for any kind of resource and at any point of the step, and neither does
  another executor that took over the item.\<close>

theorem step_errors_come_from_the_repository:
  assumes "\<And>s' e. rp_Claim (wr_repository w) (wr_owner w) (wp_Lease (wr_policy w)) s = (Inl e, s') \<Longrightarrow> E e"
    and "\<And>work a i s1 s2 e. rp_BeginMutation (wr_repository w) work a i s1 = (Some e, s2) \<Longrightarrow> E e"
    and "\<And>begin_lb work c a i s1 s2 e. rp_BeginLoadBalancerMutation (wr_repository w) = Some begin_lb \<Longrightarrow> begin_lb work c a i s1 = (Some e, s2) \<Longrightarrow> E e"
    and "\<And>work q s1 s2 e. rp_Finish (wr_repository w) work q s1 = (Some e, s2) \<Longrightarrow> E e"
    and "worker_step w jitter s = ((worked, Some e), s')"
  shows "\<not> errors_is e ErrLeaseLost \<and> (E e \<or> e = OtherError ''LB lifecycle dependencies unavailable'')"
proof -
  have step: "\<not> errors_is e ErrLeaseLost" if "lease_result r = Some e" for r
    using that by (auto simp: lease_result_def split: option.splits if_splits)
  have "r = Some e" if "lease_result r = Some e" for r
    using that by (auto simp: lease_result_def split: option.splits if_splits)
  with step assms(5) show ?thesis
    unfolding worker_step_def
    by (fastforce split: prod.splits sum.splits if_splits elim: run_work_error stepLoadBalancer_error intro: assms(1-4))
qed

definition failing_worker :: "unit Worker" where
  "failing_worker = (scripted (Inr (seen_object False False [])) (Inl ErrNoRows) None)\<lparr>wr_repository :=
     \<lparr>rp_Claim = (\<lambda>_ _ s. (Inr (sample_work Provisioning NoAction [], True), s)),
      rp_BeginMutation = (\<lambda>_ _ _ s. (Some (OtherError ''down''), s)), rp_Finish = (\<lambda>_ _ s. (None, s)), rp_BeginLoadBalancerMutation = None\<rparr>\<rparr>"

theorem step_errors_come_from_the_repository_witness:
  "worker_step failing_worker (\<lambda>_. 0) () = ((True, Some (OtherError ''down'')), ()) \<and> \<not> errors_is (OtherError ''down'') ErrLeaseLost"
proof -
  have step: "worker_step failing_worker (\<lambda>_. 0) () = ((True, Some (OtherError ''down'')), ())"
    by (simp add: worker_step_def failing_worker_def lease_result_def step_eval)
  from step have "\<not> errors_is (OtherError ''down'') ErrLeaseLost \<and> (OtherError ''down'' = OtherError ''down''
      \<or> OtherError ''down'' = OtherError ''LB lifecycle dependencies unavailable'')"
    by (rule step_errors_come_from_the_repository [where E = "\<lambda>e. e = OtherError ''down''", rotated 4])
      (simp_all add: failing_worker_def scripted_def)
  with step show ?thesis by blast
qed

end
