(* ===== verification/Net_Attachment.thy ===== *)
theory Net_Attachment
  imports Net_Worker
begin

text \<open>
  Attachments of instances to subnets: \<^verbatim>\<open>internal/biz/network/attachment.go\<close> (the use cases
  \<^verbatim>\<open>Prepare\<close>, \<^verbatim>\<open>Get\<close>, \<^verbatim>\<open>Confirm\<close>, \<^verbatim>\<open>Release\<close> and the request fingerprint) and
  \<^verbatim>\<open>attachment_worker.go\<close> (one step of the attachment worker, which joins the consumer's
  submission and the provider's observation).
\<close>

section \<open>Data\<close>

datatype attachment_state = Reserved | Attached | Releasing | Released

record PodPrimaryPlan =
  pl_FormatVersion :: int
  pl_Namespace :: string
  pl_PrimaryNetworkRef :: string
  pl_TenantID :: string
  pl_InstanceID :: string
  pl_AttachmentID :: string
  pl_SubmissionID :: string
  pl_Generation :: int

record Attachment =
  a_ID :: string
  a_TenantID :: string
  a_VPCID :: string
  a_SubnetID :: string
  a_InstanceID :: string
  a_Slot :: string
  a_SubmissionID :: string
  a_Generation :: int
  a_ClusterID :: string
  a_Namespace :: string
  a_BindingRevision :: string
  a_State :: attachment_state
  a_Reason :: reason
  a_Version :: int
  a_Plan :: "PodPrimaryPlan option"
  a_PodName :: string
  a_PodUID :: string
  a_ConfirmUID :: string
  a_FinalizationID :: string
  a_CreatedAt :: go_time
  a_UpdatedAt :: go_time
  a_ObservedAt :: "go_time option"
  a_ReleasedAt :: "go_time option"

record PrepareAttachment =
  pa_TenantID :: string
  pa_InstanceID :: string
  pa_SubnetID :: string
  pa_VPCID :: string
  pa_Slot :: string
  pa_RequestKey :: string
  pa_SubmissionID :: string
  pa_Generation :: int
  pa_ClusterID :: string
  pa_Namespace :: string

record ConfirmAttachment =
  ca_TenantID :: string
  ca_AttachmentID :: string
  ca_ClusterID :: string
  ca_Namespace :: string
  ca_PodName :: string
  ca_PodUID :: string
  ca_ExpectedVersion :: int

record ReleaseAttachment =
  ra_TenantID :: string
  ra_AttachmentID :: string
  ra_FinalizationID :: string
  ra_ExpectedVersion :: int

definition PrepareAttachment_Fingerprint :: "PrepareAttachment \<Rightarrow> string" where
  "PrepareAttachment_Fingerprint r = fingerprint_of (JObj
     [(''Version'', JInt 1),
      (''Intent'', JObj
        [(''TenantID'', JStr (pa_TenantID r)), (''InstanceID'', JStr (pa_InstanceID r)),
         (''SubnetID'', JStr (pa_SubnetID r)), (''VPCID'', JStr (pa_VPCID r)), (''Slot'', JStr (pa_Slot r)),
         (''RequestKey'', JStr []), (''SubmissionID'', JStr (pa_SubmissionID r)),
         (''Generation'', JInt (pa_Generation r)), (''ClusterID'', JStr (pa_ClusterID r)),
         (''Namespace'', JStr (pa_Namespace r))])])"

section \<open>The request grammar\<close>

definition ascii_alnum :: "char \<Rightarrow> bool" where
  "ascii_alnum c \<longleftrightarrow> ascii_digit c \<or> ascii_lower c \<or> ascii_upper c"

text \<open>\<^verbatim>\<open>^[A-Za-z0-9][A-Za-z0-9_.-]{0,62}$\<close>\<close>

definition attachmentName :: "string \<Rightarrow> bool" where
  "attachmentName s = (case s of [] \<Rightarrow> False
     | c # cs \<Rightarrow> ascii_alnum c \<and> length cs \<le> 62 \<and> list_all (\<lambda>x. ascii_alnum x \<or> x \<in> set ''_.-'') cs)"

text \<open>\<^verbatim>\<open>^[a-z0-9]([-a-z0-9]{0,61}[a-z0-9])?$\<close>\<close>

definition ascii_lower_digit :: "char \<Rightarrow> bool" where
  "ascii_lower_digit c \<longleftrightarrow> ascii_digit c \<or> ascii_lower c"

definition namespaceName :: "string \<Rightarrow> bool" where
  "namespaceName s = (case s of [] \<Rightarrow> False
     | c # cs \<Rightarrow> ascii_lower_digit c \<and> (cs = [] \<or> (length cs \<le> 62 \<and> ascii_lower_digit (last cs)
         \<and> list_all (\<lambda>x. ascii_lower_digit x \<or> x = CHR ''-'') (butlast cs))))"

definition hex_digit :: "char \<Rightarrow> bool" where
  "hex_digit c \<longleftrightarrow> ascii_digit c \<or> (97 \<le> byte_of c \<and> byte_of c \<le> 102) \<or> (65 \<le> byte_of c \<and> byte_of c \<le> 70)"

definition attachmentScope :: "(string \<Rightarrow> string option) \<Rightarrow> string \<Rightarrow> string \<Rightarrow> string res" where
  "attachmentScope uuid_Parse tenant i =
     (case ParseTenant uuid_Parse tenant of
        Inl e \<Rightarrow> Inl e
      | Inr t \<Rightarrow>
          if \<not> hasPrefix i ''att_'' \<or> length i \<noteq> 36 then Inl (Fail ResourceNotFound ''attachment not found'')
          else if \<not> list_all hex_digit (drop 4 i) then Inl (Fail ResourceNotFound ''attachment not found'')
          else Inr t)"

section \<open>Use cases\<close>

record 'w AttachmentRepository =
  ar_PrepareAttachment :: "PrepareAttachment \<Rightarrow> duration \<Rightarrow> 'w \<Rightarrow> Attachment res \<times> 'w"
  ar_GetAttachment :: "string \<Rightarrow> string \<Rightarrow> 'w \<Rightarrow> Attachment res \<times> 'w"
  ar_ConfirmAttachment :: "ConfirmAttachment \<Rightarrow> 'w \<Rightarrow> Attachment res \<times> 'w"
  ar_ReleaseAttachment :: "ReleaseAttachment \<Rightarrow> 'w \<Rightarrow> Attachment res \<times> 'w"

record 'w Attachments =
  as_repository :: "'w AttachmentRepository"
  as_freshness :: duration

definition prepare_valid :: "(string \<Rightarrow> string option) \<Rightarrow> PrepareAttachment \<Rightarrow> bool" where
  "prepare_valid uuid_Parse r \<longleftrightarrow>
     (case uuid_Parse (pa_SubmissionID r) of None \<Rightarrow> False
      | Some u \<Rightarrow> u \<noteq> uuid_Nil \<and> pa_SubmissionID r = u)
     \<and> 1 \<le> pa_Generation r \<and> attachmentName (pa_InstanceID r) \<and> pa_Slot r = ''primary''
     \<and> trim_space (pa_RequestKey r) = pa_RequestKey r \<and> 1 \<le> length (pa_RequestKey r) \<and> length (pa_RequestKey r) \<le> 128
     \<and> validSubnetID (pa_SubnetID r) \<and> (pa_VPCID r = [] \<or> validVPCID (pa_VPCID r))
     \<and> trim_space (pa_ClusterID r) \<noteq> [] \<and> length (pa_ClusterID r) \<le> 128 \<and> namespaceName (pa_Namespace r)"

definition Prepare ::
  "(string \<Rightarrow> string option) \<Rightarrow> 'w Attachments \<Rightarrow> PrepareAttachment \<Rightarrow> 'w \<Rightarrow> Attachment res \<times> 'w" where
  "Prepare uuid_Parse a r s =
     (case ParseTenant uuid_Parse (pa_TenantID r) of
        Inl e \<Rightarrow> (Inl e, s)
      | Inr tenant \<Rightarrow>
          (let r = r\<lparr>pa_TenantID := tenant\<rparr> in
           if \<not> prepare_valid uuid_Parse r then (Inl (Fail InvalidArgument ''invalid attachment intent''), s)
           else ar_PrepareAttachment (as_repository a) r (as_freshness a) s))"

definition Attachments_Get ::
  "(string \<Rightarrow> string option) \<Rightarrow> 'w Attachments \<Rightarrow> string \<Rightarrow> string \<Rightarrow> 'w \<Rightarrow> Attachment res \<times> 'w" where
  "Attachments_Get uuid_Parse a t i s =
     (case attachmentScope uuid_Parse t i of
        Inl e \<Rightarrow> (Inl e, s) | Inr t \<Rightarrow> ar_GetAttachment (as_repository a) t i s)"

definition Confirm ::
  "(string \<Rightarrow> string option) \<Rightarrow> 'w Attachments \<Rightarrow> ConfirmAttachment \<Rightarrow> 'w \<Rightarrow> Attachment res \<times> 'w" where
  "Confirm uuid_Parse a r s =
     (case attachmentScope uuid_Parse (ca_TenantID r) (ca_AttachmentID r) of
        Inl e \<Rightarrow> (Inl e, s)
      | Inr t \<Rightarrow>
          (let r = r\<lparr>ca_TenantID := t\<rparr> in
           if ca_PodUID r = [] \<or> 128 < length (ca_PodUID r) \<or> \<not> namespaceName (ca_PodName r) \<or> ca_ExpectedVersion r < 1
           then (Inl (Fail InvalidArgument ''immutable Pod identity and version required''), s)
           else ar_ConfirmAttachment (as_repository a) r s))"

definition Release ::
  "(string \<Rightarrow> string option) \<Rightarrow> 'w Attachments \<Rightarrow> ReleaseAttachment \<Rightarrow> 'w \<Rightarrow> Attachment res \<times> 'w" where
  "Release uuid_Parse a r s =
     (case attachmentScope uuid_Parse (ra_TenantID r) (ra_AttachmentID r) of
        Inl e \<Rightarrow> (Inl e, s)
      | Inr t \<Rightarrow>
          (let r = r\<lparr>ra_TenantID := t\<rparr> in
           case uuid_Parse (ra_FinalizationID r) of
             None \<Rightarrow> (Inl (Fail InvalidArgument ''stable finalization identity and version required''), s)
           | Some u \<Rightarrow>
               if u = uuid_Nil \<or> ra_FinalizationID r \<noteq> u \<or> ra_ExpectedVersion r < 1
               then (Inl (Fail InvalidArgument ''stable finalization identity and version required''), s)
               else ar_ReleaseAttachment (as_repository a) r s))"

section \<open>The attachment worker\<close>

record AttachmentWork =
  aw_Requirement :: ObservationRequirement
  aw_Now :: go_time
  aw_RequireFreshRelations :: bool
  aw_Attachment :: Attachment
  aw_Plan :: PodPrimaryPlan
  aw_Relations :: string
  aw_ConsumerPodUIDs :: "string list"
  aw_ProtocolBlocked :: bool
  aw_Owner :: string
  aw_Epoch :: int

record AttachmentProgress =
  ap_Proof :: ObservationProof
  ap_Backoff :: bool
  ap_State :: attachment_state
  ap_Reason :: reason
  ap_PodName :: string
  ap_PodUID :: string
  ap_FinalizationID :: string
  ap_Relations :: string
  ap_Observed :: bool
  ap_ProtocolBlocked :: bool
  ap_NextDelay :: duration

record AttachmentObservation =
  ao_Proof :: ObservationProof
  ao_Exists :: bool
  ao_HasDependencies :: bool
  ao_PodName :: string
  ao_PodUID :: string
  ao_Relations :: string

record ConsumerSubmission =
  cn_ProtocolVersion :: int
  cn_TenantID :: string
  cn_InstanceID :: string
  cn_SubmissionID :: string
  cn_AttachmentID :: string
  cn_ClusterID :: string
  cn_Namespace :: string
  cn_Generation :: int
  cn_State :: string
  cn_FinalizationID :: string
  cn_PodUIDs :: "string list"
  cn_ControllerUIDs :: "string list"
  cn_ClosedAt :: "go_time option"

record 'w AttachmentWorker =
  aq_ClaimAttachment :: "string \<Rightarrow> duration \<Rightarrow> 'w \<Rightarrow> (AttachmentWork \<times> bool) res \<times> 'w"
  aq_FinishAttachment :: "AttachmentWork \<Rightarrow> AttachmentProgress \<Rightarrow> 'w \<Rightarrow> goerr option \<times> 'w"
  aq_ObserveAttachment :: "AttachmentWork \<Rightarrow> 'w \<Rightarrow> AttachmentObservation res \<times> 'w"
  aq_GetSubmission :: "Attachment \<Rightarrow> 'w \<Rightarrow> ConsumerSubmission res \<times> 'w"
  aq_owner :: string
  aq_policy :: WorkerPolicy

text \<open>The guard of \<^verbatim>\<open>NewAttachmentWorker\<close> (non-nil dependencies are \<open>present\<close>).\<close>

definition attachment_worker_ok :: "(string \<Rightarrow> string option) \<Rightarrow> bool \<Rightarrow> nat \<Rightarrow> string \<Rightarrow> WorkerPolicy \<Rightarrow> bool" where
  "attachment_worker_ok uuid_Parse present observers owner policy \<longleftrightarrow>
     \<not> (1 < observers \<or> (case uuid_Parse owner of None \<Rightarrow> True | Some u \<Rightarrow> u = uuid_Nil) \<or> \<not> present
        \<or> wp_RequestTimeout policy \<le> 0 \<or> wp_Lease policy < wrap64 (3 * wp_RequestTimeout policy) \<or> wp_ObserveEvery policy \<le> 0)"

definition validConsumer :: "(string \<Rightarrow> string option) \<Rightarrow> Attachment \<Rightarrow> ConsumerSubmission \<Rightarrow> bool" where
  "validConsumer uuid_Parse a c =
     (if 1 < length (cn_PodUIDs c) then False
      else if list_ex (\<lambda>i. i = []) (cn_PodUIDs c) then False
      else if cn_ProtocolVersion c \<noteq> 1 \<or> cn_TenantID c \<noteq> a_TenantID a \<or> cn_InstanceID c \<noteq> a_InstanceID a
        \<or> cn_SubmissionID c \<noteq> a_SubmissionID a \<or> cn_Generation c \<noteq> a_Generation a \<or> cn_AttachmentID c \<noteq> a_ID a
        \<or> cn_ClusterID c \<noteq> a_ClusterID a \<or> cn_Namespace c \<noteq> a_Namespace a then False
      else if cn_State c \<noteq> ''open'' \<and> cn_State c \<noteq> ''closing'' \<and> cn_State c \<noteq> ''closed'' then False
      else if a_FinalizationID a \<noteq> [] \<and> cn_FinalizationID c \<noteq> a_FinalizationID a then False
      else if cn_State c \<noteq> ''open'' \<and> (case uuid_Parse (cn_FinalizationID c) of None \<Rightarrow> True | Some u \<Rightarrow> u = uuid_Nil) then False
      else cn_State c \<noteq> ''closed'' \<or> (case cn_ClosedAt c of None \<Rightarrow> False | Some t \<Rightarrow> \<not> time_is_zero t))"

definition blocked :: "AttachmentProgress \<Rightarrow> AttachmentProgress" where
  "blocked p = p\<lparr>ap_Reason := AttachmentProtocol, ap_ProtocolBlocked := True\<rparr>"

text \<open>The consumer part of the step, after an acceptable observation.\<close>

definition consumer_part ::
  "(string \<Rightarrow> string option) \<Rightarrow> Attachment \<Rightarrow> ConsumerSubmission res \<Rightarrow> AttachmentObservation \<Rightarrow> AttachmentProgress
     \<Rightarrow> AttachmentProgress" where
  "consumer_part uuid_Parse a cr ob p =
     (case cr of
        Inl _ \<Rightarrow> if a_State a = Releasing \<or> (\<not> ao_Exists ob \<and> a_State a = Reserved)
                 then p\<lparr>ap_Reason := ConsumerUnavailable\<rparr> else p
      | Inr c \<Rightarrow>
          if \<not> validConsumer uuid_Parse a c then blocked p
          else if cn_State c = ''closing'' \<or> cn_State c = ''closed'' then
            (let p = (if a_State a \<noteq> Released
                      then p\<lparr>ap_State := Releasing, ap_FinalizationID := cn_FinalizationID c, ap_Reason := ConsumerUnclosed\<rparr>
                      else p);
                 p = (if ap_PodUID p \<noteq> [] \<and> ap_PodUID p \<notin> set (cn_PodUIDs c) \<and> cn_State c = ''closed'' then blocked p
                      else if cn_State c = ''closed'' \<and> \<not> ao_Exists ob \<and> \<not> ao_HasDependencies ob \<and> \<not> ap_ProtocolBlocked p
                      then p\<lparr>ap_State := Released, ap_Reason := NoReason\<rparr> else p)
             in if (ao_Exists ob \<or> ao_HasDependencies ob) \<and> a_State a \<noteq> Released
                then p\<lparr>ap_Reason := CleanupPending\<rparr> else p)
          else if a_State a = Releasing then p\<lparr>ap_Reason := ConsumerUnclosed\<rparr>
          else if \<not> ao_Exists ob \<and> a_State a = Attached then p\<lparr>ap_Reason := ProviderMissing\<rparr>
          else p)"

text \<open>The part before it: evidence, relations and the pod identity of the observation.\<close>

definition attachment_start :: "WorkerPolicy \<Rightarrow> AttachmentWork \<Rightarrow> AttachmentProgress" where
  "attachment_start policy work =
     (let a = aw_Attachment work in
      \<lparr>ap_Proof = zero_proof, ap_Backoff = False, ap_State = a_State a, ap_Reason = a_Reason a, ap_PodName = a_PodName a,
       ap_PodUID = a_PodUID a, ap_FinalizationID = a_FinalizationID a, ap_Relations = aw_Relations work,
       ap_Observed = False, ap_ProtocolBlocked = aw_ProtocolBlocked work, ap_NextDelay = wp_ObserveEvery policy\<rparr>)"

definition evidence_part :: "AttachmentWork \<Rightarrow> AttachmentObservation \<Rightarrow> AttachmentProgress \<Rightarrow> AttachmentProgress" where
  "evidence_part work ob p =
     (let p = p\<lparr>ap_Observed := True, ap_Proof := ao_Proof ob\<rparr>;
          p = (if time_is_zero (pr_CollectedAt (ap_Proof p))
               then p\<lparr>ap_Proof := \<lparr>pr_CollectedAt = aw_Now work, pr_Hash = [],
                      pr_CoveredGeneration = rq_RequestedGeneration (aw_Requirement work)\<rparr>\<rparr> else p)
      in p\<lparr>ap_Relations := ao_Relations ob\<rparr>)"

definition foreign_pod :: "Attachment \<Rightarrow> AttachmentObservation \<Rightarrow> bool" where
  "foreign_pod a ob \<longleftrightarrow> ao_Exists ob \<and> (ao_PodUID ob = [] \<or> (a_PodUID a \<noteq> [] \<and> a_PodUID a \<noteq> ao_PodUID ob)
     \<or> (a_ConfirmUID a \<noteq> [] \<and> a_ConfirmUID a \<noteq> ao_PodUID ob))"

definition pod_part :: "Attachment \<Rightarrow> AttachmentObservation \<Rightarrow> AttachmentProgress \<Rightarrow> AttachmentProgress" where
  "pod_part a ob p =
     (let p = (if ao_Exists ob
               then (let p = p\<lparr>ap_PodName := ao_PodName ob, ap_PodUID := ao_PodUID ob\<rparr>;
                         p = (if a_State a = Reserved then p\<lparr>ap_State := Attached\<rparr> else p)
                     in p\<lparr>ap_Reason := NoReason\<rparr>)
               else p)
      in if a_State a = Released \<and> (ao_Exists ob \<or> ao_HasDependencies ob) then blocked p else p)"

definition attachment_progress ::
  "(string \<Rightarrow> string option) \<Rightarrow> WorkerPolicy \<Rightarrow> AttachmentWork \<Rightarrow> ConsumerSubmission res \<Rightarrow> AttachmentObservation res
     \<Rightarrow> AttachmentProgress" where
  "attachment_progress uuid_Parse policy work cr obr =
     (let a = aw_Attachment work;
          p = attachment_start policy work;
          p = (case obr of
             Inl e \<Rightarrow>
               (let p = p\<lparr>ap_Reason := providerReason e\<rparr> in if providerKind e = ProviderConflict then blocked p else p)
           | Inr ob \<Rightarrow>
               (let p = evidence_part work ob p in
                if foreign_pod a ob then blocked p
                else consumer_part uuid_Parse a cr ob (pod_part a ob p)));
          p = (if ap_ProtocolBlocked p then p\<lparr>ap_Reason := AttachmentProtocol\<rparr> else p)
      in p\<lparr>ap_Backoff := (isl obr \<or> isl cr)\<rparr>)"

text \<open>\<^verbatim>\<open>AttachmentWorker.Step\<close>: the consumer is asked first, then the provider with the pods the
  consumer named; a lost lease is not an error.\<close>

definition attachment_step ::
  "(string \<Rightarrow> string option) \<Rightarrow> 'w AttachmentWorker \<Rightarrow> 'w \<Rightarrow> (bool \<times> goerr option) \<times> 'w" where
  "attachment_step uuid_Parse w s =
     (case aq_ClaimAttachment w (aq_owner w) (wp_Lease (aq_policy w)) s of
        (Inl e, s) \<Rightarrow> ((False, Some e), s)
      | (Inr (work, found), s) \<Rightarrow>
          if \<not> found then ((False, None), s)
          else case aq_GetSubmission w (aw_Attachment work) s of
            (cr, s) \<Rightarrow>
              (let work' = (case cr of
                     Inl _ \<Rightarrow> work
                   | Inr c \<Rightarrow> if validConsumer uuid_Parse (aw_Attachment work) c
                       then work\<lparr>aw_ConsumerPodUIDs := cn_PodUIDs c,
                                 aw_RequireFreshRelations := (cn_State c = ''closed'' \<and> a_State (aw_Attachment work) \<noteq> Released)\<rparr>
                       else work) in
               case aq_ObserveAttachment w work' s of
                 (obr, s) \<Rightarrow>
                   (case aq_FinishAttachment w work' (attachment_progress uuid_Parse (aq_policy w) work' cr obr) s of
                      (r, s) \<Rightarrow> ((True, (case r of None \<Rightarrow> None | Some e \<Rightarrow> if errors_is e ErrLeaseLost then None else Some e)), s))))"

section \<open>The attachment lifecycle\<close>

text \<open>The order of the states.\<close>

instantiation attachment_state :: linorder
begin

fun rank :: "attachment_state \<Rightarrow> nat" where
  "rank Reserved = 0" | "rank Attached = 1" | "rank Releasing = 2" | "rank Released = 3"

definition less_eq_attachment_state :: "attachment_state \<Rightarrow> attachment_state \<Rightarrow> bool" where
  "less_eq_attachment_state a b \<longleftrightarrow> rank a \<le> rank b"

definition less_attachment_state :: "attachment_state \<Rightarrow> attachment_state \<Rightarrow> bool" where
  "less_attachment_state a b \<longleftrightarrow> rank a < rank b"

instance
proof
  fix x y :: attachment_state
  assume "x \<le> y" and "y \<le> x"
  then show "x = y" by (cases x; cases y) (simp_all add: less_eq_attachment_state_def)
qed (auto simp: less_eq_attachment_state_def less_attachment_state_def)

end

lemmas attachment_splits = if_splits sum.splits option.splits

lemma state_order [simp]: "Reserved \<le> a" "a \<le> Released" "a \<le> Releasing \<longleftrightarrow> a \<noteq> Released" "Releasing \<le> a \<longleftrightarrow> a = Releasing \<or> a = Released"
  "a \<le> Attached \<longleftrightarrow> a = Reserved \<or> a = Attached"
  by (cases a; simp add: less_eq_attachment_state_def)+

lemma blocked_frame [frame_simps]:
  "ap_State (blocked p) = ap_State p" "ap_PodUID (blocked p) = ap_PodUID p" "ap_FinalizationID (blocked p) = ap_FinalizationID p"
  "ap_ProtocolBlocked (blocked p) = True"
  by (simp_all add: blocked_def)

lemma start_frame [frame_simps]:
  "ap_State (attachment_start pol work) = a_State (aw_Attachment work)"
  "ap_PodUID (attachment_start pol work) = a_PodUID (aw_Attachment work)"
  "ap_FinalizationID (attachment_start pol work) = a_FinalizationID (aw_Attachment work)"
  "ap_ProtocolBlocked (attachment_start pol work) = aw_ProtocolBlocked work"
  by (simp_all add: attachment_start_def Let_def)

lemma evidence_frame [frame_simps]:
  "ap_State (evidence_part work ob p) = ap_State p" "ap_PodUID (evidence_part work ob p) = ap_PodUID p"
  "ap_FinalizationID (evidence_part work ob p) = ap_FinalizationID p"
  "ap_ProtocolBlocked (evidence_part work ob p) = ap_ProtocolBlocked p"
  by (simp_all add: evidence_part_def Let_def)

lemma pod_part_frame [frame_simps]:
  "ap_State (pod_part a ob p) = (if ao_Exists ob \<and> a_State a = Reserved then Attached else ap_State p)"
  "ap_PodUID (pod_part a ob p) = (if ao_Exists ob then ao_PodUID ob else ap_PodUID p)"
  "ap_FinalizationID (pod_part a ob p) = ap_FinalizationID p"
  "ap_ProtocolBlocked (pod_part a ob p) = (ap_ProtocolBlocked p \<or> (a_State a = Released \<and> (ao_Exists ob \<or> ao_HasDependencies ob)))"
  by (auto simp: pod_part_def frame_simps Let_def)

lemma consumer_part_frame [frame_simps]:
  "ap_PodUID (consumer_part up a cr ob p) = ap_PodUID p"
  "ap_ProtocolBlocked p \<Longrightarrow> ap_ProtocolBlocked (consumer_part up a cr ob p)"
  by (auto simp: consumer_part_def Let_def frame_simps split: sum.split)

lemma consumer_part_state:
  assumes "ap_State p = a_State a \<or> (a_State a = Reserved \<and> ap_State p = Attached)"
  shows "a_State a \<le> ap_State (consumer_part up a cr ob p)"
  using assms by (auto simp: consumer_part_def Let_def frame_simps split: sum.split)

lemma consumer_part_finalization:
  assumes "ap_FinalizationID p = a_FinalizationID a"
  shows "a_FinalizationID a = [] \<or> ap_FinalizationID (consumer_part up a cr ob p) = a_FinalizationID a"
  using assms by (auto simp: consumer_part_def validConsumer_def Let_def frame_simps split: sum.split)

lemma consumer_part_released:
  assumes "ap_State (consumer_part up a cr ob p) = Released" and "ap_State p \<noteq> Released" and "a_State a \<noteq> Released"
  shows "\<exists>c. cr = Inr c \<and> validConsumer up a c \<and> cn_State c = ''closed'' \<and> \<not> ao_Exists ob \<and> \<not> ao_HasDependencies ob
    \<and> \<not> ap_ProtocolBlocked p \<and> (ap_PodUID p = [] \<or> ap_PodUID p \<in> set (cn_PodUIDs c))"
  using assms by (auto simp: consumer_part_def blocked_def Let_def split: attachment_splits)

lemma progress_frame [frame_simps]:
  "ap_State (attachment_progress up pol work cr obr) = (case obr of Inl e \<Rightarrow> a_State (aw_Attachment work)
     | Inr ob \<Rightarrow> if foreign_pod (aw_Attachment work) ob then a_State (aw_Attachment work)
         else ap_State (consumer_part up (aw_Attachment work) cr ob
           (pod_part (aw_Attachment work) ob (evidence_part work ob (attachment_start pol work)))))"
  "ap_PodUID (attachment_progress up pol work cr obr) = (case obr of Inl e \<Rightarrow> a_PodUID (aw_Attachment work)
     | Inr ob \<Rightarrow> if \<not> foreign_pod (aw_Attachment work) ob \<and> ao_Exists ob then ao_PodUID ob else a_PodUID (aw_Attachment work))"
  "ap_FinalizationID (attachment_progress up pol work cr obr) = (case obr of Inl e \<Rightarrow> a_FinalizationID (aw_Attachment work)
     | Inr ob \<Rightarrow> if foreign_pod (aw_Attachment work) ob then a_FinalizationID (aw_Attachment work)
         else ap_FinalizationID (consumer_part up (aw_Attachment work) cr ob
           (pod_part (aw_Attachment work) ob (evidence_part work ob (attachment_start pol work)))))"
  by (simp_all add: attachment_progress_def frame_simps Let_def split: sum.split)

lemma progress_blocked:
  assumes "aw_ProtocolBlocked work"
  shows "ap_ProtocolBlocked (attachment_progress up pol work cr obr)"
    and "ap_Reason (attachment_progress up pol work cr obr) = AttachmentProtocol"
  using assms by (simp_all add: attachment_progress_def frame_simps Let_def split: sum.split)

text \<open>C27: An attachment becomes released only when the consumer's valid submission is closed (with a close time and the
  recorded finalization), the provider observed no pod and no dependencies, no protocol violation was ever recorded,
  and the recorded pod, if any, is one the consumer named.\<close>

theorem released_only_when_closed_and_absent:
  assumes "ap_State (attachment_progress up pol work cr obr) = Released" and "a_State (aw_Attachment work) \<noteq> Released"
  shows "\<exists>c ob. cr = Inr c \<and> obr = Inr ob \<and> validConsumer up (aw_Attachment work) c \<and> cn_State c = ''closed''
    \<and> cn_ClosedAt c \<noteq> None \<and> \<not> ao_Exists ob \<and> \<not> ao_HasDependencies ob \<and> \<not> aw_ProtocolBlocked work
    \<and> (a_PodUID (aw_Attachment work) = [] \<or> a_PodUID (aw_Attachment work) \<in> set (cn_PodUIDs c))"
proof -
  let ?a = "aw_Attachment work"
  from assms obtain ob where ob: "obr = Inr ob" "\<not> foreign_pod ?a ob" by (auto simp: frame_simps split: sum.splits if_splits)
  let ?p = "pod_part ?a ob (evidence_part work ob (attachment_start pol work))"
  have "ap_State (consumer_part up ?a cr ob ?p) = Released" "ap_State ?p \<noteq> Released"
    using assms ob by (auto simp: frame_simps)
  from consumer_part_released [OF this assms(2)]
  obtain c where c: "cr = Inr c" "validConsumer up ?a c" "cn_State c = ''closed''" "\<not> ao_Exists ob" "\<not> ao_HasDependencies ob"
    "\<not> aw_ProtocolBlocked work" "a_PodUID ?a = [] \<or> a_PodUID ?a \<in> set (cn_PodUIDs c)"
    by (auto simp: frame_simps split: if_splits)
  moreover have "cn_ClosedAt c \<noteq> None" using c(2,3) by (auto simp: validConsumer_def split: if_splits option.splits)
  ultimately show ?thesis using ob by blast
qed

text \<open>A closed submission and an empty observation, for the concrete cases below.\<close>

definition sample_attachment :: "attachment_state \<Rightarrow> Attachment" where
  "sample_attachment st = \<lparr>a_ID = ''att'', a_TenantID = ''t'', a_VPCID = ''v'', a_SubnetID = ''s'', a_InstanceID = ''i'',
     a_Slot = ''primary'', a_SubmissionID = ''sub'', a_Generation = 1, a_ClusterID = ''c'', a_Namespace = ''n'',
     a_BindingRevision = [], a_State = st, a_Reason = NoReason, a_Version = 1, a_Plan = None, a_PodName = ''pod'',
     a_PodUID = ''uid'', a_ConfirmUID = [], a_FinalizationID = ''fin'', a_CreatedAt = 1, a_UpdatedAt = 1,
     a_ObservedAt = None, a_ReleasedAt = None\<rparr>"

definition sample_attachment_work :: "attachment_state \<Rightarrow> bool \<Rightarrow> AttachmentWork" where
  "sample_attachment_work st blk = \<lparr>aw_Requirement = \<lparr>rq_RequestedGeneration = 1, rq_AppliedAt = 0, rq_Hash = []\<rparr>,
     aw_Now = 9, aw_RequireFreshRelations = True, aw_Attachment = sample_attachment st,
     aw_Plan = \<lparr>pl_FormatVersion = 1, pl_Namespace = ''n'', pl_PrimaryNetworkRef = [], pl_TenantID = ''t'', pl_InstanceID = ''i'',
       pl_AttachmentID = ''att'', pl_SubmissionID = ''sub'', pl_Generation = 1\<rparr>,
     aw_Relations = [], aw_ConsumerPodUIDs = [''uid''], aw_ProtocolBlocked = blk, aw_Owner = ''o'', aw_Epoch = 1\<rparr>"

definition sample_closed :: ConsumerSubmission where
  "sample_closed = \<lparr>cn_ProtocolVersion = 1, cn_TenantID = ''t'', cn_InstanceID = ''i'', cn_SubmissionID = ''sub'',
     cn_AttachmentID = ''att'', cn_ClusterID = ''c'', cn_Namespace = ''n'', cn_Generation = 1, cn_State = ''closed'',
     cn_FinalizationID = ''fin'', cn_PodUIDs = [''uid''], cn_ControllerUIDs = [], cn_ClosedAt = Some 8\<rparr>"

definition sample_absent :: AttachmentObservation where
  "sample_absent = \<lparr>ao_Proof = zero_proof, ao_Exists = False, ao_HasDependencies = False, ao_PodName = [], ao_PodUID = [],
     ao_Relations = []\<rparr>"

lemmas attachment_eval = attachment_progress_def attachment_start_def evidence_part_def foreign_pod_def pod_part_def
  consumer_part_def validConsumer_def blocked_def sample_attachment_def sample_attachment_work_def sample_closed_def
  sample_absent_def zero_proof_def time_is_zero_def uuid_Nil_def Let_def

theorem released_only_when_closed_and_absent_witness:
  "ap_State (attachment_progress Some DefaultWorkerPolicy (sample_attachment_work Releasing False) (Inr sample_closed) (Inr sample_absent))
     = Released
   \<and> (\<exists>c. validConsumer Some (sample_attachment Releasing) c \<and> cn_State c = ''closed'')"
proof -
  let ?p = "attachment_progress Some DefaultWorkerPolicy (sample_attachment_work Releasing False) (Inr sample_closed) (Inr sample_absent)"
  have "ap_State ?p = Released" by (simp add: attachment_eval)
  moreover have "a_State (aw_Attachment (sample_attachment_work Releasing False)) \<noteq> Released" by (simp add: attachment_eval)
  ultimately show ?thesis
    using released_only_when_closed_and_absent [of Some DefaultWorkerPolicy "sample_attachment_work Releasing False"
        "Inr sample_closed" "Inr sample_absent"]
    by (auto simp: sample_attachment_work_def)
qed

text \<open>C28: The state of an attachment never goes back: reserved, attached, releasing, released, in this order; in
  particular a released attachment stays released.\<close>

theorem attachment_state_never_goes_back:
  "a_State (aw_Attachment work) \<le> ap_State (attachment_progress up pol work cr obr)"
proof (cases obr)
  case (Inr ob)
  let ?p = "pod_part (aw_Attachment work) ob (evidence_part work ob (attachment_start pol work))"
  have "ap_State ?p = a_State (aw_Attachment work) \<or> (a_State (aw_Attachment work) = Reserved \<and> ap_State ?p = Attached)"
    by (simp add: frame_simps)
  with Inr show ?thesis by (simp add: frame_simps consumer_part_state)
qed (simp add: frame_simps)

text \<open>C29: A recorded pod identity and a recorded finalization are never replaced by another one, and a protocol
  violation, once recorded, stays recorded and is the reported reason.\<close>

theorem attachment_identities_are_stable:
  "a_PodUID (aw_Attachment work) \<in> {[], ap_PodUID (attachment_progress up pol work cr obr)}
   \<and> a_FinalizationID (aw_Attachment work) \<in> {[], ap_FinalizationID (attachment_progress up pol work cr obr)}
   \<and> (aw_ProtocolBlocked work \<longrightarrow> ap_ProtocolBlocked (attachment_progress up pol work cr obr)
        \<and> ap_Reason (attachment_progress up pol work cr obr) = AttachmentProtocol)"
proof (cases obr)
  case (Inr ob)
  let ?p = "pod_part (aw_Attachment work) ob (evidence_part work ob (attachment_start pol work))"
  have "ap_FinalizationID ?p = a_FinalizationID (aw_Attachment work)" by (simp add: frame_simps)
  from consumer_part_finalization [OF this, of up cr ob] Inr progress_blocked [of work up pol cr obr] show ?thesis
    by (auto simp: frame_simps foreign_pod_def)
qed (use progress_blocked [of work up pol cr obr] in \<open>auto simp: frame_simps\<close>)

theorem attachment_identities_are_stable_witness:
  "ap_Reason (attachment_progress Some DefaultWorkerPolicy (sample_attachment_work Releasing True) (Inr sample_closed) (Inr sample_absent))
     = AttachmentProtocol
   \<and> ap_State (attachment_progress Some DefaultWorkerPolicy (sample_attachment_work Releasing True) (Inr sample_closed) (Inr sample_absent))
     = Releasing"
  using attachment_identities_are_stable [of "sample_attachment_work Releasing True" Some DefaultWorkerPolicy "Inr sample_closed" "Inr sample_absent"]
  by (simp add: attachment_eval)

end
