(* ===== verification/Net_Json.thy ===== *)
theory Net_Json
  imports Net_Codec Net_Netip
begin

text \<open>
  Reading JSON as \<^verbatim>\<open>encoding/json\<close> does: the scanner's grammar (a value, with the raw text of numbers and strings kept),
  the unquoting of strings, and the proof that printed strings, integers and flat objects are read back.
\<close>

section \<open>Strings\<close>

definition utf8_encode :: "nat \<Rightarrow> string" where
  "utf8_encode r =
     (if r < 128 then [chr_of r]
      else if r < 2048 then [chr_of (192 + r div 64), chr_of (128 + r mod 64)]
      else if r < 65536 then [chr_of (224 + r div 4096), chr_of (128 + r div 64 mod 64), chr_of (128 + r mod 64)]
      else [chr_of (240 + r div 262144), chr_of (128 + r div 4096 mod 64), chr_of (128 + r div 64 mod 64), chr_of (128 + r mod 64)])"

definition hex4 :: "char \<Rightarrow> char \<Rightarrow> char \<Rightarrow> char \<Rightarrow> nat option" where
  "hex4 a b c d =
     (case (hex_value a, hex_value b, hex_value c, hex_value d) of
        (Some a, Some b, Some c, Some d) \<Rightarrow> Some (((a * 16 + b) * 16 + c) * 16 + d)
      | _ \<Rightarrow> None)"

text \<open>The text of a string up to its closing quote.\<close>

fun scan_string :: "string \<Rightarrow> (string \<times> string) option" where
  "scan_string [] = None"
| "scan_string (c # s) =
     (if c = CHR 0x22 then Some ([], s)
      else if c = CHR 0x5C then
        (case s of
           [] \<Rightarrow> None
         | e # s' \<Rightarrow>
             if e \<in> set (CHR 0x22 # CHR 0x5C # ''/bfnrtu'') \<and> (e = CHR ''u'' \<longrightarrow> length s' \<ge> 4 \<and> list_all (\<lambda>d. hex_value d \<noteq> None) (take 4 s'))
             then map_option (\<lambda>(raw, r). (c # e # raw, r)) (scan_string s') else None)
      else if byte_of c < 32 then None
      else map_option (\<lambda>(raw, r). (c # raw, r)) (scan_string s))"

definition escape_char :: "char \<Rightarrow> char" where
  "escape_char e =
     (if e = CHR ''b'' then CHR 0x08 else if e = CHR ''f'' then CHR 0x0C else if e = CHR ''n'' then CHR 0x0A
      else if e = CHR ''r'' then CHR 0x0D else if e = CHR ''t'' then CHR 0x09 else e)"

text \<open>A \<^verbatim>\<open>\u\<close> escape at the front, as \<^verbatim>\<open>getu4\<close> reads it.\<close>

definition get_u4 :: "string \<Rightarrow> nat option" where
  "get_u4 s =
     (case s of
        x # u # a # b # c # d # _ \<Rightarrow> if x = CHR 0x5C \<and> u = CHR ''u'' then hex4 a b c d else None
      | _ \<Rightarrow> None)"

definition unquote_step :: "string \<Rightarrow> string \<times> nat" where
  "unquote_step s =
     (case get_u4 s of
        Some r \<Rightarrow>
          if 55296 \<le> r \<and> r < 57344
          then (case get_u4 (drop 6 s) of
                  Some r1 \<Rightarrow> if r < 56320 \<and> 56320 \<le> r1 \<and> r1 < 57344
                             then (utf8_encode ((r - 55296) * 1024 + (r1 - 56320) + 65536), 12)
                             else (utf8_encode rune_error, 6)
                | None \<Rightarrow> (utf8_encode rune_error, 6))
          else (utf8_encode r, 6)
      | None \<Rightarrow>
          if hd s = CHR 0x5C then ([escape_char (s ! 1)], 2)
          else (let (r, w) = decode_rune s in if r = rune_error \<and> w = 1 then (utf8_encode rune_error, 1) else (take w s, w)))"

lemma unquote_step_width: "s \<noteq> [] \<Longrightarrow> 1 \<le> snd (unquote_step s)"
  using decode_rune_width [of s] by (auto simp: unquote_step_def Let_def split: option.splits prod.splits)

function unquote :: "string \<Rightarrow> string" where
  "unquote s = (if s = [] then [] else fst (unquote_step s) @ unquote (drop (snd (unquote_step s)) s))"
  by pat_completeness auto
termination
proof (relation "measure length", goal_cases)
  case (2 s)
  then have "1 \<le> snd (unquote_step s)" by (rule unquote_step_width)
  with 2 show ?case by (cases s) auto
qed simp

declare unquote.simps [simp del]

section \<open>Values\<close>

datatype jtree = TNum string | TBool bool | TStr string | TNull | TArr "jtree list" | TObj "(string \<times> jtree) list"

definition skip_space :: "string \<Rightarrow> string" where
  "skip_space = dropWhile (\<lambda>c. c = CHR '' '' \<or> c = CHR 0x09 \<or> c = CHR 0x0A \<or> c = CHR 0x0D)"

text \<open>The number at the front of a text: an integer part without leading zeros, a fraction, an exponent.\<close>

definition scan_digits1 :: "string \<Rightarrow> (string \<times> string) option" where
  "scan_digits1 s = (let d = takeWhile ascii_digit s in if d = [] then None else Some (d, dropWhile ascii_digit s))"

definition scan_integer :: "string \<Rightarrow> (string \<times> string) option" where
  "scan_integer s =
     (case s of
        [] \<Rightarrow> None
      | c # r \<Rightarrow> if c = CHR ''0'' then Some (''0'', r) else scan_digits1 s)"

definition scan_fraction :: "string \<Rightarrow> (string \<times> string) option" where
  "scan_fraction s =
     (case s of
        c # r \<Rightarrow> if c = CHR ''.'' then map_option (\<lambda>(d, r). (c # d, r)) (scan_digits1 r) else Some ([], s)
      | [] \<Rightarrow> Some ([], s))"

definition scan_exponent :: "string \<Rightarrow> (string \<times> string) option" where
  "scan_exponent s =
     (case s of
        c # r \<Rightarrow>
          if c = CHR ''e'' \<or> c = CHR ''E'' then
            (case r of
               g # r' \<Rightarrow> if g = CHR ''+'' \<or> g = CHR ''-'' then map_option (\<lambda>(d, r). (c # g # d, r)) (scan_digits1 r')
                         else map_option (\<lambda>(d, r). (c # d, r)) (scan_digits1 r)
             | [] \<Rightarrow> None)
          else Some ([], s)
      | [] \<Rightarrow> Some ([], s))"

definition scan_number :: "string \<Rightarrow> (string \<times> string) option" where
  "scan_number s =
     (let (sign, s) = (case s of c # r \<Rightarrow> if c = CHR ''-'' then (''-'', r) else ([], s) | [] \<Rightarrow> ([], s)) in
      Option.bind (scan_integer s) (\<lambda>(i, s). Option.bind (scan_fraction s) (\<lambda>(f, s).
      map_option (\<lambda>(e, s). (sign @ i @ f @ e, s)) (scan_exponent s))))"

text \<open>Each call consumes at least one character before the next, so that twice the length of the text is enough fuel.\<close>

fun json_value :: "nat \<Rightarrow> string \<Rightarrow> (jtree \<times> string) option"
  and json_elements :: "nat \<Rightarrow> string \<Rightarrow> (jtree list \<times> string) option"
  and json_members :: "nat \<Rightarrow> string \<Rightarrow> ((string \<times> jtree) list \<times> string) option" where
  "json_value 0 s = None"
| "json_value (Suc n) s =
     (case skip_space s of
        [] \<Rightarrow> None
      | c # r \<Rightarrow>
          if c = CHR 0x22 then map_option (\<lambda>(raw, r). (TStr raw, r)) (scan_string r)
          else if c = CHR ''{'' then
            (case skip_space r of
               [] \<Rightarrow> None
             | d # r' \<Rightarrow> if d = CHR ''}'' then Some (TObj [], r')
                         else map_option (\<lambda>(ms, r). (TObj ms, r)) (json_members n (d # r')))
          else if c = CHR ''['' then
            (case skip_space r of
               [] \<Rightarrow> None
             | d # r' \<Rightarrow> if d = CHR '']'' then Some (TArr [], r')
                         else map_option (\<lambda>(vs, r). (TArr vs, r)) (json_elements n (d # r')))
          else if hasPrefix (c # r) ''true'' then Some (TBool True, drop 4 (c # r))
          else if hasPrefix (c # r) ''false'' then Some (TBool False, drop 5 (c # r))
          else if hasPrefix (c # r) ''null'' then Some (TNull, drop 4 (c # r))
          else map_option (\<lambda>(lit, r). (TNum lit, r)) (scan_number (c # r)))"
| "json_elements 0 s = None"
| "json_elements (Suc n) s =
     Option.bind (json_value n s) (\<lambda>(v, r).
       case skip_space r of
         [] \<Rightarrow> None
       | c # r' \<Rightarrow> if c = CHR '']'' then Some ([v], r')
                   else if c = CHR '','' then map_option (\<lambda>(vs, r). (v # vs, r)) (json_elements n r')
                   else None)"
| "json_members 0 s = None"
| "json_members (Suc n) s =
     (case skip_space s of
        [] \<Rightarrow> None
      | q # r \<Rightarrow>
          if q \<noteq> CHR 0x22 then None
          else Option.bind (scan_string r) (\<lambda>(key, r).
            case skip_space r of
              [] \<Rightarrow> None
            | c # r' \<Rightarrow>
                if c \<noteq> CHR '':'' then None
                else Option.bind (json_value n r') (\<lambda>(v, r).
                  case skip_space r of
                    [] \<Rightarrow> None
                  | c # r' \<Rightarrow> if c = CHR ''}'' then Some ([(unquote key, v)], r')
                              else if c = CHR '','' then map_option (\<lambda>(ms, r). ((unquote key, v) # ms, r)) (json_members n r')
                              else None)))"

definition json_parse :: "string \<Rightarrow> jtree option" where
  "json_parse s =
     (case json_value (2 * length s + 1) s of None \<Rightarrow> None | Some (v, r) \<Rightarrow> if skip_space r = [] then Some v else None)"

section \<open>Enough fuel\<close>

lemma skip_space_length: "skip_space s = c # r \<Longrightarrow> length r < length s"
  using length_dropWhile_le [of _ s] unfolding skip_space_def by (metis Suc_le_eq length_Cons)

lemma scan_string_length: "scan_string s = Some (raw, r) \<Longrightarrow> length r < length s"
proof (induction s arbitrary: raw r rule: scan_string.induct)
  case (2 c s)
  then show ?case by (fastforce split: if_splits list.splits)
qed simp

lemma scan_digits1_length: "scan_digits1 s = Some (d, r) \<Longrightarrow> length r \<le> length s"
  using length_dropWhile_le [of ascii_digit s] by (auto simp: scan_digits1_def Let_def split: if_splits)

lemma scan_number_length: "scan_number s = Some (d, r) \<Longrightarrow> length r \<le> length s"
  by (fastforce simp: scan_number_def scan_integer_def scan_fraction_def scan_exponent_def Let_def
      dest!: scan_digits1_length split: list.splits if_splits bind_splits prod.splits)

lemma json_length:
  "json_value n s = Some (v, r) \<Longrightarrow> length r \<le> length s"
  "json_elements n s = Some (vs, r) \<Longrightarrow> length r \<le> length s"
  "json_members n s = Some (ms, r) \<Longrightarrow> length r \<le> length s"
proof (induction n s and n s and n s arbitrary: v r and vs r and ms r rule: json_value_json_elements_json_members.induct)
  case (2 n s)
  then show ?case
    by (fastforce dest!: skip_space_length scan_string_length scan_number_length split: list.splits if_splits)
next
  case (4 n s)
  then show ?case
    by (fastforce dest!: skip_space_length split: list.splits if_splits bind_splits)
next
  case (6 n s)
  then show ?case
    by (fastforce dest!: skip_space_length scan_string_length split: list.splits if_splits bind_splits)
qed simp_all

section \<open>Printed strings are read back\<close>

lemma chr_of_byte: "byte_of c = n \<Longrightarrow> chr_of n = c"
  by auto

lemma digit64: "b < 64 \<Longrightarrow> (a * 64 + b) div 64 = a" "b < 64 \<Longrightarrow> (a * 64 + b) mod 64 = (b::nat)"
  by simp_all

lemma div64: "(n::nat) div 4096 = n div 64 div 64" "n div 262144 = n div 64 div 64 div 64"
  by (simp_all add: div_mult2_eq [symmetric])

lemma decode_rune_valid:
  assumes "decode_rune s = (r, w)" and "s \<noteq> []" and "\<not> (r = rune_error \<and> w = 1)"
  shows "(\<exists>c. r = byte_of c \<and> r < 128 \<and> take w s = [c]) \<or>
    (128 \<le> r \<and> list_all (\<lambda>c. 128 \<le> byte_of c) (take w s) \<and> take w s = utf8_encode r \<and> length (take w s) = w \<and> (\<forall>t. decode_rune (take w s @ t) = (r, w)))"
proof -
  obtain c cs where s: "s = c # cs" using assms(2) by (cases s) auto
  obtain lo hi where r: "second_range (byte_of c) = (lo, hi)" by (cases "second_range (byte_of c)")
  then have range: "128 \<le> lo" "hi \<le> 191" "byte_of c = 224 \<Longrightarrow> lo = 160" "byte_of c = 240 \<Longrightarrow> lo = 144" "byte_of c = 244 \<Longrightarrow> hi = 143"
    by (auto simp: second_range_def split: if_splits)
  consider (one) "byte_of c < 128" | (two) c1 t where "194 \<le> byte_of c" "byte_of c \<le> 223" "cs = c1 # t" "in_range 128 191 c1"
    | (three) c1 c2 t where "224 \<le> byte_of c" "byte_of c \<le> 239" "cs = c1 # c2 # t" "in_range lo hi c1" "in_range 128 191 c2"
    | (four) c1 c2 c3 t where "240 \<le> byte_of c" "byte_of c \<le> 244" "cs = c1 # c2 # c3 # t" "in_range lo hi c1" "in_range 128 191 c2" "in_range 128 191 c3"
    using assms unfolding s by (auto simp: r Let_def split: if_splits list.splits)
  then show ?thesis
  proof cases
    case one
    then show ?thesis using assms(1) by (auto simp: s r Let_def)
  next
    case two
    define x y where "x = byte_of c - 192" and "y = byte_of c1 - 128"
    with two have b: "byte_of c = 192 + x" "byte_of c1 = 128 + y" "2 \<le> x" "x < 32" "y < 64" by (auto simp: in_range_def)
    have e: "r = x * 64 + y" "w = 2" using assms(1) two b by (auto simp: s r Let_def)
    have "(x * 64 + y) div 64 = x" "(x * 64 + y) mod 64 = y" using b by simp_all
    then have "utf8_encode r = [c, c1]" using b e by (simp add: utf8_encode_def chr_of_byte)
    then show ?thesis using two b e by (simp add: s r Let_def)
  next
    case three
    define x y z where "x = byte_of c - 224" and "y = byte_of c1 - 128" and "z = byte_of c2 - 128"
    with three range have b: "byte_of c = 224 + x" "byte_of c1 = 128 + y" "byte_of c2 = 128 + z" "x < 16" "y < 64" "z < 64" "x = 0 \<Longrightarrow> 32 \<le> y"
      by (auto simp: in_range_def)
    have e: "r = (x * 64 + y) * 64 + z" "w = 3" using assms(1) three b by (auto simp: s r [unfolded b(1)] Let_def)
    have "r div 4096 = x" "r div 64 mod 64 = y" "r mod 64 = z"
      unfolding e div64 using b by (simp_all only: digit64)
    moreover have "2048 \<le> r" using b unfolding e by (cases "x = 0") auto
    moreover have "r < 65536" using b unfolding e by auto
    ultimately have "utf8_encode r = [c, c1, c2]" using b by (simp add: utf8_encode_def chr_of_byte)
    then show ?thesis using three b e range \<open>2048 \<le> r\<close> by (simp add: s r [unfolded b(1)] Let_def)
  next
    case four
    define x y z q where "x = byte_of c - 240" and "y = byte_of c1 - 128" and "z = byte_of c2 - 128" and "q = byte_of c3 - 128"
    with four range have b: "byte_of c = 240 + x" "byte_of c1 = 128 + y" "byte_of c2 = 128 + z" "byte_of c3 = 128 + q"
      "x < 5" "y < 64" "z < 64" "q < 64" "x = 0 \<Longrightarrow> 16 \<le> y" by (auto simp: in_range_def)
    have e: "r = ((x * 64 + y) * 64 + z) * 64 + q" "w = 4" using assms(1) four b by (auto simp: s r [unfolded b(1)] Let_def)
    have "r div 262144 = x" "r div 4096 mod 64 = y" "r div 64 mod 64 = z" "r mod 64 = q"
      unfolding e div64 using b by (simp_all only: digit64)
    moreover have "65536 \<le> r" using b unfolding e by (cases "x = 0") auto
    ultimately have "utf8_encode r = [c, c1, c2, c3]" using b by (simp add: utf8_encode_def chr_of_byte)
    then show ?thesis using four b e range \<open>65536 \<le> r\<close> by (simp add: s r [unfolded b(1)] Let_def)
  qed
qed

lemma utf8_2028: "utf8_encode 8232 = map chr_of [226, 128, 168]" "utf8_encode 8233 = map chr_of [226, 128, 169]"
  by (simp_all add: utf8_encode_def)

lemma hex_value_char: "n < 16 \<Longrightarrow> hex_value (hex_char n) = Some n"
  by (cases "n < 10") (auto simp: hex_char_def hex_value_def ascii_digit_def Let_def)

lemma scan_string_high: "list_all (\<lambda>c. 128 \<le> byte_of c) bs \<Longrightarrow> scan_string (bs @ t) = map_option (\<lambda>(raw, q). (bs @ raw, q)) (scan_string t)"
proof (induction bs)
  case (Cons c bs)
  then have "128 \<le> byte_of c" by simp
  then have "c \<noteq> CHR 0x22" "c \<noteq> CHR 0x5C" "\<not> byte_of c < 32" by auto
  with Cons show ?case by (simp add: option.map_comp comp_def case_prod_unfold)
qed (simp add: case_prod_unfold option.map_ident)

lemma get_u4_None: "x \<noteq> CHR 0x5C \<Longrightarrow> get_u4 (x # t) = None" "e \<noteq> CHR ''u'' \<Longrightarrow> get_u4 (x # e # t) = None"
  by (simp_all add: get_u4_def split: list.splits)

lemma unquote_escape: "e \<noteq> CHR ''u'' \<Longrightarrow> unquote (CHR 0x5C # e # t) = escape_char e # unquote t"
  by (subst unquote.simps) (simp add: unquote_step_def get_u4_None)

lemma unquote_u: "hex4 a b c d = Some r \<Longrightarrow> r < 55296 \<Longrightarrow> unquote (CHR 0x5C # CHR ''u'' # a # b # c # d # t) = utf8_encode r @ unquote t"
  by (subst unquote.simps) (simp add: unquote_step_def get_u4_def)

lemma unquote_raw:
  assumes "decode_rune (bs @ t) = (r, length bs)" and "bs \<noteq> []" and "hd bs \<noteq> CHR 0x5C" and "\<not> (r = rune_error \<and> length bs = 1)"
  shows "unquote (bs @ t) = bs @ unquote t"
proof -
  obtain c cs where bs: "bs = c # cs" using assms(2) by (cases bs) auto
  have g: "get_u4 (bs @ t) = None" using assms(3) by (simp add: bs get_u4_None(1))
  have "unquote_step (bs @ t) = (bs, length bs)"
    using assms g by (auto simp: unquote_step_def Let_def)
  then show ?thesis using assms(2) by (subst unquote.simps) simp
qed

definition short_escapes :: string where
  "short_escapes = [CHR 0x22, CHR 0x5C, CHR 0x08, CHR 0x0C, CHR 0x0A, CHR 0x0D, CHR 0x09]"

lemma byte_of_eq: "byte_of d = n \<Longrightarrow> byte_of c = n \<longleftrightarrow> c = d"
  using of_char_eq_iff [of c d, where ?'a = nat] by auto

lemma short_escapes_iff:
  "c \<in> set short_escapes \<longleftrightarrow> byte_of c = 34 \<or> byte_of c = 92 \<or> byte_of c = 8 \<or> byte_of c = 12 \<or> byte_of c = 10 \<or> byte_of c = 13 \<or> byte_of c = 9"
  by (simp add: short_escapes_def byte_of_eq [of "CHR 0x22"] byte_of_eq [of "CHR 0x5C"] byte_of_eq [of "CHR 0x08"]
      byte_of_eq [of "CHR 0x0C"] byte_of_eq [of "CHR 0x0A"] byte_of_eq [of "CHR 0x0D"] byte_of_eq [of "CHR 0x09"])

lemma json_rune_short:
  "c \<in> set short_escapes \<Longrightarrow> scan_string (json_rune (byte_of c, [c]) @ t) = map_option (\<lambda>(raw, q). (json_rune (byte_of c, [c]) @ raw, q)) (scan_string t)
    \<and> unquote (json_rune (byte_of c, [c]) @ t) = c # unquote t"
  by (auto simp: short_escapes_def json_rune_def unquote_escape escape_char_def)

lemma hex_char_00: "n < 128 \<Longrightarrow> hex4 (CHR ''0'') (CHR ''0'') (hex_char (n div 16)) (hex_char (n mod 16)) = Some n"
  by (simp add: hex4_def hex_value_char less_mult_imp_div_less hex_value_def [of "CHR ''0''"] ascii_digit_def)

lemma scan_string_hex: "hex_value d \<noteq> None \<Longrightarrow> scan_string (d # t) = map_option (\<lambda>(raw, q). (d # raw, q)) (scan_string t)"
proof -
  assume "hex_value d \<noteq> None"
  then have "d \<noteq> CHR 0x22" "d \<noteq> CHR 0x5C" "\<not> byte_of d < 32" by (auto simp: hex_value_def ascii_digit_def Let_def split: if_splits)
  then show ?thesis by simp
qed

lemma json_rune_low:
  assumes "byte_of c < 128"
  shows "scan_string (json_rune (byte_of c, [c]) @ t) = map_option (\<lambda>(raw, q). (json_rune (byte_of c, [c]) @ raw, q)) (scan_string t)
    \<and> unquote (json_rune (byte_of c, [c]) @ t) = c # unquote t"
proof (cases "c \<in> set short_escapes")
  case False
  note s = False [unfolded short_escapes_iff]
  show ?thesis
  proof (cases "byte_of c < 32 \<or> byte_of c = 60 \<or> byte_of c = 62 \<or> byte_of c = 38")
    case True
    let ?h = "hex_char (byte_of c div 16)" and ?l = "hex_char (byte_of c mod 16)"
    have j: "json_rune (byte_of c, [c]) = [CHR 0x5C, CHR ''u'', CHR ''0'', CHR ''0'', ?h, ?l]"
      using True s assms by (simp add: json_rune_def)
    have u: "unquote (CHR 0x5C # CHR ''u'' # CHR ''0'' # CHR ''0'' # ?h # ?l # t) = utf8_encode (byte_of c) @ unquote t"
      using hex_char_00 [OF assms] by (rule unquote_u) (use assms in simp)
    have "hex_value ?h \<noteq> None" "hex_value ?l \<noteq> None" using assms by (simp_all add: hex_value_char less_mult_imp_div_less)
    then have "scan_string (?h # ?l # t) = map_option (\<lambda>(raw, q). (?h # ?l # raw, q)) (scan_string t)"
      by (simp add: scan_string_hex option.map_comp comp_def case_prod_unfold del: scan_string.simps)
    with u assms show ?thesis
      using \<open>hex_value ?h \<noteq> None\<close> \<open>hex_value ?l \<noteq> None\<close>
      by (simp add: j utf8_encode_def option.map_comp comp_def case_prod_unfold hex_value_def [of "CHR ''0''"] ascii_digit_def
          del: scan_string.simps(2) add: scan_string.simps(2) [of "CHR 0x5C"] scan_string.simps(2) [of "CHR ''0''"])
  next
    case raw: False
    then have j: "json_rune (byte_of c, [c]) = [c]" using s assms by (auto simp: json_rune_def)
    have "c \<noteq> CHR 0x22" "c \<noteq> CHR 0x5C" using s by auto
    moreover have "unquote ([c] @ t) = [c] @ unquote t"
      using assms s by (intro unquote_raw [of _ _ "byte_of c"]) (auto simp: Let_def split: prod.splits)
    ultimately show ?thesis using raw by (simp add: j)
  qed
qed (rule json_rune_short)

lemma json_rune_read:
  assumes "decode_rune s = (r, w)" and "s \<noteq> []" and "\<not> (r = rune_error \<and> w = 1)"
  shows "scan_string (json_rune (r, take w s) @ t) = map_option (\<lambda>(raw, q). (json_rune (r, take w s) @ raw, q)) (scan_string t)
    \<and> unquote (json_rune (r, take w s) @ t) = take w s @ unquote t"
  using decode_rune_valid [OF assms]
proof
  assume "\<exists>c. r = byte_of c \<and> r < 128 \<and> take w s = [c]"
  then show ?thesis using json_rune_low by fastforce
next
  assume v: "128 \<le> r \<and> list_all (\<lambda>c. 128 \<le> byte_of c) (take w s) \<and> take w s = utf8_encode r \<and> length (take w s) = w
      \<and> (\<forall>t. decode_rune (take w s @ t) = (r, w))"
  show ?thesis
  proof (cases "r = 8232 \<or> r = 8233")
    case True
    have "unquote (CHR 0x5C # ''u2028'' @ t) = utf8_encode 8232 @ unquote t" "unquote (CHR 0x5C # ''u2029'' @ t) = utf8_encode 8233 @ unquote t"
      by (simp_all add: unquote_u hex4_def hex_value_def ascii_digit_def)
    then show ?thesis using True v
      by (auto simp: json_rune_def hex_value_def ascii_digit_def option.map_comp comp_def case_prod_unfold)
  next
    case False
    obtain c cs where c: "take w s = c # cs" using v by (cases "take w s") (auto simp: utf8_encode_def split: if_splits)
    then have "c \<noteq> CHR 0x5C" using v by auto
    have "length (utf8_encode rune_error) = 3" by (simp add: utf8_encode_def)
    with v False have j: "json_rune (r, take w s) = take w s" by (auto simp: json_rune_def Let_def)
    have x: "decode_rune (take w s @ t) = (r, length (take w s))" "\<not> (r = rune_error \<and> length (take w s) = 1)"
      using v assms(3) by metis+
    have "unquote (take w s @ t) = take w s @ unquote t"
      by (rule unquote_raw [OF x(1) _ _ x(2)]) (use c \<open>c \<noteq> CHR 0x5C\<close> in simp_all)
    then show ?thesis unfolding j using scan_string_high v by blast
  qed
qed

lemma json_body_read:
  "valid_utf8 s \<Longrightarrow> scan_string (json_body s @ CHR 0x22 # t) = Some (json_body s, t) \<and> unquote (json_body s) = s"
proof (induction s rule: runes.induct)
  case (1 s)
  show ?case
  proof (cases "s = []")
    case True
    then show ?thesis by (simp add: json_body_def unquote.simps)
  next
    case False
    obtain r w where d: "decode_rune s = (r, w)" by (cases "decode_rune s")
    have e: "runes s = (r, take w s) # runes (drop w s)" using False d by (subst runes.simps) simp
    have w: "1 \<le> w" using decode_rune_width [OF False] d by simp
    have ok: "\<not> (r = rune_error \<and> w = 1)" and v: "valid_utf8 (drop w s)"
      using "1.prems" e False by (cases s; auto simp: valid_utf8_def)+
    have b: "json_body s = json_rune (r, take w s) @ json_body (drop w s)" by (simp add: json_body_def e)
    from 1 False v d have ih: "scan_string (json_body (drop w s) @ CHR 0x22 # t) = Some (json_body (drop w s), t)"
      "unquote (json_body (drop w s)) = drop w s" by simp_all
    show ?thesis unfolding b append_assoc using json_rune_read [OF d False ok] ih by simp
  qed
qed

lemma json_string_read: "valid_utf8 s \<Longrightarrow> scan_string (json_body s @ CHR 0x22 # t) = Some (json_body s, t)"
  and unquote_json_body [simp]: "valid_utf8 s \<Longrightarrow> unquote (json_body s) = s"
  using json_body_read by blast+

section \<open>Printed values are read back\<close>

lemma skip_space_id: "s = [] \<or> 32 < byte_of (hd s) \<Longrightarrow> skip_space s = s"
  by (cases s) (auto simp: skip_space_def)

text \<open>After a number comes a character that cannot continue it.\<close>

definition number_end :: "string \<Rightarrow> bool" where
  "number_end t \<longleftrightarrow> (case t of [] \<Rightarrow> True | c # _ \<Rightarrow> \<not> ascii_digit c \<and> c \<noteq> CHR ''.'' \<and> c \<noteq> CHR ''e'' \<and> c \<noteq> CHR ''E'')"

lemma scan_integer_decimal: "number_end t \<Longrightarrow> scan_integer (decimal n @ t) = Some (decimal n, t)"
proof (cases "n < 10")
  case True
  assume t: "number_end t"
  have z: "digit_char n = CHR ''0'' \<longleftrightarrow> n = 0" using byte_of_digit_char [OF True] by (cases "n = 0") auto
  have "takeWhile ascii_digit t = []" "dropWhile ascii_digit t = t" using t by (auto simp: number_end_def split: list.splits)
  then show ?thesis using True z
    by (auto simp: decimal_small scan_integer_def scan_digits1_def)
next
  case False
  assume t: "number_end t"
  obtain c cs where d: "decimal n = c # cs" using decimal_ne [of n] by (cases "decimal n") auto
  then have "c \<noteq> CHR ''0''" using decimal_hd [of n] False by auto
  moreover have "takeWhile ascii_digit t = []" "dropWhile ascii_digit t = t" using t by (auto simp: number_end_def split: list.splits)
  moreover have "\<forall>x \<in> set (decimal n). ascii_digit x" using decimal_digits by blast
  ultimately show ?thesis using d by (auto simp: scan_integer_def scan_digits1_def takeWhile_append2 dropWhile_append2)
qed

lemma scan_number_decimal: "number_end t \<Longrightarrow> scan_number (decimal n @ t) = Some (decimal n, t)"
proof -
  assume t: "number_end t"
  obtain c cs where d: "decimal n = c # cs" using decimal_ne [of n] by (cases "decimal n") auto
  then have "ascii_digit c" using decimal_digits [of c n] by simp
  then have "c \<noteq> CHR ''-''" by (auto simp: ascii_digit_def)
  then show ?thesis using scan_integer_decimal [OF t, of n] t
    by (auto simp: scan_number_def d scan_fraction_def scan_exponent_def number_end_def split: list.splits)
qed

lemma json_value_string:
  "valid_utf8 s \<Longrightarrow> json_value (Suc n) (json_string s @ t) = Some (TStr (json_body s), t)"
  by (simp add: json_string_def skip_space_id json_string_read)

lemma json_value_number: "number_end t \<Longrightarrow> json_value (Suc n) (decimal k @ t) = Some (TNum (decimal k), t)"
proof -
  assume t: "number_end t"
  obtain c cs where d: "decimal k = c # cs" using decimal_ne [of k] by (cases "decimal k") auto
  then have "ascii_digit c" using decimal_digits [of c k] by simp
  then have "32 < byte_of c" "c \<noteq> CHR 0x22" "c \<noteq> CHR ''{''" "c \<noteq> CHR ''[''" "c \<noteq> CHR ''t''" "c \<noteq> CHR ''f''" "c \<noteq> CHR ''n''"
    by (auto simp: ascii_digit_def)
  then show ?thesis using scan_number_decimal [OF t, of k] by (simp add: d skip_space_id hasPrefix_def)
qed

text \<open>The members of a printed object, one after the other.\<close>

lemma json_members_last:
  assumes "valid_utf8 k" and "json_value n (v @ CHR ''}'' # t) = Some (x, CHR ''}'' # t)"
  shows "json_members (Suc n) (json_string k @ '':'' @ v @ CHR ''}'' # t) = Some ([(k, x)], t)"
  using assms by (simp add: json_string_def skip_space_id json_string_read)

lemma json_members_step:
  assumes "valid_utf8 k" and "json_value n (v @ CHR '','' # t) = Some (x, CHR '','' # t)"
  shows "json_members (Suc n) (json_string k @ '':'' @ v @ CHR '','' # t) = map_option (\<lambda>(ms, r). ((k, x) # ms, r)) (json_members n t)"
  using assms by (simp add: json_string_def skip_space_id json_string_read)

fun scalar :: "json \<Rightarrow> jtree option" where
  "scalar (JStr s) = (if valid_utf8 s then Some (TStr (json_body s)) else None)"
| "scalar (JInt i) = (if 0 \<le> i then Some (TNum (decimal (nat i))) else None)"
| "scalar _ = None"

lemma json_value_scalar:
  assumes "scalar v = Some x" and "number_end t"
  shows "json_value (Suc n) (json_encode v @ t) = Some (x, t)"
  using assms by (cases v) (auto simp: json_value_string json_value_number json_int_def split: if_splits simp del: json_value.simps)

definition member_text :: "string \<times> json \<Rightarrow> string" where
  "member_text = (\<lambda>(k, v). json_string k @ '':'' @ json_encode v)"

lemma json_members_read:
  assumes "list_all (\<lambda>(k, v). valid_utf8 k \<and> scalar v \<noteq> None) ms" and "ms \<noteq> []" and "length ms < n"
  shows "json_members n (json_join (map member_text ms) @ CHR ''}'' # t) = Some (map (\<lambda>(k, v). (k, the (scalar v))) ms, t)"
  using assms
proof (induction ms arbitrary: n)
  case (Cons m ms)
  obtain k v where m: "m = (k, v)" by (cases m)
  obtain x where x: "scalar v = Some x" "valid_utf8 k" using Cons.prems m by auto
  obtain n' where n: "n = Suc (Suc n')" using Cons.prems by (cases n; cases "n - 1") auto
  have e: "number_end (CHR ''}'' # t)" "number_end (CHR '','' # t)" for t by (simp_all add: number_end_def ascii_digit_def)
  show ?case
  proof (cases ms)
    case Nil
    have "json_members n (json_string k @ '':'' @ json_encode v @ CHR ''}'' # t) = Some ([(k, x)], t)"
      unfolding n using json_value_scalar [OF x(1) e(1)] x(2) by (intro json_members_last)
    then show ?thesis by (simp add: Nil m member_text_def x)
  next
    case (Cons m' ms')
    let ?r = "json_join (map member_text ms) @ CHR ''}'' # t"
    have "json_members n (json_string k @ '':'' @ json_encode v @ CHR '','' # ?r) = map_option (\<lambda>(ms, r). ((k, x) # ms, r)) (json_members (Suc n') ?r)"
      unfolding n using json_value_scalar [OF x(1) e(2)] x(2) by (intro json_members_step)
    then show ?thesis using Cons.IH [of "Suc n'"] Cons.prems n by (simp add: Cons m member_text_def x)
  qed
qed simp

lemma json_object_read:
  assumes "list_all (\<lambda>(k, v). valid_utf8 k \<and> scalar v \<noteq> None) ms" and "ms \<noteq> []"
  shows "json_parse (json_encode (JObj ms)) = Some (TObj (map (\<lambda>(k, v). (k, the (scalar v))) ms))"
proof -
  let ?j = "json_join (map member_text ms)" and ?n = "2 * length (json_encode (JObj ms))"
  have e: "json_encode (JObj ms) = CHR ''{'' # ?j @ ''}''" by (simp add: member_text_def)
  have "length ms \<le> length ?j"
  proof (induction ms rule: induct_list012)
    case (3 x y zs)
    then show ?case by simp
  qed (auto simp: member_text_def json_string_def split: prod.splits)
  then have len: "length ms < ?n" unfolding e by simp
  obtain k v ms' where ms: "ms = (k, v) # ms'" using assms(2) by (cases ms) auto
  obtain q where q: "?j = CHR 0x22 # q" by (cases ms') (auto simp: ms member_text_def json_string_def)
  have "json_members ?n (CHR 0x22 # q @ ''}'') = Some (map (\<lambda>(k, v). (k, the (scalar v))) ms, [])"
    using json_members_read [OF assms len, of "[]"] q by simp
  then have "json_value (Suc ?n) (CHR ''{'' # ?j @ ''}'') = Some (TObj (map (\<lambda>(k, v). (k, the (scalar v))) ms), [])"
    by (simp add: q skip_space_id del: json_members.simps json_encode.simps)
  then show ?thesis unfolding json_parse_def e [symmetric] by (simp add: skip_space_id del: json_value.simps json_encode.simps)
qed

section \<open>The fuel of the parser is enough\<close>

lemma json_fuel:
  "2 * length s < n \<Longrightarrow> json_value (Suc n) s = json_value n s"
  "2 * length s + 1 < n \<Longrightarrow> json_elements (Suc n) s = json_elements n s"
  "2 * length s < n \<Longrightarrow> json_members (Suc n) s = json_members n s"
proof (induction n s and n s and n s rule: json_value_json_elements_json_members.induct)
  case (2 n s)
  show ?case
  proof (cases "skip_space s")
    case (Cons c r)
    have len: "length r < length s" using Cons by (rule skip_space_length)
    have m: "json_members (Suc n) (d # r') = json_members n (d # r')" if "c \<noteq> CHR 0x22" "c = CHR ''{''" "skip_space r = d # r'" "d \<noteq> CHR ''}''" for d r'
      using 2(1) [OF Cons that] skip_space_length [OF that(3)] len "2.prems" by simp
    have v: "json_elements (Suc n) (d # r') = json_elements n (d # r')" if "c \<noteq> CHR 0x22" "c \<noteq> CHR ''{''" "c = CHR ''[''" "skip_space r = d # r'" "d \<noteq> CHR '']''" for d r'
      using 2(2) [OF Cons that] skip_space_length [OF that(4)] len "2.prems" by simp
    show ?thesis unfolding json_value.simps(2) Cons using m v by (simp split: list.split del: json_members.simps json_elements.simps)
  qed simp
next
  case (4 n s)
  have v: "json_value (Suc n) s = json_value n s" using 4(1) "4.prems" by simp
  have e: "json_elements (Suc n) r' = json_elements n r'" if "json_value n s = Some (x, r)" "skip_space r = c # r'" "c \<noteq> CHR '']''" "c = CHR '',''" for x r c r'
    using 4(2) [OF that(1) refl that(2-4)] json_length(1) [OF that(1)] skip_space_length [OF that(2)] "4.prems" by simp
  show ?case unfolding json_elements.simps(2) [of n s] json_elements.simps(2) [of "Suc n" s] v using e
    by (auto simp del: json_value.simps json_elements.simps split: list.split bind_split)
next
  case (6 n s)
  show ?case
  proof (cases "skip_space s")
    case (Cons q r)
    have v: "json_value (Suc n) r' = json_value n r'"
      if "q = CHR 0x22" "scan_string r = Some (key, t)" "skip_space t = c # r'" "c = CHR '':''" for key t c r'
      using 6(1) [OF Cons _ that(2) refl that(3)] that scan_string_length [OF that(2)] skip_space_length [OF that(3)]
        skip_space_length [OF Cons] "6.prems" by simp
    have m: "json_members (Suc n) u = json_members n u"
      if "q = CHR 0x22" "scan_string r = Some (key, t)" "skip_space t = c # r'" "c = CHR '':''" "json_value n r' = Some (x, r'')"
        "skip_space r'' = d # u" "d = CHR '',''" for key t c r' x r'' d u
      using 6(2) [OF Cons _ that(2) refl that(3) _ that(5) refl that(6)] that scan_string_length [OF that(2)] skip_space_length [OF that(3)]
        json_length(1) [OF that(5)] skip_space_length [OF that(6)] skip_space_length [OF Cons] "6.prems" by simp
    show ?thesis unfolding json_members.simps(2) [of n s] json_members.simps(2) [of "Suc n" s] Cons using v m
      by (auto simp del: json_value.simps json_members.simps split: list.split bind_split)
  qed simp
qed simp_all

end
