(* ===== verification/Net_Time.thy ===== *)
theory Net_Time
  imports Net_Codec
begin

text \<open>
  Calendar time as \<^verbatim>\<open>encoding/json\<close> prints a \<^verbatim>\<open>time.Time\<close>: RFC 3339 with up to nine
  fractional digits, in UTC (the zone the service stores and compares instants in). The zero
  time is 0001-01-01T00:00:00Z, so a day number counts from there.
\<close>

section \<open>Calendar\<close>

definition leap_year :: "nat \<Rightarrow> bool" where
  "leap_year y \<longleftrightarrow> y mod 4 = 0 \<and> (y mod 100 \<noteq> 0 \<or> y mod 400 = 0)"

definition month_lengths :: "nat \<Rightarrow> nat list" where
  "month_lengths y = [31, if leap_year y then 29 else 28, 31, 30, 31, 30, 31, 31, 30, 31, 30, 31]"

text \<open>Year and day of the year of a day number: cycles of 400, 100, 4 and 1 years.\<close>

definition year_of_day :: "nat \<Rightarrow> nat \<times> nat" where
  "year_of_day d =
     (let n4 = d div 146097; r4 = d mod 146097;
          n1 = min 3 (r4 div 36524); r1 = r4 - n1 * 36524;
          n0 = r1 div 1461; r0 = r1 mod 1461;
          ny = min 3 (r0 div 365)
      in (400 * n4 + 100 * n1 + 4 * n0 + ny + 1, r0 - ny * 365))"

definition days_before_year :: "nat \<Rightarrow> nat" where
  "days_before_year y = (let k = y - 1 in 365 * k + k div 4 + k div 400 - k div 100)"

fun split_month :: "nat \<Rightarrow> nat list \<Rightarrow> nat \<Rightarrow> nat \<times> nat" where
  "split_month d [] m = (m, d + 1)"
| "split_month d (l # r) m = (if d < l then (m, d + 1) else split_month (d - l) r (m + 1))"

definition civil_of_day :: "nat \<Rightarrow> nat \<times> nat \<times> nat" where
  "civil_of_day d = (let (y, yd) = year_of_day d in (y, split_month yd (month_lengths y) 1))"

definition day_of_civil :: "nat \<times> nat \<times> nat \<Rightarrow> nat" where
  "day_of_civil = (\<lambda>(y, m, d). days_before_year y + sum_list (take (m - 1) (month_lengths y)) + (d - 1))"

section \<open>RFC 3339\<close>

fun pad_left :: "nat \<Rightarrow> string \<Rightarrow> string" where
  "pad_left n s = replicate (n - length s) (CHR ''0'') @ s"

declare pad_left.simps [simp del]

definition trim_zeros :: "string \<Rightarrow> string" where
  "trim_zeros s = rev (dropWhile (\<lambda>c. c = CHR ''0'') (rev s))"

definition rfc3339_fraction :: "nat \<Rightarrow> string" where
  "rfc3339_fraction ns = (if ns = 0 then [] else CHR ''.'' # trim_zeros (pad_left 9 (decimal ns)))"

text \<open>Days are shifted by one 400-year cycle, so that the year 0000 (the day numbers from -366 on) has a
  calendar too.\<close>

definition rfc3339 :: "go_time \<Rightarrow> string" where
  "rfc3339 t =
     (let ns = nat (t mod 1000000000); sec = t div 1000000000;
          (y, m, d) = civil_of_day (nat (sec div 86400 + 146097)); r = nat (sec mod 86400)
      in pad_left 4 (decimal (y - 400)) @ ''-'' @ pad_left 2 (decimal m) @ ''-'' @ pad_left 2 (decimal d) @ ''T''
         @ pad_left 2 (decimal (r div 3600)) @ '':'' @ pad_left 2 (decimal (r div 60 mod 60)) @ '':''
         @ pad_left 2 (decimal (r mod 60)) @ rfc3339_fraction ns @ ''Z'')"

text \<open>\<^verbatim>\<open>Time.MarshalJSON\<close> fails outside the years 0000 to 9999.\<close>

definition time_marshals :: "go_time \<Rightarrow> bool" where
  "time_marshals t \<longleftrightarrow> - 366 \<le> t div 86400000000000 \<and> t div 86400000000000 < 3652059"

definition JTime :: "go_time \<Rightarrow> json" where
  "JTime t = JStr (rfc3339 t)"

section \<open>The calendar is faithful\<close>

lemma days_before_year_parts:
  assumes "b \<le> 3" and "c \<le> 24" and "e \<le> (3::nat)"
  shows "days_before_year (400 * a + 100 * b + 4 * c + e + 1) = 146097 * a + 36524 * b + 1461 * c + 365 * e"
proof -
  let ?k = "400 * a + 100 * b + 4 * c + e"
  have "?k div 4 = 100 * a + 25 * b + c" using assms by (simp add: div_nat_eqI)
  moreover have "?k div 100 = 4 * a + b" using assms by (simp add: div_nat_eqI)
  moreover have "?k div 400 = a" using assms by (simp add: div_nat_eqI)
  ultimately show ?thesis by (simp add: days_before_year_def Let_def)
qed

lemma year_of_day_sound:
  assumes "year_of_day d = (y, yd)"
  shows "days_before_year y + yd = d" and "yd < 366"
proof -
  define r4 where "r4 = d mod 146097"
  define n1 where "n1 = min 3 (r4 div 36524)"
  define r1 where "r1 = r4 - n1 * 36524"
  define r0 where "r0 = r1 mod 1461"
  define ny where "ny = min 3 (r0 div 365)"
  have r4: "r4 < 146097" unfolding r4_def by simp
  have n1: "n1 * 36524 \<le> r4" "n1 \<le> 3" unfolding n1_def by (auto simp: min_def intro: order_trans [OF mult_le_mono1])
  have "r4 < (n1 + 1) * 36524 \<or> n1 = 3"
    unfolding n1_def using div_less_iff_less_mult [of 36524 r4 "r4 div 36524 + 1"] by (auto simp: min_def)
  then have r1: "r1 < 36525" unfolding r1_def using r4 n1 by auto
  then have c: "r1 div 1461 \<le> 24" using div_le_mono [of r1 36524 1461] by simp
  have r0: "r0 < 1461" unfolding r0_def by simp
  have ny: "ny * 365 \<le> r0" "ny \<le> 3" unfolding ny_def by (auto simp: min_def intro: order_trans [OF mult_le_mono1])
  have "r0 < (ny + 1) * 365 \<or> ny = 3"
    unfolding ny_def using div_less_iff_less_mult [of 365 r0 "r0 div 365 + 1"] by (auto simp: min_def)
  then have yd: "r0 - ny * 365 < 366" using r0 ny by auto
  have y: "y = 400 * (d div 146097) + 100 * n1 + 4 * (r1 div 1461) + ny + 1" "yd = r0 - ny * 365"
    using assms by (simp_all add: year_of_day_def Let_def r4_def n1_def r1_def r0_def ny_def)
  have "days_before_year y = 146097 * (d div 146097) + 36524 * n1 + 1461 * (r1 div 1461) + 365 * ny"
    unfolding y using n1 c ny by (intro days_before_year_parts)
  moreover have "1461 * (r1 div 1461) + r0 = r1" unfolding r0_def by simp
  moreover have "36524 * n1 + r1 = r4" using n1 unfolding r1_def by simp
  moreover have "146097 * (d div 146097) + r4 = d" unfolding r4_def by simp
  ultimately show "days_before_year y + yd = d" using ny unfolding y(2) by linarith
  show "yd < 366" using yd y(2) by simp
qed

lemma split_month_sum:
  assumes "split_month d ls m = (m', d')"
  shows "m \<le> m' \<and> 1 \<le> d' \<and> sum_list (take (m' - m) ls) + (d' - 1) = d"
  using assms
proof (induction d ls m rule: split_month.induct)
  case (2 d l r m)
  show ?case
  proof (cases "d < l")
    case False
    with 2 have "m + 1 \<le> m' \<and> 1 \<le> d' \<and> sum_list (take (m' - (m + 1)) r) + (d' - 1) = d - l" by simp
    moreover from this have "m' - m = Suc (m' - (m + 1))" by linarith
    then have "take (m' - m) (l # r) = l # take (m' - (m + 1)) r" by simp
    ultimately show ?thesis using False by auto
  qed (use 2 in auto)
qed auto

lemma day_of_civil_inverse: "day_of_civil (civil_of_day d) = d"
proof -
  obtain y yd where y: "year_of_day d = (y, yd)" by (cases "year_of_day d")
  obtain m dd where m: "split_month yd (month_lengths y) 1 = (m, dd)" by (cases "split_month yd (month_lengths y) 1")
  from split_month_sum [OF m] year_of_day_sound(1) [OF y] show ?thesis
    by (auto simp: civil_of_day_def day_of_civil_def y m [unfolded One_nat_def])
qed

end
