(* ===== verification/Net_Rfc3339.thy ===== *)
theory Net_Rfc3339
  imports Net_Time Net_Netip
begin

text \<open>
  Reading back the JSON form of a \<^verbatim>\<open>time.Time\<close>: the parser that \<^verbatim>\<open>Time.UnmarshalJSON\<close> runs, and the proof
  that it returns the printed instant.
\<close>

section \<open>The parser\<close>

text \<open>\<^verbatim>\<open>Time.UnmarshalJSON\<close> parses with the layout \<^verbatim>\<open>time.RFC3339\<close>: the hour may have one digit, a fraction of
  a second may follow a period or a comma and its digits beyond the ninth are dropped, and the zone is \<^verbatim>\<open>Z\<close> or an
  offset of at most 24 hours and 60 minutes.\<close>

definition getnum :: "bool \<Rightarrow> string \<Rightarrow> (nat \<times> string) option" where
  "getnum fixed s =
     (case s of [] \<Rightarrow> None
      | c # r \<Rightarrow>
          if \<not> ascii_digit c then None
          else (case r of
             d # r' \<Rightarrow> if ascii_digit d then Some ((byte_of c - 48) * 10 + (byte_of d - 48), r')
                       else if fixed then None else Some (byte_of c - 48, r)
           | [] \<Rightarrow> if fixed then None else Some (byte_of c - 48, [])))"

definition expect :: "char \<Rightarrow> string \<Rightarrow> string option" where
  "expect c s = (case s of d # r \<Rightarrow> if d = c then Some r else None | [] \<Rightarrow> None)"

definition parse_year :: "string \<Rightarrow> (nat \<times> string) option" where
  "parse_year s =
     (if length s < 4 then None else map_option (\<lambda>y. (y, drop 4 s)) (atoi_digits (take 4 s) 0))"

definition parse_fraction :: "string \<Rightarrow> nat \<times> string" where
  "parse_fraction s =
     (case s of
        c # d # r \<Rightarrow>
          if (c = CHR ''.'' \<or> c = CHR '','') \<and> ascii_digit d
          then (let ds = takeWhile ascii_digit (d # r); n = take 9 ds
                in ((case atoi_digits n 0 of None \<Rightarrow> 0 | Some v \<Rightarrow> v) * 10 ^ (9 - length n), dropWhile ascii_digit (d # r)))
          else (0, s)
      | _ \<Rightarrow> (0, s))"

definition parse_zone :: "string \<Rightarrow> (int \<times> string) option" where
  "parse_zone s =
     (case s of
        [] \<Rightarrow> None
      | c # r \<Rightarrow>
          if c = CHR ''Z'' then Some (0, r)
          else if length s < 6 \<or> s ! 3 \<noteq> CHR '':'' then None
          else (case (getnum True (take 2 (drop 1 s)), getnum True (take 2 (drop 4 s))) of
             (Some (hr, _), Some (mm, _)) \<Rightarrow>
               if 24 < hr \<or> 60 < mm then None
               else if c = CHR ''+'' then Some (int ((hr * 60 + mm) * 60), drop 6 s)
               else if c = CHR ''-'' then Some (- int ((hr * 60 + mm) * 60), drop 6 s)
               else None
           | _ \<Rightarrow> None))"

definition days_in :: "nat \<Rightarrow> nat \<Rightarrow> nat" where
  "days_in m y = month_lengths y ! (m - 1)"

definition instant :: "nat \<times> nat \<times> nat \<Rightarrow> nat \<Rightarrow> nat \<Rightarrow> nat \<Rightarrow> nat \<Rightarrow> int \<Rightarrow> go_time" where
  "instant = (\<lambda>(y, m, d) h mi sec ns zone.
     (((int (day_of_civil (y + 400, m, d)) - 146097) * 24 + int h) * 3600 + int mi * 60 + int sec - zone) * 1000000000 + int ns)"

definition parse_date :: "string \<Rightarrow> ((nat \<times> nat \<times> nat) \<times> string) option" where
  "parse_date s =
     Option.bind (parse_year s) (\<lambda>(y, s). Option.bind (expect (CHR ''-'') s) (\<lambda>s.
     Option.bind (getnum True s) (\<lambda>(m, s). Option.bind (expect (CHR ''-'') s) (\<lambda>s.
     Option.bind (getnum True s) (\<lambda>(d, s). if m < 1 \<or> 12 < m then None else Some ((y, m, d), s))))))"

definition parse_clock :: "string \<Rightarrow> ((nat \<times> nat \<times> nat) \<times> string) option" where
  "parse_clock s =
     Option.bind (getnum False s) (\<lambda>(h, s). Option.bind (expect (CHR '':'') s) (\<lambda>s.
     Option.bind (getnum True s) (\<lambda>(mi, s). Option.bind (expect (CHR '':'') s) (\<lambda>s.
     Option.bind (getnum True s) (\<lambda>(sec, s). if 24 \<le> h \<or> 60 \<le> mi \<or> 60 \<le> sec then None else Some ((h, mi, sec), s))))))"

definition parse_rfc3339 :: "string \<Rightarrow> go_time option" where
  "parse_rfc3339 s =
     Option.bind (parse_date s) (\<lambda>((y, m, d), s). Option.bind (expect (CHR ''T'') s) (\<lambda>s.
     Option.bind (parse_clock s) (\<lambda>((h, mi, sec), s).
       let (ns, s) = parse_fraction s in
       Option.bind (parse_zone s) (\<lambda>(zone, s).
         if s \<noteq> [] \<or> d < 1 \<or> days_in m y < d then None else Some (instant (y, m, d) h mi sec ns zone)))))"

section \<open>Calendar dates are valid dates\<close>

lemma days_before_year_Suc:
  assumes "1 \<le> y"
  shows "days_before_year (Suc y) = days_before_year y + (if leap_year y then 366 else 365)"
proof -
  obtain k where y: "y = Suc k" using assms by (cases y) auto
  have d: "Suc k div n = k div n + (if Suc k mod n = 0 then 1 else 0)" if "0 < n" for n
    using that by (simp add: div_Suc)
  have "Suc k mod 100 mod 4 = Suc k mod 4" "Suc k mod 400 mod 100 = Suc k mod 100"
    by (rule mod_mod_cancel, simp)+
  then have m: "Suc k mod 100 = 0 \<Longrightarrow> Suc k mod 4 = 0" "Suc k mod 400 = 0 \<Longrightarrow> Suc k mod 100 = 0"
    by (metis mod_0)+
  define p q c where "p = k div 4" and "q = k div 400" and "c = k div 100"
  have le: "c \<le> p" unfolding p_def c_def by (simp add: div_le_mono2)
  have "leap_year (Suc k) \<longleftrightarrow> Suc k mod 4 = 0 \<and> (Suc k mod 100 \<noteq> 0 \<or> Suc k mod 400 = 0)" by (rule leap_year_def)
  with m show ?thesis
    unfolding y days_before_year_def Let_def diff_Suc_1 d [of 4, simplified] d [of 100, simplified] d [of 400, simplified]
      p_def [symmetric] q_def [symmetric] c_def [symmetric]
    by (cases "Suc k mod 4 = 0"; cases "Suc k mod 100 = 0"; cases "Suc k mod 400 = 0") (use le in simp_all)
qed

lemma days_before_year_mono: "1 \<le> y \<Longrightarrow> y \<le> z \<Longrightarrow> days_before_year y \<le> days_before_year z"
proof (induction z)
  case (Suc z)
  then show ?case by (cases "y \<le> z") (auto simp: days_before_year_Suc le_Suc_eq)
qed simp

lemma leap_year_shift [simp]: "leap_year (y + 400) = leap_year y"
proof -
  have "(y + 100 * 4) mod 4 = y mod 4" "(y + 4 * 100) mod 100 = y mod 100" "(y + 1 * 400) mod 400 = y mod 400"
    by (simp_all only: mod_mult_self1)
  then show ?thesis by (simp add: leap_year_def)
qed

lemma leap_year_fourth:
  assumes "c \<le> 24" and "c = 24 \<longrightarrow> b = 3"
  shows "leap_year (400 * a + 100 * b + 4 * c + 4)"
proof (cases "c = 24")
  case True
  then have "400 * a + 100 * b + 4 * c + 4 = 400 * (a + 1)" using assms by simp
  then show ?thesis unfolding leap_year_def by (simp add: mod_eq_0_iff_dvd del: mult_Suc_right)
next
  case False
  then have "4 * c + 4 < 100" "0 < 4 * c + 4" using assms by auto
  then have "(100 * (4 * a + b) + (4 * c + 4)) mod 100 \<noteq> 0" by (simp only: mod_mult_self4 mod_less)
  moreover have "(4 * (100 * a + 25 * b + c + 1)) mod 4 = 0" by simp
  moreover have "400 * a + 100 * b + 4 * c + 4 = 4 * (100 * a + 25 * b + c + 1)"
    "400 * a + 100 * b + 4 * c + 4 = 100 * (4 * a + b) + (4 * c + 4)" by simp_all
  ultimately show ?thesis unfolding leap_year_def by metis
qed

lemma year_of_day_lt:
  assumes "year_of_day d = (y, yd)"
  shows "yd < (if leap_year y then 366 else 365)"
proof -
  define r4 where "r4 = d mod 146097"
  define n1 where "n1 = min 3 (r4 div 36524)"
  define r1 where "r1 = r4 - n1 * 36524"
  define r0 where "r0 = r1 mod 1461"
  define ny where "ny = min 3 (r0 div 365)"
  have y: "y = 400 * (d div 146097) + 100 * n1 + 4 * (r1 div 1461) + ny + 1" "yd = r0 - ny * 365"
    using assms by (simp_all add: year_of_day_def Let_def r4_def n1_def r1_def r0_def ny_def)
  have "yd < 366" using assms by (rule year_of_day_sound(2))
  moreover have "yd < 365" if "ny < 3"
  proof -
    have "ny = r0 div 365" using that by (simp add: ny_def min_def split: if_splits)
    then have "yd = r0 mod 365" by (simp add: y(2) minus_div_mult_eq_mod)
    then show ?thesis by simp
  qed
  moreover have "leap_year y" if "ny = 3" "yd = 365"
  proof -
    have r0: "r0 = 1460" using that y(2) by simp
    have "r4 < 146097" by (simp add: r4_def)
    then have "r1 < 36525" "n1 < 3 \<Longrightarrow> r1 < 36524"
    proof -
      have n: "n1 < 3 \<Longrightarrow> n1 = r4 div 36524" by (simp add: n1_def min_def split: if_splits)
      then show "n1 < 3 \<Longrightarrow> r1 < 36524" by (simp add: r1_def minus_div_mult_eq_mod)
      then show "r1 < 36525" using \<open>r4 < 146097\<close> by (cases "n1 < 3") (auto simp: r1_def n1_def)
    qed
    moreover have e: "r1 = 1461 * (r1 div 1461) + 1460" using mult_div_mod_eq [of 1461 r1] r0 unfolding r0_def by linarith
    ultimately have "r1 div 1461 \<le> 24" "r1 div 1461 = 24 \<longrightarrow> n1 = 3"
      by (linarith, cases "n1 < 3") (auto simp: n1_def min_def split: if_splits)
    moreover have "y = 400 * (d div 146097) + 100 * n1 + 4 * (r1 div 1461) + 4" using y(1) that by simp
    ultimately show ?thesis by (simp only: leap_year_fourth)
  qed
  moreover have "ny \<le> 3" by (simp add: ny_def)
  ultimately show ?thesis by (cases "ny < 3"; cases "yd = 365") auto
qed

lemma split_month_range:
  assumes "split_month d ls m = (m', d')" and "d < sum_list ls"
  shows "m \<le> m' \<and> m' < m + length ls \<and> 1 \<le> d' \<and> d' \<le> ls ! (m' - m)"
  using assms
proof (induction d ls m rule: split_month.induct)
  case (2 d l r m)
  show ?case
  proof (cases "d < l")
    case False
    with 2 have "m + 1 \<le> m' \<and> m' < m + 1 + length r \<and> 1 \<le> d' \<and> d' \<le> r ! (m' - (m + 1))" by simp
    moreover from this have "m' - m = Suc (m' - (m + 1))" by linarith
    ultimately show ?thesis by simp
  qed (use 2 in auto)
qed simp

lemma civil_of_day_valid:
  assumes "civil_of_day n = (y, m, d)"
  shows "1 \<le> m \<and> m \<le> 12 \<and> 1 \<le> d \<and> d \<le> days_in m y"
proof -
  obtain yd where y: "year_of_day n = (y, yd)" using assms by (cases "year_of_day n") (auto simp: civil_of_day_def)
  with assms have s: "split_month yd (month_lengths y) 1 = (m, d)" by (simp add: civil_of_day_def)
  have "sum_list (month_lengths y) = (if leap_year y then 366 else 365)" by (simp add: month_lengths_def)
  with year_of_day_lt [OF y] have "yd < sum_list (month_lengths y)" by simp
  from split_month_range [OF s this] show ?thesis by (auto simp: days_in_def month_lengths_def)
qed

lemma civil_of_day_year:
  assumes "civil_of_day n = (y, m, d)" and "145731 \<le> n" and "n < 3798156"
  shows "400 \<le> y \<and> y < 10400"
proof -
  obtain yd where y: "year_of_day n = (y, yd)" using assms by (cases "year_of_day n") (auto simp: civil_of_day_def)
  have s: "days_before_year y + yd = n" using y by (rule year_of_day_sound(1))
  have "1 \<le> y" using y by (auto simp: year_of_day_def Let_def)
  have "400 \<le> y"
  proof (rule ccontr)
    assume "\<not> 400 \<le> y"
    then have "days_before_year (Suc y) \<le> days_before_year 400" by (intro days_before_year_mono) auto
    also have "\<dots> = 145731" by (simp add: days_before_year_def Let_def)
    finally show False using s assms(2) year_of_day_lt [OF y] days_before_year_Suc [OF \<open>1 \<le> y\<close>] by simp
  qed
  moreover have "y < 10400"
  proof (rule ccontr)
    assume "\<not> y < 10400"
    then have "days_before_year 10400 \<le> days_before_year y" by (intro days_before_year_mono) auto
    then show False using s assms(3) by (simp add: days_before_year_def [of 10400] Let_def)
  qed
  ultimately show ?thesis by simp
qed

section \<open>Printed instants parse\<close>

lemma pad2: "x < 100 \<Longrightarrow> pad_left 2 (decimal x) = [digit_char (x div 10), digit_char (x mod 10)]"
  by (cases "x < 10") (simp_all add: pad_left.simps decimal.simps [of x] decimal_small less_mult_imp_div_less)

lemma getnum_pad2: "x < 100 \<Longrightarrow> getnum f (pad_left 2 (decimal x) @ r) = Some (x, r)"
  by (simp add: pad2 getnum_def less_mult_imp_div_less)

lemma length_decimal: "x < 10 ^ Suc n \<Longrightarrow> length (decimal x) \<le> Suc n"
proof (induction n arbitrary: x)
  case (Suc n)
  show ?case
  proof (cases "x < 10")
    case False
    have "x div 10 < 10 ^ Suc n" using Suc.prems by (simp add: less_mult_imp_div_less)
    from Suc.IH [OF this] False show ?thesis by (subst decimal.simps) simp
  qed (simp add: decimal_small)
qed (simp add: decimal_small)

lemma atoi_zeros: "atoi_digits (replicate n (CHR ''0'') @ s) 0 = atoi_digits s 0"
  by (induction n) (simp_all add: ascii_digit_def)

lemma atoi_pad [simp]: "atoi_digits (pad_left n (decimal x)) 0 = Some x"
  by (simp add: pad_left.simps atoi_zeros atoi_decimal)

lemma length_pad: "x < 10 ^ Suc n \<Longrightarrow> length (pad_left (Suc n) (decimal x)) = Suc n"
  using length_decimal [of x n] by (simp add: pad_left.simps)

lemma parse_year_pad: "y < 10000 \<Longrightarrow> parse_year (pad_left 4 (decimal y) @ r) = Some (y, r)"
  using length_pad [of y 3] by (simp add: parse_year_def)

lemma atoi_trailing: "atoi_digits (s @ replicate k (CHR ''0'')) acc = map_option (\<lambda>v. v * 10 ^ k) (atoi_digits s acc)"
proof -
  have "atoi_digits (replicate k (CHR ''0'')) v = Some (v * 10 ^ k)" for v
    by (induction k arbitrary: v) (simp_all add: ascii_digit_def)
  then show ?thesis by (simp add: atoi_digits_append split: bind_splits)
qed

lemma trim_zeros_append: "\<exists>k. s = trim_zeros s @ replicate k (CHR ''0'')"
proof -
  let ?P = "\<lambda>c. c = CHR ''0''"
  have "rev s = takeWhile ?P (rev s) @ dropWhile ?P (rev s)" by simp
  then have "s = trim_zeros s @ rev (takeWhile ?P (rev s))" unfolding trim_zeros_def by (metis rev_append rev_rev_ident)
  moreover have "takeWhile ?P (rev s) = replicate (length (takeWhile ?P (rev s))) (CHR ''0'')"
    by (rule replicate_eqI) (auto dest: set_takeWhileD)
  ultimately show ?thesis by (metis rev_replicate)
qed

lemma parse_fraction_print:
  assumes "ns < 1000000000"
  shows "parse_fraction (rfc3339_fraction ns @ ''Z'') = (ns, ''Z'')"
proof (cases "ns = 0")
  case False
  define p where "p = pad_left 9 (decimal ns)"
  define t where "t = trim_zeros p"
  obtain k where k: "p = t @ replicate k (CHR ''0'')" unfolding t_def using trim_zeros_append by blast
  have len: "length p = 9" using length_pad [of ns 8] assms by (simp add: p_def)
  have "map_option (\<lambda>v. v * 10 ^ k) (atoi_digits t 0) = Some ns"
    using atoi_pad [of 9 ns] by (simp add: p_def [symmetric] k atoi_trailing)
  then obtain v where v: "atoi_digits t 0 = Some v" "v * 10 ^ k = ns" by auto
  have dig: "\<forall>c \<in> set t. ascii_digit c"
  proof -
    have "\<forall>c \<in> set p. ascii_digit c" by (auto simp: p_def pad_left.simps ascii_digit_def [of "CHR ''0''"] dest: decimal_digits)
    then show ?thesis using k by auto
  qed
  obtain c r where t: "t = c # r" using v False by (cases t) auto
  have z: "\<not> ascii_digit (CHR ''Z'')" by (simp add: ascii_digit_def)
  have "takeWhile ascii_digit (t @ ''Z'') = t" "dropWhile ascii_digit (t @ ''Z'') = ''Z''"
    using dig z by (simp_all add: takeWhile_append2 dropWhile_append2)
  moreover have "length t \<le> 9" "9 - length t = k" using len k by auto
  moreover have "rfc3339_fraction ns = CHR ''.'' # t" using False by (simp add: rfc3339_fraction_def t_def p_def)
  ultimately show ?thesis using dig v by (simp add: parse_fraction_def t Let_def)
qed (simp add: rfc3339_fraction_def parse_fraction_def)

lemma expect_Cons [simp]: "expect c (c # r) = Some r"
  by (simp add: expect_def)

lemma parse_rfc3339_print:
  assumes "time_marshals t"
  shows "parse_rfc3339 (rfc3339 t) = Some t"
proof -
  define sec where "sec = t div 1000000000"
  define ns where "ns = nat (t mod 1000000000)"
  define r where "r = nat (sec mod 86400)"
  define n where "n = nat (sec div 86400 + 146097)"
  obtain y m d where c: "civil_of_day n = (y, m, d)" by (cases "civil_of_day n")
  have day: "sec div 86400 = t div 86400000000000" unfolding sec_def by (simp add: zdiv_zmult2_eq [symmetric])
  then have n: "int n = sec div 86400 + 146097" "145731 \<le> n" "n < 3798156"
    using assms unfolding time_marshals_def n_def by linarith+
  have y: "400 \<le> y" "y - 400 < 10000" "y - 400 + 400 = y" using civil_of_day_year [OF c n(2,3)] by auto
  have v: "1 \<le> m" "m \<le> 12" "1 \<le> d" "d \<le> days_in m y" using civil_of_day_valid [OF c] by auto
  have leap: "leap_year (y - 400) = leap_year y" using leap_year_shift [of "y - 400"] y by simp
  have dd: "days_in m (y - 400) = days_in m y" by (simp add: days_in_def month_lengths_def leap)
  have "days_in m y \<le> 31" using v unfolding days_in_def month_lengths_def by (auto simp: nth_Cons split: nat.splits)
  with v have small: "m < 100" "d < 100" by auto
  have rr: "r < 86400" "int r = sec mod 86400" by (simp_all add: r_def nat_less_iff)
  have h: "r div 3600 < 24" "r div 60 mod 60 < 60" "r mod 60 < 60" using rr by (simp_all add: less_mult_imp_div_less)
  have ns: "ns < 1000000000" "int ns = t mod 1000000000" by (simp_all add: ns_def nat_less_iff)
  have date: "parse_date (pad_left 4 (decimal (y - 400)) @ ''-'' @ pad_left 2 (decimal m) @ ''-'' @ pad_left 2 (decimal d) @ q)
      = Some ((y - 400, m, d), q)" for q
    using y v small by (simp add: parse_date_def parse_year_pad getnum_pad2)
  have clock: "parse_clock (pad_left 2 (decimal (r div 3600)) @ '':'' @ pad_left 2 (decimal (r div 60 mod 60)) @ '':''
      @ pad_left 2 (decimal (r mod 60)) @ q) = Some ((r div 3600, r div 60 mod 60, r mod 60), q)" for q
    using h by (simp add: parse_clock_def getnum_pad2 not_le)
  have inst: "instant (y - 400, m, d) (r div 3600) (r div 60 mod 60) (r mod 60) ns 0 = t"
  proof -
    have "day_of_civil (y, m, d) = n" using day_of_civil_inverse [of n] c by simp
    moreover have "int r = int (r div 3600) * 3600 + int (r div 60 mod 60) * 60 + int (r mod 60)"
    proof -
      have "r div 3600 = r div 60 div 60" by (simp add: div_mult2_eq [symmetric])
      moreover have "r div 60 = r div 60 div 60 * 60 + r div 60 mod 60" "r = r div 60 * 60 + r mod 60"
        by (simp_all only: div_mult_mod_eq)
      ultimately show ?thesis by linarith
    qed
    ultimately have "instant (y - 400, m, d) (r div 3600) (r div 60 mod 60) (r mod 60) ns 0
        = ((int n - 146097) * 86400 + int r) * 1000000000 + int ns"
      using y by (simp add: instant_def algebra_simps)
    also have "\<dots> = sec * 1000000000 + int ns" using n(1) rr(2) by simp
    also have "\<dots> = t" using ns(2) by (simp add: sec_def)
    finally show ?thesis .
  qed
  have "rfc3339 t = pad_left 4 (decimal (y - 400)) @ ''-'' @ pad_left 2 (decimal m) @ ''-'' @ pad_left 2 (decimal d) @ ''T''
     @ pad_left 2 (decimal (r div 3600)) @ '':'' @ pad_left 2 (decimal (r div 60 mod 60)) @ '':''
     @ pad_left 2 (decimal (r mod 60)) @ rfc3339_fraction ns @ ''Z''"
    unfolding rfc3339_def Let_def sec_def [symmetric] ns_def [symmetric] n_def [symmetric] r_def [symmetric] by (simp add: c)
  then have e: "parse_date (rfc3339 t) = Some ((y - 400, m, d), ''T'' @ pad_left 2 (decimal (r div 3600)) @ '':''
      @ pad_left 2 (decimal (r div 60 mod 60)) @ '':'' @ pad_left 2 (decimal (r mod 60)) @ rfc3339_fraction ns @ ''Z'')"
    by (simp only: date)
  have f: "parse_clock (pad_left 2 (decimal (r div 3600)) @ CHR '':'' # pad_left 2 (decimal (r div 60 mod 60)) @ CHR '':''
      # pad_left 2 (decimal (r mod 60)) @ rfc3339_fraction ns @ ''Z'') = Some ((r div 3600, r div 60 mod 60, r mod 60), rfc3339_fraction ns @ ''Z'')"
    using clock by simp
  show ?thesis
    using v dd inst by (simp add: parse_rfc3339_def e f parse_fraction_print [OF ns(1)] parse_zone_def)
qed

end
