(* ===== verification/Net_Egress.thy ===== *)
theory Net_Egress
  imports Net_Types Net_Time "HOL-Library.List_Lexorder"
begin

text \<open>
  Egress and platform use cases: \<^verbatim>\<open>internal/biz/network/egress.go\<close> and
  \<^verbatim>\<open>platform_intranet.go\<close>. The trusted caller, its authorization, public and intranet pool
  topologies, verification evidence, the interface inventory, and the request handlers up to
  the repository, which is an interface of the code: a record of operations on a world \<open>'w\<close>.
  The list handlers are in the theory of cursors and lists.

  The context of a request is the caller a trusted adapter installed, or none. The clock of a
  request is one instant: the readings \<^verbatim>\<open>e.now()\<close> of a single request are not told apart.
\<close>

section \<open>The trusted caller and its authorization\<close>

record EgressCaller =
  ec_TenantID :: string
  ec_Attribution :: Attribution
  ec_PlatformAdministrator :: bool
  ec_DelegatedTenants :: "string list"

type_synonym ctx = "EgressCaller option"

record EgressAuthorization =
  ea_Tenant :: "ctx \<Rightarrow> string \<Rightarrow> (string \<times> Attribution) res"
  ea_Platform :: "ctx \<Rightarrow> Attribution res"

definition WithEgressCaller :: "ctx \<Rightarrow> EgressCaller \<Rightarrow> ctx" where
  "WithEgressCaller _ caller = Some caller"

definition EgressCallerOf :: "ctx \<Rightarrow> EgressCaller option" where
  "EgressCallerOf c = c"

definition Context_Tenant :: "(string \<Rightarrow> string option) \<Rightarrow> ctx \<Rightarrow> string \<Rightarrow> (string \<times> Attribution) res" where
  "Context_Tenant uuid_Parse c target =
     (case c of
        None \<Rightarrow> Inl (Fail PermissionDenied ''trusted tenant context is required'')
      | Some caller \<Rightarrow>
          (let target = (if target = [] then ec_TenantID caller else target) in
           case ParseTenant uuid_Parse target of
             Inl e \<Rightarrow> Inl e
           | Inr tenant \<Rightarrow>
               (let own = (case ParseTenant uuid_Parse (ec_TenantID caller) of Inl _ \<Rightarrow> [] | Inr t \<Rightarrow> t) in
                if tenant \<noteq> own \<and> tenant \<notin> set (ec_DelegatedTenants caller)
                then Inl (Fail PermissionDenied ''tenant delegation is required'')
                else case validateAttribution (ec_Attribution caller) of
                  Some e \<Rightarrow> Inl e
                | None \<Rightarrow> Inr (tenant, ec_Attribution caller))))"

definition Context_Platform :: "ctx \<Rightarrow> Attribution res" where
  "Context_Platform c =
     (case c of
        None \<Rightarrow> Inl (Fail PermissionDenied ''platform authorization is required'')
      | Some caller \<Rightarrow>
          if \<not> ec_PlatformAdministrator caller then Inl (Fail PermissionDenied ''platform authorization is required'')
          else case validateAttribution (ec_Attribution caller) of
            Some e \<Rightarrow> Inl e | None \<Rightarrow> Inr (ec_Attribution caller))"

definition ContextEgressAuthorization :: "(string \<Rightarrow> string option) \<Rightarrow> EgressAuthorization" where
  "ContextEgressAuthorization uuid_Parse = \<lparr>ea_Tenant = Context_Tenant uuid_Parse, ea_Platform = Context_Platform\<rparr>"

section \<open>Intents and their fingerprints\<close>

record EgressIntent =
  ei_TenantID :: string
  ei_Kind :: string
  ei_ID :: string
  ei_Name :: string
  ei_Description :: string
  ei_IdempotencyKey :: string
  ei_VPCID :: string
  ei_EIPID :: string
  ei_Enabled :: bool
  ei_ExpectedVersion :: int

definition zero_egress_intent :: EgressIntent where
  "zero_egress_intent = \<lparr>ei_TenantID = [], ei_Kind = [], ei_ID = [], ei_Name = [], ei_Description = [], ei_IdempotencyKey = [],
     ei_VPCID = [], ei_EIPID = [], ei_Enabled = False, ei_ExpectedVersion = 0\<rparr>"

definition EgressIntent_json :: "EgressIntent \<Rightarrow> json" where
  "EgressIntent_json i = JObj
     [(''TenantID'', JStr (ei_TenantID i)), (''Kind'', JStr (ei_Kind i)), (''ID'', JStr (ei_ID i)), (''Name'', JStr (ei_Name i)),
      (''Description'', JStr (ei_Description i)), (''IdempotencyKey'', JStr (ei_IdempotencyKey i)), (''VPCID'', JStr (ei_VPCID i)),
      (''EIPID'', JStr (ei_EIPID i)), (''Enabled'', JBool (ei_Enabled i)), (''ExpectedVersion'', JInt (ei_ExpectedVersion i))]"

definition egressFingerprint :: "json \<Rightarrow> string" where
  "egressFingerprint v = fingerprint_of v"

definition EgressIntent_Fingerprint :: "EgressIntent \<Rightarrow> string" where
  "EgressIntent_Fingerprint i = egressFingerprint (EgressIntent_json (i\<lparr>ei_IdempotencyKey := []\<rparr>))"

record PlatformIntent =
  pi_Kind :: string
  pi_ID :: string
  pi_Name :: string
  pi_Description :: string
  pi_IdempotencyKey :: string
  pi_ExpectedVersion :: int
  pi_Enabled :: bool
  pi_Device :: "DeviceConfig option"
  pi_Vlan :: "VlanConfig option"
  pi_Pool :: "PublicPoolConfig option"
  pi_Verification :: "PublicPoolVerification option"

definition JOpt :: "('a \<Rightarrow> json) \<Rightarrow> 'a option \<Rightarrow> json" where
  "JOpt f v = (case v of None \<Rightarrow> JNull | Some x \<Rightarrow> f x)"

text \<open>A nil slice prints \<^verbatim>\<open>null\<close>; \<^verbatim>\<open>omitempty\<close> drops an empty string or slice.\<close>

definition JStrings :: "string list \<Rightarrow> json" where
  "JStrings vs = (if vs = [] then JNull else JArr (map JStr vs))"

definition omitempty :: "string \<Rightarrow> bool \<Rightarrow> json \<Rightarrow> (string \<times> json) list" where
  "omitempty k e v = (if e then [] else [(k, v)])"

definition PublicPoolConfig_json :: "PublicPoolConfig \<Rightarrow> json" where
  "PublicPoolConfig_json p = JObj
     (omitempty ''Scope'' (pp_Scope p = []) (JStr (pp_Scope p))
      @ omitempty ''DefaultVPCName'' (pp_DefaultVPCName p = []) (JStr (pp_DefaultVPCName p))
      @ omitempty ''DefaultVPCUID'' (pp_DefaultVPCUID p = []) (JStr (pp_DefaultVPCUID p))
      @ omitempty ''IntranetNetworks'' (pp_IntranetNetworks p = []) (JStrings (pp_IntranetNetworks p))
      @ [(''Mode'', JStr (pp_Mode p)), (''GatewayID'', JStr (pp_GatewayID p)), (''CIDR'', JStr (pp_CIDR p)),
         (''OVNGatewayIP'', JStr (pp_OVNGatewayIP p)), (''ExcludedIPs'', JStrings (pp_ExcludedIPs p)),
         (''VlanNetworkID'', JStr (pp_VlanNetworkID p)), (''UpstreamGatewayIP'', JStr (pp_UpstreamGatewayIP p))])"

definition PublicPoolVerification_json :: "PublicPoolVerification \<Rightarrow> json" where
  "PublicPoolVerification_json v = JObj
     [(''ProviderSourceRevision'', JStr (pv_ProviderSourceRevision v)), (''ProviderImageDigests'', JStrings (pv_ProviderImageDigests v)),
      (''TopologyFingerprint'', JStr (pv_TopologyFingerprint v)), (''EvidenceReference'', JStr (pv_EvidenceReference v)),
      (''Scope'', JStr (pv_Scope v)), (''VerifiedAt'', JTime (pv_VerifiedAt v)), (''ExpiresAt'', JTime (pv_ExpiresAt v))]"

text \<open>The fingerprint of a platform intent: the key and the collected nodes of a device are dropped.\<close>

definition PlatformIntent_json :: "PlatformIntent \<Rightarrow> json" where
  "PlatformIntent_json i = JObj
     [(''Kind'', JStr (pi_Kind i)), (''ID'', JStr (pi_ID i)), (''Name'', JStr (pi_Name i)), (''Description'', JStr (pi_Description i)),
      (''IdempotencyKey'', JStr []), (''ExpectedVersion'', JInt (pi_ExpectedVersion i)), (''Enabled'', JBool (pi_Enabled i)),
      (''Device'', JOpt (\<lambda>d. JObj [(''DeviceName'', JStr (dc_DeviceName d)),
          (''InventoryFingerprint'', JStr (dc_InventoryFingerprint d)), (''Nodes'', JNull)]) (pi_Device i)),
      (''Vlan'', JOpt (\<lambda>v. JObj [(''DeviceID'', JStr (vc_DeviceID v)), (''VlanID'', JInt (vc_VlanID v))]) (pi_Vlan i)),
      (''Pool'', JOpt PublicPoolConfig_json (pi_Pool i)), (''Verification'', JOpt PublicPoolVerification_json (pi_Verification i))]"

definition PlatformIntent_Fingerprint :: "PlatformIntent \<Rightarrow> string" where
  "PlatformIntent_Fingerprint i = egressFingerprint (PlatformIntent_json i)"

section \<open>Names and identifiers\<close>

definition normalizeEgressName :: "(string \<Rightarrow> string option) \<Rightarrow> string \<Rightarrow> string \<Rightarrow> string \<Rightarrow> string res" where
  "normalizeEgressName uuid_Parse name description key =
     (case NewVPCIntent uuid_Parse ''00000000-0000-0000-0000-000000000001'' name ''10.0.0.0/24'' description key of
        Inl e \<Rightarrow> Inl e | Inr v \<Rightarrow> Inr (vi_Name v))"

text \<open>\<^verbatim>\<open>^prefix_[0-9a-f]{32}$\<close>\<close>

definition validEgressID :: "string \<Rightarrow> string \<Rightarrow> bool" where
  "validEgressID i prefix \<longleftrightarrow> hasPrefix i (prefix @ ''_'')
     \<and> length i = length prefix + 33 \<and> list_all lower_hex (drop (length prefix + 1) i)"

definition hex_text :: "nat \<Rightarrow> string \<Rightarrow> bool" where
  "hex_text n s \<longleftrightarrow> length s = n \<and> list_all lower_hex s"

definition platformPrefix :: "string \<Rightarrow> string" where
  "platformPrefix k =
     (if k = ''device'' then ''device'' else if k = ''vlan'' then ''vlan'' else if k = ''egress_gateway'' then ''egw''
      else if k = ''public_pool'' \<or> k = ''intranet_pool'' then ''pool'' else ''invalid'')"

section \<open>Pool topologies\<close>

text \<open>An address a pool may use as a gateway: canonical, inside the pool, neither its first nor its
  last address. \<open>parse_v4\<close> is \<^verbatim>\<open>netip.ParseAddr\<close> restricted to IPv4; the comparison of the
  printed form with the input is implied by it (lemma \<open>parse_v4_iff\<close>).\<close>

definition usable :: "v4 \<Rightarrow> nat \<Rightarrow> string \<Rightarrow> bool" where
  "usable w n raw = (case parse_v4 raw of None \<Rightarrow> False
     | Some ip \<Rightarrow> v4_contains w n ip \<and> ip \<noteq> w \<and> ip \<noteq> lastPoolAddress w n)"

text \<open>One excluded entry: a canonical address or an ascending range \<^verbatim>\<open>first..last\<close> of the pool.\<close>

definition excluded_bounds :: "string \<Rightarrow> string \<times> string" where
  "excluded_bounds r = (case cut ''..'' r of None \<Rightarrow> (r, r) | Some (a, b) \<Rightarrow> (a, b))"

definition excluded_ok :: "v4 \<Rightarrow> nat \<Rightarrow> string \<Rightarrow> bool" where
  "excluded_ok w n r =
     (case excluded_bounds r of (lo, hi) \<Rightarrow>
       (case (parse_v4 lo, parse_v4 hi) of
          (Some a, Some b) \<Rightarrow> v4_contains w n a \<and> v4_contains w n b \<and> a \<le> b
        | _ \<Rightarrow> False))"

abbreviation sort_compact :: "string list \<Rightarrow> string list" where
  "sort_compact vs \<equiv> remdups_adj (sort vs)"

definition NormalizePublicPool :: "PublicPoolConfig \<Rightarrow> PublicPoolConfig res" where
  "NormalizePublicPool p =
     (let bad = Inl (Fail InvalidArgument ''invalid public pool topology or reserved address'') in
      if (pp_Scope p \<noteq> [] \<and> pp_Scope p \<noteq> ''public'') \<or> pp_DefaultVPCName p \<noteq> [] \<or> pp_DefaultVPCUID p \<noteq> []
         \<or> pp_IntranetNetworks p \<noteq> [] then bad
      else case parse_v4_prefix (pp_CIDR p) of
        None \<Rightarrow> bad
      | Some (w, n) \<Rightarrow>
          if v4_masked w n \<noteq> w \<or> 30 < n \<or> \<not> validEgressID (pp_GatewayID p) ''egw'' then bad
          else if \<not> usable w n (pp_OVNGatewayIP p) then bad
          else if pp_Mode p = ''overlay'' \<and> (pp_VlanNetworkID p \<noteq> [] \<or> pp_UpstreamGatewayIP p \<noteq> []) then bad
          else if pp_Mode p = ''underlay'' \<and> (\<not> validEgressID (pp_VlanNetworkID p) ''vlan'' \<or> \<not> usable w n (pp_UpstreamGatewayIP p)
             \<or> pp_UpstreamGatewayIP p = pp_OVNGatewayIP p) then bad
          else if pp_Mode p \<noteq> ''overlay'' \<and> pp_Mode p \<noteq> ''underlay'' then bad
          else if 1024 < length (pp_ExcludedIPs p) then bad
          else
            (let ex = pp_ExcludedIPs p @ [pp_OVNGatewayIP p];
                 ex = (if pp_Mode p = ''underlay'' then ex @ [pp_UpstreamGatewayIP p] else ex)
             in if \<not> list_all (excluded_ok w n) ex then bad
                else Inr (p\<lparr>pp_ExcludedIPs := sort_compact ex\<rparr>)))"

definition dns_label :: "string \<Rightarrow> bool" where
  "dns_label s = (case s of [] \<Rightarrow> False
     | c # cs \<Rightarrow> (ascii_digit c \<or> ascii_lower c) \<and> (cs = [] \<or> (length cs \<le> 62 \<and> (ascii_digit (last cs) \<or> ascii_lower (last cs))
         \<and> list_all (\<lambda>x. ascii_digit x \<or> ascii_lower x \<or> x = CHR ''-'') (butlast cs))))"

text \<open>An intranet destination: a canonical IPv4 network other than the default route.\<close>

definition intranet_network_ok :: "string \<Rightarrow> bool" where
  "intranet_network_ok raw = (case parse_v4_prefix raw of None \<Rightarrow> False
     | Some (w, n) \<Rightarrow> v4_masked w n = w \<and> v4_prefix_string w n = raw \<and> n \<noteq> 0)"

text \<open>\<^verbatim>\<open>strings.ContainsAny\<close> with slash, backslash, tab, carriage return, line feed and space.\<close>

definition uid_forbidden :: "string \<Rightarrow> bool" where
  "uid_forbidden s = list_ex (\<lambda>c. byte_of c \<in> {47, 92, 9, 13, 10, 32::nat}) s"

definition NormalizeIntranetPool :: "PublicPoolConfig \<Rightarrow> PublicPoolConfig res" where
  "NormalizeIntranetPool p =
     (let bad = Inl (Fail InvalidArgument ''invalid intranet pool, default VPC identity or destination networks'') in
      if (pp_Scope p \<noteq> [] \<and> pp_Scope p \<noteq> ''intranet'') \<or> (pp_Mode p \<noteq> [] \<and> pp_Mode p \<noteq> ''overlay'') \<or> pp_GatewayID p \<noteq> []
         \<or> pp_VlanNetworkID p \<noteq> [] \<or> pp_UpstreamGatewayIP p \<noteq> [] then bad
      else if \<not> dns_label (pp_DefaultVPCName p) \<or> trim_space (pp_DefaultVPCUID p) \<noteq> pp_DefaultVPCUID p \<or> pp_DefaultVPCUID p = []
         \<or> 128 < length (pp_DefaultVPCUID p)
         \<or> uid_forbidden (pp_DefaultVPCUID p) then bad
      else case parse_v4_prefix (pp_CIDR p) of
        None \<Rightarrow> bad
      | Some (w, n) \<Rightarrow>
          if v4_masked w n \<noteq> w \<or> 30 < n \<or> n = 0 then bad
          else if \<not> usable w n (pp_OVNGatewayIP p) then bad
          else if 1024 < length (pp_ExcludedIPs p) \<or> pp_IntranetNetworks p = [] \<or> 1024 < length (pp_IntranetNetworks p) then bad
          else
            (let ex = pp_ExcludedIPs p @ [pp_OVNGatewayIP p] in
             if \<not> list_all (excluded_ok w n) ex then bad
             else if \<not> list_all intranet_network_ok (pp_IntranetNetworks p) then bad
             else Inr (p\<lparr>pp_ExcludedIPs := sort_compact ex, pp_IntranetNetworks := sort_compact (pp_IntranetNetworks p),
                         pp_Scope := ''intranet'', pp_Mode := ''overlay''\<rparr>)))"

section \<open>Verification evidence\<close>

definition image_digest :: "string \<Rightarrow> bool" where
  "image_digest d \<longleftrightarrow> hasPrefix d ''sha256:'' \<and> hex_text 64 (drop 7 d)"

definition ValidatePoolVerification :: "PublicPoolVerification \<Rightarrow> go_time \<Rightarrow> goerr option" where
  "ValidatePoolVerification v now =
     (if \<not> hex_text 40 (pv_ProviderSourceRevision v) \<or> pv_ProviderImageDigests v = [] \<or> \<not> hex_text 64 (pv_TopologyFingerprint v)
         \<or> trim_space (pv_Scope v) = [] \<or> trim_space (pv_EvidenceReference v) = [] \<or> 1024 < length (pv_Scope v)
         \<or> 2048 < length (pv_EvidenceReference v) \<or> time_is_zero (pv_VerifiedAt v) \<or> time_after (pv_VerifiedAt v) now
         \<or> \<not> time_after (pv_ExpiresAt v) now \<or> \<not> time_after (pv_ExpiresAt v) (pv_VerifiedAt v)
      then Some (Fail InvalidArgument ''verification requires exact provider identity, topology, scope and a valid time window'')
      else if \<not> list_all image_digest (pv_ProviderImageDigests v)
      then Some (Fail InvalidArgument ''provider image digest must be sha256'')
      else None)"

definition IntranetVerificationScope :: string where
  "IntranetVerificationScope = ''base_intranet''"

definition ValidatePoolVerificationForScope :: "PublicPoolVerification \<Rightarrow> string \<Rightarrow> go_time \<Rightarrow> goerr option" where
  "ValidatePoolVerificationForScope v scope now =
     (case ValidatePoolVerification v now of
        Some e \<Rightarrow> Some e
      | None \<Rightarrow>
          if (scope = ''intranet'' \<and> pv_Scope v \<noteq> IntranetVerificationScope)
             \<or> (scope \<noteq> ''intranet'' \<and> pv_Scope v = IntranetVerificationScope)
          then Some (Fail InvalidArgument ''verification capability does not match pool scope'') else None)"

section \<open>The interface inventory\<close>

definition managed_ready :: "NodeInterface \<Rightarrow> bool" where
  "managed_ready v \<longleftrightarrow> ni_KCManaged v \<and> ni_KCConfigured v \<and> ni_KCConfigUID v \<noteq> [] \<and> ni_KCBridgeReady v \<and> ni_OVSManaged v
     \<and> ni_Master v = ''ovs-system'' \<and> ni_MAC v \<noteq> [] \<and> ni_LinkUp v \<and> ni_Carrier v"

definition address_blocks :: "string \<Rightarrow> bool" where
  "address_blocks raw = (case ParsePrefix raw of None \<Rightarrow> True
     | Some p \<Rightarrow> \<not> is_link_local_unicast (pfx_addr p))"

definition reject_reasons :: "go_time \<Rightarrow> duration \<Rightarrow> NodeInterface \<Rightarrow> string list" where
  "reject_reasons now freshness v =
     (if ni_NodeName v = [] \<or> ni_NodeUID v = [] \<or> ni_Name v = [] then [''incomplete_identity''] else [])
     @ (if time_is_zero (ni_ObservedAt v) \<or> time_after (ni_ObservedAt v) now \<or> freshness < time_sub now (ni_ObservedAt v)
        then [''stale_facts''] else [])
     @ (if ni_Management v \<or> ni_DefaultRoute v then [''management_or_default_route''] else [])
     @ (if ni_Kind v \<noteq> ''device'' then [''not_physical_device''] else [])
     @ (if (ni_Master v \<noteq> [] \<or> ni_OVSManaged v) \<and> \<not> managed_ready v then [''already_in_use''] else [])
     @ (if (ni_KCManaged v \<or> ni_KCConfigured v) \<and> \<not> managed_ready v then [''managed_device_not_ready''] else [])
     @ (if ni_KCDeviceOwner v \<noteq> [] then [''already_registered''] else [])
     @ (if list_ex address_blocks (ni_Addresses v) then [''address_assigned''] else [])
     @ (if ni_VlanNetworkIDs v \<noteq> [] then [''vlan_in_use''] else [])"

definition filter_interface :: "go_time \<Rightarrow> duration \<Rightarrow> NodeInterface \<Rightarrow> NodeInterface" where
  "filter_interface now freshness v =
     (let rs = sort_compact (ni_UnavailableReasons v @ reject_reasons now freshness v)
      in v\<lparr>ni_UnavailableReasons := rs, ni_Selectable := (rs = [])\<rparr>)"

definition FilterNodeInterfaces :: "NodeInterface list \<Rightarrow> go_time \<Rightarrow> duration \<Rightarrow> NodeInterface list" where
  "FilterNodeInterfaces items now freshness = map (filter_interface now freshness) items"

section \<open>Repositories and use cases\<close>

record ListVPCs =
  lv_TenantID :: string
  lv_Name :: string
  lv_State :: string
  lv_Cursor :: string
  lv_Limit :: int

record VPCFilter =
  vf_Name :: string
  vf_State :: string
  vf_AfterID :: string
  vf_AfterCreatedAt :: go_time
  vf_Limit :: int

record CapabilityObservation =
  cap_Ready :: bool
  cap_Reason :: reason
  cap_ObservedAt :: "go_time option"
  cap_ObservationStale :: bool

record PlatformNetworkCapabilities =
  pc_BaseConnectivity :: CapabilityObservation
  pc_PublicAddress :: CapabilityObservation
  pc_LoadBalancer :: CapabilityObservation

text \<open>The capability repository is an interface the egress repository may not implement.\<close>

record 'w EgressRepository =
  er_AcceptEIP :: "EgressIntent \<Rightarrow> Attribution \<Rightarrow> duration \<Rightarrow> 'w \<Rightarrow> EIP res \<times> 'w"
  er_GetEIP :: "string \<Rightarrow> string \<Rightarrow> 'w \<Rightarrow> EIP res \<times> 'w"
  er_ListEIPs :: "string \<Rightarrow> VPCFilter \<Rightarrow> 'w \<Rightarrow> EIP list res \<times> 'w"
  er_DeleteEIP :: "string \<Rightarrow> string \<Rightarrow> Attribution \<Rightarrow> 'w \<Rightarrow> EIP res \<times> 'w"
  er_AcceptSnat :: "EgressIntent \<Rightarrow> Attribution \<Rightarrow> duration \<Rightarrow> 'w \<Rightarrow> VPCSnatBinding res \<times> 'w"
  er_GetSnat :: "string \<Rightarrow> string \<Rightarrow> bool \<Rightarrow> 'w \<Rightarrow> VPCSnatBinding res \<times> 'w"
  er_DeleteSnat :: "string \<Rightarrow> string \<Rightarrow> Attribution \<Rightarrow> 'w \<Rightarrow> VPCSnatBinding res \<times> 'w"
  er_AcceptPlatform :: "PlatformIntent \<Rightarrow> Attribution \<Rightarrow> duration \<Rightarrow> 'w \<Rightarrow> PlatformResource res \<times> 'w"
  er_GetPlatform :: "string \<Rightarrow> string \<Rightarrow> 'w \<Rightarrow> PlatformResource res \<times> 'w"
  er_ListPlatform :: "string \<Rightarrow> VPCFilter \<Rightarrow> 'w \<Rightarrow> PlatformResource list res \<times> 'w"
  er_DeletePlatform :: "string \<Rightarrow> string \<Rightarrow> Attribution \<Rightarrow> 'w \<Rightarrow> PlatformResource res \<times> 'w"
  er_GetPlatformOperation :: "string \<Rightarrow> 'w \<Rightarrow> Operation res \<times> 'w"
  er_GetPlatformCapabilities :: "(duration \<Rightarrow> 'w \<Rightarrow> PlatformNetworkCapabilities res \<times> 'w) option"

record 'w EgressInfrastructure =
  ein_ListNodeInterfaces :: "'w \<Rightarrow> InterfaceInventory res \<times> 'w"
  ein_ValidatePublicPool :: "PublicPoolConfig \<Rightarrow> 'w \<Rightarrow> goerr option \<times> 'w"

record 'w Egress =
  eg_repository :: "'w EgressRepository"
  eg_infrastructure :: "'w EgressInfrastructure"
  eg_authorization :: EgressAuthorization
  eg_cursorKey :: string
  eg_freshness :: duration
  eg_now :: go_time

text \<open>\<^verbatim>\<open>NewEgress\<close>; a nil dependency is \<open>None\<close>.\<close>

definition NewEgress ::
  "'w EgressRepository option \<Rightarrow> 'w EgressInfrastructure option \<Rightarrow> EgressAuthorization option \<Rightarrow> string \<Rightarrow> duration
     \<Rightarrow> go_time option \<Rightarrow> 'w Egress res" where
  "NewEgress r p a key freshness now =
     (case (r, p, a, now) of
        (Some r, Some p, Some a, Some now) \<Rightarrow>
          if length key < 32 \<or> freshness \<le> 0
          then Inl (OtherError ''egress repositories, authorization, cursor key and freshness are required'')
          else Inr \<lparr>eg_repository = r, eg_infrastructure = p, eg_authorization = a, eg_cursorKey = key,
                    eg_freshness = freshness, eg_now = now\<rparr>
      | _ \<Rightarrow> Inl (OtherError ''egress repositories, authorization, cursor key and freshness are required''))"

text \<open>An observation is stale when it is missing, in the future or older than the freshness bound.\<close>

definition observation_stale :: "go_time \<Rightarrow> duration \<Rightarrow> go_time option \<Rightarrow> bool" where
  "observation_stale now freshness t =
     (case t of None \<Rightarrow> True | Some t \<Rightarrow> time_after t now \<or> freshness < time_sub now t)"

definition Egress_metadata :: "'w Egress \<Rightarrow> EgressMetadata \<Rightarrow> EgressMetadata" where
  "Egress_metadata e v = v\<lparr>em_ObservationStale := observation_stale (eg_now e) (eg_freshness e) (em_ObservedAt v)\<rparr>"

definition Egress_eip :: "'w Egress \<Rightarrow> EIP \<Rightarrow> EIP" where
  "Egress_eip e v = v\<lparr>eip_Metadata := Egress_metadata e (eip_Metadata v)\<rparr>"

definition Egress_snat :: "'w Egress \<Rightarrow> VPCSnatBinding \<Rightarrow> VPCSnatBinding" where
  "Egress_snat e v =
     (let v = v\<lparr>snat_Metadata := Egress_metadata e (snat_Metadata v)\<rparr>
      in if em_ObservationStale (snat_Metadata v) then v\<lparr>snat_AppliedEnabled := None\<rparr> else v)"

definition Egress_platform :: "'w Egress \<Rightarrow> PlatformResource \<Rightarrow> PlatformResource" where
  "Egress_platform e v = v\<lparr>plr_Metadata := Egress_metadata e (plr_Metadata v)\<rparr>"

definition map_answer :: "('a \<Rightarrow> 'b) \<Rightarrow> 'a res \<times> 'w \<Rightarrow> 'b res \<times> 'w" where
  "map_answer f = (\<lambda>(r, s). ((case r of Inl e \<Rightarrow> Inl e | Inr v \<Rightarrow> Inr (f v)), s))"

definition CreateEIP :: "(string \<Rightarrow> string option) \<Rightarrow> 'w Egress \<Rightarrow> ctx \<Rightarrow> EgressIntent \<Rightarrow> 'w \<Rightarrow> EIP res \<times> 'w" where
  "CreateEIP uuid_Parse e c i s =
     (case ea_Tenant (eg_authorization e) c (ei_TenantID i) of
        Inl err \<Rightarrow> (Inl err, s)
      | Inr (tenant, a) \<Rightarrow>
          (case normalizeEgressName uuid_Parse (ei_Name i) (ei_Description i) (ei_IdempotencyKey i) of
             Inl err \<Rightarrow> (Inl err, s)
           | Inr name \<Rightarrow>
               er_AcceptEIP (eg_repository e)
                 (zero_egress_intent\<lparr>ei_TenantID := tenant, ei_Kind := ''create_eip'', ei_Name := name,
                    ei_Description := ei_Description i, ei_IdempotencyKey := ei_IdempotencyKey i\<rparr>) a (eg_freshness e) s))"

definition GetEIP :: "'w Egress \<Rightarrow> ctx \<Rightarrow> string \<Rightarrow> string \<Rightarrow> 'w \<Rightarrow> EIP res \<times> 'w" where
  "GetEIP e c tenant i s =
     (case ea_Tenant (eg_authorization e) c tenant of
        Inl err \<Rightarrow> (Inl err, s)
      | Inr (tenant, _) \<Rightarrow>
          if \<not> validEgressID i ''eip'' then (Inl (Fail ResourceNotFound ''EIP not found''), s)
          else map_answer (Egress_eip e) (er_GetEIP (eg_repository e) tenant i s))"

definition DeleteEIP :: "'w Egress \<Rightarrow> ctx \<Rightarrow> string \<Rightarrow> string \<Rightarrow> 'w \<Rightarrow> EIP res \<times> 'w" where
  "DeleteEIP e c tenant i s =
     (case ea_Tenant (eg_authorization e) c tenant of
        Inl err \<Rightarrow> (Inl err, s)
      | Inr (tenant, a) \<Rightarrow>
          if \<not> validEgressID i ''eip'' then (Inl (Fail ResourceNotFound ''EIP not found''), s)
          else map_answer (Egress_eip e) (er_DeleteEIP (eg_repository e) tenant i a s))"

definition BindVPCSnat :: "(string \<Rightarrow> string option) \<Rightarrow> 'w Egress \<Rightarrow> ctx \<Rightarrow> EgressIntent \<Rightarrow> 'w \<Rightarrow> VPCSnatBinding res \<times> 'w" where
  "BindVPCSnat uuid_Parse e c i s =
     (case ea_Tenant (eg_authorization e) c (ei_TenantID i) of
        Inl err \<Rightarrow> (Inl err, s)
      | Inr (tenant, a) \<Rightarrow>
          if \<not> validVPCID (ei_VPCID i) \<or> \<not> validEgressID (ei_EIPID i) ''eip''
          then (Inl (Fail ResourceNotFound ''network resource not found''), s)
          else case normalizeEgressName uuid_Parse ''snat'' [] (ei_IdempotencyKey i) of
            Inl err \<Rightarrow> (Inl err, s)
          | Inr _ \<Rightarrow>
              er_AcceptSnat (eg_repository e)
                (zero_egress_intent\<lparr>ei_TenantID := tenant, ei_Kind := ''bind_snat'', ei_VPCID := ei_VPCID i, ei_EIPID := ei_EIPID i,
                   ei_Enabled := True, ei_IdempotencyKey := ei_IdempotencyKey i\<rparr>) a (eg_freshness e) s)"

definition SetVPCSnatEnabled ::
  "(string \<Rightarrow> string option) \<Rightarrow> 'w Egress \<Rightarrow> ctx \<Rightarrow> EgressIntent \<Rightarrow> 'w \<Rightarrow> VPCSnatBinding res \<times> 'w" where
  "SetVPCSnatEnabled uuid_Parse e c i s =
     (case ea_Tenant (eg_authorization e) c (ei_TenantID i) of
        Inl err \<Rightarrow> (Inl err, s)
      | Inr (tenant, a) \<Rightarrow>
          if \<not> validEgressID (ei_ID i) ''snat'' then (Inl (Fail ResourceNotFound ''SNAT binding not found''), s)
          else case normalizeEgressName uuid_Parse ''snat'' [] (ei_IdempotencyKey i) of
            Inl err \<Rightarrow> (Inl err, s)
          | Inr _ \<Rightarrow>
              if ei_ExpectedVersion i < 1 then (Inl (Fail InvalidArgument ''expected_version is required''), s)
              else er_AcceptSnat (eg_repository e)
                (zero_egress_intent\<lparr>ei_TenantID := tenant, ei_Kind := ''set_snat_enabled'', ei_ID := ei_ID i,
                   ei_Enabled := ei_Enabled i, ei_ExpectedVersion := ei_ExpectedVersion i,
                   ei_IdempotencyKey := ei_IdempotencyKey i\<rparr>) a (eg_freshness e) s)"

definition GetVPCSnat :: "'w Egress \<Rightarrow> ctx \<Rightarrow> string \<Rightarrow> string \<Rightarrow> bool \<Rightarrow> 'w \<Rightarrow> VPCSnatBinding res \<times> 'w" where
  "GetVPCSnat e c tenant i byVPC s =
     (case ea_Tenant (eg_authorization e) c tenant of
        Inl err \<Rightarrow> (Inl err, s)
      | Inr (tenant, _) \<Rightarrow>
          if (byVPC \<and> \<not> validVPCID i) \<or> (\<not> byVPC \<and> \<not> validEgressID i ''snat'')
          then (Inl (Fail ResourceNotFound ''SNAT binding not found''), s)
          else map_answer (Egress_snat e) (er_GetSnat (eg_repository e) tenant i byVPC s))"

definition DeleteVPCSnatBinding :: "'w Egress \<Rightarrow> ctx \<Rightarrow> string \<Rightarrow> string \<Rightarrow> 'w \<Rightarrow> VPCSnatBinding res \<times> 'w" where
  "DeleteVPCSnatBinding e c tenant i s =
     (case ea_Tenant (eg_authorization e) c tenant of
        Inl err \<Rightarrow> (Inl err, s)
      | Inr (tenant, a) \<Rightarrow>
          if \<not> validEgressID i ''snat'' then (Inl (Fail ResourceNotFound ''SNAT binding not found''), s)
          else map_answer (Egress_snat e) (er_DeleteSnat (eg_repository e) tenant i a s))"

section \<open>Platform use cases\<close>

definition ListNodeInterfaces :: "'w Egress \<Rightarrow> ctx \<Rightarrow> string \<Rightarrow> 'w \<Rightarrow> InterfaceInventory res \<times> 'w" where
  "ListNodeInterfaces e c node s =
     (case ea_Platform (eg_authorization e) c of
        Inl err \<Rightarrow> (Inl err, s)
      | Inr _ \<Rightarrow>
          map_answer (\<lambda>inv. if node \<noteq> [] then inv\<lparr>inv_Items := filter (\<lambda>v. ni_NodeName v = node) (inv_Items inv)\<rparr> else inv)
            (ein_ListNodeInterfaces (eg_infrastructure e) s))"

definition device_name_ok :: "string \<Rightarrow> bool" where
  "device_name_ok s \<longleftrightarrow> 1 \<le> length s \<and> length s \<le> 15
     \<and> list_all (\<lambda>c. ascii_digit c \<or> ascii_lower c \<or> ascii_upper c \<or> c \<in> set ''_.:-'') s"

text \<open>The switch of \<^verbatim>\<open>CreatePlatform\<close> on the kind of the intent.\<close>

definition platform_creation :: "PlatformIntent \<Rightarrow> PlatformIntent res" where
  "platform_creation i =
     (if pi_Kind i = ''adopt_device'' then
        (case pi_Device i of
           None \<Rightarrow> Inl (Fail InvalidArgument ''device and inventory fingerprint are required'')
         | Some d \<Rightarrow>
             if pi_Vlan i \<noteq> None \<or> pi_Pool i \<noteq> None \<or> \<not> device_name_ok (dc_DeviceName d) \<or> \<not> hex_text 64 (dc_InventoryFingerprint d)
             then Inl (Fail InvalidArgument ''device and inventory fingerprint are required'')
             else Inr (i\<lparr>pi_Device := Some (d\<lparr>dc_Nodes := []\<rparr>)\<rparr>))
      else if pi_Kind i = ''create_vlan'' then
        (case pi_Vlan i of
           None \<Rightarrow> Inl (Fail InvalidArgument ''device_id and vlan_id 0..4094 are required'')
         | Some v \<Rightarrow>
             if pi_Device i \<noteq> None \<or> pi_Pool i \<noteq> None \<or> \<not> validEgressID (vc_DeviceID v) ''device'' \<or> vc_VlanID v < 0 \<or> 4094 < vc_VlanID v
             then Inl (Fail InvalidArgument ''device_id and vlan_id 0..4094 are required'')
             else Inr i)
      else if pi_Kind i = ''create_egress_gateway'' then
        (if pi_Device i \<noteq> None \<or> pi_Vlan i \<noteq> None \<or> pi_Pool i \<noteq> None
         then Inl (Fail InvalidArgument ''gateway has no mode or device configuration'') else Inr i)
      else if pi_Kind i = ''create_public_pool'' \<or> pi_Kind i = ''create_intranet_pool'' then
        (case pi_Pool i of
           None \<Rightarrow> Inl (Fail InvalidArgument ''pool configuration is required'')
         | Some p \<Rightarrow>
             if pi_Device i \<noteq> None \<or> pi_Vlan i \<noteq> None then Inl (Fail InvalidArgument ''pool configuration is required'')
             else case (if pi_Kind i = ''create_intranet_pool'' then NormalizeIntranetPool p else NormalizePublicPool p) of
               Inl e \<Rightarrow> Inl e | Inr q \<Rightarrow> Inr (i\<lparr>pi_Pool := Some q\<rparr>))
      else Inl (Fail InvalidArgument ''invalid platform creation''))"

definition CreatePlatform ::
  "(string \<Rightarrow> string option) \<Rightarrow> 'w Egress \<Rightarrow> ctx \<Rightarrow> PlatformIntent \<Rightarrow> 'w \<Rightarrow> PlatformResource res \<times> 'w" where
  "CreatePlatform uuid_Parse e c i s =
     (case ea_Platform (eg_authorization e) c of
        Inl err \<Rightarrow> (Inl err, s)
      | Inr a \<Rightarrow>
          (case normalizeEgressName uuid_Parse (pi_Name i) (pi_Description i) (pi_IdempotencyKey i) of
             Inl err \<Rightarrow> (Inl err, s)
           | Inr name \<Rightarrow>
               (case platform_creation (i\<lparr>pi_Name := name, pi_ID := [], pi_ExpectedVersion := 0, pi_Enabled := False, pi_Verification := None\<rparr>) of
                  Inl err \<Rightarrow> (Inl err, s)
                | Inr i \<Rightarrow> er_AcceptPlatform (eg_repository e) i a (eg_freshness e) s)))"

definition GetPlatform :: "'w Egress \<Rightarrow> ctx \<Rightarrow> string \<Rightarrow> string \<Rightarrow> 'w \<Rightarrow> PlatformResource res \<times> 'w" where
  "GetPlatform e c kind i s =
     (case ea_Platform (eg_authorization e) c of
        Inl err \<Rightarrow> (Inl err, s)
      | Inr _ \<Rightarrow>
          if \<not> validEgressID i (platformPrefix kind) then (Inl (Fail ResourceNotFound ''platform resource not found''), s)
          else map_answer (Egress_platform e) (er_GetPlatform (eg_repository e) kind i s))"

definition DeletePlatform :: "'w Egress \<Rightarrow> ctx \<Rightarrow> string \<Rightarrow> string \<Rightarrow> 'w \<Rightarrow> PlatformResource res \<times> 'w" where
  "DeletePlatform e c kind i s =
     (case ea_Platform (eg_authorization e) c of
        Inl err \<Rightarrow> (Inl err, s)
      | Inr a \<Rightarrow>
          if kind = ''device'' \<or> \<not> validEgressID i (platformPrefix kind)
          then (Inl (Fail ResourceNotFound ''deletable platform resource not found''), s)
          else map_answer (Egress_platform e) (er_DeletePlatform (eg_repository e) kind i a s))"

definition pool_action :: "go_time \<Rightarrow> PlatformIntent \<Rightarrow> PlatformIntent res" where
  "pool_action now i =
     (if pi_Kind i \<in> {''set_pool_allocation'', ''set_default_pool'', ''set_intranet_pool_allocation'', ''set_default_intranet_pool''}
      then Inr (i\<lparr>pi_Verification := None\<rparr>)
      else if pi_Kind i = ''verify_public_pool'' \<or> pi_Kind i = ''verify_intranet_pool'' then
        (case pi_Verification i of
           None \<Rightarrow> Inl (Fail InvalidArgument ''verification is required'')
         | Some v \<Rightarrow>
             (case ValidatePoolVerificationForScope v (if pi_Kind i = ''verify_intranet_pool'' then ''intranet'' else ''public'') now of
                Some e \<Rightarrow> Inl e | None \<Rightarrow> Inr i))
      else Inl (Fail InvalidArgument ''invalid pool action''))"

definition SetPool ::
  "(string \<Rightarrow> string option) \<Rightarrow> 'w Egress \<Rightarrow> ctx \<Rightarrow> PlatformIntent \<Rightarrow> 'w \<Rightarrow> PlatformResource res \<times> 'w" where
  "SetPool uuid_Parse e c i s =
     (case ea_Platform (eg_authorization e) c of
        Inl err \<Rightarrow> (Inl err, s)
      | Inr a \<Rightarrow>
          if \<not> validEgressID (pi_ID i) ''pool'' then (Inl (Fail ResourceNotFound ''pool not found''), s)
          else if pi_ExpectedVersion i < 1 then (Inl (Fail InvalidArgument ''expected_version is required''), s)
          else case normalizeEgressName uuid_Parse ''pool'' [] (pi_IdempotencyKey i) of
            Inl err \<Rightarrow> (Inl err, s)
          | Inr _ \<Rightarrow>
              (case pool_action (eg_now e) (i\<lparr>pi_Name := [], pi_Description := [], pi_Device := None, pi_Vlan := None, pi_Pool := None\<rparr>) of
                 Inl err \<Rightarrow> (Inl err, s)
               | Inr i \<Rightarrow> er_AcceptPlatform (eg_repository e) i a (eg_freshness e) s))"

definition GetPlatformOperation :: "(string \<Rightarrow> string option) \<Rightarrow> 'w Egress \<Rightarrow> ctx \<Rightarrow> string \<Rightarrow> 'w \<Rightarrow> Operation res \<times> 'w" where
  "GetPlatformOperation uuid_Parse e c i s =
     (case ea_Platform (eg_authorization e) c of
        Inl err \<Rightarrow> (Inl err, s)
      | Inr _ \<Rightarrow>
          (case ParseTenant uuid_Parse i of
             Inl _ \<Rightarrow> (Inl (Fail ResourceNotFound ''operation not found''), s)
           | Inr _ \<Rightarrow> er_GetPlatformOperation (eg_repository e) i s))"

definition GetPlatformCapabilities :: "'w Egress \<Rightarrow> ctx \<Rightarrow> 'w \<Rightarrow> PlatformNetworkCapabilities res \<times> 'w" where
  "GetPlatformCapabilities e c s =
     (case ea_Platform (eg_authorization e) c of
        Inl err \<Rightarrow> (Inl err, s)
      | Inr _ \<Rightarrow>
          (case er_GetPlatformCapabilities (eg_repository e) of
             None \<Rightarrow> (Inl (Fail DependencyUnavailable ''platform capability repository is unavailable''), s)
           | Some get \<Rightarrow> get (eg_freshness e) s))"

section \<open>Authorization\<close>

text \<open>What the service relies on of \<^verbatim>\<open>uuid.Parse\<close> and \<^verbatim>\<open>UUID.String\<close>: the printed form has 36
  characters and parses to itself.\<close>

definition uuid_canonical :: "(string \<Rightarrow> string option) \<Rightarrow> bool" where
  "uuid_canonical uuid_Parse \<longleftrightarrow> (\<forall>v u. uuid_Parse v = Some u \<longrightarrow> length u = 36 \<and> uuid_Parse u = Some u)"

lemma ParseTenant_canonical:
  "uuid_canonical up \<Longrightarrow> ParseTenant up v = Inr t \<Longrightarrow> length t = 36 \<and> t \<noteq> uuid_Nil \<and> ParseTenant up t = Inr t"
  by (auto simp: uuid_canonical_def ParseTenant_def split: option.splits if_splits)

text \<open>C30: A tenant is authorized only for a request with a trusted caller, and then only the caller's own tenant or a tenant
  delegated to it, in canonical form, with an attribution that passed validation.\<close>

theorem tenant_authorization_needs_own_or_delegated:
  assumes "Context_Tenant up c target = Inr (t, a)" and "uuid_canonical up"
  shows "\<exists>caller. c = Some caller \<and> (ParseTenant up (ec_TenantID caller) = Inr t \<or> t \<in> set (ec_DelegatedTenants caller))
    \<and> ParseTenant up (if target = [] then ec_TenantID caller else target) = Inr t \<and> ParseTenant up t = Inr t
    \<and> a = ec_Attribution caller \<and> validateAttribution a = None"
proof -
  from assms(1) obtain caller where c: "c = Some caller" by (cases c) (auto simp: Context_Tenant_def)
  let ?target = "if target = [] then ec_TenantID caller else target"
  let ?own = "case ParseTenant up (ec_TenantID caller) of Inl _ \<Rightarrow> [] | Inr t \<Rightarrow> t"
  from assms(1) c have t: "ParseTenant up ?target = Inr t" "t = ?own \<or> t \<in> set (ec_DelegatedTenants caller)"
    "a = ec_Attribution caller" "validateAttribution a = None"
    by (auto simp: Context_Tenant_def Let_def split: sum.splits option.splits if_splits)
  from ParseTenant_canonical [OF assms(2) t(1)] have "length t = 36" "ParseTenant up t = Inr t" by simp_all
  moreover from this t(2) have "ParseTenant up (ec_TenantID caller) = Inr t \<or> t \<in> set (ec_DelegatedTenants caller)"
    by (auto split: sum.splits)
  ultimately show ?thesis using c t by blast
qed

text \<open>A concrete parser that accepts one lower-case identifier, to evaluate the definitions.\<close>

definition sample_uuid :: string where
  "sample_uuid = ''00000000-0000-0000-0000-000000000001''"

definition sample_parse :: "string \<Rightarrow> string option" where
  "sample_parse v = (if v = sample_uuid then Some v else None)"

definition sample_caller :: EgressCaller where
  "sample_caller = \<lparr>ec_TenantID = sample_uuid, ec_Attribution = \<lparr>at_Actor = [], at_DirectCaller = [], at_CorrelationID = []\<rparr>,
     ec_PlatformAdministrator = False, ec_DelegatedTenants = []\<rparr>"

lemma sample_parse_canonical: "uuid_canonical sample_parse"
  by (simp add: uuid_canonical_def sample_parse_def sample_uuid_def)

lemma sample_attribution: "validateAttribution (ec_Attribution sample_caller) = None"
  by (simp add: validateAttribution_def sample_caller_def attribution_value_def valid_utf8_def rune_count_def has_control_def rune_values_def)

lemma sample_tenant: "ParseTenant sample_parse sample_uuid = Inr sample_uuid"
  by (simp add: ParseTenant_def sample_parse_def sample_uuid_def uuid_Nil_def)

definition sample_vpc_intent :: VPCIntent where
  "sample_vpc_intent = \<lparr>vi_TenantID = sample_uuid, vi_Name = ''lb'', vi_CIDR = ''10.0.0.0/24'', vi_Description = [], vi_IdempotencyKey = ''key''\<rparr>"

lemma sample_prefix: "v4_prefix_string 167772160 24 = ''10.0.0.0/24''"
  by (simp add: v4_eval)

lemma sample_intent: "NewVPCIntent sample_parse sample_uuid ''lb'' ''10.0.0.0/24'' [] ''key'' = Inr sample_vpc_intent"
proof -
  have "parse_v4_prefix ''10.0.0.0/24'' = Some (167772160, 24)" by (rule parse_v4_prefix_eval) (simp_all add: v4_eval)
  moreover have "v4_masked 167772160 24 = 167772160" "private_prefix 167772160 24"
    by (simp_all add: private_prefix_def rfc1918_def v4_contains_def v4_masked_def)
  moreover have "runes ''lb'' = [(108, ''l''), (98, ''b'')]" by (subst runes_ascii) simp_all
  then have "trim_space ''lb'' = ''lb''" "valid_utf8 ''lb''" "rune_count ''lb'' = 2" "\<not> has_control ''lb''"
    by (simp_all add: trim_space_def is_space_def valid_utf8_def rune_count_def has_control_def rune_values_def is_control_def)
  moreover have "printable_key ''key''" "valid_utf8 []" "rune_count [] = 0"
    by (simp_all add: printable_key_def valid_utf8_def rune_count_def)
  ultimately show ?thesis using sample_tenant by (simp add: NewVPCIntent_Inr_iff sample_vpc_intent_def sample_prefix)
qed

lemma sample_name: "normalizeEgressName sample_parse ''lb'' [] ''key'' = Inr ''lb''"
  using sample_intent by (simp add: normalizeEgressName_def sample_uuid_def sample_vpc_intent_def)

theorem tenant_authorization_needs_own_or_delegated_witness:
  "Context_Tenant sample_parse (Some sample_caller) [] = Inr (sample_uuid, ec_Attribution sample_caller)
   \<and> (\<exists>caller. Some sample_caller = Some caller \<and> validateAttribution (ec_Attribution caller) = None)"
proof -
  have e: "Context_Tenant sample_parse (Some sample_caller) [] = Inr (sample_uuid, ec_Attribution sample_caller)"
    using sample_tenant sample_attribution by (simp add: Context_Tenant_def sample_caller_def)
  from tenant_authorization_needs_own_or_delegated [OF e sample_parse_canonical] e show ?thesis by auto
qed

definition denied :: "'a res \<times> 'w \<Rightarrow> 'w \<Rightarrow> bool" where
  "denied x s \<longleftrightarrow> (case fst x of Inl e \<Rightarrow> reason_of e = PermissionDenied | Inr _ \<Rightarrow> False) \<and> snd x = s"

section \<open>Pools\<close>

lemma sorted_distinct_adj: "sorted xs \<Longrightarrow> distinct_adj xs \<Longrightarrow> distinct (xs :: 'a :: linorder list)"
proof (induction xs rule: induct_list012)
  case (3 x y zs)
  then have "x < y" "\<forall>z\<in>set zs. y \<le> z" by (auto simp: distinct_adj_Cons)
  then have "x \<notin> set (y # zs)" by force
  with 3 show ?case by (simp add: distinct_adj_Cons)
qed simp_all

lemma sort_Nil_iff [simp]: "sort (vs :: 'a :: linorder list) = [] \<longleftrightarrow> vs = []"
  by (metis set_empty set_sort)

lemma sort_compact_props: "sorted (sort_compact vs)" "distinct (sort_compact vs)" "set (sort_compact vs) = set vs"
  by (simp_all add: sorted_distinct_adj)

lemma sort_compact_id:
  assumes "sorted vs" and "distinct vs" and "set ws = set vs"
  shows "sort_compact ws = vs"
  using assms by (intro sorted_distinct_set_unique) (simp_all add: sorted_distinct_adj)

text \<open>The facts of an accepted public pool.\<close>

lemma NormalizePublicPool_Inr:
  assumes "NormalizePublicPool p = Inr q"
  obtains w n where "parse_v4_prefix (pp_CIDR p) = Some (w, n)" "v4_masked w n = w" "n \<le> 30" "usable w n (pp_OVNGatewayIP p)"
    "pp_Mode p = ''overlay'' \<or> (pp_Mode p = ''underlay'' \<and> usable w n (pp_UpstreamGatewayIP p) \<and> pp_UpstreamGatewayIP p \<noteq> pp_OVNGatewayIP p)"
    "q = p\<lparr>pp_ExcludedIPs := sort_compact (pp_ExcludedIPs p @ [pp_OVNGatewayIP p] @
             (if pp_Mode p = ''underlay'' then [pp_UpstreamGatewayIP p] else []))\<rparr>"
    "list_all (excluded_ok w n) (pp_ExcludedIPs q)"
proof -
  let ?ex = "pp_ExcludedIPs p @ [pp_OVNGatewayIP p] @ (if pp_Mode p = ''underlay'' then [pp_UpstreamGatewayIP p] else [])"
  from assms obtain w n where wn: "parse_v4_prefix (pp_CIDR p) = Some (w, n)" "v4_masked w n = w" "n \<le> 30" "usable w n (pp_OVNGatewayIP p)"
    "pp_Mode p = ''overlay'' \<or> (pp_Mode p = ''underlay'' \<and> usable w n (pp_UpstreamGatewayIP p) \<and> pp_UpstreamGatewayIP p \<noteq> pp_OVNGatewayIP p)"
    and q: "list_all (excluded_ok w n) ?ex" "q = p\<lparr>pp_ExcludedIPs := sort_compact ?ex\<rparr>"
    by (auto simp: NormalizePublicPool_def Let_def not_less split: if_splits option.splits prod.splits)
  moreover have "list_all (excluded_ok w n) (pp_ExcludedIPs q)"
    using q by (simp add: list_all_iff sort_compact_props)
  ultimately show thesis by (intro that)
qed

text \<open>C32: An accepted public pool is in normal form. Its CIDR is a masked IPv4 network of at most 30 bits; the excluded
  entries are sorted, without duplicates, each an ascending range inside the CIDR, and reserve the gateway addresses (of an underlay pool
  the upstream gateway too, another address than the OVN gateway), which are usable hosts of the CIDR; and normalizing it again changes nothing, as long as the reserved addresses did not push the list over its limit
  of 1024 entries.\<close>

theorem NormalizePublicPool_normal_form:
  assumes "NormalizePublicPool p = Inr q"
  shows "sorted (pp_ExcludedIPs q) \<and> distinct (pp_ExcludedIPs q) \<and> pp_OVNGatewayIP q \<in> set (pp_ExcludedIPs q)
    \<and> set (pp_ExcludedIPs p) \<subseteq> set (pp_ExcludedIPs q)
    \<and> (case parse_v4_prefix (pp_CIDR q) of None \<Rightarrow> False
       | Some (w, n) \<Rightarrow> v4_masked w n = w \<and> n \<le> 30 \<and> list_all (excluded_ok w n) (pp_ExcludedIPs q) \<and> usable w n (pp_OVNGatewayIP q)
         \<and> (if pp_Mode q = ''overlay'' then True else pp_Mode q = ''underlay'' \<and> usable w n (pp_UpstreamGatewayIP q)
              \<and> pp_UpstreamGatewayIP q \<noteq> pp_OVNGatewayIP q \<and> pp_UpstreamGatewayIP q \<in> set (pp_ExcludedIPs q)))
    \<and> (length (pp_ExcludedIPs q) \<le> 1024 \<longrightarrow> NormalizePublicPool q = Inr q)"
proof -
  from assms obtain w n where f: "parse_v4_prefix (pp_CIDR p) = Some (w, n)" "v4_masked w n = w" "n \<le> 30" "usable w n (pp_OVNGatewayIP p)"
      "pp_Mode p = ''overlay'' \<or> (pp_Mode p = ''underlay'' \<and> usable w n (pp_UpstreamGatewayIP p) \<and> pp_UpstreamGatewayIP p \<noteq> pp_OVNGatewayIP p)"
    and q: "q = p\<lparr>pp_ExcludedIPs := sort_compact (pp_ExcludedIPs p @ [pp_OVNGatewayIP p] @
             (if pp_Mode p = ''underlay'' then [pp_UpstreamGatewayIP p] else []))\<rparr>"
    and ok: "list_all (excluded_ok w n) (pp_ExcludedIPs q)"
    by (rule NormalizePublicPool_Inr)
  let ?g = "[pp_OVNGatewayIP p] @ (if pp_Mode p = ''underlay'' then [pp_UpstreamGatewayIP p] else [])"
  have sd: "sorted (pp_ExcludedIPs q)" "distinct (pp_ExcludedIPs q)" "set (pp_ExcludedIPs q) = set (pp_ExcludedIPs p @ ?g)"
    unfolding q by (simp_all add: sort_compact_props)
  have again: "sort_compact (pp_ExcludedIPs q @ ?g) = pp_ExcludedIPs q"
    using sd by (intro sort_compact_id) auto
  have "list_all (excluded_ok w n) (pp_ExcludedIPs q @ ?g)" using ok sd(3) by (auto simp: list_all_iff)
  then have "length (pp_ExcludedIPs q) \<le> 1024 \<Longrightarrow> NormalizePublicPool q = Inr q"
    using assms again f(1-4) unfolding q
    by (auto simp: NormalizePublicPool_def Let_def split: if_splits option.splits prod.splits)
  with sd f ok show ?thesis unfolding q by auto
qed

definition sample_pool :: PublicPoolConfig where
  "sample_pool = \<lparr>pp_Scope = [], pp_DefaultVPCName = [], pp_DefaultVPCUID = [], pp_IntranetNetworks = [], pp_Mode = ''overlay'',
     pp_GatewayID = ''egw_'' @ replicate 32 (CHR ''0''), pp_CIDR = ''10.1.0.0/24'', pp_OVNGatewayIP = ''10.1.0.1'',
     pp_ExcludedIPs = [''10.1.0.9'', ''10.1.0.1'', ''10.1.0.4..10.1.0.7''], pp_VlanNetworkID = [], pp_UpstreamGatewayIP = []\<rparr>"

definition sample_pool_normal :: PublicPoolConfig where
  "sample_pool_normal = sample_pool\<lparr>pp_ExcludedIPs := [''10.1.0.1'', ''10.1.0.4..10.1.0.7'', ''10.1.0.9'']\<rparr>"

lemma sample_addresses:
  "parse_v4 ''10.1.0.1'' = Some 167837697" "parse_v4 ''10.1.0.9'' = Some 167837705" "parse_v4 ''10.1.0.4'' = Some 167837700"
  "parse_v4 ''10.1.0.7'' = Some 167837703"
  by (simp_all add: parse_v4_iff v4_eval)

lemma sample_network: "parse_v4_prefix ''10.1.0.0/24'' = Some (167837696, 24)"
  by (rule parse_v4_prefix_eval) (simp_all add: v4_eval)

lemma sample_ranges:
  "usable 167837696 24 ''10.1.0.1''" "v4_masked 167837696 24 = 167837696"
  "list_all (excluded_ok 167837696 24) [''10.1.0.9'', ''10.1.0.1'', ''10.1.0.4..10.1.0.7'', ''10.1.0.1'']"
  by (simp_all add: usable_def excluded_ok_def excluded_bounds_def sample_addresses v4_contains_def lastPoolAddress_def
      hasPrefix_def mask_eq_exp_minus_1 v4_masked_def)

lemma sample_pool_accepted: "NormalizePublicPool sample_pool = Inr sample_pool_normal"
proof -
  have "validEgressID (''egw_'' @ replicate 32 (CHR ''0'')) ''egw''" by code_simp
  moreover have "sort_compact [''10.1.0.9'', ''10.1.0.1'', ''10.1.0.4..10.1.0.7'', ''10.1.0.1''] = [''10.1.0.1'', ''10.1.0.4..10.1.0.7'', ''10.1.0.9'']"
    by code_simp
  ultimately show ?thesis
    using sample_ranges sample_network
    by (simp add: NormalizePublicPool_def sample_pool_def sample_pool_normal_def)
qed

theorem NormalizePublicPool_normal_form_witness:
  "NormalizePublicPool sample_pool = Inr sample_pool_normal \<and> NormalizePublicPool sample_pool_normal = Inr sample_pool_normal"
  using NormalizePublicPool_normal_form [OF sample_pool_accepted] sample_pool_accepted
  by (simp add: sample_pool_normal_def)

text \<open>C33: An accepted intranet pool names its default VPC, never carries a default route and is in normal form: its
  destination networks are canonical non-default IPv4 networks, sorted and without duplicates, its excluded entries are
  ascending ranges inside the pool that reserve the gateway, and the gateway is a usable host of the pool: a canonical address
  inside it that is neither its first nor its last.\<close>

theorem NormalizeIntranetPool_normal_form:
  assumes "NormalizeIntranetPool p = Inr q"
  shows "pp_Scope q = ''intranet'' \<and> pp_Mode q = ''overlay'' \<and> pp_DefaultVPCUID q \<noteq> [] \<and> pp_IntranetNetworks q \<noteq> []
    \<and> sorted (pp_IntranetNetworks q) \<and> distinct (pp_IntranetNetworks q) \<and> set (pp_IntranetNetworks q) = set (pp_IntranetNetworks p)
    \<and> list_all intranet_network_ok (pp_IntranetNetworks q)
    \<and> sorted (pp_ExcludedIPs q) \<and> distinct (pp_ExcludedIPs q) \<and> pp_OVNGatewayIP q \<in> set (pp_ExcludedIPs q)
    \<and> (case parse_v4_prefix (pp_CIDR q) of None \<Rightarrow> False
       | Some (w, n) \<Rightarrow> v4_masked w n = w \<and> 1 \<le> n \<and> n \<le> 30 \<and> list_all (excluded_ok w n) (pp_ExcludedIPs q)
         \<and> (\<exists>ip. parse_v4 (pp_OVNGatewayIP q) = Some ip \<and> v4_contains w n ip \<and> ip \<noteq> w \<and> ip \<noteq> lastPoolAddress w n))
    \<and> (length (pp_ExcludedIPs q) \<le> 1024 \<longrightarrow> NormalizeIntranetPool q = Inr q)"
proof -
  let ?ex = "pp_ExcludedIPs p @ [pp_OVNGatewayIP p]"
  from assms obtain w n where f: "parse_v4_prefix (pp_CIDR p) = Some (w, n)" "v4_masked w n = w" "n \<le> 30" "n \<noteq> 0"
    "usable w n (pp_OVNGatewayIP p)" "pp_IntranetNetworks p \<noteq> []" "length (pp_IntranetNetworks p) \<le> 1024" "pp_DefaultVPCUID p \<noteq> []"
    and g: "pp_GatewayID p = []" "pp_VlanNetworkID p = []" "pp_UpstreamGatewayIP p = []" "dns_label (pp_DefaultVPCName p)"
      "trim_space (pp_DefaultVPCUID p) = pp_DefaultVPCUID p" "\<not> 128 < length (pp_DefaultVPCUID p)"
      "\<not> uid_forbidden (pp_DefaultVPCUID p)"
    and ok: "list_all (excluded_ok w n) ?ex" "list_all intranet_network_ok (pp_IntranetNetworks p)"
    and q: "q = p\<lparr>pp_ExcludedIPs := sort_compact ?ex, pp_IntranetNetworks := sort_compact (pp_IntranetNetworks p),
        pp_Scope := ''intranet'', pp_Mode := ''overlay''\<rparr>"
    by (auto simp: NormalizeIntranetPool_def Let_def not_less split: if_splits option.splits prod.splits)
  note sc = sort_compact_props [of ?ex] sort_compact_props [of "pp_IntranetNetworks p"]
  have e: "sort_compact (sort_compact ?ex @ [pp_OVNGatewayIP p]) = sort_compact ?ex"
    using sc by (intro sort_compact_id) auto
  have e2: "sort_compact (sort_compact (pp_IntranetNetworks p)) = sort_compact (pp_IntranetNetworks p)"
    using sc by (intro sort_compact_id) auto
  have l: "length (sort_compact (pp_IntranetNetworks p)) \<le> 1024"
    using f(7) remdups_adj_length [of "sort (pp_IntranetNetworks p)"] by simp
  have ne: "sort_compact (pp_IntranetNetworks p) \<noteq> []" using f(6) by simp
  have oks: "list_all (excluded_ok w n) (sort_compact ?ex)" "list_all intranet_network_ok (sort_compact (pp_IntranetNetworks p))"
    using ok sc by (simp_all add: list_all_iff)
  have "length (pp_ExcludedIPs q) \<le> 1024 \<Longrightarrow> NormalizeIntranetPool q = Inr q"
    using f e e2 l ne oks ok(1) unfolding q by (simp add: NormalizeIntranetPool_def Let_def g not_less)
  moreover have "\<exists>ip. parse_v4 (pp_OVNGatewayIP p) = Some ip \<and> v4_contains w n ip \<and> ip \<noteq> w \<and> ip \<noteq> lastPoolAddress w n"
    using f(5) by (auto simp: usable_def split: option.splits)
  ultimately show ?thesis using sc f ne oks unfolding q by (auto simp: Suc_le_eq)
qed

definition sample_intranet :: PublicPoolConfig where
  "sample_intranet = sample_pool\<lparr>pp_Mode := [], pp_GatewayID := [], pp_DefaultVPCName := ''default'', pp_DefaultVPCUID := ''uid'',
     pp_IntranetNetworks := [''10.1.0.0/24'']\<rparr>"

definition sample_intranet_normal :: PublicPoolConfig where
  "sample_intranet_normal = sample_intranet\<lparr>pp_Scope := ''intranet'', pp_Mode := ''overlay'',
     pp_ExcludedIPs := [''10.1.0.1'', ''10.1.0.4..10.1.0.7'', ''10.1.0.9'']\<rparr>"

lemma sample_intranet_accepted: "NormalizeIntranetPool sample_intranet = Inr sample_intranet_normal"
proof -
  have "dns_label ''default''" "trim_space ''uid'' = ''uid''" "\<not> uid_forbidden ''uid''" by code_simp+
  moreover have "sort_compact [''10.1.0.9'', ''10.1.0.1'', ''10.1.0.4..10.1.0.7'', ''10.1.0.1''] = [''10.1.0.1'', ''10.1.0.4..10.1.0.7'', ''10.1.0.9'']"
    by code_simp
  moreover have "intranet_network_ok ''10.1.0.0/24''"
    using sample_network sample_ranges(2) by (simp add: intranet_network_ok_def v4_eval)
  ultimately show ?thesis
    using sample_ranges sample_network
    by (simp add: NormalizeIntranetPool_def sample_intranet_def sample_intranet_normal_def sample_pool_def)
qed

theorem NormalizeIntranetPool_normal_form_witness:
  "NormalizeIntranetPool sample_intranet = Inr sample_intranet_normal
   \<and> NormalizeIntranetPool sample_intranet_normal = Inr sample_intranet_normal"
  using NormalizeIntranetPool_normal_form [OF sample_intranet_accepted] sample_intranet_accepted
  by (simp add: sample_intranet_normal_def)

section \<open>Interfaces\<close>

lemma if_singleton_Nil: "(if c then [x] else []) = [] \<longleftrightarrow> \<not> c"
  by simp

text \<open>C34: The filter marks an interface as selectable exactly when nothing was held against it before and it is completely
  identified, observed within the freshness bound and not in the future, a physical device that carries neither
  management traffic nor the default route, unregistered, free of VLANs and of non-link-local addresses, and either
  unused or a fully ready managed device; the filter keeps the order and the facts of the inventory and is idempotent.\<close>

theorem FilterNodeInterfaces_selectable:
  "map ni_Selectable (FilterNodeInterfaces items now fresh) =
     map (\<lambda>v. ni_UnavailableReasons v = [] \<and> ni_NodeName v \<noteq> [] \<and> ni_NodeUID v \<noteq> [] \<and> ni_Name v \<noteq> []
        \<and> \<not> time_is_zero (ni_ObservedAt v) \<and> ni_ObservedAt v \<le> now \<and> time_sub now (ni_ObservedAt v) \<le> fresh
        \<and> \<not> ni_Management v \<and> \<not> ni_DefaultRoute v \<and> ni_Kind v = ''device'' \<and> ni_KCDeviceOwner v = [] \<and> ni_VlanNetworkIDs v = []
        \<and> \<not> list_ex address_blocks (ni_Addresses v)
        \<and> (managed_ready v \<or> (ni_Master v = [] \<and> \<not> ni_OVSManaged v \<and> \<not> ni_KCManaged v \<and> \<not> ni_KCConfigured v))) items
   \<and> map (\<lambda>v. v\<lparr>ni_Selectable := False, ni_UnavailableReasons := []\<rparr>) (FilterNodeInterfaces items now fresh)
      = map (\<lambda>v. v\<lparr>ni_Selectable := False, ni_UnavailableReasons := []\<rparr>) items
   \<and> FilterNodeInterfaces (FilterNodeInterfaces items now fresh) now fresh = FilterNodeInterfaces items now fresh"
proof -
  have rr: "reject_reasons now fresh (filter_interface now fresh v) = reject_reasons now fresh v" for v
    by (simp add: reject_reasons_def filter_interface_def managed_ready_def Let_def)
  have idem: "filter_interface now fresh (filter_interface now fresh v) = filter_interface now fresh v" for v
  proof -
    let ?r = "ni_UnavailableReasons v @ reject_reasons now fresh v"
    have "sort_compact (sort_compact ?r @ reject_reasons now fresh v) = sort_compact ?r"
      using sort_compact_props [of ?r] by (intro sort_compact_id) auto
    then show ?thesis
      using rr [of v] unfolding filter_interface_def [of now fresh "filter_interface now fresh v"]
      by (simp add: filter_interface_def Let_def)
  qed
  have sel: "ni_Selectable (filter_interface now fresh v) \<longleftrightarrow> ni_UnavailableReasons v = [] \<and> reject_reasons now fresh v = []" for v
    by (simp add: filter_interface_def Let_def)
  have "reject_reasons now fresh v = [] \<longleftrightarrow> ni_NodeName v \<noteq> [] \<and> ni_NodeUID v \<noteq> [] \<and> ni_Name v \<noteq> []
        \<and> \<not> time_is_zero (ni_ObservedAt v) \<and> ni_ObservedAt v \<le> now \<and> time_sub now (ni_ObservedAt v) \<le> fresh
        \<and> \<not> ni_Management v \<and> \<not> ni_DefaultRoute v \<and> ni_Kind v = ''device'' \<and> ni_KCDeviceOwner v = [] \<and> ni_VlanNetworkIDs v = []
        \<and> \<not> list_ex address_blocks (ni_Addresses v)
        \<and> (managed_ready v \<or> (ni_Master v = [] \<and> \<not> ni_OVSManaged v \<and> \<not> ni_KCManaged v \<and> \<not> ni_KCConfigured v))" for v
    by (simp only: reject_reasons_def append_is_Nil_conv if_singleton_Nil time_after_def not_less de_Morgan_disj de_Morgan_conj not_not) blast
  then show ?thesis by (simp add: FilterNodeInterfaces_def sel idem comp_def) (simp add: filter_interface_def Let_def)
qed

end
