(* ===== verification/Net_Cursor.thy ===== *)
theory Net_Cursor
  imports Net_Json Net_Rfc3339 Net_Egress
begin

text \<open>
  The signed list cursors of \<^verbatim>\<open>internal/biz/network/list.go\<close>: a cursor is the JSON form of \<open>vpcCursor\<close> and its
  HMAC-SHA256 under the service's key, both in unpadded URL-safe base64. The theorems show that a cursor is accepted
  exactly with the signature of the key, and that every cursor a listing can issue is read back as it was written.
\<close>

record vpcCursor =
  vc_Version :: int
  vc_Kind :: string
  vc_TenantID :: string
  vc_Name :: string
  vc_State :: string
  vc_VPCID :: string
  vc_ID :: string
  vc_CreatedAt :: go_time

definition zero_cursor :: vpcCursor where
  "zero_cursor = \<lparr>vc_Version = 0, vc_Kind = [], vc_TenantID = [], vc_Name = [], vc_State = [], vc_VPCID = [], vc_ID = [], vc_CreatedAt = 0\<rparr>"

definition cursor_json :: "vpcCursor \<Rightarrow> json" where
  "cursor_json c = JObj
     [(''Version'', JInt (vc_Version c)), (''Kind'', JStr (vc_Kind c)), (''TenantID'', JStr (vc_TenantID c)),
      (''Name'', JStr (vc_Name c)), (''State'', JStr (vc_State c)), (''VPCID'', JStr (vc_VPCID c)), (''ID'', JStr (vc_ID c)),
      (''CreatedAt'', JTime (vc_CreatedAt c))]"

text \<open>\<^verbatim>\<open>json.Marshal\<close> of a cursor; the caller drops the error and signs an empty body.\<close>

definition cursor_body :: "vpcCursor \<Rightarrow> string" where
  "cursor_body c = (if time_marshals (vc_CreatedAt c) then json_encode (cursor_json c) else [])"

definition encodeCursor :: "string \<Rightarrow> vpcCursor \<Rightarrow> string" where
  "encodeCursor key c = (let body = cursor_body c in b64_encode body @ ''.'' @ b64_encode (hmac_sha256 key body))"

text \<open>\<^verbatim>\<open>json.Unmarshal\<close> into a cursor. A key selects the field of the same name up to simple case folding (of the ASCII
  letters, the long s and the Kelvin sign; no other character folds to one of the names); \<^verbatim>\<open>null\<close> leaves a field as
  it is; a value of another type is an error.\<close>

definition fold_rune :: "nat \<Rightarrow> nat" where
  "fold_rune r = (if 97 \<le> r \<and> r \<le> 122 then r - 32 else if r = 383 then 83 else if r = 8490 then 75 else r)"

definition same_name :: "string \<Rightarrow> string \<Rightarrow> bool" where
  "same_name a b \<longleftrightarrow> map fold_rune (rune_values a) = map fold_rune (rune_values b)"

definition parse_int64 :: "string \<Rightarrow> int option" where
  "parse_int64 s =
     (let (neg, ds) = (case s of c # r \<Rightarrow> if c = CHR ''-'' then (True, r) else (False, s) | [] \<Rightarrow> (False, s)) in
      if ds = [] then None
      else (case atoi_digits ds 0 of
         None \<Rightarrow> None
       | Some n \<Rightarrow> (let i = (if neg then - int n else int n) in if min_int64 \<le> i \<and> i \<le> max_int64 then Some i else None)))"

definition store_string :: "jtree \<Rightarrow> (string \<Rightarrow> vpcCursor) \<Rightarrow> vpcCursor \<Rightarrow> vpcCursor option" where
  "store_string v f c = (case v of TStr raw \<Rightarrow> Some (f (unquote raw)) | TNull \<Rightarrow> Some c | _ \<Rightarrow> None)"

definition store_member :: "string \<Rightarrow> jtree \<Rightarrow> vpcCursor \<Rightarrow> vpcCursor option" where
  "store_member k v c =
     (if same_name k ''Version'' then (case v of TNum lit \<Rightarrow> map_option (\<lambda>i. c\<lparr>vc_Version := i\<rparr>) (parse_int64 lit) | TNull \<Rightarrow> Some c | _ \<Rightarrow> None)
      else if same_name k ''Kind'' then store_string v (\<lambda>s. c\<lparr>vc_Kind := s\<rparr>) c
      else if same_name k ''TenantID'' then store_string v (\<lambda>s. c\<lparr>vc_TenantID := s\<rparr>) c
      else if same_name k ''Name'' then store_string v (\<lambda>s. c\<lparr>vc_Name := s\<rparr>) c
      else if same_name k ''State'' then store_string v (\<lambda>s. c\<lparr>vc_State := s\<rparr>) c
      else if same_name k ''VPCID'' then store_string v (\<lambda>s. c\<lparr>vc_VPCID := s\<rparr>) c
      else if same_name k ''ID'' then store_string v (\<lambda>s. c\<lparr>vc_ID := s\<rparr>) c
      else if same_name k ''CreatedAt'' then (case v of TStr raw \<Rightarrow> map_option (\<lambda>t. c\<lparr>vc_CreatedAt := t\<rparr>) (parse_rfc3339 raw) | TNull \<Rightarrow> Some c | _ \<Rightarrow> None)
      else Some c)"

fun store_members :: "(string \<times> jtree) list \<Rightarrow> vpcCursor \<Rightarrow> vpcCursor option" where
  "store_members [] c = Some c"
| "store_members ((k, v) # ms) c = Option.bind (store_member k v c) (store_members ms)"

definition unmarshal_cursor :: "string \<Rightarrow> vpcCursor option" where
  "unmarshal_cursor body =
     (case json_parse body of
        Some (TObj ms) \<Rightarrow> store_members ms zero_cursor
      | Some TNull \<Rightarrow> Some zero_cursor
      | _ \<Rightarrow> None)"

definition decodeCursor :: "string \<Rightarrow> string \<Rightarrow> vpcCursor res" where
  "decodeCursor key value =
     (if 2048 < length value then Inl (Fail InvalidCursor ''cursor too long'')
      else case cut ''.'' value of
        None \<Rightarrow> Inl (Fail InvalidCursor ''invalid cursor'')
      | Some (left, right) \<Rightarrow>
          (case b64_canonical left of
             None \<Rightarrow> Inl (Fail InvalidCursor ''invalid cursor'')
           | Some body \<Rightarrow>
               (case b64_canonical right of
                  None \<Rightarrow> Inl (Fail InvalidCursor ''invalid cursor'')
                | Some signature \<Rightarrow>
                    if signature \<noteq> hmac_sha256 key body then Inl (Fail InvalidCursor ''invalid cursor'')
                    else (case unmarshal_cursor body of
                       None \<Rightarrow> Inl (Fail InvalidCursor ''invalid cursor'')
                     | Some c \<Rightarrow> Inr c))))"

definition state_filter_ok :: "string \<Rightarrow> bool" where
  "state_filter_ok s \<longleftrightarrow> s \<in> set ([] # map state_name [Provisioning, Available, Degraded, Failed, Deleting, Deleted])"

definition normalizeList :: "string \<Rightarrow> string \<Rightarrow> int \<Rightarrow> VPCFilter res" where
  "normalizeList name state limit =
     (let limit = (if limit = 0 then 20 else limit) in
      if limit < 1 \<or> 100 < limit then Inl (Fail InvalidArgument ''limit must be within 1..100'')
      else let name = trim_space name in
        if \<not> valid_utf8 name \<or> 128 < rune_count name then Inl (Fail InvalidArgument ''invalid name filter'')
        else if has_control name then Inl (Fail InvalidArgument ''invalid name filter'')
        else if \<not> state_filter_ok state then Inl (Fail InvalidArgument ''invalid state filter'')
        else Inr \<lparr>vf_Name = name, vf_State = state, vf_AfterID = [], vf_AfterCreatedAt = 0, vf_Limit = wrap32 (limit + 1)\<rparr>)"

section \<open>Signatures\<close>

lemma b64_char_no_dot: "c \<in> set (b64_encode s) \<Longrightarrow> c \<noteq> CHR ''.''"
proof -
  assume "c \<in> set (b64_encode s)"
  then obtain n where "n < 64" "c = b64_char n" by (auto simp: b64_encode_values dest: b64_values_lt)
  then have "b64_value c \<noteq> None" by (simp add: b64_value_char)
  then show ?thesis by (auto simp: b64_value_def)
qed

lemma cut_dot: "(\<And>c. c \<in> set l \<Longrightarrow> c \<noteq> CHR ''.'') \<Longrightarrow> cut ''.'' (l @ CHR ''.'' # r) = Some (l, r)"
  by (induction l) (auto simp: hasPrefix_def)

lemma cut_dotD: "cut ''.'' s = Some (l, r) \<Longrightarrow> s = l @ CHR ''.'' # r"
  by (induction s arbitrary: l) (auto simp: hasPrefix_def split: if_splits)

lemma decodeCursor_Inr_iff:
  "decodeCursor key v = Inr c \<longleftrightarrow>
     (\<exists>body. v = b64_encode body @ ''.'' @ b64_encode (hmac_sha256 key body) \<and> length v \<le> 2048 \<and> unmarshal_cursor body = Some c)"
proof
  assume "decodeCursor key v = Inr c"
  then show "\<exists>body. v = b64_encode body @ ''.'' @ b64_encode (hmac_sha256 key body) \<and> length v \<le> 2048 \<and> unmarshal_cursor body = Some c"
    by (auto simp: decodeCursor_def b64_canonical_iff split: if_splits option.splits dest!: cut_dotD)
next
  assume "\<exists>body. v = b64_encode body @ ''.'' @ b64_encode (hmac_sha256 key body) \<and> length v \<le> 2048 \<and> unmarshal_cursor body = Some c"
  then obtain body where b: "v = b64_encode body @ ''.'' @ b64_encode (hmac_sha256 key body)" "length v \<le> 2048" "unmarshal_cursor body = Some c"
    by blast
  have "cut ''.'' v = Some (b64_encode body, b64_encode (hmac_sha256 key body))"
    using b(1) cut_dot [OF b64_char_no_dot] by simp
  moreover have "b64_canonical (b64_encode x) = Some x" for x by (simp add: b64_canonical_iff)
  ultimately show "decodeCursor key v = Inr c" using b by (simp add: decodeCursor_def)
qed

lemma decodeCursor_error: "decodeCursor key v = Inl e \<Longrightarrow> reason_of e = InvalidCursor"
  by (auto simp: decodeCursor_def split: if_splits option.splits)

section \<open>Cursors are read back\<close>

lemma valid_utf8_ascii: "list_all (\<lambda>c. byte_of c < 128) s \<Longrightarrow> valid_utf8 s"
  by (auto simp: valid_utf8_def runes_ascii list_all_iff)

definition plain_char :: "char \<Rightarrow> bool" where
  "plain_char c \<longleftrightarrow> 32 \<le> byte_of c \<and> byte_of c < 128 \<and> byte_of c \<notin> {34, 38, 60, 62, 92}"

lemma json_body_plain: "list_all plain_char s \<Longrightarrow> json_body s = s"
proof -
  assume p: "list_all plain_char s"
  then have "list_all (\<lambda>c. byte_of c < 128) s" by (auto simp: list_all_iff plain_char_def)
  moreover from p have "concat (map (\<lambda>c. json_rune (byte_of c, [c])) s) = s"
  proof (induction s)
    case (Cons c s)
    then have "json_rune (byte_of c, [c]) = [c]" by (auto simp: json_rune_def plain_char_def Let_def)
    with Cons show ?case by simp
  qed simp
  ultimately show ?thesis by (simp add: json_body_def runes_ascii comp_def)
qed

lemma plain_digit: "ascii_digit c \<Longrightarrow> plain_char c"
  by (auto simp: ascii_digit_def plain_char_def)

lemma plain_pad: "list_all plain_char (pad_left n (decimal x))"
  by (auto simp: pad_left.simps list_all_iff plain_char_def [of "CHR ''0''"] dest: decimal_digits intro: plain_digit)

lemma plain_fraction: "list_all plain_char (rfc3339_fraction ns)"
proof -
  have "set (trim_zeros s) \<subseteq> set s" for s by (auto simp: trim_zeros_def dest: set_dropWhileD)
  then show ?thesis using plain_pad [of 9 ns] by (fastforce simp: rfc3339_fraction_def list_all_iff plain_char_def [of "CHR ''.''"])
qed

lemma plain_rfc3339: "list_all plain_char (rfc3339 t)"
  by (simp add: rfc3339_def Let_def plain_pad plain_fraction plain_char_def [of "CHR ''-''"] plain_char_def [of "CHR ''T''"]
      plain_char_def [of "CHR '':''"] plain_char_def [of "CHR ''Z''"] split: prod.split)

lemma plain_valid: "list_all plain_char s \<Longrightarrow> valid_utf8 s"
  by (rule valid_utf8_ascii) (auto simp: list_all_iff plain_char_def)

lemma parse_int64_decimal: "int n \<le> max_int64 \<Longrightarrow> parse_int64 (decimal n) = Some (int n)"
proof -
  assume n: "int n \<le> max_int64"
  obtain c cs where d: "decimal n = c # cs" using decimal_ne [of n] by (cases "decimal n") auto
  then have "ascii_digit c" using decimal_digits [of c n] by simp
  then have "c \<noteq> CHR ''-''" by (auto simp: ascii_digit_def)
  then show ?thesis using n atoi_decimal [of n] by (simp add: parse_int64_def d min_int64_def)
qed

lemma same_name_ascii:
  "list_all (\<lambda>c. byte_of c < 128) a \<Longrightarrow> list_all (\<lambda>c. byte_of c < 128) b \<Longrightarrow>
   same_name a b \<longleftrightarrow> map (fold_rune \<circ> byte_of) a = map (fold_rune \<circ> byte_of) b"
  by (simp add: same_name_def rune_values_def runes_ascii comp_def)

definition cursor_valid :: "vpcCursor \<Rightarrow> bool" where
  "cursor_valid c \<longleftrightarrow> 0 \<le> vc_Version c \<and> vc_Version c \<le> max_int64 \<and> time_marshals (vc_CreatedAt c)
     \<and> list_all valid_utf8 [vc_Kind c, vc_TenantID c, vc_Name c, vc_State c, vc_VPCID c, vc_ID c]"

lemma store_member_eval [simp]:
  "store_member ''Version'' v c = (case v of TNum lit \<Rightarrow> map_option (\<lambda>i. c\<lparr>vc_Version := i\<rparr>) (parse_int64 lit) | TNull \<Rightarrow> Some c | _ \<Rightarrow> None)"
  "store_member ''Kind'' v c = store_string v (\<lambda>s. c\<lparr>vc_Kind := s\<rparr>) c"
  "store_member ''TenantID'' v c = store_string v (\<lambda>s. c\<lparr>vc_TenantID := s\<rparr>) c"
  "store_member ''Name'' v c = store_string v (\<lambda>s. c\<lparr>vc_Name := s\<rparr>) c"
  "store_member ''State'' v c = store_string v (\<lambda>s. c\<lparr>vc_State := s\<rparr>) c"
  "store_member ''VPCID'' v c = store_string v (\<lambda>s. c\<lparr>vc_VPCID := s\<rparr>) c"
  "store_member ''ID'' v c = store_string v (\<lambda>s. c\<lparr>vc_ID := s\<rparr>) c"
  "store_member ''CreatedAt'' v c =
     (case v of TStr raw \<Rightarrow> map_option (\<lambda>t. c\<lparr>vc_CreatedAt := t\<rparr>) (parse_rfc3339 raw) | TNull \<Rightarrow> Some c | _ \<Rightarrow> None)"
  by (simp_all add: store_member_def same_name_ascii fold_rune_def)

lemma unmarshal_cursor_body:
  assumes "cursor_valid c"
  shows "unmarshal_cursor (cursor_body c) = Some c"
proof -
  let ?ms = "[(''Version'', JInt (vc_Version c)), (''Kind'', JStr (vc_Kind c)), (''TenantID'', JStr (vc_TenantID c)),
      (''Name'', JStr (vc_Name c)), (''State'', JStr (vc_State c)), (''VPCID'', JStr (vc_VPCID c)), (''ID'', JStr (vc_ID c)),
      (''CreatedAt'', JTime (vc_CreatedAt c))]"
  have v: "valid_utf8 (vc_Kind c)" "valid_utf8 (vc_TenantID c)" "valid_utf8 (vc_Name c)" "valid_utf8 (vc_State c)"
    "valid_utf8 (vc_VPCID c)" "valid_utf8 (vc_ID c)" "valid_utf8 (rfc3339 (vc_CreatedAt c))" "0 \<le> vc_Version c" "time_marshals (vc_CreatedAt c)"
    using assms plain_valid [OF plain_rfc3339] by (simp_all add: cursor_valid_def)
  have keys: "valid_utf8 ''Version''" "valid_utf8 ''Kind''" "valid_utf8 ''TenantID''" "valid_utf8 ''Name''" "valid_utf8 ''State''"
    "valid_utf8 ''VPCID''" "valid_utf8 ''ID''" "valid_utf8 ''CreatedAt''" by (simp_all add: valid_utf8_ascii)
  have "list_all (\<lambda>(k, v). valid_utf8 k \<and> scalar v \<noteq> None) ?ms" using v keys by (simp add: JTime_def)
  then have "json_parse (cursor_body c) = Some (TObj (map (\<lambda>(k, v). (k, the (scalar v))) ?ms))"
    using json_object_read [of ?ms] v by (simp add: cursor_body_def cursor_json_def)
  moreover have "parse_int64 (decimal (nat (vc_Version c))) = Some (vc_Version c)"
    using parse_int64_decimal [of "nat (vc_Version c)"] assms by (simp add: cursor_valid_def)
  ultimately show ?thesis using v
    by (simp add: unmarshal_cursor_def JTime_def store_string_def json_body_plain [OF plain_rfc3339] parse_rfc3339_print zero_cursor_def)
qed

section \<open>The size of a cursor\<close>

lemma length_b64: "3 * length (b64_encode s) \<le> 4 * length s + 4"
  by (induction s rule: b64_encode.induct) auto

lemma sha_rounds_length: "length v = 8 \<Longrightarrow> length (sha_rounds kws v) = 8"
  by (induction kws v rule: sha_rounds.induct) (simp_all add: Let_def)

lemma sha_blocks_length: "length h = 8 \<Longrightarrow> length (sha_blocks h ws) = 8"
proof (induction h ws rule: sha_blocks.induct)
  case (1 h ws)
  then show ?case by (subst sha_blocks.simps) (simp add: sha_block_def sha_rounds_length)
qed

lemma sha_primes_length: "8 \<le> length sha_primes"
proof -
  let ?p = "\<lambda>p. list_all (\<lambda>d. p mod d \<noteq> 0) [2..<p]"
  have "[2..<20 + 292] = [2..<20] @ [20..<20 + 292]" by (rule upt_add_eq_append) simp
  moreover have "(312::nat) = 20 + 292" by simp
  ultimately have p: "sha_primes = filter ?p [2..<20] @ filter ?p [20..<20 + 292]"
    unfolding sha_primes_def by (simp only: filter_append)
  have "length (filter ?p [2..<20]) = 8" by code_simp
  moreover have "length xs \<le> length (xs @ ys)" for xs ys :: "nat list" by simp
  ultimately show ?thesis unfolding p by (rule subst)
qed

lemma sha256_length: "length (sha256 m) = 32"
proof -
  have "length sha_h0 = 8" using sha_primes_length by (simp add: sha_h0_def)
  then have "length (sha_blocks sha_h0 ws) = 8" for ws by (rule sha_blocks_length)
  moreover have "length (concat (map bytes_of_word xs)) = 4 * length xs" for xs by (induction xs) (simp_all add: bytes_of_word_def)
  ultimately show ?thesis by (simp add: sha256_def)
qed

lemma hmac_length: "length (hmac_sha256 key m) = 32"
  by (simp add: hmac_sha256_def Let_def sha256_length)

lemma decode_rune_width_4: "snd (decode_rune s) \<le> 4"
  by (cases s) (auto simp: Let_def split: list.splits prod.splits)

lemma length_json_body: "length (json_body s) \<le> 6 * rune_count s"
proof (induction s rule: runes.induct)
  case (1 s)
  show ?case
  proof (cases "s = []")
    case False
    let ?w = "snd (decode_rune s)" and ?r = "fst (decode_rune s)"
    have e: "runes s = (?r, take ?w s) # runes (drop ?w s)" using False by (subst runes.simps) simp
    have "length (take ?w s) \<le> 4" using decode_rune_width_4 [of s] by simp
    then have "length (json_rune (?r, take ?w s)) \<le> 6" by (auto simp: json_rune_def Let_def)
    with 1 False show ?thesis by (simp add: json_body_def rune_count_def e)
  qed (simp add: json_body_def rune_count_def)
qed

lemma length_rfc3339: "time_marshals t \<Longrightarrow> length (rfc3339 t) \<le> 30"
proof -
  assume t: "time_marshals t"
  define sec where "sec = t div 1000000000"
  define n where "n = nat (sec div 86400 + 146097)"
  define r where "r = nat (sec mod 86400)"
  define ns where "ns = nat (t mod 1000000000)"
  obtain y m d where c: "civil_of_day n = (y, m, d)" by (cases "civil_of_day n")
  have "sec div 86400 = t div 86400000000000" unfolding sec_def by (simp add: zdiv_zmult2_eq [symmetric])
  then have "145731 \<le> n" "n < 3798156" using t unfolding time_marshals_def n_def by linarith+
  from civil_of_day_year [OF c this] have y: "y - 400 < 10 ^ Suc 3" by auto
  have "days_in m y \<le> 31 \<and> m < 100" using civil_of_day_valid [OF c]
    by (auto simp: days_in_def month_lengths_def nth_Cons split: nat.splits)
  then have v: "m < 100" "d < 100" using civil_of_day_valid [OF c] by auto
  have r: "r < 86400" "ns < 10 ^ Suc 8" by (simp_all add: r_def ns_def nat_less_iff)
  have "r div 3600 < 24" using r(1) by (simp add: less_mult_imp_div_less)
  moreover have "k mod 60 < 100" for k :: nat using mod_less_divisor [of 60 k] by linarith
  ultimately have h: "r div 3600 < 100" "r div 60 mod 60 < 100" "r mod 60 < 100" by (linarith, blast+)
  have two: "x < 100 \<Longrightarrow> length (pad_left 2 (decimal x)) = 2" for x by (simp add: pad2)
  have "length (trim_zeros s) \<le> length s" for s by (simp add: trim_zeros_def) (metis length_dropWhile_le length_rev)
  from this [of "pad_left 9 (decimal ns)"] have f: "length (rfc3339_fraction ns) \<le> 10"
    using length_pad [OF r(2)] by (simp add: rfc3339_fraction_def)
  have "length (pad_left 4 (decimal (y - 400))) = 4" using length_pad [OF y] by simp
  moreover have "rfc3339 t = pad_left 4 (decimal (y - 400)) @ ''-'' @ pad_left 2 (decimal m) @ ''-'' @ pad_left 2 (decimal d) @ ''T''
     @ pad_left 2 (decimal (r div 3600)) @ '':'' @ pad_left 2 (decimal (r div 60 mod 60)) @ '':''
     @ pad_left 2 (decimal (r mod 60)) @ rfc3339_fraction ns @ ''Z''"
    unfolding rfc3339_def Let_def sec_def [symmetric] ns_def [symmetric] n_def [symmetric] r_def [symmetric] by (simp add: c)
  ultimately show ?thesis using f two [OF v(1)] two [OF v(2)] two [OF h(1)] two [OF h(2)] two [OF h(3)] by (simp only: length_append) simp
qed

lemma length_json_plain: "list_all plain_char s \<Longrightarrow> length (json_string s) = length s + 2"
  by (simp add: json_string_def json_body_plain)

text \<open>What a listing can put into a cursor: the normalized filter, a kind and identities in printable ASCII.\<close>

definition short_plain :: "nat \<Rightarrow> string \<Rightarrow> bool" where
  "short_plain n s \<longleftrightarrow> length s \<le> n \<and> list_all plain_char s"

definition issuable :: "vpcCursor \<Rightarrow> bool" where
  "issuable c \<longleftrightarrow> vc_Version c = 1 \<and> short_plain 80 (vc_Kind c) \<and> short_plain 40 (vc_TenantID c) \<and> valid_utf8 (vc_Name c)
     \<and> rune_count (vc_Name c) \<le> 128 \<and> state_filter_ok (vc_State c) \<and> short_plain 40 (vc_VPCID c) \<and> short_plain 40 (vc_ID c)
     \<and> time_marshals (vc_CreatedAt c)"

lemma state_filter_plain: "state_filter_ok s \<Longrightarrow> short_plain 12 s"
  by (auto simp: state_filter_ok_def short_plain_def plain_char_def)

lemma issuable_valid: "issuable c \<Longrightarrow> cursor_valid c"
  using state_filter_plain [of "vc_State c"]
  by (simp add: issuable_def cursor_valid_def short_plain_def plain_valid max_int64_def)

lemma cursor_key_lengths:
  "length (json_string ''Version'') = 9" "length (json_string ''Kind'') = 6" "length (json_string ''TenantID'') = 10"
  "length (json_string ''Name'') = 6" "length (json_string ''State'') = 7" "length (json_string ''VPCID'') = 7"
  "length (json_string ''ID'') = 4" "length (json_string ''CreatedAt'') = 11"
  by (simp_all add: length_json_plain plain_char_def)

lemma cursor_body_length: "issuable c \<Longrightarrow> length (cursor_body c) \<le> 1200"
proof -
  assume c: "issuable c"
  then have p: "length (json_string (vc_Kind c)) \<le> 82" "length (json_string (vc_TenantID c)) \<le> 42" "length (json_string (vc_VPCID c)) \<le> 42"
    "length (json_string (vc_ID c)) \<le> 42" "length (json_string (vc_State c)) \<le> 14"
    using state_filter_plain [of "vc_State c"] by (simp_all add: issuable_def short_plain_def length_json_plain)
  have "length (json_body (vc_Name c)) \<le> 6 * 128" using length_json_body [of "vc_Name c"] c by (simp add: issuable_def)
  then have n: "length (json_string (vc_Name c)) \<le> 770" by (simp add: json_string_def)
  have t: "length (json_string (rfc3339 (vc_CreatedAt c))) \<le> 32"
    using length_rfc3339 [of "vc_CreatedAt c"] plain_rfc3339 c by (simp add: length_json_plain issuable_def)
  have "json_int (vc_Version c) = ''1''" using c by (simp add: issuable_def json_int_def decimal_small)
  with p n t c show ?thesis
    by (simp add: cursor_body_def cursor_json_def JTime_def issuable_def cursor_key_lengths)
qed

lemma encodeCursor_length: "issuable c \<Longrightarrow> length (encodeCursor key c) \<le> 2048"
  using cursor_body_length [of c] length_b64 [of "cursor_body c"] length_b64 [of "hmac_sha256 key (cursor_body c)"]
  by (simp add: encodeCursor_def Let_def hmac_length)

lemma decode_encode:
  assumes "issuable c"
  shows "decodeCursor key (encodeCursor key c) = Inr c"
proof -
  have "unmarshal_cursor (cursor_body c) = Some c" using assms by (intro unmarshal_cursor_body issuable_valid)
  then show ?thesis using encodeCursor_length [OF assms, of key]
    by (simp add: decodeCursor_Inr_iff encodeCursor_def Let_def) blast
qed

text \<open>C22: Every cursor that a listing can issue is accepted by the service that issued it and read back unchanged, whatever the
  key, the name filter (up to 128 characters of any script) and the creation time.\<close>

theorem cursor_round_trip:
  assumes "issuable c"
  shows "decodeCursor key (encodeCursor key c) = Inr c"
  using assms by (rule decode_encode)

definition sample_cursor :: vpcCursor where
  "sample_cursor = \<lparr>vc_Version = 1, vc_Kind = ''vpc'', vc_TenantID = sample_uuid, vc_Name = ''lb'', vc_State = ''available'',
     vc_VPCID = [], vc_ID = ''vpc_'' @ replicate 32 (CHR ''0''), vc_CreatedAt = 86400000000001\<rparr>"

lemma sample_issuable: "issuable sample_cursor"
proof -
  have "runes ''lb'' = [(108, ''l''), (98, ''b'')]" by (subst runes_ascii) simp_all
  then have "valid_utf8 ''lb''" "rune_count ''lb'' = 2" by (simp_all add: valid_utf8_def rune_count_def)
  moreover have "short_plain 40 sample_uuid" "short_plain 40 (''vpc_'' @ replicate 32 (CHR ''0''))" "short_plain 80 ''vpc''" "short_plain 40 []"
    by (simp_all add: short_plain_def sample_uuid_def plain_char_def list_all_iff)
  ultimately show ?thesis by (simp add: issuable_def sample_cursor_def state_filter_ok_def time_marshals_def)
qed

theorem cursor_round_trip_witness: "issuable sample_cursor \<and> decodeCursor ''key'' (encodeCursor ''key'' sample_cursor) = Inr sample_cursor"
  using cursor_round_trip [OF sample_issuable] sample_issuable by blast

text \<open>C23: A cursor is accepted only when it carries the signature of the service's key over exactly its body, in canonical
  base64 and within 2048 characters; everything else is \<open>InvalidCursor\<close>.\<close>

theorem cursor_accepted_only_when_signed:
  "case decodeCursor key v of
     Inr c \<Rightarrow> (\<exists>body. v = b64_encode body @ ''.'' @ b64_encode (hmac_sha256 key body) \<and> length v \<le> 2048 \<and> unmarshal_cursor body = Some c)
   | Inl e \<Rightarrow> reason_of e = InvalidCursor"
  by (auto simp: decodeCursor_Inr_iff dest: decodeCursor_error split: sum.split)

end
