(* ===== verification/Net_LoadBalancer.thy ===== *)
theory Net_LoadBalancer
  imports Net_Egress "HOL-Library.Product_Lexorder" "HOL-Library.Multiset"
begin

text \<open>
  Load balancer use cases: \<^verbatim>\<open>internal/biz/network/load_balancer.go\<close>. The normalization of
  requests into intents, the handlers up to the repository and the freshness of observations.
  The list handler is in the theory of cursors and lists.
\<close>

section \<open>Requests and intents\<close>

record LoadBalancerHealthInput =
  hi_Protocol :: string
  hi_IntervalSeconds :: "u32 option"
  hi_TimeoutSeconds :: "u32 option"
  hi_UnhealthyThreshold :: "u32 option"
  hi_HealthyThreshold :: "u32 option"
  hi_Port :: "u32 option"

record LoadBalancerBackendInput =
  bi_ID :: string
  bi_SubnetID :: string
  bi_Address :: string
  bi_Port :: u32
  bi_Weight :: "u32 option"

record LoadBalancerMutableInput =
  mu_Name :: string
  mu_Description :: string
  mu_Backends :: "LoadBalancerBackendInput list"
  mu_Health :: LoadBalancerHealthInput

record CreateLoadBalancer =
  cl_Mutable :: LoadBalancerMutableInput
  cl_TenantID :: string
  cl_VPCID :: string
  cl_SubnetID :: string
  cl_Exposure :: string
  cl_Flavor :: string
  cl_PublicEIPID :: string
  cl_PrivateIP :: string
  cl_IdempotencyKey :: string
  cl_ListenerProtocol :: string
  cl_ListenerPort :: "u32 option"

record UpdateLoadBalancer =
  ul_Mutable :: LoadBalancerMutableInput
  ul_TenantID :: string
  ul_ID :: string
  ul_IdempotencyKey :: string
  ul_ExpectedVersion :: int

record LoadBalancerIntent =
  li_TenantID :: string
  li_ID :: string
  li_Kind :: string
  li_IdempotencyKey :: string
  li_ExpectedVersion :: int
  li_Name :: string
  li_Description :: string
  li_VPCID :: string
  li_SubnetID :: string
  li_Exposure :: string
  li_Flavor :: string
  li_PublicEIPID :: string
  li_PrivateIP :: string
  li_ListenerPort :: u32
  li_Backends :: "LoadBalancerBackend list"
  li_Health :: LoadBalancerHealth

definition zero_lb_intent :: LoadBalancerIntent where
  "zero_lb_intent = \<lparr>li_TenantID = [], li_ID = [], li_Kind = [], li_IdempotencyKey = [], li_ExpectedVersion = 0, li_Name = [],
     li_Description = [], li_VPCID = [], li_SubnetID = [], li_Exposure = [], li_Flavor = [], li_PublicEIPID = [], li_PrivateIP = [],
     li_ListenerPort = 0, li_Backends = [],
     li_Health = \<lparr>lh_IntervalSeconds = 0, lh_TimeoutSeconds = 0, lh_UnhealthyThreshold = 0, lh_HealthyThreshold = 0, lh_Port = 0\<rparr>\<rparr>"

definition JU32 :: "u32 \<Rightarrow> json" where "JU32 w = JInt (uint w)"

definition LoadBalancerBackend_json :: "LoadBalancerBackend \<Rightarrow> json" where
  "LoadBalancerBackend_json b = JObj
     [(''ID'', JStr (lbb_ID b)), (''SubnetID'', JStr (lbb_SubnetID b)), (''Address'', JStr (lbb_Address b)), (''Port'', JU32 (lbb_Port b)),
      (''Weight'', JU32 (lbb_Weight b)), (''AttachmentID'', JStr (lbb_AttachmentID b)), (''State'', JStr (lbb_State b)),
      (''Reason'', JStr (reason_code (lbb_Reason b))), (''ObservedAt'', JOpt JTime (lbb_ObservedAt b)),
      (''ObservationStale'', JBool (lbb_ObservationStale b))]"

definition LoadBalancerHealth_json :: "LoadBalancerHealth \<Rightarrow> json" where
  "LoadBalancerHealth_json h = JObj
     ([(''IntervalSeconds'', JU32 (lh_IntervalSeconds h)), (''TimeoutSeconds'', JU32 (lh_TimeoutSeconds h)),
       (''UnhealthyThreshold'', JU32 (lh_UnhealthyThreshold h)), (''HealthyThreshold'', JU32 (lh_HealthyThreshold h))]
      @ omitempty ''Port'' (lh_Port h = 0) (JU32 (lh_Port h)))"

definition LoadBalancerIntent_json :: "LoadBalancerIntent \<Rightarrow> json" where
  "LoadBalancerIntent_json i = JObj
     [(''TenantID'', JStr (li_TenantID i)), (''ID'', JStr (li_ID i)), (''Kind'', JStr (li_Kind i)),
      (''IdempotencyKey'', JStr (li_IdempotencyKey i)), (''ExpectedVersion'', JInt (li_ExpectedVersion i)),
      (''Name'', JStr (li_Name i)), (''Description'', JStr (li_Description i)), (''VPCID'', JStr (li_VPCID i)),
      (''SubnetID'', JStr (li_SubnetID i)), (''Exposure'', JStr (li_Exposure i)), (''Flavor'', JStr (li_Flavor i)),
      (''PublicEIPID'', JStr (li_PublicEIPID i)), (''PrivateIP'', JStr (li_PrivateIP i)), (''ListenerPort'', JU32 (li_ListenerPort i)),
      (''Backends'', if li_Backends i = [] then JNull else JArr (map LoadBalancerBackend_json (li_Backends i))),
      (''Health'', LoadBalancerHealth_json (li_Health i))]"

definition LoadBalancerIntent_Fingerprint :: "LoadBalancerIntent \<Rightarrow> string" where
  "LoadBalancerIntent_Fingerprint i = egressFingerprint (LoadBalancerIntent_json (i\<lparr>li_IdempotencyKey := []\<rparr>))"

section \<open>Normalization\<close>

definition lbDefault :: "u32 option \<Rightarrow> u32 \<Rightarrow> u32" where
  "lbDefault v fallback = (case v of None \<Rightarrow> fallback | Some x \<Rightarrow> x)"

text \<open>\<^verbatim>\<open>compareLBEndpoint\<close>: subnet, address, identity, then port.\<close>

fun compare_texts :: "(string \<times> string) list \<Rightarrow> int" where
  "compare_texts [] = 0"
| "compare_texts ((a, b) # r) = (if a < b then - 1 else if b < a then 1 else compare_texts r)"

definition compareLBEndpoint :: "LoadBalancerBackend \<Rightarrow> LoadBalancerBackend \<Rightarrow> int" where
  "compareLBEndpoint a b =
     (let t = compare_texts [(lbb_SubnetID a, lbb_SubnetID b), (lbb_Address a, lbb_Address b), (lbb_ID a, lbb_ID b)] in
      if t \<noteq> 0 then t
      else if lbb_Port a < lbb_Port b then - 1 else if lbb_Port b < lbb_Port a then 1 else 0)"

text \<open>\<^verbatim>\<open>slices.SortFunc\<close>: sorting by a comparison. Its order among elements that compare equal is not
  specified; endpoints that compare equal are equal here.\<close>

fun insert_by :: "('a \<Rightarrow> 'a \<Rightarrow> int) \<Rightarrow> 'a \<Rightarrow> 'a list \<Rightarrow> 'a list" where
  "insert_by cmp x [] = [x]"
| "insert_by cmp x (y # ys) = (if cmp x y \<le> 0 then x # y # ys else y # insert_by cmp x ys)"

fun sort_by :: "('a \<Rightarrow> 'a \<Rightarrow> int) \<Rightarrow> 'a list \<Rightarrow> 'a list" where
  "sort_by cmp [] = []"
| "sort_by cmp (x # xs) = insert_by cmp x (sort_by cmp xs)"

definition lb_endpoint :: "LoadBalancerBackendInput \<Rightarrow> string" where
  "lb_endpoint b = bi_SubnetID b @ ''/'' @ bi_Address b @ ''/'' @ decimal (unat (bi_Port b))"

definition lb_backend :: "LoadBalancerBackendInput \<Rightarrow> LoadBalancerBackend" where
  "lb_backend b = \<lparr>lbb_ID = bi_ID b, lbb_SubnetID = bi_SubnetID b, lbb_Address = bi_Address b, lbb_Port = bi_Port b,
     lbb_Weight = lbDefault (bi_Weight b) 1, lbb_AttachmentID = [], lbb_State = [], lbb_Reason = NoReason, lbb_ObservedAt = None,
     lbb_ObservationStale = False\<rparr>"

text \<open>The loop over the backends, with the identities and endpoints seen so far.\<close>

definition member_identity_ok :: "(string \<Rightarrow> string option) \<Rightarrow> bool \<Rightarrow> string \<Rightarrow> bool" where
  "member_identity_ok uuid_Parse creating i \<longleftrightarrow>
     \<not> creating \<and> (case uuid_Parse i of None \<Rightarrow> False | Some u \<Rightarrow> u \<noteq> uuid_Nil \<and> u = i)"

fun lb_backends ::
  "(string \<Rightarrow> string option) \<Rightarrow> bool \<Rightarrow> u32 \<Rightarrow> string list \<Rightarrow> string list \<Rightarrow> LoadBalancerBackendInput list
     \<Rightarrow> LoadBalancerBackend list \<Rightarrow> LoadBalancerBackend list res" where
  "lb_backends uuid_Parse creating port ids endpoints [] acc = Inr acc"
| "lb_backends uuid_Parse creating port ids endpoints (b # bs) acc =
     (if \<not> validSubnetID (bi_SubnetID b) then Inl (Fail ResourceNotFound ''backend subnet not found'')
      else if (case parse_v4 (bi_Address b) of None \<Rightarrow> True | Some ip \<Rightarrow> \<not> v4_is_private ip) \<or> bi_Port b < 1 \<or> 65535 < bi_Port b
      then Inl (Fail InvalidArgument ''backend requires a canonical private IPv4 address and a valid port'')
      else if bi_Port b \<noteq> port then Inl (Fail InvalidArgument ''health_check.port must equal every backend service port'')
      else if bi_ID b \<noteq> [] \<and> (\<not> member_identity_ok uuid_Parse creating (bi_ID b) \<or> bi_ID b \<in> set ids)
      then Inl (Fail InvalidArgument ''invalid or duplicate backend member identity'')
      else if lb_endpoint b \<in> set endpoints then Inl (Fail InvalidArgument ''duplicate backend endpoint'')
      else if 1000000 < lbDefault (bi_Weight b) 1 then Inl (Fail InvalidArgument ''backend weight must be within 0..1000000'')
      else lb_backends uuid_Parse creating port (if bi_ID b \<noteq> [] then bi_ID b # ids else ids) (lb_endpoint b # endpoints) bs
             (acc @ [lb_backend b]))"

definition lb_health :: "LoadBalancerHealthInput \<Rightarrow> LoadBalancerHealth res" where
  "lb_health h =
     (if hi_Protocol h \<noteq> [] \<and> hi_Protocol h \<noteq> ''TCP'' then Inl (Fail InvalidArgument ''only TCP health checks are supported'')
      else case hi_Port h of
        None \<Rightarrow> Inl (Fail InvalidArgument ''health_check.port is required and must be within 1..65535'')
      | Some port \<Rightarrow>
          if port = 0 \<or> 65535 < port
          then Inl (Fail InvalidArgument ''health_check.port is required and must be within 1..65535'')
          else
            (let v = \<lparr>lh_IntervalSeconds = lbDefault (hi_IntervalSeconds h) 5, lh_TimeoutSeconds = lbDefault (hi_TimeoutSeconds h) 3,
                      lh_UnhealthyThreshold = lbDefault (hi_UnhealthyThreshold h) 3,
                      lh_HealthyThreshold = lbDefault (hi_HealthyThreshold h) 1, lh_Port = port\<rparr>
             in if lh_TimeoutSeconds v = 0 \<or> lh_IntervalSeconds v \<le> lh_TimeoutSeconds v \<or> lh_UnhealthyThreshold v = 0
                   \<or> lh_HealthyThreshold v = 0
                then Inl (Fail InvalidArgument ''positive health parameters and timeout less than interval are required'')
                else Inr v))"

definition normalizeLBMutable ::
  "(string \<Rightarrow> string option) \<Rightarrow> LoadBalancerIntent \<Rightarrow> LoadBalancerMutableInput \<Rightarrow> bool \<Rightarrow> LoadBalancerIntent res" where
  "normalizeLBMutable uuid_Parse i r creating =
     (case normalizeEgressName uuid_Parse (mu_Name r) (mu_Description r) (li_IdempotencyKey i) of
        Inl e \<Rightarrow> Inl e
      | Inr name \<Rightarrow>
          (case lb_health (mu_Health r) of
             Inl e \<Rightarrow> Inl e
           | Inr health \<Rightarrow>
               if mu_Backends r = [] then Inl (Fail InvalidArgument ''a nonempty backend set is required'')
               else (case lb_backends uuid_Parse creating (lh_Port health) [] [] (mu_Backends r) (li_Backends i) of
                  Inl e \<Rightarrow> Inl e
                | Inr bs \<Rightarrow> Inr (i\<lparr>li_Name := name, li_Description := mu_Description r, li_Health := health,
                                    li_Backends := sort_by compareLBEndpoint bs\<rparr>))))"

section \<open>Handlers\<close>

record LoadBalancerFilter =
  lf_VPCFilter :: VPCFilter
  lf_VPCID :: string
  lf_SubnetID :: string
  lf_Exposure :: string

record 'w LoadBalancerRepository =
  lrp_AcceptLoadBalancer :: "LoadBalancerIntent \<Rightarrow> Attribution \<Rightarrow> duration \<Rightarrow> 'w \<Rightarrow> LoadBalancerResult res \<times> 'w"
  lrp_GetLoadBalancer :: "string \<Rightarrow> string \<Rightarrow> 'w \<Rightarrow> LoadBalancer res \<times> 'w"
  lrp_ListLoadBalancers :: "string \<Rightarrow> LoadBalancerFilter \<Rightarrow> 'w \<Rightarrow> LoadBalancer list res \<times> 'w"
  lrp_DeleteLoadBalancer :: "string \<Rightarrow> string \<Rightarrow> Attribution \<Rightarrow> 'w \<Rightarrow> LoadBalancerResult res \<times> 'w"
  lrp_GetLoadBalancerOperation :: "string \<Rightarrow> string \<Rightarrow> 'w \<Rightarrow> Operation res \<times> 'w"

record 'w LoadBalancers =
  lbs_repository :: "'w LoadBalancerRepository"
  lbs_authorization :: EgressAuthorization
  lbs_cursorKey :: string
  lbs_freshness :: duration
  lbs_now :: go_time

definition NewLoadBalancers ::
  "'w LoadBalancerRepository option \<Rightarrow> EgressAuthorization option \<Rightarrow> string \<Rightarrow> duration \<Rightarrow> go_time option \<Rightarrow> 'w LoadBalancers res" where
  "NewLoadBalancers r a key freshness now =
     (case (r, a, now) of
        (Some r, Some a, Some now) \<Rightarrow>
          if length key < 32 \<or> freshness \<le> 0
          then Inl (OtherError ''load balancer repository, authorization, cursor key, freshness and clock are required'')
          else Inr \<lparr>lbs_repository = r, lbs_authorization = a, lbs_cursorKey = key, lbs_freshness = freshness, lbs_now = now\<rparr>
      | _ \<Rightarrow> Inl (OtherError ''load balancer repository, authorization, cursor key, freshness and clock are required''))"

definition private_v4 :: "string \<Rightarrow> bool" where
  "private_v4 s = (case parse_v4 s of None \<Rightarrow> False | Some ip \<Rightarrow> v4_is_private ip)"

text \<open>The checks of \<^verbatim>\<open>Create\<close> on the immutable part of the intent.\<close>

definition lb_create_check :: "LoadBalancerIntent \<Rightarrow> string \<Rightarrow> goerr option" where
  "lb_create_check i protocol =
     (if \<not> validVPCID (li_VPCID i) \<or> \<not> validSubnetID (li_SubnetID i) then Some (Fail ResourceNotFound ''network parent not found'')
      else if (li_Flavor i \<noteq> [] \<and> li_Flavor i \<noteq> ''small'') \<or> (protocol \<noteq> [] \<and> protocol \<noteq> ''HTTP'')
        \<or> li_ListenerPort i = 0 \<or> 65535 < li_ListenerPort i
      then Some (Fail InvalidArgument ''only small with one HTTP listener on a valid port is supported'')
      else if li_Exposure i \<noteq> ''private'' \<and> li_Exposure i \<noteq> ''public'' \<and> li_Exposure i \<noteq> ''public_private''
      then Some (Fail InvalidArgument ''invalid load balancer exposure'')
      else if (li_Exposure i = ''private'' \<and> li_PublicEIPID i \<noteq> []) \<or> (li_Exposure i = ''public'' \<and> li_PrivateIP i \<noteq> [])
      then Some (Fail InvalidArgument ''entry addresses do not match exposure'')
      else if li_Exposure i \<noteq> ''private'' \<and> \<not> validEgressID (li_PublicEIPID i) ''eip''
      then Some (Fail ResourceNotFound ''Public EIP not found'')
      else if li_Exposure i \<noteq> ''public'' \<and> \<not> private_v4 (li_PrivateIP i)
      then Some (Fail InvalidArgument ''a canonical private IPv4 VIP is required'')
      else None)"

definition LB_Create ::
  "(string \<Rightarrow> string option) \<Rightarrow> 'w LoadBalancers \<Rightarrow> ctx \<Rightarrow> CreateLoadBalancer \<Rightarrow> 'w \<Rightarrow> LoadBalancerResult res \<times> 'w" where
  "LB_Create uuid_Parse l c r s =
     (case ea_Tenant (lbs_authorization l) c (cl_TenantID r) of
        Inl e \<Rightarrow> (Inl e, s)
      | Inr (tenant, a) \<Rightarrow>
          (let i = zero_lb_intent\<lparr>li_TenantID := tenant, li_Kind := ''create_load_balancer'', li_IdempotencyKey := cl_IdempotencyKey r,
                  li_VPCID := cl_VPCID r, li_SubnetID := cl_SubnetID r, li_Exposure := cl_Exposure r, li_Flavor := cl_Flavor r,
                  li_PublicEIPID := cl_PublicEIPID r, li_PrivateIP := cl_PrivateIP r, li_ListenerPort := lbDefault (cl_ListenerPort r) 8080\<rparr> in
           case lb_create_check i (cl_ListenerProtocol r) of
             Some e \<Rightarrow> (Inl e, s)
           | None \<Rightarrow>
               (case normalizeLBMutable uuid_Parse (i\<lparr>li_Flavor := ''small''\<rparr>) (cl_Mutable r) True of
                  Inl e \<Rightarrow> (Inl e, s)
                | Inr i \<Rightarrow> lrp_AcceptLoadBalancer (lbs_repository l) i a (lbs_freshness l) s)))"

definition LB_Update ::
  "(string \<Rightarrow> string option) \<Rightarrow> 'w LoadBalancers \<Rightarrow> ctx \<Rightarrow> UpdateLoadBalancer \<Rightarrow> 'w \<Rightarrow> LoadBalancerResult res \<times> 'w" where
  "LB_Update uuid_Parse l c r s =
     (case ea_Tenant (lbs_authorization l) c (ul_TenantID r) of
        Inl e \<Rightarrow> (Inl e, s)
      | Inr (tenant, a) \<Rightarrow>
          if \<not> validEgressID (ul_ID r) ''lb'' then (Inl (Fail ResourceNotFound ''load balancer not found''), s)
          else if ul_ExpectedVersion r < 1 then (Inl (Fail InvalidArgument ''expected_version is required''), s)
          else case normalizeLBMutable uuid_Parse
                 (zero_lb_intent\<lparr>li_TenantID := tenant, li_ID := ul_ID r, li_Kind := ''update_load_balancer'',
                    li_IdempotencyKey := ul_IdempotencyKey r, li_ExpectedVersion := ul_ExpectedVersion r\<rparr>) (ul_Mutable r) False of
            Inl e \<Rightarrow> (Inl e, s)
          | Inr i \<Rightarrow> lrp_AcceptLoadBalancer (lbs_repository l) i a (lbs_freshness l) s)"

definition LB_observation :: "'w LoadBalancers \<Rightarrow> LoadBalancer \<Rightarrow> LoadBalancer" where
  "LB_observation l v =
     (let stale = observation_stale (lbs_now l) (lbs_freshness l);
          v = v\<lparr>lb_Metadata := (lb_Metadata v)\<lparr>em_ObservationStale := stale (em_ObservedAt (lb_Metadata v))\<rparr>\<rparr>;
          v = (if stale (lb_DataPlaneObservedAt v) then v\<lparr>lb_DataPlaneState := ''unknown'', lb_DataPlaneObservedAt := None\<rparr> else v)
      in v\<lparr>lb_Backends := map (\<lambda>b. let b = b\<lparr>lbb_ObservationStale := stale (lbb_ObservedAt b)\<rparr>
             in if lbb_ObservationStale b then b\<lparr>lbb_State := ''unknown''\<rparr> else b) (lb_Backends v)\<rparr>)"

definition LB_Get :: "'w LoadBalancers \<Rightarrow> ctx \<Rightarrow> string \<Rightarrow> string \<Rightarrow> 'w \<Rightarrow> LoadBalancer res \<times> 'w" where
  "LB_Get l c tenant i s =
     (case ea_Tenant (lbs_authorization l) c tenant of
        Inl e \<Rightarrow> (Inl e, s)
      | Inr (tenant, _) \<Rightarrow>
          if \<not> validEgressID i ''lb'' then (Inl (Fail ResourceNotFound ''load balancer not found''), s)
          else map_answer (LB_observation l) (lrp_GetLoadBalancer (lbs_repository l) tenant i s))"

definition LB_Delete :: "'w LoadBalancers \<Rightarrow> ctx \<Rightarrow> string \<Rightarrow> string \<Rightarrow> 'w \<Rightarrow> LoadBalancerResult res \<times> 'w" where
  "LB_Delete l c tenant i s =
     (case ea_Tenant (lbs_authorization l) c tenant of
        Inl e \<Rightarrow> (Inl e, s)
      | Inr (tenant, a) \<Rightarrow>
          if \<not> validEgressID i ''lb'' then (Inl (Fail ResourceNotFound ''load balancer not found''), s)
          else lrp_DeleteLoadBalancer (lbs_repository l) tenant i a s)"

definition LB_GetOperation :: "(string \<Rightarrow> string option) \<Rightarrow> 'w LoadBalancers \<Rightarrow> ctx \<Rightarrow> string \<Rightarrow> string \<Rightarrow> 'w \<Rightarrow> Operation res \<times> 'w" where
  "LB_GetOperation uuid_Parse l c tenant i s =
     (case ea_Tenant (lbs_authorization l) c tenant of
        Inl e \<Rightarrow> (Inl e, s)
      | Inr (tenant, _) \<Rightarrow>
          (case uuid_Parse i of
             None \<Rightarrow> (Inl (Fail ResourceNotFound ''operation not found''), s)
           | Some parsed \<Rightarrow>
               if parsed = uuid_Nil \<or> length i \<noteq> 36 then (Inl (Fail ResourceNotFound ''operation not found''), s)
               else (case lrp_GetLoadBalancerOperation (lbs_repository l) tenant parsed s of
                  (Inl e, s) \<Rightarrow> (Inl e, s)
                | (Inr op, s) \<Rightarrow>
                    if op_TenantID op \<noteq> tenant \<or> op_ResourceType op \<noteq> ''load_balancer''
                    then (Inl (Fail ResourceNotFound ''operation not found''), s) else (Inr op, s))))"

section \<open>The order of backends does not matter\<close>

definition lb_key :: "LoadBalancerBackend \<Rightarrow> string \<times> string \<times> string \<times> u32" where
  "lb_key b = (lbb_SubnetID b, lbb_Address b, lbb_ID b, lbb_Port b)"

lemma compareLBEndpoint_key: "compareLBEndpoint a b \<le> 0 \<longleftrightarrow> lb_key a \<le> lb_key b"
  by (auto simp: compareLBEndpoint_def lb_key_def Let_def less_eq_prod_def)

lemma sort_backends_is_reference: "sort_by compareLBEndpoint bs = sort_key lb_key bs"
proof -
  have "insert_by compareLBEndpoint x ys = insort_key lb_key x ys" for x ys
    by (induction ys) (simp_all add: compareLBEndpoint_key)
  then show ?thesis by (induction bs) simp_all
qed

definition backend_ok :: "(string \<Rightarrow> string option) \<Rightarrow> bool \<Rightarrow> u32 \<Rightarrow> LoadBalancerBackendInput \<Rightarrow> bool" where
  "backend_ok up creating port b \<longleftrightarrow> validSubnetID (bi_SubnetID b) \<and> private_v4 (bi_Address b) \<and> 1 \<le> bi_Port b
     \<and> bi_Port b \<le> 65535 \<and> bi_Port b = port \<and> (bi_ID b = [] \<or> member_identity_ok up creating (bi_ID b))
     \<and> lbDefault (bi_Weight b) 1 \<le> 1000000"

abbreviation member_ids :: "LoadBalancerBackendInput list \<Rightarrow> string list" where
  "member_ids bs \<equiv> filter (\<lambda>i. i \<noteq> []) (map bi_ID bs)"

lemma lb_backends_Inr_iff:
  "lb_backends up creating port ids eps bs acc = Inr out \<longleftrightarrow>
     list_all (backend_ok up creating port) bs \<and> distinct (member_ids bs) \<and> set (member_ids bs) \<inter> set ids = {}
     \<and> distinct (map lb_endpoint bs) \<and> lb_endpoint ` set bs \<inter> set eps = {} \<and> out = acc @ map lb_backend bs"
proof (induction bs arbitrary: ids eps acc)
  case (Cons b bs)
  let ?ok = "backend_ok up creating port b \<and> (bi_ID b = [] \<or> bi_ID b \<notin> set ids) \<and> lb_endpoint b \<notin> set eps"
  show ?case
  proof (cases ?ok)
    case True
    then have eq: "lb_backends up creating port ids eps (b # bs) acc =
        lb_backends up creating port (if bi_ID b \<noteq> [] then bi_ID b # ids else ids) (lb_endpoint b # eps) bs (acc @ [lb_backend b])"
      by (auto simp: backend_ok_def private_v4_def not_less not_le split: option.splits)
    show ?thesis unfolding eq Cons.IH using True by (cases "bi_ID b = []") auto
  next
    case False
    then have "\<nexists>out. lb_backends up creating port ids eps (b # bs) acc = Inr out"
      by (auto simp: backend_ok_def private_v4_def not_less not_le split: option.splits)
    with False show ?thesis by auto
  qed
qed auto

lemma lb_key_endpoint: "lb_key (lb_backend a) = lb_key (lb_backend b) \<Longrightarrow> lb_endpoint a = lb_endpoint b"
  by (simp add: lb_key_def lb_backend_def lb_endpoint_def)

lemma sort_key_mset_unique:
  fixes f :: "'a \<Rightarrow> 'b :: linorder"
  assumes "mset xs = mset ys" and "inj_on f (set xs)"
  shows "sort_key f xs = sort_key f ys"
proof -
  have m: "map f (sort_key f zs) = sort (map f zs)" for zs
    by (rule properties_for_sort [symmetric]) simp_all
  have "sort (map f xs) = sort (map f ys)"
    by (rule properties_for_sort) (simp_all add: assms(1))
  then have "map f (sort_key f xs) = map f (sort_key f ys)" by (simp add: m)
  moreover have "inj_on f (set (sort_key f xs) \<union> set (sort_key f ys))"
    using assms by (metis Un_absorb mset_eq_setD set_sort)
  ultimately show ?thesis by (rule map_inj_on)
qed

text \<open>C36: Backend input is a set: listing the same backends in another order (with repetitions kept) yields the same accepted
  intent, hence the same fingerprint and the same idempotent request.\<close>

theorem backend_order_does_not_matter:
  assumes "normalizeLBMutable up i r creating = Inr j" and "li_Backends i = []" and "mset bs = mset (mu_Backends r)"
  shows "normalizeLBMutable up i (r\<lparr>mu_Backends := bs\<rparr>) creating = Inr j"
proof -
  from assms obtain name health out where n: "normalizeEgressName up (mu_Name r) (mu_Description r) (li_IdempotencyKey i) = Inr name"
    "lb_health (mu_Health r) = Inr health" "mu_Backends r \<noteq> []"
    and b: "lb_backends up creating (lh_Port health) [] [] (mu_Backends r) [] = Inr out"
    and j: "j = i\<lparr>li_Name := name, li_Description := mu_Description r, li_Health := health, li_Backends := sort_by compareLBEndpoint out\<rparr>"
    by (auto simp: normalizeLBMutable_def split: sum.splits if_splits)
  from b have ok: "list_all (backend_ok up creating (lh_Port health)) (mu_Backends r)" "distinct (member_ids (mu_Backends r))"
    "distinct (map lb_endpoint (mu_Backends r))" "out = map lb_backend (mu_Backends r)"
    by (simp_all add: lb_backends_Inr_iff)
  have sets: "set bs = set (mu_Backends r)" using assms(3) by (rule mset_eq_setD)
  have "mset (member_ids bs) = mset (member_ids (mu_Backends r))" "mset (map lb_endpoint bs) = mset (map lb_endpoint (mu_Backends r))"
    using assms(3) by (simp_all add: mset_filter)
  then have "distinct (member_ids bs)" "distinct (map lb_endpoint bs)" using ok mset_eq_imp_distinct_iff by blast+
  then have b': "lb_backends up creating (lh_Port health) [] [] bs [] = Inr (map lb_backend bs)"
    using ok(1) sets by (simp add: lb_backends_Inr_iff list_all_iff)
  have "inj_on lb_key (lb_backend ` set bs)"
  proof (rule inj_onI)
    fix x y assume "x \<in> lb_backend ` set bs" "y \<in> lb_backend ` set bs" and k: "lb_key x = lb_key y"
    then obtain a c where ac: "x = lb_backend a" "y = lb_backend c" "a \<in> set (mu_Backends r)" "c \<in> set (mu_Backends r)"
      by (auto simp: sets)
    have "inj_on lb_endpoint (set (mu_Backends r))" using ok(3) by (simp add: distinct_map)
    then have "a = c" using ac(3,4) lb_key_endpoint [OF k [unfolded ac]] by (auto dest: inj_onD)
    then show "x = y" using ac by simp
  qed
  then have "sort_key lb_key (map lb_backend bs) = sort_key lb_key out"
    unfolding ok(4) by (intro sort_key_mset_unique) (simp_all add: assms(3))
  moreover have "bs \<noteq> []" using n(3) sets by auto
  ultimately show ?thesis
    using n b' by (simp add: normalizeLBMutable_def j assms(2) sort_backends_is_reference)
qed

text \<open>C35: An accepted set of backends is well formed: sorted by subnet, address, identity and port, without two entries for
  the same endpoint, every backend on a private address and on the health check port with a weight of at most
  1000000, and a positive health timeout below the interval.\<close>

theorem normalizeLBMutable_well_formed:
  assumes "normalizeLBMutable up i r creating = Inr j" and "li_Backends i = []"
  shows "sorted (map lb_key (li_Backends j)) \<and> distinct (map lb_endpoint (mu_Backends r))
    \<and> mset (li_Backends j) = mset (map lb_backend (mu_Backends r)) \<and> li_Backends j \<noteq> []
    \<and> list_all (\<lambda>b. private_v4 (lbb_Address b) \<and> validSubnetID (lbb_SubnetID b) \<and> lbb_Port b = lh_Port (li_Health j)
         \<and> lbb_Weight b \<le> 1000000) (li_Backends j)
    \<and> 0 < lh_Port (li_Health j) \<and> lh_Port (li_Health j) \<le> 65535 \<and> 0 < lh_TimeoutSeconds (li_Health j)
    \<and> lh_TimeoutSeconds (li_Health j) < lh_IntervalSeconds (li_Health j)"
proof -
  from assms obtain name health out where n: "lb_health (mu_Health r) = Inr health" "mu_Backends r \<noteq> []"
    and b: "lb_backends up creating (lh_Port health) [] [] (mu_Backends r) [] = Inr out"
    and j: "li_Health j = health" "li_Backends j = sort_key lb_key out"
    by (auto simp: normalizeLBMutable_def sort_backends_is_reference split: sum.splits if_splits)
  from b have ok: "list_all (backend_ok up creating (lh_Port health)) (mu_Backends r)"
    "distinct (map lb_endpoint (mu_Backends r))" "out = map lb_backend (mu_Backends r)"
    by (simp_all add: lb_backends_Inr_iff)
  have "0 < lh_Port health \<and> lh_Port health \<le> 65535 \<and> 0 < lh_TimeoutSeconds health \<and> lh_TimeoutSeconds health < lh_IntervalSeconds health"
    using n(1) by (auto simp: lb_health_def Let_def word_gt_0 not_less not_le split: if_splits option.splits)
  moreover have "list_all (\<lambda>b. private_v4 (lbb_Address b) \<and> validSubnetID (lbb_SubnetID b) \<and> lbb_Port b = lh_Port health
         \<and> lbb_Weight b \<le> 1000000) (sort_key lb_key out)"
    using ok(1) unfolding ok(3) by (auto simp: list_all_iff backend_ok_def lb_backend_def)
  moreover have "sort_key lb_key out \<noteq> []" using n(2) unfolding ok(3) by (metis list.map_disc_iff set_empty set_sort)
  ultimately show ?thesis using ok j by simp
qed

definition sample_subnet :: string where
  "sample_subnet = ''subnet_'' @ replicate 32 (CHR ''0'')"

definition sample_backend :: "string \<Rightarrow> LoadBalancerBackendInput" where
  "sample_backend a = \<lparr>bi_ID = [], bi_SubnetID = sample_subnet, bi_Address = a, bi_Port = 80, bi_Weight = None\<rparr>"

definition sample_mutable :: LoadBalancerMutableInput where
  "sample_mutable = \<lparr>mu_Name = ''lb'', mu_Description = [], mu_Backends = [sample_backend ''10.1.0.9'', sample_backend ''10.1.0.4''],
     mu_Health = \<lparr>hi_Protocol = [], hi_IntervalSeconds = None, hi_TimeoutSeconds = None, hi_UnhealthyThreshold = None,
       hi_HealthyThreshold = None, hi_Port = Some 80\<rparr>\<rparr>"

definition sample_lb_intent :: LoadBalancerIntent where
  "sample_lb_intent = zero_lb_intent\<lparr>li_IdempotencyKey := ''key''\<rparr>"

lemma sample_mutable_accepted:
  "normalizeLBMutable sample_parse sample_lb_intent sample_mutable True =
     Inr (sample_lb_intent\<lparr>li_Name := ''lb'', li_Description := [],
       li_Health := \<lparr>lh_IntervalSeconds = 5, lh_TimeoutSeconds = 3, lh_UnhealthyThreshold = 3, lh_HealthyThreshold = 1, lh_Port = 80\<rparr>,
       li_Backends := [lb_backend (sample_backend ''10.1.0.4''), lb_backend (sample_backend ''10.1.0.9'')]\<rparr>)"
proof -
  have v: "validSubnetID sample_subnet" by code_simp
  have p: "private_v4 ''10.1.0.9''" "private_v4 ''10.1.0.4''" by (simp_all add: private_v4_def sample_addresses v4_is_private_def)
  have "list_all (backend_ok sample_parse True 80) (mu_Backends sample_mutable)"
    by (simp add: sample_mutable_def sample_backend_def backend_ok_def v p lbDefault_def)
  then have b: "lb_backends sample_parse True 80 [] [] (mu_Backends sample_mutable) [] = Inr (map lb_backend (mu_Backends sample_mutable))"
    by (simp add: lb_backends_Inr_iff) (simp add: sample_mutable_def sample_backend_def lb_endpoint_def decimal.simps)
  have s: "sort_by compareLBEndpoint (map lb_backend (mu_Backends sample_mutable)) =
      [lb_backend (sample_backend ''10.1.0.4''), lb_backend (sample_backend ''10.1.0.9'')]"
    by (simp add: sample_mutable_def sample_backend_def lb_backend_def compareLBEndpoint_def)
  have h: "lb_health (mu_Health sample_mutable) = Inr \<lparr>lh_IntervalSeconds = 5, lh_TimeoutSeconds = 3, lh_UnhealthyThreshold = 3, lh_HealthyThreshold = 1, lh_Port = 80\<rparr>"
    by (simp add: sample_mutable_def lb_health_def lbDefault_def)
  have ne: "mu_Backends sample_mutable \<noteq> []" "mu_Name sample_mutable = ''lb''" "mu_Description sample_mutable = []"
    "li_IdempotencyKey sample_lb_intent = ''key''" "li_Backends sample_lb_intent = []"
    by (simp_all add: sample_mutable_def sample_lb_intent_def zero_lb_intent_def)
  show ?thesis by (simp add: normalizeLBMutable_def sample_name h ne b s)
qed

theorem normalizeLBMutable_well_formed_witness:
  "\<exists>j. normalizeLBMutable sample_parse sample_lb_intent sample_mutable True = Inr j \<and> sorted (map lb_key (li_Backends j))
     \<and> length (li_Backends j) = 2"
proof -
  have "li_Backends sample_lb_intent = []" by (simp add: sample_lb_intent_def zero_lb_intent_def)
  from normalizeLBMutable_well_formed [OF sample_mutable_accepted this] show ?thesis by (simp add: sample_mutable_accepted)
qed

theorem backend_order_does_not_matter_witness:
  "normalizeLBMutable sample_parse sample_lb_intent
     (sample_mutable\<lparr>mu_Backends := [sample_backend ''10.1.0.4'', sample_backend ''10.1.0.9'']\<rparr>) True
   = normalizeLBMutable sample_parse sample_lb_intent sample_mutable True"
proof -
  have "li_Backends sample_lb_intent = []" by (simp add: sample_lb_intent_def zero_lb_intent_def)
  moreover have "mset [sample_backend ''10.1.0.4'', sample_backend ''10.1.0.9''] = mset (mu_Backends sample_mutable)"
    by (simp add: sample_mutable_def)
  ultimately show ?thesis
    using backend_order_does_not_matter [OF sample_mutable_accepted] sample_mutable_accepted by simp
qed

end
