(* ===== verification/Net_Network.thy ===== *)
theory Net_Network
  imports Net_Cursor Net_LoadBalancer
begin

text \<open>
  The caller-facing use cases of \<^verbatim>\<open>network.go\<close>, \<^verbatim>\<open>subnet.go\<close> and \<^verbatim>\<open>list.go\<close>, and the listings of \<^verbatim>\<open>egress.go\<close> and
  \<^verbatim>\<open>load_balancer.go\<close>. A repository is a record of state-passing functions, the clock a value read once per call.
  The lemmas show which calls reach the repository and with what, and that the pages of a listing, followed through
  their cursors, are the rows of the query without a gap or a repetition.
\<close>

section \<open>Repository and service\<close>

record SubnetFilter =
  sf_VPCFilter :: VPCFilter
  sf_VPCID :: string

record 'w NetworkRepository =
  nr_AcceptSubnet :: "SubnetIntent \<Rightarrow> Attribution \<Rightarrow> duration \<Rightarrow> 'w \<Rightarrow> Subnet res \<times> 'w"
  nr_GetSubnet :: "string \<Rightarrow> string \<Rightarrow> 'w \<Rightarrow> Subnet res \<times> 'w"
  nr_ListSubnets :: "string \<Rightarrow> SubnetFilter \<Rightarrow> 'w \<Rightarrow> Subnet list res \<times> 'w"
  nr_DeleteSubnet :: "string \<Rightarrow> string \<Rightarrow> 'w \<Rightarrow> Subnet res \<times> 'w"
  nr_AcceptVPC :: "VPCIntent \<Rightarrow> Attribution \<Rightarrow> 'w \<Rightarrow> VPC res \<times> 'w"
  nr_GetVPC :: "string \<Rightarrow> string \<Rightarrow> 'w \<Rightarrow> VPC res \<times> 'w"
  nr_GetOperation :: "string \<Rightarrow> string \<Rightarrow> 'w \<Rightarrow> Operation res \<times> 'w"
  nr_ListVPCs :: "string \<Rightarrow> VPCFilter \<Rightarrow> 'w \<Rightarrow> VPC list res \<times> 'w"
  nr_DeleteVPC :: "string \<Rightarrow> string \<Rightarrow> 'w \<Rightarrow> VPC res \<times> 'w"

record 'w Network =
  n_repository :: "'w NetworkRepository"
  n_cursorKey :: string
  n_freshness :: duration
  n_now :: go_time

definition NewNetwork :: "'w NetworkRepository option \<Rightarrow> string \<Rightarrow> duration \<Rightarrow> go_time option \<Rightarrow> 'w Network res" where
  "NewNetwork repository cursorKey freshness now =
     (case (repository, now) of
        (Some r, Some t) \<Rightarrow>
          if length cursorKey < 32 \<or> freshness \<le> 0
          then Inl (OtherError ''repository, >=32 byte cursor key, freshness and clock are required'')
          else Inr \<lparr>n_repository = r, n_cursorKey = cursorKey, n_freshness = freshness, n_now = t\<rparr>
      | _ \<Rightarrow> Inl (OtherError ''repository, >=32 byte cursor key, freshness and clock are required''))"

section \<open>VPCs\<close>

text \<open>The age test of a VPC or subnet observation, which does not look at observations from the future.\<close>

definition observation_old :: "go_time \<Rightarrow> duration \<Rightarrow> go_time option \<Rightarrow> bool" where
  "observation_old now freshness t = (case t of None \<Rightarrow> True | Some t \<Rightarrow> freshness < time_sub now t)"

definition Network_observation :: "'w Network \<Rightarrow> VPC \<Rightarrow> VPC" where
  "Network_observation n v =
     (let v = v\<lparr>vpc_BaseConnectivity := map_option
            (\<lambda>b. b\<lparr>bc_ObservationStale := observation_stale (n_now n) (n_freshness n) (bc_ObservedAt b)\<rparr>) (vpc_BaseConnectivity v)\<rparr>
      in v\<lparr>vpc_ObservationStale := observation_old (n_now n) (n_freshness n) (vpc_ObservedAt v)\<rparr>)"

definition Network_CreateVPC :: "(string \<Rightarrow> string option) \<Rightarrow> 'w Network \<Rightarrow> CreateVPC \<Rightarrow> 'w \<Rightarrow> VPC res \<times> 'w" where
  "Network_CreateVPC uuid_Parse n r s =
     (case NewVPCIntent uuid_Parse (cv_TenantID r) (cv_Name r) (cv_CIDR r) (cv_Description r) (cv_IdempotencyKey r) of
        Inl e \<Rightarrow> (Inl e, s)
      | Inr intent \<Rightarrow>
          (case validateAttribution (cv_Attribution r) of
             Some e \<Rightarrow> (Inl e, s)
           | None \<Rightarrow> nr_AcceptVPC (n_repository n) intent (cv_Attribution r) s))"

definition Network_GetVPC :: "(string \<Rightarrow> string option) \<Rightarrow> 'w Network \<Rightarrow> string \<Rightarrow> string \<Rightarrow> 'w \<Rightarrow> VPC res \<times> 'w" where
  "Network_GetVPC uuid_Parse n tenant i s =
     (case ParseTenant uuid_Parse tenant of
        Inl e \<Rightarrow> (Inl e, s)
      | Inr tenant \<Rightarrow>
          if \<not> validVPCID i then (Inl (Fail ResourceNotFound ''VPC not found''), s)
          else map_answer (Network_observation n) (nr_GetVPC (n_repository n) tenant i s))"

definition Network_DeleteVPC :: "(string \<Rightarrow> string option) \<Rightarrow> 'w Network \<Rightarrow> string \<Rightarrow> string \<Rightarrow> 'w \<Rightarrow> VPC res \<times> 'w" where
  "Network_DeleteVPC uuid_Parse n tenant i s =
     (case ParseTenant uuid_Parse tenant of
        Inl e \<Rightarrow> (Inl e, s)
      | Inr tenant \<Rightarrow>
          if \<not> validVPCID i then (Inl (Fail ResourceNotFound ''VPC not found''), s)
          else map_answer (Network_observation n) (nr_DeleteVPC (n_repository n) tenant i s))"

text \<open>Operations on egress resources and load balancers need a trusted caller of the tenant.\<close>

definition Network_GetOperation :: "(string \<Rightarrow> string option) \<Rightarrow> 'w Network \<Rightarrow> ctx \<Rightarrow> string \<Rightarrow> string \<Rightarrow> 'w \<Rightarrow> Operation res \<times> 'w" where
  "Network_GetOperation uuid_Parse n c tenant i s =
     (case ParseTenant uuid_Parse tenant of
        Inl e \<Rightarrow> (Inl e, s)
      | Inr tenant \<Rightarrow>
          (case uuid_Parse i of
             None \<Rightarrow> (Inl (Fail ResourceNotFound ''operation not found''), s)
           | Some parsed \<Rightarrow>
               if length i \<noteq> 36 \<or> parsed = uuid_Nil then (Inl (Fail ResourceNotFound ''operation not found''), s)
               else (case nr_GetOperation (n_repository n) tenant parsed s of
                  (Inl e, s) \<Rightarrow> (Inl e, s)
                | (Inr op, s) \<Rightarrow>
                    if op_ResourceType op \<in> {''eip'', ''snat'', ''load_balancer''}
                    then (case Context_Tenant uuid_Parse c tenant of Inl e \<Rightarrow> (Inl e, s) | Inr _ \<Rightarrow> (Inr op, s))
                    else (Inr op, s))))"

section \<open>Subnets\<close>

definition subnetObservation :: "'w Network \<Rightarrow> Subnet \<Rightarrow> Subnet" where
  "subnetObservation n v = v\<lparr>sn_ObservationStale := observation_old (n_now n) (n_freshness n) (sn_ObservedAt v)\<rparr>"

definition Network_CreateSubnet :: "(string \<Rightarrow> string option) \<Rightarrow> 'w Network \<Rightarrow> CreateSubnet \<Rightarrow> 'w \<Rightarrow> Subnet res \<times> 'w" where
  "Network_CreateSubnet uuid_Parse n r s =
     (case NewSubnetIntent uuid_Parse r of
        Inl e \<Rightarrow> (Inl e, s)
      | Inr intent \<Rightarrow>
          (case validateAttribution (cs_Attribution r) of
             Some e \<Rightarrow> (Inl e, s)
           | None \<Rightarrow> nr_AcceptSubnet (n_repository n) intent (cs_Attribution r) (n_freshness n) s))"

definition Network_GetSubnet :: "(string \<Rightarrow> string option) \<Rightarrow> 'w Network \<Rightarrow> string \<Rightarrow> string \<Rightarrow> 'w \<Rightarrow> Subnet res \<times> 'w" where
  "Network_GetSubnet uuid_Parse n tenant i s =
     (case ParseTenant uuid_Parse tenant of
        Inl e \<Rightarrow> (Inl e, s)
      | Inr tenant \<Rightarrow>
          if \<not> validSubnetID i then (Inl (Fail ResourceNotFound ''subnet not found''), s)
          else map_answer (subnetObservation n) (nr_GetSubnet (n_repository n) tenant i s))"

definition Network_DeleteSubnet :: "(string \<Rightarrow> string option) \<Rightarrow> 'w Network \<Rightarrow> string \<Rightarrow> string \<Rightarrow> 'w \<Rightarrow> Subnet res \<times> 'w" where
  "Network_DeleteSubnet uuid_Parse n tenant i s =
     (case ParseTenant uuid_Parse tenant of
        Inl e \<Rightarrow> (Inl e, s)
      | Inr tenant \<Rightarrow>
          if \<not> validSubnetID i then (Inl (Fail ResourceNotFound ''subnet not found''), s)
          else map_answer (subnetObservation n) (nr_DeleteSubnet (n_repository n) tenant i s))"

section \<open>Listings\<close>

text \<open>Whether a decoded cursor belongs to the query, and the filter that continues from it.\<close>

definition cursor_matches :: "string \<Rightarrow> string \<Rightarrow> string \<Rightarrow> string \<Rightarrow> (string \<Rightarrow> bool) \<Rightarrow> VPCFilter \<Rightarrow> vpcCursor \<Rightarrow> bool" where
  "cursor_matches kind tenant vpc state id_ok f c \<longleftrightarrow>
     vc_Version c = 1 \<and> vc_Kind c = kind \<and> vc_TenantID c = tenant \<and> vc_VPCID c = vpc \<and> vc_Name c = vf_Name f
     \<and> vc_State c = state \<and> id_ok (vc_ID c) \<and> \<not> time_is_zero (vc_CreatedAt c)"

definition continue_after :: "VPCFilter \<Rightarrow> vpcCursor \<Rightarrow> VPCFilter" where
  "continue_after f c = f\<lparr>vf_AfterCreatedAt := vc_CreatedAt c, vf_AfterID := vc_ID c\<rparr>"

text \<open>The loop that fills a page: it stops at the row after the last one of the page and signs a cursor for the row before.\<close>

fun page_loop :: "nat \<Rightarrow> nat \<Rightarrow> ('a \<Rightarrow> 'b) \<Rightarrow> ('a \<Rightarrow> string) \<Rightarrow> 'a list \<Rightarrow> 'a list \<Rightarrow> 'b list \<Rightarrow> 'b list \<times> string" where
  "page_loop i limit f cursor rows [] items = (items, [])"
| "page_loop i limit f cursor rows (v # vs) items =
     (if i = limit then (items, cursor (rows ! (i - 1)))
      else page_loop (i + 1) limit f cursor rows vs (items @ [f v]))"

definition vpc_cursor :: "string \<Rightarrow> VPCFilter \<Rightarrow> VPC \<Rightarrow> vpcCursor" where
  "vpc_cursor tenant f v = \<lparr>vc_Version = 1, vc_Kind = ''vpc'', vc_TenantID = tenant, vc_Name = vf_Name f, vc_State = vf_State f,
     vc_VPCID = [], vc_ID = vpc_ID v, vc_CreatedAt = vpc_CreatedAt v\<rparr>"

text \<open>The VPC list does not compare the VPC field of a cursor, which it never sets.\<close>

definition vpc_filter :: "string \<Rightarrow> string \<Rightarrow> ListVPCs \<Rightarrow> VPCFilter res" where
  "vpc_filter key tenant r =
     (case normalizeList (lv_Name r) (lv_State r) (lv_Limit r) of
        Inl e \<Rightarrow> Inl e
      | Inr f \<Rightarrow>
          if lv_Cursor r = [] then Inr f
          else (case decodeCursor key (lv_Cursor r) of
             Inl _ \<Rightarrow> Inl (Fail InvalidCursor ''cursor does not match this query'')
           | Inr c \<Rightarrow>
               if \<not> cursor_matches ''vpc'' tenant (vc_VPCID c) (lv_State r) validVPCID f c
               then Inl (Fail InvalidCursor ''cursor does not match this query'')
               else Inr (continue_after f c)))"

definition Network_ListVPCs :: "(string \<Rightarrow> string option) \<Rightarrow> 'w Network \<Rightarrow> ListVPCs \<Rightarrow> 'w \<Rightarrow> (VPC list \<times> string) res \<times> 'w" where
  "Network_ListVPCs uuid_Parse n r s =
     (case ParseTenant uuid_Parse (lv_TenantID r) of
        Inl e \<Rightarrow> (Inl e, s)
      | Inr tenant \<Rightarrow>
          (case vpc_filter (n_cursorKey n) tenant r of
             Inl e \<Rightarrow> (Inl e, s)
           | Inr f \<Rightarrow>
               (case nr_ListVPCs (n_repository n) tenant f s of
                  (Inl e, s) \<Rightarrow> (Inl e, s)
                | (Inr rows, s) \<Rightarrow>
                    (Inr (page_loop 0 (nat (vf_Limit f - 1)) (Network_observation n) (\<lambda>v. encodeCursor (n_cursorKey n) (vpc_cursor tenant f v))
                            rows rows []), s))))"

record ListSubnets =
  ls_TenantID :: string
  ls_VPCID :: string
  ls_Name :: string
  ls_State :: string
  ls_Cursor :: string
  ls_Limit :: int

definition subnet_cursor :: "string \<Rightarrow> SubnetFilter \<Rightarrow> Subnet \<Rightarrow> vpcCursor" where
  "subnet_cursor tenant f v = \<lparr>vc_Version = 1, vc_Kind = ''subnet'', vc_TenantID = tenant, vc_Name = vf_Name (sf_VPCFilter f),
     vc_State = vf_State (sf_VPCFilter f), vc_VPCID = sf_VPCID f, vc_ID = sn_ID v, vc_CreatedAt = sn_CreatedAt v\<rparr>"

definition subnet_filter :: "string \<Rightarrow> string \<Rightarrow> ListSubnets \<Rightarrow> SubnetFilter res" where
  "subnet_filter key tenant r =
     (case normalizeList (ls_Name r) (ls_State r) (ls_Limit r) of
        Inl e \<Rightarrow> Inl e
      | Inr f \<Rightarrow>
          if ls_VPCID r \<noteq> [] \<and> \<not> validVPCID (ls_VPCID r) then Inl (Fail InvalidArgument ''invalid VPC filter'')
          else if ls_Cursor r = [] then Inr \<lparr>sf_VPCFilter = f, sf_VPCID = ls_VPCID r\<rparr>
          else (case decodeCursor key (ls_Cursor r) of
             Inl _ \<Rightarrow> Inl (Fail InvalidCursor ''cursor does not match this query'')
           | Inr c \<Rightarrow>
               if \<not> cursor_matches ''subnet'' tenant (ls_VPCID r) (ls_State r) validSubnetID f c
               then Inl (Fail InvalidCursor ''cursor does not match this query'')
               else Inr \<lparr>sf_VPCFilter = continue_after f c, sf_VPCID = ls_VPCID r\<rparr>))"

definition Network_ListSubnets :: "(string \<Rightarrow> string option) \<Rightarrow> 'w Network \<Rightarrow> ListSubnets \<Rightarrow> 'w \<Rightarrow> (Subnet list \<times> string) res \<times> 'w" where
  "Network_ListSubnets uuid_Parse n r s =
     (case ParseTenant uuid_Parse (ls_TenantID r) of
        Inl e \<Rightarrow> (Inl e, s)
      | Inr tenant \<Rightarrow>
          (case subnet_filter (n_cursorKey n) tenant r of
             Inl e \<Rightarrow> (Inl e, s)
           | Inr f \<Rightarrow>
               (case nr_ListSubnets (n_repository n) tenant f s of
                  (Inl e, s) \<Rightarrow> (Inl e, s)
                | (Inr rows, s) \<Rightarrow>
                    (Inr (page_loop 0 (nat (vf_Limit (sf_VPCFilter f) - 1)) (subnetObservation n)
                            (\<lambda>v. encodeCursor (n_cursorKey n) (subnet_cursor tenant f v)) rows rows []), s))))"

text \<open>The listings of \<^verbatim>\<open>egress.go\<close> and \<^verbatim>\<open>load_balancer.go\<close> cut the extra row off and sign the last row that is left.\<close>

definition cut_page :: "int \<Rightarrow> ('a \<Rightarrow> 'b) \<Rightarrow> ('a \<Rightarrow> string) \<Rightarrow> 'a list \<Rightarrow> 'b list \<times> string" where
  "cut_page limit f cursor rows =
     (if int (length rows) = limit
      then (let rows = butlast rows in (map f rows, cursor (rows ! (length rows - 1))))
      else (map f rows, []))"

definition listFilter :: "'w Egress \<Rightarrow> string \<Rightarrow> string \<Rightarrow> ListVPCs \<Rightarrow> VPCFilter res" where
  "listFilter e tenant kind r =
     (case normalizeList (lv_Name r) (lv_State r) (lv_Limit r) of
        Inl err \<Rightarrow> Inl err
      | Inr f \<Rightarrow>
          if lv_Cursor r = [] then Inr f
          else (case decodeCursor (eg_cursorKey e) (lv_Cursor r) of
             Inl _ \<Rightarrow> Inl (Fail InvalidCursor ''cursor does not match query'')
           | Inr c \<Rightarrow>
               if \<not> cursor_matches kind tenant (vc_VPCID c) (vf_State f) (\<lambda>i. i \<noteq> []) f c
               then Inl (Fail InvalidCursor ''cursor does not match query'')
               else Inr (continue_after f c)))"

definition metadata_cursor :: "string \<Rightarrow> string \<Rightarrow> VPCFilter \<Rightarrow> EgressMetadata \<Rightarrow> vpcCursor" where
  "metadata_cursor tenant kind f v = \<lparr>vc_Version = 1, vc_Kind = kind, vc_TenantID = tenant, vc_Name = vf_Name f, vc_State = vf_State f,
     vc_VPCID = [], vc_ID = em_ID v, vc_CreatedAt = em_CreatedAt v\<rparr>"

definition nextCursor :: "'w Egress \<Rightarrow> string \<Rightarrow> string \<Rightarrow> VPCFilter \<Rightarrow> EgressMetadata \<Rightarrow> string" where
  "nextCursor e tenant kind f v = encodeCursor (eg_cursorKey e) (metadata_cursor tenant kind f v)"

definition ListEIPs :: "'w Egress \<Rightarrow> ctx \<Rightarrow> ListVPCs \<Rightarrow> 'w \<Rightarrow> (EIP list \<times> string) res \<times> 'w" where
  "ListEIPs e c r s =
     (case ea_Tenant (eg_authorization e) c (lv_TenantID r) of
        Inl err \<Rightarrow> (Inl err, s)
      | Inr (tenant, _) \<Rightarrow>
          (case listFilter e tenant ''eip'' r of
             Inl err \<Rightarrow> (Inl err, s)
           | Inr f \<Rightarrow>
               map_answer (cut_page (vf_Limit f) (Egress_eip e) (\<lambda>v. nextCursor e tenant ''eip'' f (eip_Metadata v)))
                 (er_ListEIPs (eg_repository e) tenant f s)))"

definition ListPlatform :: "'w Egress \<Rightarrow> ctx \<Rightarrow> string \<Rightarrow> ListVPCs \<Rightarrow> 'w \<Rightarrow> (PlatformResource list \<times> string) res \<times> 'w" where
  "ListPlatform e c kind r s =
     (case ea_Platform (eg_authorization e) c of
        Inl err \<Rightarrow> (Inl err, s)
      | Inr _ \<Rightarrow>
          if platformPrefix kind = ''invalid'' then (Inl (Fail InvalidArgument ''invalid platform kind''), s)
          else (case listFilter e [] kind r of
             Inl err \<Rightarrow> (Inl err, s)
           | Inr f \<Rightarrow>
               map_answer (cut_page (vf_Limit f) (Egress_platform e) (\<lambda>v. nextCursor e [] kind f (plr_Metadata v)))
                 (er_ListPlatform (eg_repository e) kind f s)))"

record ListLoadBalancers = ListVPCs +
  ll_VPCID :: string
  ll_SubnetID :: string
  ll_Exposure :: string

definition lb_list_kind :: "ListLoadBalancers \<Rightarrow> string" where
  "lb_list_kind r = ''load_balancer:'' @ egressFingerprint (JStrings [ll_VPCID r, ll_SubnetID r, ll_Exposure r])"

definition lb_filter_ok :: "ListLoadBalancers \<Rightarrow> bool" where
  "lb_filter_ok r \<longleftrightarrow> (ll_VPCID r = [] \<or> validVPCID (ll_VPCID r)) \<and> (ll_SubnetID r = [] \<or> validSubnetID (ll_SubnetID r))
     \<and> ll_Exposure r \<in> {[], ''private'', ''public'', ''public_private''}"

definition lb_filter :: "string \<Rightarrow> string \<Rightarrow> ListLoadBalancers \<Rightarrow> VPCFilter res" where
  "lb_filter key tenant r =
     (case normalizeList (lv_Name r) (lv_State r) (lv_Limit r) of
        Inl e \<Rightarrow> Inl e
      | Inr f \<Rightarrow>
          if \<not> lb_filter_ok r then Inl (Fail InvalidArgument ''invalid load balancer filter'')
          else if lv_Cursor r = [] then Inr f
          else (case decodeCursor key (lv_Cursor r) of
             Inl _ \<Rightarrow> Inl (Fail InvalidCursor ''cursor does not match query'')
           | Inr c \<Rightarrow>
               if \<not> cursor_matches (lb_list_kind r) tenant (vc_VPCID c) (vf_State f) (\<lambda>i. validEgressID i ''lb'') f c
               then Inl (Fail InvalidCursor ''cursor does not match query'')
               else Inr (continue_after f c)))"

definition LB_List :: "'w LoadBalancers \<Rightarrow> ctx \<Rightarrow> ListLoadBalancers \<Rightarrow> 'w \<Rightarrow> (LoadBalancer list \<times> string) res \<times> 'w" where
  "LB_List l c r s =
     (case ea_Tenant (lbs_authorization l) c (lv_TenantID r) of
        Inl e \<Rightarrow> (Inl e, s)
      | Inr (tenant, _) \<Rightarrow>
          (case lb_filter (lbs_cursorKey l) tenant r of
             Inl e \<Rightarrow> (Inl e, s)
           | Inr f \<Rightarrow>
               map_answer (cut_page (vf_Limit f) (LB_observation l)
                   (\<lambda>v. encodeCursor (lbs_cursorKey l) (metadata_cursor tenant (lb_list_kind r) f (lb_Metadata v))))
                 (lrp_ListLoadBalancers (lbs_repository l) tenant
                    \<lparr>lf_VPCFilter = f, lf_VPCID = ll_VPCID r, lf_SubnetID = ll_SubnetID r, lf_Exposure = ll_Exposure r\<rparr> s)))"

section \<open>Accepted intents\<close>

text \<open>C25: An accepted VPC or subnet intent is in normal form: its tenant is canonical, its name trimmed, its CIDR the canonical
  text of a network of at most 30 bits all of whose addresses are private, and submitting the stored intent again yields
  the same intent, so that replays of a request compare equal fingerprints.\<close>

theorem intent_normal_form:
  assumes "NewVPCIntent up t nm c d k = Inr i" and "uuid_canonical up"
  shows "NewVPCIntent up (vi_TenantID i) (vi_Name i) (vi_CIDR i) (vi_Description i) (vi_IdempotencyKey i) = Inr i
    \<and> (\<exists>w n. parse_v4_prefix (vi_CIDR i) = Some (w, n) \<and> v4_masked w n = w \<and> n \<le> 30 \<and> (\<forall>a. v4_contains w n a \<longrightarrow> v4_is_private a))"
proof -
  from assms(1) obtain tn w n where i: "ParseTenant up t = Inr tn" "v4_masked w n = w" "n \<le> 30" "private_prefix w n"
    "i = \<lparr>vi_TenantID = tn, vi_Name = trim_space nm, vi_CIDR = v4_prefix_string w n, vi_Description = d, vi_IdempotencyKey = k\<rparr>"
    "valid_utf8 (trim_space nm)" "1 \<le> rune_count (trim_space nm)" "rune_count (trim_space nm) \<le> 128" "\<not> has_control (trim_space nm)"
    "valid_utf8 d" "rune_count d \<le> 1024" "1 \<le> length k" "length k \<le> 128" "printable_key k"
    by (auto simp: NewVPCIntent_Inr_iff)
  have p: "parse_v4_prefix (v4_prefix_string w n) = Some (w, n)" using i(3) by simp
  have "ParseTenant up tn = Inr tn" using ParseTenant_canonical [OF assms(2) i(1)] by simp
  with i p have "NewVPCIntent up (vi_TenantID i) (vi_Name i) (vi_CIDR i) (vi_Description i) (vi_IdempotencyKey i) = Inr i"
    by (simp add: NewVPCIntent_Inr_iff)
  moreover have "\<forall>a. v4_contains w n a \<longrightarrow> v4_is_private a" using private_prefix_addr [OF i(4)] by blast
  ultimately show ?thesis using i p by auto
qed

theorem intent_normal_form_witness:
  "NewVPCIntent sample_parse sample_uuid ''lb'' ''10.0.0.0/24'' [] ''key'' = Inr sample_vpc_intent
   \<and> NewVPCIntent sample_parse (vi_TenantID sample_vpc_intent) (vi_Name sample_vpc_intent) (vi_CIDR sample_vpc_intent)
       (vi_Description sample_vpc_intent) (vi_IdempotencyKey sample_vpc_intent) = Inr sample_vpc_intent"
  using intent_normal_form [OF sample_intent sample_parse_canonical] sample_intent by blast

text \<open>C26: The gateway of an accepted subnet, given or derived, is a private host address of the subnet other than its network
  and its broadcast address.\<close>

theorem subnet_gateway_usable:
  assumes "NewSubnetIntent up r = Inr i"
  shows "\<exists>w n g. vi_CIDR (si_VPCIntent i) = v4_prefix_string w n \<and> n \<le> 30 \<and> si_Gateway i = v4_string g \<and> v4_contains w n g
    \<and> g \<noteq> w \<and> g \<noteq> lastPoolAddress w n \<and> v4_is_private g \<and> validVPCID (si_VPCID i)"
proof -
  from assms obtain common w n g where c: "NewVPCIntent up (cs_TenantID r) (cs_Name r) (cs_CIDR r) (cs_Description r) (cs_IdempotencyKey r) = Inr common"
    "validVPCID (cs_VPCID r)" "parse_v4_prefix (vi_CIDR common) = Some (w, n)"
    "v4_contains w n g" "g \<noteq> w" "v4_contains_opt w n (v4_next g)"
    "i = \<lparr>si_VPCIntent = common, si_VPCID = cs_VPCID r, si_Gateway = v4_string g\<rparr>"
    by (auto simp: NewSubnetIntent_def split: sum.splits if_splits option.splits prod.splits)
  from c(1) obtain w' n' where p: "vi_CIDR common = v4_prefix_string w' n'" "v4_masked w' n' = w'" "n' \<le> 30" "private_prefix w' n'"
    by (auto simp: NewVPCIntent_Inr_iff)
  with c(3) have wn: "w' = w" "n' = n" by simp_all
  have "g \<noteq> lastPoolAddress w n"
  proof
    assume g: "g = lastPoolAddress w n"
    from c(6) have "g \<noteq> - 1" "v4_contains w n (g + 1)" by (auto simp: v4_next_def v4_contains_opt_def split: if_splits)
    then have "1 + g \<noteq> 0" "g + 1 \<le> g" using v4_contains_interval [of n w] p wn g by (auto simp: add_eq_0_iff)
    then show False using unatSuc [of g] by (simp add: word_le_nat_alt add.commute)
  qed
  with c p wn private_prefix_addr [OF _ c(4)] show ?thesis by (intro exI [of _ w] exI [of _ n] exI [of _ g]) simp
qed

definition sample_subnet_request :: CreateSubnet where
  "sample_subnet_request = \<lparr>cs_TenantID = sample_uuid, cs_VPCID = ''vpc_'' @ replicate 32 (CHR ''0''), cs_Name = ''lb'', cs_CIDR = ''10.0.0.0/24'',
     cs_Description = [], cs_IdempotencyKey = ''key'', cs_Gateway = None, cs_Attribution = \<lparr>at_Actor = [], at_DirectCaller = [], at_CorrelationID = []\<rparr>\<rparr>"

lemma sample_subnet_accepted:
  "NewSubnetIntent sample_parse sample_subnet_request =
     Inr \<lparr>si_VPCIntent = sample_vpc_intent, si_VPCID = ''vpc_'' @ replicate 32 (CHR ''0''), si_Gateway = ''10.0.0.1''\<rparr>"
proof -
  have "parse_v4_prefix ''10.0.0.0/24'' = Some (167772160, 24)" by (rule parse_v4_prefix_eval) (simp_all add: v4_eval)
  moreover have "validVPCID (''vpc_'' @ replicate 32 (CHR ''0''))" by code_simp
  moreover have "v4_next 167772160 = Some 167772161" "v4_next 167772161 = Some 167772162" by (simp_all add: v4_next_def)
  moreover have "v4_contains 167772160 24 167772161" "v4_contains 167772160 24 167772162" by (simp_all add: v4_contains_def)
  moreover have "v4_string 167772161 = ''10.0.0.1''" by (simp add: v4_eval)
  ultimately show ?thesis using sample_intent
    by (simp add: NewSubnetIntent_def sample_subnet_request_def v4_contains_opt_def sample_vpc_intent_def del: append_Cons)
qed

theorem subnet_gateway_usable_witness:
  "\<exists>i. NewSubnetIntent sample_parse sample_subnet_request = Inr i \<and> si_Gateway i = ''10.0.0.1''
     \<and> (\<exists>w n g. vi_CIDR (si_VPCIntent i) = v4_prefix_string w n \<and> si_Gateway i = v4_string g \<and> v4_contains w n g)"
proof -
  let ?i = "\<lparr>si_VPCIntent = sample_vpc_intent, si_VPCID = ''vpc_'' @ replicate 32 (CHR ''0''), si_Gateway = ''10.0.0.1''\<rparr>"
  have "\<exists>w n g. vi_CIDR (si_VPCIntent ?i) = v4_prefix_string w n \<and> si_Gateway ?i = v4_string g \<and> v4_contains w n g"
    using subnet_gateway_usable [OF sample_subnet_accepted] by blast
  moreover have "si_Gateway ?i = ''10.0.0.1''" by simp
  ultimately show ?thesis using sample_subnet_accepted by blast
qed

section \<open>Pages\<close>

lemma page_loop_spec:
  assumes "i \<le> limit" and "vs = drop i rows"
  shows "page_loop i limit f c rows vs items =
    (items @ map f (take (limit - i) vs), if limit < length rows then c (rows ! (limit - 1)) else [])"
  using assms
proof (induction i limit f c rows vs items rule: page_loop.induct)
  case (2 i limit f c rows v vs items)
  have i: "i < length rows" using 2(3) by (metis drop_all leI list.distinct(1))
  show ?case
  proof (cases "i = limit")
    case False
    have "vs = drop (i + 1) rows" using 2(3) by (metis Suc_eq_plus1 drop_Suc list.sel(3) tl_drop)
    with 2(1) [OF False] 2(2) False
    have ih: "page_loop (i + 1) limit f c rows vs (items @ [f v]) =
        ((items @ [f v]) @ map f (take (limit - (i + 1)) vs), if limit < length rows then c (rows ! (limit - 1)) else [])" by simp
    have "limit - i = Suc (limit - (i + 1))" using 2(2) False by simp
    then show ?thesis unfolding page_loop.simps(2) ih using False by simp
  qed (use i in simp)
qed auto

text \<open>C24: The two ways the code cuts a page agree: the loop of the VPC and subnet lists and the cut of the egress and load
  balancer lists return the same items and sign the same row, for every repository answer within the requested size.\<close>

theorem page_styles_agree:
  assumes "0 < limit" and "length rows \<le> limit + 1"
  shows "page_loop 0 limit f c rows rows [] = cut_page (int limit + 1) f c rows"
proof (cases "length rows = limit + 1")
  case True
  then have b: "butlast rows = take limit rows" by (simp add: butlast_conv_take)
  then have "length (butlast rows) - 1 = limit - 1" "butlast rows ! (limit - 1) = rows ! (limit - 1)"
    using True assms(1) by (simp_all add: nth_butlast)
  with True b show ?thesis by (simp add: page_loop_spec cut_page_def Let_def)
next
  case False
  with assms(2) have "length rows \<le> limit" by simp
  with False show ?thesis by (simp add: page_loop_spec cut_page_def)
qed

theorem page_styles_agree_witness:
  "page_loop 0 2 (\<lambda>v. v + 1) (\<lambda>v. if v = (2::nat) then ''next'' else []) [1, 2, 3] [1, 2, 3] [] = cut_page 3 (\<lambda>v. v + 1) (\<lambda>v. if v = 2 then ''next'' else []) [1, 2, 3]
   \<and> page_loop 0 2 (\<lambda>v. v + 1) (\<lambda>v. if v = (2::nat) then ''next'' else []) [1, 2, 3] [1, 2, 3] [] = ([Suc 1, 3], ''next'')"
  using page_styles_agree [of 2 "[1::nat, 2, 3]" "\<lambda>v. v + 1" "\<lambda>v. if v = 2 then ''next'' else []"] by simp

section \<open>Following the cursors of a listing\<close>

text \<open>What the listing relies on of \<^verbatim>\<open>UUID.String\<close>: lower-case hexadecimal groups joined by dashes, 36 characters in all.\<close>

definition uuid_printed :: "(string \<Rightarrow> string option) \<Rightarrow> bool" where
  "uuid_printed uuid_Parse \<longleftrightarrow> (\<forall>v u. uuid_Parse v = Some u \<longrightarrow> length u = 36 \<and> list_all (\<lambda>c. lower_hex c \<or> c = CHR ''-'') u)"

definition vpc_key :: "VPC \<Rightarrow> go_time \<times> string" where
  "vpc_key v = (vpc_CreatedAt v, vpc_ID v)"

definition after_filter :: "VPCFilter \<Rightarrow> VPC \<Rightarrow> bool" where
  "after_filter f v \<longleftrightarrow> vf_AfterID f = [] \<or> vpc_key v < (vf_AfterCreatedAt f, vf_AfterID f)"

text \<open>A client that follows the cursors until there is none, with no write in between.\<close>

inductive vpc_pages :: "(string \<Rightarrow> string option) \<Rightarrow> 'w Network \<Rightarrow> 'w \<Rightarrow> ListVPCs \<Rightarrow> VPC list \<Rightarrow> bool"
  for up :: "string \<Rightarrow> string option" and n :: "'w Network" and s :: 'w where
  last_page: "Network_ListVPCs up n r s = (Inr (items, []), s) \<Longrightarrow> vpc_pages up n s r items"
| next_page: "Network_ListVPCs up n r s = (Inr (items, c), s) \<Longrightarrow> c \<noteq> [] \<Longrightarrow> vpc_pages up n s (r\<lparr>lv_Cursor := c\<rparr>) rest
     \<Longrightarrow> vpc_pages up n s r (items @ rest)"

inductive_cases vpc_pagesE: "vpc_pages up n s r items"

lemma plain_hex: "lower_hex c \<or> c = CHR ''-'' \<Longrightarrow> plain_char c"
  by (auto simp: lower_hex_def plain_char_def)

lemma validVPCID_plain: "validVPCID i \<Longrightarrow> short_plain 40 i \<and> i \<noteq> []"
proof -
  assume v: "validVPCID i"
  then have "take 4 i = ''vpc_''" by (simp add: validVPCID_def hasPrefix_def eval_nat_numeral)
  then have "list_all plain_char (take 4 i)" by (simp add: plain_char_def)
  moreover have "list_all plain_char (drop 4 i)" using v plain_hex by (auto simp: validVPCID_def list_all_iff)
  ultimately have "list_all plain_char (take 4 i @ drop 4 i)" by (simp only: list_all_append)
  then show ?thesis using v by (auto simp: short_plain_def validVPCID_def)
qed

lemma tenant_plain: "uuid_printed up \<Longrightarrow> ParseTenant up t = Inr tenant \<Longrightarrow> short_plain 40 tenant"
  using plain_hex by (auto simp: uuid_printed_def ParseTenant_def short_plain_def list_all_iff split: option.splits if_splits)

lemma normalizeList_Inr:
  assumes "normalizeList name state limit = Inr f"
  shows "valid_utf8 (vf_Name f) \<and> rune_count (vf_Name f) \<le> 128 \<and> state_filter_ok (vf_State f) \<and> vf_State f = state
    \<and> vf_AfterID f = [] \<and> 2 \<le> vf_Limit f \<and> vf_Limit f \<le> 101"
  using assms by (auto simp: normalizeList_def Let_def split: if_splits)

lemma keyset_drop:
  assumes "sorted_wrt (\<lambda>a b. key b < (key a :: 'k :: linorder)) xs" and "i < length xs"
  shows "filter (\<lambda>x. key x < key (xs ! i)) xs = drop (Suc i) xs"
  using assms
proof (induction xs arbitrary: i)
  case (Cons x xs)
  show ?case
  proof (cases i)
    case 0
    have "filter (\<lambda>y. key y < key x) xs = xs" using Cons.prems by (intro filter_True) auto
    then show ?thesis using 0 by simp
  next
    case (Suc j)
    then have "key (xs ! j) < key x" using Cons.prems by (simp add: nth_mem)
    then show ?thesis using Suc Cons by (simp add: not_less less_imp_le)
  qed
qed simp

lemma vpc_filter_next:
  assumes "normalizeList (lv_Name r) (lv_State r) (lv_Limit r) = Inr f" and "short_plain 40 tenant" and "validVPCID (vpc_ID v)"
    and "time_marshals (vpc_CreatedAt v)" and "\<not> time_is_zero (vpc_CreatedAt v)" and "vf_Name g = vf_Name f" and "vf_State g = vf_State f"
  shows "vpc_filter key tenant (r\<lparr>lv_Cursor := encodeCursor key (vpc_cursor tenant g v)\<rparr>)
    = Inr (f\<lparr>vf_AfterCreatedAt := vpc_CreatedAt v, vf_AfterID := vpc_ID v\<rparr>)"
proof -
  note n = normalizeList_Inr [OF assms(1)]
  have "issuable (vpc_cursor tenant g v)"
    using assms n validVPCID_plain [OF assms(3)] by (auto simp: issuable_def vpc_cursor_def short_plain_def plain_char_def)
  from decode_encode [OF this] n assms show ?thesis
    by (simp add: vpc_filter_def cursor_matches_def continue_after_def vpc_cursor_def encodeCursor_def Let_def)
qed

lemma pages_unique: "vpc_pages up n s r xs \<Longrightarrow> vpc_pages up n s r ys \<Longrightarrow> xs = ys"
proof (induction arbitrary: ys rule: vpc_pages.induct)
  case (last_page r items)
  from last_page.prems show ?case by (cases rule: vpc_pages.cases) (use last_page.hyps in auto)
next
  case (next_page r items c rest)
  from next_page.prems show ?case
  proof (cases rule: vpc_pages.cases)
    case last_page
    with next_page.hyps show ?thesis by simp
  next
    case (next_page items' c' rest')
    with \<open>Network_ListVPCs up n r s = (Inr (items, c), s)\<close> next_page.IH show ?thesis by simp
  qed
qed

text \<open>The contract of a repository listing: in a good state the query answers the first rows after the cursor, of a
  sequence in strictly descending order of creation time and identity.\<close>

locale vpc_listing =
  fixes list_vpcs :: "string \<Rightarrow> VPCFilter \<Rightarrow> 'w \<Rightarrow> VPC list res \<times> 'w"
    and rows :: "string \<Rightarrow> string \<Rightarrow> string \<Rightarrow> 'w \<Rightarrow> VPC list"
    and good :: "'w \<Rightarrow> bool"
  assumes list_query: "good s \<Longrightarrow> list_vpcs t f s = (Inr (take (nat (vf_Limit f)) (filter (after_filter f) (rows t (vf_Name f) (vf_State f) s))), s)"
    and rows_order: "good s \<Longrightarrow> sorted_wrt (\<lambda>a b. vpc_key b < vpc_key a) (rows t nm st s)"
    and rows_shape: "good s \<Longrightarrow> v \<in> set (rows t nm st s) \<Longrightarrow>
      validVPCID (vpc_ID v) \<and> time_marshals (vpc_CreatedAt v) \<and> \<not> time_is_zero (vpc_CreatedAt v)"
begin

text \<open>One page: the filter of position \<open>p\<close> answers the rows from \<open>p\<close> on, up to the limit, and a cursor when more follow.\<close>

lemma page_at:
  assumes "good s" and "nr_ListVPCs (n_repository n) = list_vpcs" and "ParseTenant up (lv_TenantID r) = Inr tenant"
    and "vpc_filter (n_cursorKey n) tenant r = Inr g" and "vf_Name g = vf_Name f" and "vf_State g = vf_State f" and "2 \<le> vf_Limit g"
    and "filter (after_filter g) (rows tenant (vf_Name f) (vf_State f) s) = drop p (rows tenant (vf_Name f) (vf_State f) s)"
  shows "Network_ListVPCs up n r s =
    (Inr (map (Network_observation n) (take (nat (vf_Limit g - 1)) (drop p (rows tenant (vf_Name f) (vf_State f) s))),
          if p + nat (vf_Limit g - 1) < length (rows tenant (vf_Name f) (vf_State f) s)
          then encodeCursor (n_cursorKey n) (vpc_cursor tenant g (rows tenant (vf_Name f) (vf_State f) s ! (p + nat (vf_Limit g - 1) - 1)))
          else []), s)"
proof -
  let ?rs = "rows tenant (vf_Name f) (vf_State f) s" and ?l = "nat (vf_Limit g - 1)"
  have l: "nat (vf_Limit g) = Suc ?l" "0 < ?l" using assms(7) by auto
  have q: "list_vpcs tenant g s = (Inr (take (Suc ?l) (drop p ?rs)), s)" using list_query [OF assms(1), of tenant g] assms l by simp
  have len: "?l < length (take (Suc ?l) (drop p ?rs)) \<longleftrightarrow> p + ?l < length ?rs" by auto
  have nth: "p + ?l < length ?rs \<Longrightarrow> take (Suc ?l) (drop p ?rs) ! (?l - 1) = ?rs ! (p + ?l - 1)" using l(2) by (simp add: add.commute)
  have "take ?l (take (Suc ?l) (drop p ?rs)) = take ?l (drop p ?rs)" by (simp add: min_def)
  with len nth q assms show ?thesis
    by (simp add: Network_ListVPCs_def page_loop_spec)
qed

lemma pages_from:
  assumes "good s" and "nr_ListVPCs (n_repository n) = list_vpcs" and "ParseTenant up (lv_TenantID r) = Inr tenant" and "short_plain 40 tenant"
    and "normalizeList (lv_Name r) (lv_State r) (lv_Limit r) = Inr f"
    and "vpc_filter (n_cursorKey n) tenant (r\<lparr>lv_Cursor := c\<rparr>) = Inr g" and "vf_Name g = vf_Name f" and "vf_State g = vf_State f" and "vf_Limit g = vf_Limit f"
    and "filter (after_filter g) (rows tenant (vf_Name f) (vf_State f) s) = drop p (rows tenant (vf_Name f) (vf_State f) s)"
  shows "vpc_pages up n s (r\<lparr>lv_Cursor := c\<rparr>) (map (Network_observation n) (drop p (rows tenant (vf_Name f) (vf_State f) s)))"
  using assms(6-10)
proof (induction "length (rows tenant (vf_Name f) (vf_State f) s) - p" arbitrary: p c g rule: less_induct)
  case less
  let ?rs = "rows tenant (vf_Name f) (vf_State f) s" and ?l = "nat (vf_Limit f - 1)"
  have l: "2 \<le> vf_Limit f" "0 < ?l" using normalizeList_Inr [OF assms(5)] by auto
  have page: "Network_ListVPCs up n (r\<lparr>lv_Cursor := c\<rparr>) s = (Inr (map (Network_observation n) (take ?l (drop p ?rs)),
      if p + ?l < length ?rs then encodeCursor (n_cursorKey n) (vpc_cursor tenant g (?rs ! (p + ?l - 1))) else []), s)"
    using page_at [OF assms(1,2) _ less.prems(1,2,3) _ less.prems(5), where up = up] assms(3) l less.prems(4) by simp
  show ?case
  proof (cases "p + ?l < length ?rs")
    case False
    then have "take ?l (drop p ?rs) = drop p ?rs" by simp
    then show ?thesis using page False by (intro last_page) simp
  next
    case True
    let ?v = "?rs ! (p + ?l - 1)" and ?i = "p + ?l - 1"
    have i: "?i < length ?rs" "Suc ?i = p + ?l" using True l(2) by auto
    note sh = rows_shape [OF assms(1) nth_mem [OF i(1)]]
    let ?c = "encodeCursor (n_cursorKey n) (vpc_cursor tenant g ?v)"
    let ?g = "f\<lparr>vf_AfterCreatedAt := vpc_CreatedAt ?v, vf_AfterID := vpc_ID ?v\<rparr>"
    have f: "vpc_filter (n_cursorKey n) tenant (r\<lparr>lv_Cursor := c\<rparr>\<lparr>lv_Cursor := ?c\<rparr>) = Inr ?g"
      using vpc_filter_next [OF assms(5,4), of ?v g "n_cursorKey n"] sh less.prems(2,3) by simp
    have "vpc_ID ?v \<noteq> []" using sh validVPCID_plain by blast
    then have "filter (after_filter ?g) ?rs = filter (\<lambda>v. vpc_key v < vpc_key ?v) ?rs"
      by (intro filter_cong refl) (simp add: after_filter_def vpc_key_def)
    then have d: "filter (after_filter ?g) ?rs = drop (p + ?l) ?rs" using keyset_drop [OF rows_order [OF assms(1)] i(1)] i(2) by simp
    have "vpc_pages up n s (r\<lparr>lv_Cursor := ?c\<rparr>) (map (Network_observation n) (drop (p + ?l) ?rs))"
      by (rule less.hyps [of "p + ?l" ?c ?g]) (use f d l True in simp_all)
    moreover have "?c \<noteq> []" by (simp add: encodeCursor_def Let_def)
    ultimately have "vpc_pages up n s (r\<lparr>lv_Cursor := c\<rparr>) (map (Network_observation n) (take ?l (drop p ?rs)) @ map (Network_observation n) (drop (p + ?l) ?rs))"
      using page True by (intro next_page [where c = ?c]) simp_all
    moreover have "take ?l (drop p ?rs) @ drop (p + ?l) ?rs = drop p ?rs" by (metis append_take_drop_id drop_drop add.commute)
    ultimately show ?thesis by (metis map_append)
  qed
qed

lemma pages_are_the_rows:
  assumes "good s" and "nr_ListVPCs (n_repository n) = list_vpcs" and "ParseTenant up (lv_TenantID r) = Inr tenant" and "uuid_printed up"
    and "normalizeList (lv_Name r) (lv_State r) (lv_Limit r) = Inr f" and "lv_Cursor r = []"
  shows "vpc_pages up n s r items \<longleftrightarrow> items = map (Network_observation n) (rows tenant (vf_Name f) (vf_State f) s)"
proof -
  have a: "after_filter f = (\<lambda>_. True)" using normalizeList_Inr [OF assms(5)] by (auto simp: after_filter_def)
  have "vpc_filter (n_cursorKey n) tenant (r\<lparr>lv_Cursor := []\<rparr>) = Inr f" using assms(5) by (simp add: vpc_filter_def)
  moreover have "r\<lparr>lv_Cursor := []\<rparr> = r" using assms(6) by (cases r) simp
  ultimately have "vpc_filter (n_cursorKey n) tenant (r\<lparr>lv_Cursor := []\<rparr>) = Inr f" "r\<lparr>lv_Cursor := []\<rparr> = r" by simp_all
  from pages_from [OF assms(1-3) tenant_plain [OF assms(4,3)] assms(5) this(1) refl refl refl, of 0] a this(2)
  have "vpc_pages up n s r (map (Network_observation n) (rows tenant (vf_Name f) (vf_State f) s))" by simp
  then show ?thesis by (metis pages_unique)
qed

end

text \<open>C31: Without a trusted caller the default authorization denies every egress and platform operation, the lists
  included: each one answers \<open>PermissionDenied\<close> and performs no repository and no infrastructure call.\<close>

theorem no_caller_no_effect:
  "denied (CreateEIP up (e\<lparr>eg_authorization := ContextEgressAuthorization up\<rparr>) None i s) s
   \<and> denied (GetEIP (e\<lparr>eg_authorization := ContextEgressAuthorization up\<rparr>) None t k s) s
   \<and> denied (DeleteEIP (e\<lparr>eg_authorization := ContextEgressAuthorization up\<rparr>) None t k s) s
   \<and> denied (BindVPCSnat up (e\<lparr>eg_authorization := ContextEgressAuthorization up\<rparr>) None i s) s
   \<and> denied (SetVPCSnatEnabled up (e\<lparr>eg_authorization := ContextEgressAuthorization up\<rparr>) None i s) s
   \<and> denied (GetVPCSnat (e\<lparr>eg_authorization := ContextEgressAuthorization up\<rparr>) None t k b s) s
   \<and> denied (DeleteVPCSnatBinding (e\<lparr>eg_authorization := ContextEgressAuthorization up\<rparr>) None t k s) s
   \<and> denied (ListEIPs (e\<lparr>eg_authorization := ContextEgressAuthorization up\<rparr>) None l s) s
   \<and> denied (ListPlatform (e\<lparr>eg_authorization := ContextEgressAuthorization up\<rparr>) None k l s) s
   \<and> denied (ListNodeInterfaces (e\<lparr>eg_authorization := ContextEgressAuthorization up\<rparr>) None k s) s
   \<and> denied (CreatePlatform up (e\<lparr>eg_authorization := ContextEgressAuthorization up\<rparr>) None q s) s
   \<and> denied (GetPlatform (e\<lparr>eg_authorization := ContextEgressAuthorization up\<rparr>) None t k s) s
   \<and> denied (DeletePlatform (e\<lparr>eg_authorization := ContextEgressAuthorization up\<rparr>) None t k s) s
   \<and> denied (SetPool up (e\<lparr>eg_authorization := ContextEgressAuthorization up\<rparr>) None q s) s
   \<and> denied (GetPlatformOperation up (e\<lparr>eg_authorization := ContextEgressAuthorization up\<rparr>) None k s) s
   \<and> denied (GetPlatformCapabilities (e\<lparr>eg_authorization := ContextEgressAuthorization up\<rparr>) None s) s"
  by (simp add: denied_def ContextEgressAuthorization_def Context_Tenant_def Context_Platform_def CreateEIP_def GetEIP_def DeleteEIP_def
      BindVPCSnat_def SetVPCSnatEnabled_def GetVPCSnat_def DeleteVPCSnatBinding_def ListEIPs_def ListPlatform_def ListNodeInterfaces_def CreatePlatform_def
      GetPlatform_def DeletePlatform_def SetPool_def GetPlatformOperation_def GetPlatformCapabilities_def)

end
