(* ===== verification/Net_Database.thy ===== *)
theory Net_Database
  imports Net_Worker Net_Attachment Net_Network
begin

text \<open>
  The database below the repositories of \<^verbatim>\<open>internal/data/network\<close>: the rows of \<^verbatim>\<open>sqlcgen/models.go\<close> as records, the
  tables as lists of rows.

  The exactly-one-of-five resource columns of a row (\<^verbatim>\<open>vpc_id\<close>, \<^verbatim>\<open>subnet_id\<close>, \<^verbatim>\<open>eip_id\<close>, \<^verbatim>\<open>snat_id\<close>, \<^verbatim>\<open>lb_id\<close>, with a CHECK
  that one is not null) are one value of type \<open>ref\<close>; their \<^verbatim>\<open>coalesce\<close> is \<open>ref_id\<close>. A JSON document column holds the value
  that was marshalled.
\<close>

section \<open>Rows\<close>

datatype ref = RVpc string | RSubnet string | REip string | RSnat string | RLb string

fun ref_id :: "ref \<Rightarrow> string" where
  "ref_id (RVpc i) = i"
| "ref_id (RSubnet i) = i"
| "ref_id (REip i) = i"
| "ref_id (RSnat i) = i"
| "ref_id (RLb i) = i"

record NetworkVpc =
  nv_TenantID :: string
  nv_VpcID :: string
  nv_Name :: string
  nv_Description :: string
  nv_Cidr :: string
  nv_State :: resource_state
  nv_Reason :: reason
  nv_Version :: int
  nv_CreatedAt :: go_time
  nv_UpdatedAt :: go_time
  nv_ObservedAt :: "go_time option"
  nv_LastOperationID :: string
  nv_BaseConnectivityRequired :: bool

record NetworkSubnet =
  nsu_TenantID :: string
  nsu_SubnetID :: string
  nsu_VpcID :: string
  nsu_Name :: string
  nsu_Description :: string
  nsu_Cidr :: string
  nsu_Gateway :: string
  nsu_State :: resource_state
  nsu_Reason :: reason
  nsu_Version :: int
  nsu_CreatedAt :: go_time
  nsu_UpdatedAt :: go_time
  nsu_ObservedAt :: "go_time option"
  nsu_LastOperationID :: string

record NetworkEip =
  nei_TenantID :: string
  nei_EipID :: string
  nei_ClusterID :: string
  nei_Namespace :: string
  nei_Name :: string
  nei_Description :: string
  nei_PoolID :: string
  nei_PoolRevision :: int
  nei_Address :: string
  nei_State :: resource_state
  nei_Reason :: reason
  nei_Version :: int
  nei_CreatedAt :: go_time
  nei_UpdatedAt :: go_time
  nei_ObservedAt :: "go_time option"
  nei_LastOperationID :: string
  nei_Scope :: string
  nei_ManagedBy :: string
  nei_SystemOwnerVpc :: "string option"

record NetworkSnatBinding =
  nsn_TenantID :: string
  nsn_SnatID :: string
  nsn_ClusterID :: string
  nsn_Namespace :: string
  nsn_Name :: string
  nsn_Description :: string
  nsn_VpcID :: string
  nsn_EipID :: string
  nsn_DesiredEnabled :: bool
  nsn_AppliedEnabled :: "bool option"
  nsn_TargetGeneration :: int
  nsn_State :: resource_state
  nsn_Reason :: reason
  nsn_Version :: int
  nsn_CreatedAt :: go_time
  nsn_UpdatedAt :: go_time
  nsn_ObservedAt :: "go_time option"
  nsn_LastOperationID :: string
  nsn_Purpose :: string

text \<open>The target of an EIP claim is a SNAT binding or a load balancer.\<close>

record NetworkEipClaim =
  ncl_TenantID :: string
  ncl_ClusterID :: string
  ncl_Namespace :: string
  ncl_EipID :: string
  ncl_Target :: ref
  ncl_State :: string
  ncl_CreatedAt :: go_time
  ncl_ReleasedAt :: "go_time option"

record NetworkOperation =
  nop_TenantID :: string
  nop_OperationID :: string
  nop_Ref :: ref
  nop_Kind :: string
  nop_State :: operation_state
  nop_Reason :: reason
  nop_Attempt :: int
  nop_ExecutionEpoch :: int
  nop_CreatedAt :: go_time
  nop_UpdatedAt :: go_time
  nop_CompletedAt :: "go_time option"
  nop_NextAttemptAt :: "go_time option"

text \<open>\<^verbatim>\<open>next_run_at\<close> is \<open>None\<close> for \<^verbatim>\<open>'infinity'\<close>.\<close>

record NetworkReconciliation =
  nre_TenantID :: string
  nre_Ref :: ref
  nre_NextRunAt :: "go_time option"
  nre_LeaseOwner :: "string option"
  nre_LeaseUntil :: "go_time option"
  nre_LeaseEpoch :: int
  nre_RequestedGeneration :: int
  nre_ProcessedGeneration :: int
  nre_RetryNotBefore :: go_time
  nre_EvidenceHash :: string
  nre_EvidenceAppliedAt :: go_time
  nre_Retired :: bool

record NetworkProviderBinding =
  nbi_TenantID :: string
  nbi_Ref :: ref
  nbi_BindingID :: string
  nbi_ClusterID :: string
  nbi_Namespace :: string
  nbi_ProviderName :: string
  nbi_ProviderUid :: string
  nbi_PendingAction :: action
  nbi_PendingSince :: "go_time option"
  nbi_CreateDispatched :: bool

datatype snapshot = SnapVpc VPC | SnapSubnet Subnet | SnapEip EIP | SnapSnat VPCSnatBinding | SnapLb LoadBalancerResult

record NetworkIdempotency =
  nid_TenantID :: string
  nid_OperationKind :: string
  nid_IdempotencyKey :: string
  nid_Fingerprint :: string
  nid_FingerprintVersion :: int
  nid_Ref :: ref
  nid_OperationID :: string
  nid_Response :: snapshot
  nid_CreatedAt :: go_time

record NetworkResourceHistory =
  nhi_TenantID :: string
  nhi_HistoryID :: string
  nhi_Ref :: ref
  nhi_OperationID :: "string option"
  nhi_Event :: string
  nhi_ResourceState :: resource_state
  nhi_OperationState :: "operation_state option"
  nhi_Reason :: reason
  nhi_ActorRef :: string
  nhi_CallerRef :: string
  nhi_CorrelationID :: string
  nhi_CreatedAt :: go_time

record NetworkVpcBaseConnectivity =
  nbc_TenantID :: string
  nbc_VpcID :: string
  nbc_ClusterID :: string
  nbc_Namespace :: string
  nbc_PoolID :: string
  nbc_PoolRevision :: int
  nbc_EipID :: string
  nbc_SnatID :: string
  nbc_OperationID :: string
  nbc_State :: string
  nbc_Reason :: reason
  nbc_ProviderReady :: bool
  nbc_ProviderObservedAt :: "go_time option"
  nbc_ObservedAt :: "go_time option"
  nbc_Terminating :: bool
  nbc_Version :: int

record NetworkConnectivityRollout =
  nro_ClusterID :: string
  nro_NewVpcsEnabled :: bool
  nro_LegacyAggregationEnabled :: bool

record NetworkTenantNamespace =
  nns_TenantID :: string
  nns_ClusterID :: string
  nns_Namespace :: string

text \<open>Platform rows. The verification column is the marshalled evidence, \<open>None\<close> when it is empty.\<close>

record NetworkPlatformResource =
  npl_ResourceID :: string
  npl_Kind :: string
  npl_ClusterID :: string
  npl_Name :: string
  npl_Description :: string
  npl_State :: resource_state
  npl_Reason :: reason
  npl_Version :: int
  npl_CreatedAt :: go_time
  npl_UpdatedAt :: go_time
  npl_ObservedAt :: "go_time option"
  npl_LastOperationID :: string
  npl_ProviderName :: string
  npl_ProviderUid :: string
  npl_ProviderImages :: "string list"
  npl_BindingID :: string
  npl_PendingAction :: action
  npl_PendingSince :: "go_time option"

record NetworkPublicPool =
  npp_ResourceID :: string
  npp_ClusterID :: string
  npp_Mode :: string
  npp_GatewayID :: "string option"
  npp_Cidr :: string
  npp_OvnGatewayIp :: string
  npp_ExcludedIps :: "string list"
  npp_VlanNetworkID :: "string option"
  npp_UpstreamGatewayIp :: "string option"
  npp_AllocationEnabled :: bool
  npp_ConfigRevision :: int
  npp_Verification :: "PublicPoolVerification option"
  npp_VerificationExpiresAt :: "go_time option"
  npp_Retired :: bool
  npp_Scope :: string
  npp_DefaultVpcName :: string
  npp_DefaultVpcUid :: string
  npp_IntranetNetworks :: "string list"

record NetworkVlanNetwork =
  nvl_ResourceID :: string
  nvl_ClusterID :: string
  nvl_DeviceID :: string
  nvl_VlanID :: int
  nvl_Retired :: bool

record NetworkDefaultPool =
  ndp_ClusterID :: string
  ndp_PoolID :: string
  ndp_Version :: int

text \<open>The adopted nodes of a device, and the nodes its adoption has reached, are the marshalled inventories.\<close>

record NetworkDeviceAdoption =
  nda_ResourceID :: string
  nda_ClusterID :: string
  nda_DeviceName :: string
  nda_InventoryFingerprint :: string
  nda_NodeInventory :: "NodeInterface list"
  nda_NodeProgress :: "NodeInterface list"

record NetworkPlatformOperation =
  npo_OperationID :: string
  npo_ResourceID :: string
  npo_Kind :: string
  npo_State :: operation_state
  npo_Reason :: reason
  npo_Attempt :: int
  npo_ExecutionEpoch :: int
  npo_CreatedAt :: go_time
  npo_UpdatedAt :: go_time
  npo_CompletedAt :: "go_time option"
  npo_NextAttemptAt :: "go_time option"

record NetworkPlatformReconciliation =
  npr_ResourceID :: string
  npr_NextRunAt :: go_time
  npr_LeaseOwner :: "string option"
  npr_LeaseUntil :: "go_time option"
  npr_LeaseEpoch :: int
  npr_RequestedGeneration :: int
  npr_ProcessedGeneration :: int
  npr_RetryNotBefore :: go_time
  npr_EvidenceHash :: string
  npr_EvidenceAppliedAt :: go_time

record NetworkPlatformHistory =
  nph_HistoryID :: string
  nph_ResourceID :: string
  nph_OperationID :: "string option"
  nph_Event :: string
  nph_ResourceState :: resource_state
  nph_OperationState :: "operation_state option"
  nph_Reason :: reason
  nph_ActorRef :: string
  nph_CallerRef :: string
  nph_CreatedAt :: go_time

text \<open>Attachments, with the marshalled plan.\<close>

record NetworkAttachment =
  nta_TenantID :: string
  nta_AttachmentID :: string
  nta_VpcID :: string
  nta_SubnetID :: string
  nta_BindingID :: string
  nta_InstanceID :: string
  nta_Slot :: string
  nta_RequestKey :: string
  nta_SubmissionID :: string
  nta_Generation :: int
  nta_Fingerprint :: string
  nta_ClusterID :: string
  nta_Namespace :: string
  nta_BindingRevision :: string
  nta_Plan :: PodPrimaryPlan
  nta_State :: attachment_state
  nta_Reason :: reason
  nta_ProtocolBlocked :: bool
  nta_Version :: int
  nta_PodName :: string
  nta_PodUid :: string
  nta_ConfirmUid :: string
  nta_FinalizationID :: "string option"
  nta_ProviderRelations :: string
  nta_CreatedAt :: go_time
  nta_UpdatedAt :: go_time
  nta_ObservedAt :: "go_time option"
  nta_ReleasedAt :: "go_time option"
  nta_NextCheckAt :: go_time
  nta_LeaseOwner :: "string option"
  nta_LeaseUntil :: "go_time option"
  nta_Epoch :: int
  nta_RequestedGeneration :: int
  nta_ProcessedGeneration :: int
  nta_RetryNotBefore :: go_time
  nta_EvidenceHash :: string
  nta_EvidenceAppliedAt :: go_time

record NetworkAttachmentHistory =
  nah_TenantID :: string
  nah_HistoryID :: string
  nah_AttachmentID :: string
  nah_Version :: int
  nah_Event :: string
  nah_State :: attachment_state
  nah_Reason :: reason
  nah_PodUid :: string
  nah_FinalizationID :: "string option"
  nah_CreatedAt :: go_time

text \<open>Load balancers.\<close>

record NetworkLoadBalancer =
  nlb_TenantID :: string
  nlb_LbID :: string
  nlb_ClusterID :: string
  nlb_Namespace :: string
  nlb_VpcID :: string
  nlb_SubnetID :: string
  nlb_Exposure :: string
  nlb_PublicEipID :: "string option"
  nlb_PrivateIp :: "string option"
  nlb_State :: resource_state
  nlb_Version :: int
  nlb_CreatedAt :: go_time
  nlb_Name :: string
  nlb_Description :: string
  nlb_Flavor :: string
  nlb_Reason :: reason
  nlb_UpdatedAt :: go_time
  nlb_ObservedAt :: "go_time option"
  nlb_VipOccupiedRevision :: string
  nlb_VipAbsenceRevision :: string
  nlb_LastOperationID :: "string option"
  nlb_DesiredVersion :: int
  nlb_AppliedVersion :: int
  nlb_ConfigurationState :: string
  nlb_DataPlaneState :: string
  nlb_DataPlaneObservedAt :: "go_time option"

record NetworkLbConfiguration =
  nlc_TenantID :: string
  nlc_ClusterID :: string
  nlc_Namespace :: string
  nlc_LbID :: string
  nlc_ConfigVersion :: int
  nlc_Name :: string
  nlc_Description :: string
  nlc_IntervalSeconds :: int
  nlc_TimeoutSeconds :: int
  nlc_UnhealthyThreshold :: int
  nlc_HealthyThreshold :: int
  nlc_CreatedAt :: go_time
  nlc_HealthCheckPort :: int

record NetworkLbConfigurationMember =
  ncm_TenantID :: string
  ncm_ClusterID :: string
  ncm_Namespace :: string
  ncm_LbID :: string
  ncm_ConfigVersion :: int
  ncm_MemberID :: string
  ncm_Weight :: int

record NetworkLbListener =
  nll_TenantID :: string
  nll_ClusterID :: string
  nll_Namespace :: string
  nll_LbID :: string
  nll_ListenerID :: string
  nll_Protocol :: string
  nll_Port :: int

record NetworkLbMember =
  nlm_TenantID :: string
  nlm_ClusterID :: string
  nlm_Namespace :: string
  nlm_LbID :: string
  nlm_MemberID :: string
  nlm_VpcID :: string
  nlm_SubnetID :: string
  nlm_AttachmentID :: string
  nlm_Address :: string
  nlm_Port :: int
  nlm_PodUid :: string
  nlm_VnicName :: string
  nlm_VnicUid :: string
  nlm_VnicipName :: string
  nlm_VnicipUid :: string
  nlm_State :: string
  nlm_Reason :: reason
  nlm_ObservedAt :: "go_time option"

record NetworkLbComponent =
  nlk_TenantID :: string
  nlk_ClusterID :: string
  nlk_Namespace :: string
  nlk_LbID :: string
  nlk_ComponentID :: string
  nlk_Kind :: lb_kind
  nlk_MemberID :: "string option"
  nlk_ProviderName :: string
  nlk_ProviderUid :: string
  nlk_CreateDispatched :: bool
  nlk_PendingAction :: action
  nlk_PendingSince :: "go_time option"
  nlk_TargetVersion :: int
  nlk_AppliedVersion :: int
  nlk_DeletedAt :: "go_time option"

record NetworkLbGeneratedResource =
  nlg_TenantID :: string
  nlg_ClusterID :: string
  nlg_Namespace :: string
  nlg_LbID :: string
  nlg_Kind :: string
  nlg_ProviderName :: string
  nlg_ProviderUid :: string
  nlg_GatewayUid :: string
  nlg_ObservedAt :: go_time
  nlg_ReleasedAt :: "go_time option"

record NetworkLbSubnetRef =
  nlr_TenantID :: string
  nlr_ClusterID :: string
  nlr_Namespace :: string
  nlr_LbID :: string
  nlr_VpcID :: string
  nlr_SubnetID :: string
  nlr_ReleasedAt :: "go_time option"

record NetworkLbVipIntent =
  nvi_TenantID :: string
  nvi_LbID :: string
  nvi_ClusterID :: string
  nvi_Namespace :: string
  nvi_VpcID :: string
  nvi_SubnetID :: string
  nvi_Address :: string
  nvi_ReleasedAt :: "go_time option"

record NetworkLbCapability =
  nca_ClusterID :: string
  nca_Ready :: bool
  nca_Reason :: string
  nca_ObservedAt :: go_time
  nca_Fingerprint :: string
  nca_ProviderImages :: "string list"

section \<open>The database\<close>

record db =
  db_vpcs :: "NetworkVpc list"
  db_subnets :: "NetworkSubnet list"
  db_eips :: "NetworkEip list"
  db_snats :: "NetworkSnatBinding list"
  db_claims :: "NetworkEipClaim list"
  db_operations :: "NetworkOperation list"
  db_reconciliations :: "NetworkReconciliation list"
  db_bindings :: "NetworkProviderBinding list"
  db_idempotency :: "NetworkIdempotency list"
  db_history :: "NetworkResourceHistory list"
  db_base :: "NetworkVpcBaseConnectivity list"
  db_rollouts :: "NetworkConnectivityRollout list"
  db_namespaces :: "NetworkTenantNamespace list"
  db_platform :: "NetworkPlatformResource list"
  db_pools :: "NetworkPublicPool list"
  db_vlans :: "NetworkVlanNetwork list"
  db_default_public :: "NetworkDefaultPool list"
  db_default_intranet :: "NetworkDefaultPool list"
  db_devices :: "NetworkDeviceAdoption list"
  db_platform_operations :: "NetworkPlatformOperation list"
  db_platform_reconciliations :: "NetworkPlatformReconciliation list"
  db_platform_history :: "NetworkPlatformHistory list"
  db_attachments :: "NetworkAttachment list"
  db_attachment_history :: "NetworkAttachmentHistory list"
  db_lbs :: "NetworkLoadBalancer list"
  db_lb_configurations :: "NetworkLbConfiguration list"
  db_lb_configuration_members :: "NetworkLbConfigurationMember list"
  db_lb_listeners :: "NetworkLbListener list"
  db_lb_members :: "NetworkLbMember list"
  db_lb_components :: "NetworkLbComponent list"
  db_lb_generated :: "NetworkLbGeneratedResource list"
  db_lb_subnets :: "NetworkLbSubnetRef list"
  db_lb_vips :: "NetworkLbVipIntent list"
  db_lb_capabilities :: "NetworkLbCapability list"

end
