(* ===== verification/Net_Prog.thy ===== *)
theory Net_Prog
  imports Net_Database
begin

text \<open>
  Programs of SQL statements and transactions, with the weakest preconditions that their proofs use.

  A statement runs in an environment that gives the readings of \<^verbatim>\<open>clock_timestamp()\<close> (the statement's number, the reading's
  number within the statement), the results of \<^verbatim>\<open>uuid.NewString\<close>, an error for any statement that may fail (connection,
  cancellation, a constraint that the model has not), the rows that another transaction holds for \<^verbatim>\<open>SKIP LOCKED\<close>, and, when
  a commit reports an error, whether it took effect. Row and advisory locks serialize the transactions that conflict, so a
  transaction is one step of the database: its statements see the state the transaction started from and its own writes.
\<close>

section \<open>Programs of statements\<close>

record env =
  ev_clock :: "nat \<Rightarrow> nat \<Rightarrow> go_time"
  ev_uuid :: "nat \<Rightarrow> string"
  ev_fault :: "nat \<Rightarrow> goerr option"
  ev_skip :: "nat \<Rightarrow> bool"
  ev_committed :: bool

record tx =
  tx_db :: db
  tx_calls :: nat
  tx_ids :: nat

type_synonym 'a prog = "env \<Rightarrow> tx \<Rightarrow> 'a res \<times> tx"

definition ret :: "'a \<Rightarrow> 'a prog" where
  "ret a e t = (Inr a, t)"

definition throw :: "goerr \<Rightarrow> 'a prog" where
  "throw x e t = (Inl x, t)"

definition andThen :: "'a prog \<Rightarrow> ('a \<Rightarrow> 'b prog) \<Rightarrow> 'b prog" where
  "andThen p f e t = (case p e t of (Inl x, t) \<Rightarrow> (Inl x, t) | (Inr a, t) \<Rightarrow> f a e t)"

text \<open>A statement: the clock of this statement and the database give an error, or rows and the new database.\<close>

definition stmt :: "((nat \<Rightarrow> go_time) \<Rightarrow> db \<Rightarrow> ('a \<times> db) res) \<Rightarrow> 'a prog" where
  "stmt f e t = (let t' = t\<lparr>tx_calls := Suc (tx_calls t)\<rparr> in
     case ev_fault e (tx_calls t) of
       Some x \<Rightarrow> (Inl x, t')
     | None \<Rightarrow> (case f (ev_clock e (tx_calls t)) (tx_db t) of
           Inl x \<Rightarrow> (Inl x, t')
         | Inr (a, d) \<Rightarrow> (Inr a, t'\<lparr>tx_db := d\<rparr>)))"

definition query :: "(db \<Rightarrow> 'a res) \<Rightarrow> 'a prog" where
  "query f = stmt (\<lambda>clk d. map_sum (\<lambda>x. x) (\<lambda>a. (a, d)) (f d))"

definition timed_query :: "((nat \<Rightarrow> go_time) \<Rightarrow> db \<Rightarrow> 'a res) \<Rightarrow> 'a prog" where
  "timed_query f = stmt (\<lambda>clk d. map_sum (\<lambda>x. x) (\<lambda>a. (a, d)) (f clk d))"

text \<open>\<^verbatim>\<open>FOR UPDATE SKIP LOCKED\<close> of one row: no row when another transaction holds it.\<close>

definition try_lock :: "(db \<Rightarrow> 'a res) \<Rightarrow> 'a prog" where
  "try_lock f e t = query (\<lambda>d. if ev_skip e (tx_calls t) then Inl ErrNoRows else f d) e t"

definition newUUID :: "string prog" where
  "newUUID e t = (Inr (ev_uuid e (tx_ids t)), t\<lparr>tx_ids := Suc (tx_ids t)\<rparr>)"

text \<open>\<^verbatim>\<open>databaseFailure\<close> on an error; a nil error stays nil.\<close>

definition databaseFailure :: "goerr \<Rightarrow> goerr" where
  "databaseFailure err =
     (if errors_is err ErrNoRows then Fail ResourceNotFound ''resource not found''
      else if errors_is err Canceled \<or> errors_is err DeadlineExceeded then err
      else BizError DependencyUnavailable ''Network database unavailable'' (Some err))"

text \<open>\<open>wrapped p\<close> is a call followed by \<^verbatim>\<open>if err != nil { return databaseFailure(err) }\<close>, \<open>optional p\<close> one whose
  \<^verbatim>\<open>pgx.ErrNoRows\<close> is a value, \<open>checked p\<close> one whose error is replaced.\<close>

definition wrapped :: "'a prog \<Rightarrow> 'a prog" where
  "wrapped p e t = (case p e t of (Inl x, t) \<Rightarrow> (Inl (databaseFailure x), t) | (Inr a, t) \<Rightarrow> (Inr a, t))"

definition optional :: "'a prog \<Rightarrow> 'a option prog" where
  "optional p e t = (case p e t of
      (Inl x, t) \<Rightarrow> if errors_is x ErrNoRows then (Inr None, t) else (Inl x, t)
    | (Inr a, t) \<Rightarrow> (Inr (Some a), t))"

definition affected :: "int prog \<Rightarrow> unit prog" where
  "affected p = andThen (wrapped p) (\<lambda>rows. if rows \<noteq> 1 then throw ErrLeaseLost else ret ())"

fun for_each :: "('a \<Rightarrow> unit prog) \<Rightarrow> 'a list \<Rightarrow> unit prog" where
  "for_each f [] = ret ()"
| "for_each f (x # xs) = andThen (f x) (\<lambda>_. for_each f xs)"

section \<open>Transactions\<close>

text \<open>A transaction either commits its writes and returns, or returns before the commit: then the deferred rollback
  drops them, as it does on an error. A commit that reports an error may have taken effect.\<close>

datatype 'a tx_outcome = Unsaved 'a | Commit 'a

definition transaction :: "'a tx_outcome prog \<Rightarrow> env \<Rightarrow> db \<Rightarrow> 'a res \<times> db" where
  "transaction body e d =
     (case ev_fault e 0 of
        Some x \<Rightarrow> (Inl (databaseFailure x), d)
      | None \<Rightarrow>
          (case body e \<lparr>tx_db = d, tx_calls = 1, tx_ids = 0\<rparr> of
             (Inl x, _) \<Rightarrow> (Inl x, d)
           | (Inr (Unsaved a), _) \<Rightarrow> (Inr a, d)
           | (Inr (Commit a), t) \<Rightarrow>
               (case ev_fault e (tx_calls t) of
                  None \<Rightarrow> (Inr a, tx_db t)
                | Some x \<Rightarrow> (Inl (databaseFailure x), if ev_committed e then tx_db t else d))))"

text \<open>A statement outside a transaction.\<close>

definition autocommit :: "'a prog \<Rightarrow> env \<Rightarrow> db \<Rightarrow> 'a res \<times> db" where
  "autocommit p e d = (case p e \<lparr>tx_db = d, tx_calls = 0, tx_ids = 0\<rparr> of (r, t) \<Rightarrow> (r, tx_db t))"

section \<open>Tables\<close>

text \<open>The first row of a result set.\<close>

fun one_row :: "'a list \<Rightarrow> 'a res" where
  "one_row [] = Inl ErrNoRows"
| "one_row (x # _) = Inr x"

definition find_row :: "('a \<Rightarrow> bool) \<Rightarrow> 'a list \<Rightarrow> 'a res" where
  "find_row P xs = one_row (filter P xs)"

definition update_where :: "('a \<Rightarrow> bool) \<Rightarrow> ('a \<Rightarrow> 'a) \<Rightarrow> 'a list \<Rightarrow> 'a list" where
  "update_where P f xs = map (\<lambda>x. if P x then f x else x) xs"

definition count_where :: "('a \<Rightarrow> bool) \<Rightarrow> 'a list \<Rightarrow> int" where
  "count_where P xs = int (length (filter P xs))"

definition constraint :: "string \<Rightarrow> goerr" where
  "constraint name = OtherError (''constraint: '' @ name)"

definition textValue :: "string option \<Rightarrow> string" where
  "textValue v = (case v of None \<Rightarrow> [] | Some s \<Rightarrow> s)"

text \<open>A PostgreSQL text has no zero byte.\<close>

definition pg_text :: "string \<Rightarrow> bool" where
  "pg_text s \<longleftrightarrow> char_of (0::nat) \<notin> set s"

definition unix_epoch :: go_time where
  "unix_epoch = 62135596800 * 1000000000"

text \<open>\<^verbatim>\<open>d.Microseconds()\<close> truncates towards zero; \<open>micro_interval\<close> is that many microseconds, in nanoseconds.\<close>

definition microseconds :: "duration \<Rightarrow> int" where
  "microseconds d = sgn d * (\<bar>d\<bar> div 1000)"

definition micro_interval :: "int \<Rightarrow> duration" where
  "micro_interval m = m * 1000"

definition replace_all_dash :: "string \<Rightarrow> string" where
  "replace_all_dash s = filter (\<lambda>c. c \<noteq> CHR ''-'') s"

text \<open>\<^verbatim>\<open>strings.Replace(s, "_", "-", 1)\<close>.\<close>

fun replace_underscore :: "string \<Rightarrow> string" where
  "replace_underscore [] = []"
| "replace_underscore (c # cs) = (if c = CHR ''_'' then CHR ''-'' # cs else c # replace_underscore cs)"

section \<open>Weakest preconditions\<close>

text \<open>\<open>wp p e Q R d\<close>: every run of \<open>p\<close> from the database \<open>d\<close> ends with \<open>Q\<close> of its result and database, or with \<open>R\<close> of its error
  and database.\<close>

definition wp :: "'a prog \<Rightarrow> env \<Rightarrow> ('a \<Rightarrow> db \<Rightarrow> bool) \<Rightarrow> (goerr \<Rightarrow> db \<Rightarrow> bool) \<Rightarrow> db \<Rightarrow> bool" where
  "wp p e Q R d \<longleftrightarrow> (\<forall>n m. case p e \<lparr>tx_db = d, tx_calls = n, tx_ids = m\<rparr> of
      (Inr a, t) \<Rightarrow> Q a (tx_db t) | (Inl x, t) \<Rightarrow> R x (tx_db t))"

named_theorems wp_rules \<open>introduction rules of the weakest precondition\<close>

lemma wp_ret [wp_rules]: "Q a d \<Longrightarrow> wp (ret a) e Q R d"
  by (simp add: wp_def ret_def)

lemma wp_throw [wp_rules]: "R x d \<Longrightarrow> wp (throw x) e Q R d"
  by (simp add: wp_def throw_def)

lemma wp_andThen [wp_rules]:
  assumes "wp p e (\<lambda>a. wp (f a) e Q R) R d"
  shows "wp (andThen p f) e Q R d"
  unfolding wp_def
proof (intro allI)
  fix n m
  let ?t = "\<lparr>tx_db = d, tx_calls = n, tx_ids = m\<rparr>"
  obtain r t where p: "p e ?t = (r, t)" by (cases "p e ?t")
  then have r: "case r of Inr a \<Rightarrow> wp (f a) e Q R (tx_db t) | Inl x \<Rightarrow> R x (tx_db t)"
    using assms [unfolded wp_def [of p], rule_format, of n m] by simp
  show "case andThen p f e ?t of (Inr a, t) \<Rightarrow> Q a (tx_db t) | (Inl x, t) \<Rightarrow> R x (tx_db t)"
  proof (cases r)
    case (Inr a)
    with r have "wp (f a) e Q R (tx_db t)" by simp
    from this [unfolded wp_def, rule_format, of "tx_calls t" "tx_ids t"] show ?thesis
      using p Inr by (cases t) (simp add: andThen_def)
  qed (use r p in \<open>simp add: andThen_def\<close>)
qed

lemma wp_stmt:
  assumes "\<And>n. case f (ev_clock e n) d of Inr (a, d') \<Rightarrow> Q a d' | Inl x \<Rightarrow> R x d" and "\<And>x. R x d"
  shows "wp (stmt f) e Q R d"
proof -
  have "case stmt f e \<lparr>tx_db = d, tx_calls = n, tx_ids = m\<rparr> of (Inr a, t) \<Rightarrow> Q a (tx_db t) | (Inl x, t) \<Rightarrow> R x (tx_db t)" for n m
    using assms(1) [of n] assms(2)
    by (auto simp: stmt_def Let_def split: option.splits sum.splits prod.splits)
  then show ?thesis by (simp add: wp_def)
qed

lemma wp_timed_query [wp_rules]:
  assumes "\<And>n a. f (ev_clock e n) d = Inr a \<Longrightarrow> Q a d" and "\<And>x. R x d"
  shows "wp (timed_query f) e Q R d"
  unfolding timed_query_def using assms by (intro wp_stmt) (auto simp: map_sum_def split: sum.splits)

lemma wp_query [wp_rules]:
  assumes "\<And>a. f d = Inr a \<Longrightarrow> Q a d" and "\<And>x. R x d"
  shows "wp (query f) e Q R d"
  unfolding query_def using assms by (intro wp_stmt) (auto simp: map_sum_def split: sum.splits)

lemma wp_try_lock [wp_rules]:
  assumes "\<And>a. f d = Inr a \<Longrightarrow> Q a d" and "\<And>x. R x d"
  shows "wp (try_lock f) e Q R d"
proof -
  have "wp (query (\<lambda>d. if b then Inl ErrNoRows else f d)) e Q R d" for b
    using assms by (intro wp_query) (auto split: if_splits)
  then show ?thesis by (simp add: wp_def try_lock_def)
qed

lemma wp_newUUID [wp_rules]: "(\<And>m. Q (ev_uuid e m) d) \<Longrightarrow> wp newUUID e Q R d"
  by (simp add: wp_def newUUID_def)

lemma wp_wrapped [wp_rules]: "wp p e Q (\<lambda>x. R (databaseFailure x)) d \<Longrightarrow> wp (wrapped p) e Q R d"
  by (auto simp: wp_def wrapped_def split: prod.splits sum.splits)

lemma wp_optional [wp_rules]:
  "wp p e (\<lambda>a. Q (Some a)) (\<lambda>x d. if errors_is x ErrNoRows then Q None d else R x d) d \<Longrightarrow> wp (optional p) e Q R d"
  by (fastforce simp: wp_def optional_def split: prod.splits sum.splits)

lemma wp_affected [wp_rules]:
  assumes "wp p e (\<lambda>rows d. if rows = 1 then Q () d else R ErrLeaseLost d) (\<lambda>x. R (databaseFailure x)) d"
  shows "wp (affected p) e Q R d"
  using assms by (fastforce simp: wp_def affected_def andThen_def wrapped_def throw_def ret_def split: prod.splits sum.splits)

lemma wp_mono:
  assumes "wp p e Q R d" and "\<And>a d. Q a d \<Longrightarrow> Q' a d" and "\<And>x d. R x d \<Longrightarrow> R' x d"
  shows "wp p e Q' R' d"
  using assms by (fastforce simp: wp_def split: prod.splits sum.splits)

text \<open>What a program keeps, whatever it returns.\<close>

definition keeps :: "(db \<Rightarrow> bool) \<Rightarrow> 'a prog \<Rightarrow> bool" where
  "keeps I p \<longleftrightarrow> (\<forall>e d. I d \<longrightarrow> wp p e (\<lambda>_. I) (\<lambda>_. I) d)"

named_theorems keeps_rules \<open>introduction rules of preservation\<close>

lemma keepsD: "keeps I p \<Longrightarrow> I d \<Longrightarrow> wp p e (\<lambda>_. I) (\<lambda>_. I) d"
  by (simp add: keeps_def)

lemma keeps_ret [keeps_rules]: "keeps I (ret a)"
  by (simp add: keeps_def wp_ret)

lemma keeps_throw [keeps_rules]: "keeps I (throw a)"
  by (simp add: keeps_def wp_throw)

lemma keeps_andThen [keeps_rules]: "keeps I p \<Longrightarrow> (\<And>a. keeps I (f a)) \<Longrightarrow> keeps I (andThen p f)"
  unfolding keeps_def by (intro allI impI wp_andThen) (rule wp_mono, blast+)

lemma keeps_stmt:
  "(\<And>clk d a d'. f clk d = Inr (a, d') \<Longrightarrow> I d \<Longrightarrow> I d') \<Longrightarrow> keeps I (stmt f)"
  by (auto simp: keeps_def intro!: wp_stmt split: sum.splits)

lemma keeps_query [keeps_rules]: "keeps I (query f)" "keeps I (timed_query g)" "keeps I (try_lock f)"
  by (auto simp: keeps_def intro!: wp_rules)

lemma keeps_newUUID [keeps_rules]: "keeps I newUUID"
  by (simp add: keeps_def wp_newUUID)

lemma keeps_wrapped [keeps_rules]: "keeps I p \<Longrightarrow> keeps I (wrapped p)"
  by (auto simp: keeps_def intro!: wp_wrapped)

lemma keeps_optional [keeps_rules]: "keeps I p \<Longrightarrow> keeps I (optional p)"
  by (auto simp: keeps_def intro!: wp_optional elim!: wp_mono)

lemma keeps_affected [keeps_rules]: "keeps I p \<Longrightarrow> keeps I (affected p)"
  by (auto simp: keeps_def intro!: wp_affected elim!: wp_mono)

lemma keeps_if [keeps_rules]: "(b \<Longrightarrow> keeps I p) \<Longrightarrow> (\<not> b \<Longrightarrow> keeps I q) \<Longrightarrow> keeps I (if b then p else q)"
  by simp

lemma keeps_option [keeps_rules]:
  "(v = None \<Longrightarrow> keeps I p) \<Longrightarrow> (\<And>x. v = Some x \<Longrightarrow> keeps I (f x)) \<Longrightarrow> keeps I (case v of None \<Rightarrow> p | Some x \<Rightarrow> f x)"
  by (cases v) simp_all

lemma keeps_for_each [keeps_rules]: "(\<And>x. keeps I (f x)) \<Longrightarrow> keeps I (for_each f xs)"
  by (induction xs) (auto intro: keeps_ret keeps_andThen)

lemma wp_if [wp_rules]: "(b \<Longrightarrow> wp p e Q R d) \<Longrightarrow> (\<not> b \<Longrightarrow> wp q e Q R d) \<Longrightarrow> wp (if b then p else q) e Q R d"
  by simp

lemma wp_option [wp_rules]:
  "(v = None \<Longrightarrow> wp p e Q R d) \<Longrightarrow> (\<And>x. v = Some x \<Longrightarrow> wp (f x) e Q R d) \<Longrightarrow> wp (case v of None \<Rightarrow> p | Some x \<Rightarrow> f x) e Q R d"
  by (cases v) simp_all

lemma wp_keeps: "keeps I p \<Longrightarrow> I d \<Longrightarrow> (\<And>a d. I d \<Longrightarrow> Q a d) \<Longrightarrow> (\<And>x d. I d \<Longrightarrow> R x d) \<Longrightarrow> wp p e Q R d"
  by (rule wp_mono [OF keepsD [of I]])

text \<open>A transaction leaves the database as it was or in a state its body committed.\<close>

lemma transaction_db:
  assumes "wp body e Q (\<lambda>_ _. True) d" and "transaction body e d = (r, d')"
  shows "d' = d \<or> (\<exists>a. Q (Commit a) d')"
  using assms(2) assms(1) [unfolded wp_def, rule_format, of 1 0]
  by (auto simp: transaction_def split: option.splits prod.splits sum.splits tx_outcome.splits if_splits)

lemma transaction_Inr:
  assumes "wp body e Q (\<lambda>_ _. True) d" and "transaction body e d = (Inr a, d')"
  shows "(d' = d \<and> (\<exists>d''. Q (Unsaved a) d'')) \<or> Q (Commit a) d'"
  using assms(2) assms(1) [unfolded wp_def, rule_format, of 1 0]
  by (auto simp: transaction_def split: option.splits prod.splits sum.splits tx_outcome.splits if_splits)

lemma transaction_keeps: "keeps I body \<Longrightarrow> I d \<Longrightarrow> I (snd (transaction body e d))"
  using transaction_db [of body e "\<lambda>_. I" d "fst (transaction body e d)" "snd (transaction body e d)"]
    wp_keeps [of I body d "\<lambda>_. I" "\<lambda>_ _. True" e] by auto

lemma autocommit_keeps: "keeps I p \<Longrightarrow> I d \<Longrightarrow> I (snd (autocommit p e d))"
  using keepsD [of I p d e, unfolded wp_def, rule_format, of 0 0]
  by (auto simp: autocommit_def split: prod.splits sum.splits)

end
