(* ===== verification/Net_Queries.thy ===== *)
theory Net_Queries
  imports Net_Prog
begin

text \<open>
  The SQL statements of \<^verbatim>\<open>sqlcgen/vpcs.sql.go\<close>, \<^verbatim>\<open>subnets.sql.go\<close>, \<^verbatim>\<open>worker.sql.go\<close>, \<^verbatim>\<open>egress.sql.go\<close>,
  \<^verbatim>\<open>base_connectivity.sql.go\<close>, \<^verbatim>\<open>observation.sql.go\<close> and the readers of \<^verbatim>\<open>platform.sql.go\<close> that the repositories
  run, one definition per statement, with the keys, unique indexes and checks of the schema that decide between rows and an
  error. A row lock reads the row; an advisory lock does nothing but serialize. When a statement reads the clock several
  times, the readings are numbered in the order of the statement's text.
\<close>

section \<open>Clock, locks and generic rows\<close>

definition q_DatabaseTime :: "go_time prog" where
  "q_DatabaseTime = timed_query (\<lambda>clk d. Inr (clk 0))"

definition advisory_lock :: "unit prog" where
  "advisory_lock = query (\<lambda>d. Inr ())"

definition q_LockCreationKey :: "string \<Rightarrow> string \<Rightarrow> unit prog" where
  "q_LockCreationKey tenant key = advisory_lock"

definition q_LockSubnetCreationKey :: "string \<Rightarrow> string \<Rightarrow> unit prog" where
  "q_LockSubnetCreationKey tenant key = advisory_lock"

definition q_LockEgressKey :: "string \<Rightarrow> string \<Rightarrow> string \<Rightarrow> unit prog" where
  "q_LockEgressKey tenant opkind key = advisory_lock"

definition q_LockPlatformCluster :: "string \<Rightarrow> unit prog" where
  "q_LockPlatformCluster cluster = advisory_lock"

definition q_LockConnectivityRollout :: "string \<Rightarrow> unit prog" where
  "q_LockConnectivityRollout cluster = advisory_lock"

section \<open>Operations, reconciliations, bindings, history and idempotency\<close>

definition op_active :: "NetworkOperation \<Rightarrow> bool" where
  "op_active o1 \<longleftrightarrow> \<not> op_final (nop_State o1)"

text \<open>Primary key, and the unique index of the one active operation of a resource.\<close>

definition q_InsertOperation :: "string \<Rightarrow> string \<Rightarrow> ref \<Rightarrow> string \<Rightarrow> go_time \<Rightarrow> unit prog" where
  "q_InsertOperation tenant operationID r opkind createdAt = stmt (\<lambda>clk d.
     if list_ex (\<lambda>o1. nop_TenantID o1 = tenant \<and> nop_OperationID o1 = operationID) (db_operations d)
     then Inl (constraint ''network_operations_pkey'')
     else if list_ex (\<lambda>o1. nop_TenantID o1 = tenant \<and> nop_Ref o1 = r \<and> op_active o1) (db_operations d)
     then Inl (constraint ''network_operations_one_active'')
     else Inr ((), d\<lparr>db_operations := db_operations d @
       [\<lparr>nop_TenantID = tenant, nop_OperationID = operationID, nop_Ref = r, nop_Kind = opkind, nop_State = Queued,
         nop_Reason = NoReason, nop_Attempt = 0, nop_ExecutionEpoch = 0, nop_CreatedAt = createdAt,
         nop_UpdatedAt = createdAt, nop_CompletedAt = None, nop_NextAttemptAt = Some createdAt\<rparr>]\<rparr>))"

definition q_InsertReconciliation :: "string \<Rightarrow> ref \<Rightarrow> go_time \<Rightarrow> unit prog" where
  "q_InsertReconciliation tenant r nextRunAt = stmt (\<lambda>clk d.
     if list_ex (\<lambda>c. nre_TenantID c = tenant \<and> nre_Ref c = r) (db_reconciliations d)
     then Inl (constraint ''network_reconciliations_tenant_id_key'')
     else Inr ((), d\<lparr>db_reconciliations := db_reconciliations d @
       [\<lparr>nre_TenantID = tenant, nre_Ref = r, nre_NextRunAt = Some nextRunAt, nre_LeaseOwner = None, nre_LeaseUntil = None,
         nre_LeaseEpoch = 0, nre_RequestedGeneration = 1, nre_ProcessedGeneration = 0, nre_RetryNotBefore = unix_epoch,
         nre_EvidenceHash = [], nre_EvidenceAppliedAt = unix_epoch, nre_Retired = False\<rparr>]\<rparr>))"

definition ref_kind :: "ref \<Rightarrow> kind" where
  "ref_kind r = (case r of RLb _ \<Rightarrow> KLoadBalancer | REip _ \<Rightarrow> KEip | RSnat _ \<Rightarrow> KSnat | RSubnet _ \<Rightarrow> KSubnet | RVpc _ \<Rightarrow> KVpc)"

definition q_InsertBinding :: "string \<Rightarrow> ref \<Rightarrow> string \<Rightarrow> string \<Rightarrow> string \<Rightarrow> string \<Rightarrow> unit prog" where
  "q_InsertBinding tenant r bindingID cluster namespace providerName = stmt (\<lambda>clk d.
     if list_ex (\<lambda>b. nbi_TenantID b = tenant \<and> nbi_BindingID b = bindingID) (db_bindings d)
     then Inl (constraint ''network_provider_bindings_pkey'')
     else if list_ex (\<lambda>b. nbi_TenantID b = tenant \<and> nbi_Ref b = r) (db_bindings d)
     then Inl (constraint ''network_provider_bindings_tenant_id_key'')
     else if list_ex (\<lambda>b. nbi_ClusterID b = cluster \<and> ref_kind (nbi_Ref b) = ref_kind r \<and> nbi_Namespace b = namespace
         \<and> nbi_ProviderName b = providerName) (db_bindings d)
     then Inl (constraint ''network_provider_bindings_cluster_id_key'')
     else Inr ((), d\<lparr>db_bindings := db_bindings d @
       [\<lparr>nbi_TenantID = tenant, nbi_Ref = r, nbi_BindingID = bindingID, nbi_ClusterID = cluster, nbi_Namespace = namespace,
         nbi_ProviderName = providerName, nbi_ProviderUid = [], nbi_PendingAction = NoAction, nbi_PendingSince = None,
         nbi_CreateDispatched = False\<rparr>]\<rparr>))"

definition q_InsertHistory :: "NetworkResourceHistory \<Rightarrow> unit prog" where
  "q_InsertHistory h = stmt (\<lambda>clk d.
     if list_ex (\<lambda>x. nhi_TenantID x = nhi_TenantID h \<and> nhi_HistoryID x = nhi_HistoryID h) (db_history d)
     then Inl (constraint ''network_resource_history_pkey'')
     else Inr ((), d\<lparr>db_history := db_history d @ [h]\<rparr>))"

definition idempotency_row :: "string \<Rightarrow> string \<Rightarrow> string \<Rightarrow> NetworkIdempotency \<Rightarrow> bool" where
  "idempotency_row tenant opkind key i \<longleftrightarrow>
     nid_TenantID i = tenant \<and> nid_OperationKind i = opkind \<and> nid_IdempotencyKey i = key"

definition insert_idempotency ::
  "string \<Rightarrow> string \<Rightarrow> string \<Rightarrow> string \<Rightarrow> ref \<Rightarrow> string \<Rightarrow> snapshot \<Rightarrow> go_time \<Rightarrow> unit prog" where
  "insert_idempotency tenant opkind key fingerprint r operationID response createdAt = stmt (\<lambda>clk d.
     if list_ex (idempotency_row tenant opkind key) (db_idempotency d)
     then Inl (constraint ''network_idempotency_pkey'')
     else Inr ((), d\<lparr>db_idempotency := db_idempotency d @
       [\<lparr>nid_TenantID = tenant, nid_OperationKind = opkind, nid_IdempotencyKey = key, nid_Fingerprint = fingerprint,
         nid_FingerprintVersion = 1, nid_Ref = r, nid_OperationID = operationID, nid_Response = response,
         nid_CreatedAt = createdAt\<rparr>]\<rparr>))"

definition q_GetIdempotency :: "string \<Rightarrow> string \<Rightarrow> NetworkIdempotency prog" where
  "q_GetIdempotency tenant key = query (\<lambda>d. find_row (idempotency_row tenant ''create_vpc'' key) (db_idempotency d))"

definition q_InsertIdempotency :: "string \<Rightarrow> string \<Rightarrow> string \<Rightarrow> string \<Rightarrow> string \<Rightarrow> snapshot \<Rightarrow> go_time \<Rightarrow> unit prog" where
  "q_InsertIdempotency tenant key fingerprint vpcID operationID response createdAt =
     insert_idempotency tenant ''create_vpc'' key fingerprint (RVpc vpcID) operationID response createdAt"

definition q_GetSubnetIdempotency :: "string \<Rightarrow> string \<Rightarrow> NetworkIdempotency prog" where
  "q_GetSubnetIdempotency tenant key = query (\<lambda>d. find_row (idempotency_row tenant ''create_subnet'' key) (db_idempotency d))"

definition q_InsertSubnetIdempotency :: "string \<Rightarrow> string \<Rightarrow> string \<Rightarrow> string \<Rightarrow> string \<Rightarrow> snapshot \<Rightarrow> go_time \<Rightarrow> unit prog" where
  "q_InsertSubnetIdempotency tenant key fingerprint subnetID operationID response createdAt =
     insert_idempotency tenant ''create_subnet'' key fingerprint (RSubnet subnetID) operationID response createdAt"

definition q_GetEgressIdempotency :: "string \<Rightarrow> string \<Rightarrow> string \<Rightarrow> NetworkIdempotency prog" where
  "q_GetEgressIdempotency tenant opkind key = query (\<lambda>d. find_row (idempotency_row tenant opkind key) (db_idempotency d))"

definition q_InsertEgressIdempotency ::
  "string \<Rightarrow> string \<Rightarrow> string \<Rightarrow> string \<Rightarrow> ref \<Rightarrow> string \<Rightarrow> snapshot \<Rightarrow> go_time \<Rightarrow> unit prog" where
  "q_InsertEgressIdempotency tenant opkind key fingerprint r operationID response createdAt =
     insert_idempotency tenant opkind key fingerprint r operationID response createdAt"

definition q_GetOperation :: "string \<Rightarrow> string \<Rightarrow> NetworkOperation prog" where
  "q_GetOperation tenant operationID = query (\<lambda>d.
     find_row (\<lambda>o1. nop_TenantID o1 = tenant \<and> nop_OperationID o1 = operationID) (db_operations d))"

definition binding_row :: "string \<Rightarrow> string \<Rightarrow> NetworkProviderBinding \<Rightarrow> bool" where
  "binding_row tenant resourceID b \<longleftrightarrow> nbi_TenantID b = tenant \<and> ref_id (nbi_Ref b) = resourceID"

definition q_GetBinding :: "string \<Rightarrow> string \<Rightarrow> NetworkProviderBinding prog" where
  "q_GetBinding tenant resourceID = query (\<lambda>d. find_row (binding_row tenant resourceID) (db_bindings d))"

definition q_EnsureTenantNamespace :: "string \<Rightarrow> string \<Rightarrow> string \<Rightarrow> unit prog" where
  "q_EnsureTenantNamespace tenant cluster namespace = stmt (\<lambda>clk d.
     if list_ex (\<lambda>n. nns_TenantID n = tenant \<and> nns_ClusterID n = cluster) (db_namespaces d) then Inr ((), d)
     else if list_ex (\<lambda>n. nns_ClusterID n = cluster \<and> nns_Namespace n = namespace) (db_namespaces d)
     then Inl (constraint ''network_tenant_namespaces_cluster_id_key'')
     else Inr ((), d\<lparr>db_namespaces := db_namespaces d @
       [\<lparr>nns_TenantID = tenant, nns_ClusterID = cluster, nns_Namespace = namespace\<rparr>]\<rparr>))"

definition q_GetTenantNamespace :: "string \<Rightarrow> string \<Rightarrow> string prog" where
  "q_GetTenantNamespace tenant cluster = query (\<lambda>d.
     map_sum (\<lambda>x. x) nns_Namespace (find_row (\<lambda>n. nns_TenantID n = tenant \<and> nns_ClusterID n = cluster) (db_namespaces d)))"

section \<open>VPCs\<close>

definition vpc_row :: "string \<Rightarrow> string \<Rightarrow> NetworkVpc \<Rightarrow> bool" where
  "vpc_row tenant i v \<longleftrightarrow> nv_TenantID v = tenant \<and> nv_VpcID v = i"

definition q_InsertVPC :: "string \<Rightarrow> string \<Rightarrow> string \<Rightarrow> string \<Rightarrow> string \<Rightarrow> go_time \<Rightarrow> string \<Rightarrow> NetworkVpc prog" where
  "q_InsertVPC tenant vpcID name description cidr createdAt lastOperationID = stmt (\<lambda>clk d.
     if \<not> pg_text name \<or> \<not> pg_text description then Inl (OtherError ''invalid byte sequence for encoding UTF8: 0x00'')
     else if \<not> validVPCID vpcID then Inl (constraint ''network_vpcs_vpc_id_check'')
     else if list_ex (\<lambda>v. nv_VpcID v = vpcID) (db_vpcs d) then Inl (constraint ''network_vpcs_vpc_id_key'')
     else (let row = \<lparr>nv_TenantID = tenant, nv_VpcID = vpcID, nv_Name = name, nv_Description = description, nv_Cidr = cidr,
         nv_State = Provisioning, nv_Reason = NoReason, nv_Version = 1, nv_CreatedAt = createdAt, nv_UpdatedAt = createdAt,
         nv_ObservedAt = None, nv_LastOperationID = lastOperationID, nv_BaseConnectivityRequired = False\<rparr>
       in Inr (row, d\<lparr>db_vpcs := db_vpcs d @ [row]\<rparr>)))"

definition q_LockVPC :: "string \<Rightarrow> string \<Rightarrow> NetworkVpc prog" where
  "q_LockVPC tenant i = query (\<lambda>d. find_row (vpc_row tenant i) (db_vpcs d))"

definition q_TryLockWorkVPC :: "string \<Rightarrow> string \<Rightarrow> NetworkVpc prog" where
  "q_TryLockWorkVPC tenant i = try_lock (\<lambda>d. find_row (vpc_row tenant i) (db_vpcs d))"

text \<open>A VPC with its base connectivity columns (\<^verbatim>\<open>'missing'\<close> without one) and the count of its live subnets.\<close>

record VPCRow =
  vr_NetworkVpc :: NetworkVpc
  vr_BaseState :: string
  vr_BaseReason :: reason
  vr_BaseObservedAt :: "go_time option"
  vr_SubnetCount :: int

definition base_row :: "string \<Rightarrow> string \<Rightarrow> NetworkVpcBaseConnectivity \<Rightarrow> bool" where
  "base_row tenant i b \<longleftrightarrow> nbc_TenantID b = tenant \<and> nbc_VpcID b = i"

definition vpc_joined :: "db \<Rightarrow> NetworkVpc \<Rightarrow> VPCRow" where
  "vpc_joined d v =
     (let count = count_where (\<lambda>s. nsu_TenantID s = nv_TenantID v \<and> nsu_VpcID s = nv_VpcID v \<and> nsu_State s \<noteq> Deleted) (db_subnets d)
      in case find_row (base_row (nv_TenantID v) (nv_VpcID v)) (db_base d) of
           Inl _ \<Rightarrow> \<lparr>vr_NetworkVpc = v, vr_BaseState = ''missing'', vr_BaseReason = NoReason, vr_BaseObservedAt = None, vr_SubnetCount = count\<rparr>
         | Inr b \<Rightarrow> \<lparr>vr_NetworkVpc = v, vr_BaseState = nbc_State b, vr_BaseReason = nbc_Reason b,
                     vr_BaseObservedAt = nbc_ObservedAt b, vr_SubnetCount = count\<rparr>)"

definition q_GetVPC :: "string \<Rightarrow> string \<Rightarrow> VPCRow prog" where
  "q_GetVPC tenant i = query (\<lambda>d. map_sum (\<lambda>x. x) (vpc_joined d) (find_row (vpc_row tenant i) (db_vpcs d)))"

text \<open>\<^verbatim>\<open>ORDER BY created_at DESC, id DESC\<close> after filters on the name, the state and the position of the cursor.\<close>

definition state_matches :: "string \<Rightarrow> resource_state \<Rightarrow> bool" where
  "state_matches f s \<longleftrightarrow> (f = [] \<and> s \<noteq> Deleted) \<or> state_name s = f"

definition keyset_after :: "string \<Rightarrow> go_time \<Rightarrow> go_time \<Rightarrow> string \<Rightarrow> bool" where
  "keyset_after afterID afterCreatedAt createdAt i \<longleftrightarrow> afterID = [] \<or> (createdAt, i) < (afterCreatedAt, afterID)"

definition newest_first :: "('a \<Rightarrow> go_time \<times> string) \<Rightarrow> 'a list \<Rightarrow> 'a list" where
  "newest_first key xs = rev (sort_key key xs)"

definition q_ListVPCs :: "string \<Rightarrow> string \<Rightarrow> string \<Rightarrow> string \<Rightarrow> go_time \<Rightarrow> int \<Rightarrow> VPCRow list prog" where
  "q_ListVPCs tenant nameFilter stateFilter afterID afterCreatedAt maxResults = query (\<lambda>d.
     Inr (map (vpc_joined d) (take (nat maxResults) (newest_first (\<lambda>v. (nv_CreatedAt v, nv_VpcID v))
       (filter (\<lambda>v. nv_TenantID v = tenant \<and> (nameFilter = [] \<or> nv_Name v = nameFilter) \<and> state_matches stateFilter (nv_State v)
           \<and> keyset_after afterID afterCreatedAt (nv_CreatedAt v) (nv_VpcID v)) (db_vpcs d))))))"

text \<open>An \<^verbatim>\<open>UPDATE ... RETURNING\<close> of one VPC.\<close>

definition update_vpc :: "string \<Rightarrow> string \<Rightarrow> int \<Rightarrow> ((nat \<Rightarrow> go_time) \<Rightarrow> NetworkVpc \<Rightarrow> NetworkVpc) \<Rightarrow> NetworkVpc prog" where
  "update_vpc tenant i version f = stmt (\<lambda>clk d.
     let P = (\<lambda>v. vpc_row tenant i v \<and> nv_Version v = version) in
     map_sum (\<lambda>x. x) (\<lambda>v. (f clk v, d\<lparr>db_vpcs := update_where P (f clk) (db_vpcs d)\<rparr>)) (find_row P (db_vpcs d)))"

definition q_AdvanceVPC ::
  "string \<Rightarrow> string \<Rightarrow> int \<Rightarrow> resource_state \<Rightarrow> reason \<Rightarrow> bool \<Rightarrow> go_time option \<Rightarrow> NetworkVpc prog" where
  "q_AdvanceVPC tenant i version state reason observed observedAt = update_vpc tenant i version (\<lambda>clk v.
     v\<lparr>nv_State := state, nv_Reason := reason, nv_Version := nv_Version v + 1, nv_UpdatedAt := clk 0,
       nv_ObservedAt := (if observed then observedAt else nv_ObservedAt v)\<rparr>)"

definition q_AdmitDeletion :: "string \<Rightarrow> string \<Rightarrow> int \<Rightarrow> string \<Rightarrow> NetworkVpc prog" where
  "q_AdmitDeletion tenant i version operationID = update_vpc tenant i version (\<lambda>clk v.
     v\<lparr>nv_State := Deleting, nv_Reason := NoReason, nv_LastOperationID := operationID,
       nv_Version := nv_Version v + 1, nv_UpdatedAt := clk 0\<rparr>)"

definition q_RequireVPCBase :: "string \<Rightarrow> string \<Rightarrow> unit prog" where
  "q_RequireVPCBase tenant i = stmt (\<lambda>clk d.
     Inr ((), d\<lparr>db_vpcs := update_where (vpc_row tenant i) (nv_BaseConnectivityRequired_update (\<lambda>_. True)) (db_vpcs d)\<rparr>))"

section \<open>Subnets\<close>

definition subnet_row :: "string \<Rightarrow> string \<Rightarrow> NetworkSubnet \<Rightarrow> bool" where
  "subnet_row tenant i s \<longleftrightarrow> nsu_TenantID s = tenant \<and> nsu_SubnetID s = i"

definition q_InsertSubnet ::
  "string \<Rightarrow> string \<Rightarrow> string \<Rightarrow> string \<Rightarrow> string \<Rightarrow> string \<Rightarrow> string \<Rightarrow> go_time \<Rightarrow> string \<Rightarrow> NetworkSubnet prog" where
  "q_InsertSubnet tenant subnetID vpcID name description cidr gateway createdAt lastOperationID = stmt (\<lambda>clk d.
     if \<not> pg_text name \<or> \<not> pg_text description then Inl (OtherError ''invalid byte sequence for encoding UTF8: 0x00'')
     else if \<not> validSubnetID subnetID then Inl (constraint ''network_subnets_subnet_id_check'')
     else if list_ex (\<lambda>s. nsu_SubnetID s = subnetID) (db_subnets d) then Inl (constraint ''network_subnets_subnet_id_key'')
     else (let row = \<lparr>nsu_TenantID = tenant, nsu_SubnetID = subnetID, nsu_VpcID = vpcID, nsu_Name = name,
         nsu_Description = description, nsu_Cidr = cidr, nsu_Gateway = gateway, nsu_State = Provisioning, nsu_Reason = NoReason,
         nsu_Version = 1, nsu_CreatedAt = createdAt, nsu_UpdatedAt = createdAt, nsu_ObservedAt = None,
         nsu_LastOperationID = lastOperationID\<rparr>
       in Inr (row, d\<lparr>db_subnets := db_subnets d @ [row]\<rparr>)))"

definition q_GetSubnet :: "string \<Rightarrow> string \<Rightarrow> NetworkSubnet prog" where
  "q_GetSubnet tenant i = query (\<lambda>d. find_row (subnet_row tenant i) (db_subnets d))"

definition q_LockSubnet :: "string \<Rightarrow> string \<Rightarrow> NetworkSubnet prog" where
  "q_LockSubnet tenant i = query (\<lambda>d. find_row (subnet_row tenant i) (db_subnets d))"

text \<open>A subnet still occupies its addresses until it is deleted and none of its attachments is unreleased or blocked.\<close>

definition attachment_blocks :: "string \<Rightarrow> string \<Rightarrow> NetworkAttachment \<Rightarrow> bool" where
  "attachment_blocks tenant i a \<longleftrightarrow> nta_TenantID a = tenant \<and> nta_SubnetID a = i \<and> (nta_State a \<noteq> Released \<or> nta_ProtocolBlocked a)"

definition subnet_occupied :: "db \<Rightarrow> NetworkSubnet \<Rightarrow> bool" where
  "subnet_occupied d s \<longleftrightarrow> nsu_State s \<noteq> Deleted \<or> list_ex (attachment_blocks (nsu_TenantID s) (nsu_SubnetID s)) (db_attachments d)"

definition q_CountBlockingSubnets :: "string \<Rightarrow> string \<Rightarrow> int prog" where
  "q_CountBlockingSubnets tenant vpcID = query (\<lambda>d.
     Inr (count_where (\<lambda>s. nsu_TenantID s = tenant \<and> nsu_VpcID s = vpcID \<and> subnet_occupied d s) (db_subnets d)))"

text \<open>\<^verbatim>\<open>a::cidr && b::cidr\<close> of two IPv4 networks: the shorter prefix contains the other network. A text that is no network
  makes the cast an error.\<close>

definition cidr_overlap :: "string \<Rightarrow> string \<Rightarrow> bool option" where
  "cidr_overlap a b = (case (parse_v4_prefix a, parse_v4_prefix b) of
      (Some (w, n), Some (v, m)) \<Rightarrow> Some (v4_contains w (min n m) v)
    | _ \<Rightarrow> None)"

definition q_SubnetOverlaps :: "string \<Rightarrow> string \<Rightarrow> string \<Rightarrow> bool prog" where
  "q_SubnetOverlaps tenant vpcID cidr = query (\<lambda>d.
     let rows = filter (\<lambda>s. nsu_TenantID s = tenant \<and> nsu_VpcID s = vpcID \<and> subnet_occupied d s) (db_subnets d) in
     if list_ex (\<lambda>s. cidr_overlap (nsu_Cidr s) cidr = None) rows then Inl (OtherError ''invalid input syntax for type cidr'')
     else Inr (list_ex (\<lambda>s. cidr_overlap (nsu_Cidr s) cidr = Some True) rows))"

definition q_ListSubnets :: "string \<Rightarrow> string \<Rightarrow> string \<Rightarrow> string \<Rightarrow> string \<Rightarrow> go_time \<Rightarrow> int \<Rightarrow> NetworkSubnet list prog" where
  "q_ListSubnets tenant vpcFilter nameFilter stateFilter afterID afterCreatedAt maxResults = query (\<lambda>d.
     Inr (take (nat maxResults) (newest_first (\<lambda>s. (nsu_CreatedAt s, nsu_SubnetID s))
       (filter (\<lambda>s. nsu_TenantID s = tenant \<and> (vpcFilter = [] \<or> nsu_VpcID s = vpcFilter)
           \<and> (nameFilter = [] \<or> nsu_Name s = nameFilter) \<and> state_matches stateFilter (nsu_State s)
           \<and> keyset_after afterID afterCreatedAt (nsu_CreatedAt s) (nsu_SubnetID s)) (db_subnets d)))))"

definition update_subnet ::
  "string \<Rightarrow> string \<Rightarrow> int \<Rightarrow> ((nat \<Rightarrow> go_time) \<Rightarrow> NetworkSubnet \<Rightarrow> NetworkSubnet) \<Rightarrow> NetworkSubnet prog" where
  "update_subnet tenant i version f = stmt (\<lambda>clk d.
     let P = (\<lambda>s. subnet_row tenant i s \<and> nsu_Version s = version) in
     map_sum (\<lambda>x. x) (\<lambda>s. (f clk s, d\<lparr>db_subnets := update_where P (f clk) (db_subnets d)\<rparr>)) (find_row P (db_subnets d)))"

definition q_AdvanceSubnet ::
  "string \<Rightarrow> string \<Rightarrow> int \<Rightarrow> resource_state \<Rightarrow> reason \<Rightarrow> bool \<Rightarrow> go_time option \<Rightarrow> NetworkSubnet prog" where
  "q_AdvanceSubnet tenant i version state reason observed observedAt = update_subnet tenant i version (\<lambda>clk s.
     s\<lparr>nsu_State := state, nsu_Reason := reason, nsu_Version := nsu_Version s + 1, nsu_UpdatedAt := clk 0,
       nsu_ObservedAt := (if observed then observedAt else nsu_ObservedAt s)\<rparr>)"

definition q_AdmitSubnetDeletion :: "string \<Rightarrow> string \<Rightarrow> int \<Rightarrow> string \<Rightarrow> NetworkSubnet prog" where
  "q_AdmitSubnetDeletion tenant i version operationID = update_subnet tenant i version (\<lambda>clk s.
     s\<lparr>nsu_State := Deleting, nsu_Reason := NoReason, nsu_LastOperationID := operationID,
       nsu_Version := nsu_Version s + 1, nsu_UpdatedAt := clk 0\<rparr>)"

definition q_CountAttachments :: "string \<Rightarrow> string \<Rightarrow> int prog" where
  "q_CountAttachments tenant subnetID = query (\<lambda>d. Inr (count_where (attachment_blocks tenant subnetID) (db_attachments d)))"

definition q_BlockingLBForVPC :: "string \<Rightarrow> string \<Rightarrow> int prog" where
  "q_BlockingLBForVPC tenant vpcID = query (\<lambda>d.
     Inr (count_where (\<lambda>l. nlb_TenantID l = tenant \<and> nlb_VpcID l = vpcID \<and> nlb_State l \<noteq> Deleted) (db_lbs d)))"

definition q_BlockingLBForSubnet :: "string \<Rightarrow> string \<Rightarrow> int prog" where
  "q_BlockingLBForSubnet tenant subnetID = query (\<lambda>d.
     Inr (count_where (\<lambda>l. nlb_TenantID l = tenant \<and> nlb_State l \<noteq> Deleted \<and> (nlb_SubnetID l = subnetID
        \<or> list_ex (\<lambda>r. nlr_TenantID r = nlb_TenantID l \<and> nlr_LbID r = nlb_LbID l \<and> nlr_SubnetID r = subnetID \<and> nlr_ReleasedAt r = None)
            (db_lb_subnets d))) (db_lbs d)))"

end
