(* ===== verification/Net_Queries_Egress.thy ===== *)
theory Net_Queries_Egress
  imports Net_Queries
begin

text \<open>
  The statements on addresses, SNAT bindings and base connectivity: \<^verbatim>\<open>sqlcgen/egress.sql.go\<close> and
  \<^verbatim>\<open>base_connectivity.sql.go\<close>, and the readers of \<^verbatim>\<open>platform.sql.go\<close> that address admission uses.
\<close>

section \<open>Addresses\<close>

definition eip_row :: "string \<Rightarrow> string \<Rightarrow> NetworkEip \<Rightarrow> bool" where
  "eip_row tenant i x \<longleftrightarrow> nei_TenantID x = tenant \<and> nei_EipID x = i"

definition hex_id :: "string \<Rightarrow> string \<Rightarrow> bool" where
  "hex_id prefix s \<longleftrightarrow> hasPrefix s prefix \<and> length s = length prefix + 32 \<and> list_all lower_hex (drop (length prefix) s)"

text \<open>The insertion shared by tenant and system addresses.\<close>

definition insert_eip :: "NetworkEip \<Rightarrow> NetworkEip prog" where
  "insert_eip row = stmt (\<lambda>clk d.
     if \<not> pg_text (nei_Name row) \<or> \<not> pg_text (nei_Description row) then Inl (OtherError ''invalid byte sequence for encoding UTF8: 0x00'')
     else if \<not> hex_id ''eip_'' (nei_EipID row) then Inl (constraint ''network_eips_eip_id_check'')
     else if list_ex (\<lambda>x. nei_EipID x = nei_EipID row) (db_eips d) then Inl (constraint ''network_eips_eip_id_key'')
     else Inr (row, d\<lparr>db_eips := db_eips d @ [row]\<rparr>))"

definition q_InsertEIP ::
  "string \<Rightarrow> string \<Rightarrow> string \<Rightarrow> string \<Rightarrow> string \<Rightarrow> string \<Rightarrow> string \<Rightarrow> int \<Rightarrow> go_time \<Rightarrow> string \<Rightarrow> NetworkEip prog" where
  "q_InsertEIP tenant eipID cluster namespace name description poolID poolRevision createdAt lastOperationID = insert_eip
     \<lparr>nei_TenantID = tenant, nei_EipID = eipID, nei_ClusterID = cluster, nei_Namespace = namespace, nei_Name = name,
      nei_Description = description, nei_PoolID = poolID, nei_PoolRevision = poolRevision, nei_Address = [],
      nei_State = Provisioning, nei_Reason = NoReason, nei_Version = 1, nei_CreatedAt = createdAt, nei_UpdatedAt = createdAt,
      nei_ObservedAt = None, nei_LastOperationID = lastOperationID, nei_Scope = ''public'', nei_ManagedBy = ''tenant'',
      nei_SystemOwnerVpc = None\<rparr>"

definition q_InsertBaseEIP ::
  "string \<Rightarrow> string \<Rightarrow> string \<Rightarrow> string \<Rightarrow> string \<Rightarrow> int \<Rightarrow> string \<Rightarrow> go_time \<Rightarrow> string \<Rightarrow> NetworkEip prog" where
  "q_InsertBaseEIP tenant eipID cluster namespace poolID poolRevision vpcID createdAt operationID = insert_eip
     \<lparr>nei_TenantID = tenant, nei_EipID = eipID, nei_ClusterID = cluster, nei_Namespace = namespace,
      nei_Name = ''VPC base connectivity'', nei_Description = [], nei_PoolID = poolID, nei_PoolRevision = poolRevision,
      nei_Address = [], nei_State = Provisioning, nei_Reason = NoReason, nei_Version = 1, nei_CreatedAt = createdAt,
      nei_UpdatedAt = createdAt, nei_ObservedAt = None, nei_LastOperationID = operationID, nei_Scope = ''intranet'',
      nei_ManagedBy = ''system'', nei_SystemOwnerVpc = Some vpcID\<rparr>"

definition q_LockEIP :: "string \<Rightarrow> string \<Rightarrow> NetworkEip prog" where
  "q_LockEIP tenant i = query (\<lambda>d. find_row (eip_row tenant i) (db_eips d))"

definition q_TryLockWorkEIP :: "string \<Rightarrow> string \<Rightarrow> NetworkEip prog" where
  "q_TryLockWorkEIP tenant i = try_lock (\<lambda>d. find_row (eip_row tenant i) (db_eips d))"

definition q_GetEIPInternal :: "string \<Rightarrow> string \<Rightarrow> NetworkEip prog" where
  "q_GetEIPInternal tenant i = query (\<lambda>d. find_row (eip_row tenant i) (db_eips d))"

text \<open>An address with the columns of its unreleased claim.\<close>

record EIPRow =
  er_NetworkEip :: NetworkEip
  er_BindingID :: string
  er_BindingState :: string
  er_BindingTargetKind :: string
  er_BindingTargetID :: string

definition claim_active :: "string \<Rightarrow> string \<Rightarrow> NetworkEipClaim \<Rightarrow> bool" where
  "claim_active tenant i c \<longleftrightarrow> ncl_TenantID c = tenant \<and> ncl_EipID c = i \<and> ncl_ReleasedAt c = None"

definition eip_joined :: "db \<Rightarrow> NetworkEip \<Rightarrow> EIPRow" where
  "eip_joined d x =
     (case find_row (claim_active (nei_TenantID x) (nei_EipID x)) (db_claims d) of
        Inl _ \<Rightarrow> \<lparr>er_NetworkEip = x, er_BindingID = [], er_BindingState = ''unbound'', er_BindingTargetKind = [], er_BindingTargetID = []\<rparr>
      | Inr c \<Rightarrow> \<lparr>er_NetworkEip = x, er_BindingID = (case ncl_Target c of RSnat s \<Rightarrow> s | _ \<Rightarrow> []), er_BindingState = ncl_State c,
          er_BindingTargetKind = (case ncl_Target c of RSnat _ \<Rightarrow> ''vpc_snat'' | _ \<Rightarrow> ''load_balancer''),
          er_BindingTargetID = ref_id (ncl_Target c)\<rparr>)"

definition tenant_public :: "NetworkEip \<Rightarrow> bool" where
  "tenant_public x \<longleftrightarrow> nei_Scope x = ''public'' \<and> nei_ManagedBy x = ''tenant''"

definition q_GetEIP :: "string \<Rightarrow> string \<Rightarrow> EIPRow prog" where
  "q_GetEIP tenant i = query (\<lambda>d.
     map_sum (\<lambda>x. x) (eip_joined d) (find_row (\<lambda>x. eip_row tenant i x \<and> tenant_public x) (db_eips d)))"

definition q_GetEIPClaim :: "string \<Rightarrow> string \<Rightarrow> EIPRow prog" where
  "q_GetEIPClaim tenant i = query (\<lambda>d. map_sum (\<lambda>x. x) (eip_joined d) (find_row (eip_row tenant i) (db_eips d)))"

definition q_ListEIPs :: "string \<Rightarrow> string \<Rightarrow> string \<Rightarrow> string \<Rightarrow> go_time \<Rightarrow> int \<Rightarrow> EIPRow list prog" where
  "q_ListEIPs tenant nameFilter stateFilter afterID afterCreatedAt maxResults = query (\<lambda>d.
     Inr (map (eip_joined d) (take (nat maxResults) (newest_first (\<lambda>x. (nei_CreatedAt x, nei_EipID x))
       (filter (\<lambda>x. nei_TenantID x = tenant \<and> tenant_public x \<and> (nameFilter = [] \<or> nei_Name x = nameFilter)
           \<and> state_matches stateFilter (nei_State x) \<and> keyset_after afterID afterCreatedAt (nei_CreatedAt x) (nei_EipID x)) (db_eips d))))))"

definition update_eip :: "string \<Rightarrow> string \<Rightarrow> int \<Rightarrow> ((nat \<Rightarrow> go_time) \<Rightarrow> NetworkEip \<Rightarrow> NetworkEip) \<Rightarrow> NetworkEip prog" where
  "update_eip tenant i version f = stmt (\<lambda>clk d.
     let P = (\<lambda>x. eip_row tenant i x \<and> nei_Version x = version) in
     map_sum (\<lambda>x. x) (\<lambda>x. (f clk x, d\<lparr>db_eips := update_where P (f clk) (db_eips d)\<rparr>)) (find_row P (db_eips d)))"

definition q_AdvanceEIP ::
  "string \<Rightarrow> string \<Rightarrow> int \<Rightarrow> resource_state \<Rightarrow> reason \<Rightarrow> bool \<Rightarrow> go_time option \<Rightarrow> string \<Rightarrow> NetworkEip prog" where
  "q_AdvanceEIP tenant i version state reason observed observedAt address = update_eip tenant i version (\<lambda>clk x.
     x\<lparr>nei_State := state, nei_Reason := reason, nei_Version := nei_Version x + 1, nei_UpdatedAt := clk 0,
       nei_Address := (if address \<noteq> [] then address else nei_Address x),
       nei_ObservedAt := (if observed then observedAt else nei_ObservedAt x)\<rparr>)"

definition q_AdmitEIPDeletion :: "string \<Rightarrow> string \<Rightarrow> int \<Rightarrow> string \<Rightarrow> NetworkEip prog" where
  "q_AdmitEIPDeletion tenant i version operationID = update_eip tenant i version (\<lambda>clk x.
     x\<lparr>nei_State := Deleting, nei_Reason := NoReason, nei_LastOperationID := operationID,
       nei_Version := nei_Version x + 1, nei_UpdatedAt := clk 0\<rparr>)"

section \<open>SNAT bindings and address claims\<close>

definition snat_row :: "string \<Rightarrow> string \<Rightarrow> NetworkSnatBinding \<Rightarrow> bool" where
  "snat_row tenant i x \<longleftrightarrow> nsn_TenantID x = tenant \<and> nsn_SnatID x = i"

text \<open>The unique indexes keep one undeleted binding per VPC and purpose, and one per address.\<close>

definition insert_snat :: "NetworkSnatBinding \<Rightarrow> NetworkSnatBinding prog" where
  "insert_snat row = stmt (\<lambda>clk d.
     if \<not> hex_id ''snat_'' (nsn_SnatID row) then Inl (constraint ''network_snat_bindings_snat_id_check'')
     else if list_ex (\<lambda>x. nsn_SnatID x = nsn_SnatID row) (db_snats d) then Inl (constraint ''network_snat_bindings_snat_id_key'')
     else if list_ex (\<lambda>x. nsn_TenantID x = nsn_TenantID row \<and> nsn_VpcID x = nsn_VpcID row \<and> nsn_Purpose x = nsn_Purpose row
         \<and> nsn_State x \<noteq> Deleted) (db_snats d) then Inl (constraint ''network_snat_vpc_occupied'')
     else if list_ex (\<lambda>x. nsn_TenantID x = nsn_TenantID row \<and> nsn_EipID x = nsn_EipID row \<and> nsn_State x \<noteq> Deleted) (db_snats d)
     then Inl (constraint ''network_snat_eip_occupied'')
     else Inr (row, d\<lparr>db_snats := db_snats d @ [row]\<rparr>))"

definition snat_values :: "string \<Rightarrow> string \<Rightarrow> string \<Rightarrow> string \<Rightarrow> string \<Rightarrow> string \<Rightarrow> string \<Rightarrow> string \<Rightarrow> go_time \<Rightarrow> string \<Rightarrow> NetworkSnatBinding" where
  "snat_values tenant snatID cluster namespace name vpcID eipID purpose createdAt operationID =
     \<lparr>nsn_TenantID = tenant, nsn_SnatID = snatID, nsn_ClusterID = cluster, nsn_Namespace = namespace, nsn_Name = name,
      nsn_Description = [], nsn_VpcID = vpcID, nsn_EipID = eipID, nsn_DesiredEnabled = True, nsn_AppliedEnabled = None,
      nsn_TargetGeneration = 0, nsn_State = Provisioning, nsn_Reason = NoReason, nsn_Version = 1, nsn_CreatedAt = createdAt,
      nsn_UpdatedAt = createdAt, nsn_ObservedAt = None, nsn_LastOperationID = operationID, nsn_Purpose = purpose\<rparr>"

definition q_InsertSnat ::
  "string \<Rightarrow> string \<Rightarrow> string \<Rightarrow> string \<Rightarrow> string \<Rightarrow> string \<Rightarrow> go_time \<Rightarrow> string \<Rightarrow> NetworkSnatBinding prog" where
  "q_InsertSnat tenant snatID cluster namespace vpcID eipID createdAt operationID =
     insert_snat (snat_values tenant snatID cluster namespace ''VPC SNAT'' vpcID eipID ''public'' createdAt operationID)"

definition q_InsertBaseSnat ::
  "string \<Rightarrow> string \<Rightarrow> string \<Rightarrow> string \<Rightarrow> string \<Rightarrow> string \<Rightarrow> go_time \<Rightarrow> string \<Rightarrow> NetworkSnatBinding prog" where
  "q_InsertBaseSnat tenant snatID cluster namespace vpcID eipID createdAt operationID =
     insert_snat (snat_values tenant snatID cluster namespace ''VPC base connectivity'' vpcID eipID ''intranet'' createdAt operationID)"

definition q_LockSnat :: "string \<Rightarrow> string \<Rightarrow> NetworkSnatBinding prog" where
  "q_LockSnat tenant i = query (\<lambda>d. find_row (snat_row tenant i) (db_snats d))"

definition q_TryLockWorkSnat :: "string \<Rightarrow> string \<Rightarrow> NetworkSnatBinding prog" where
  "q_TryLockWorkSnat tenant i = try_lock (\<lambda>d. find_row (snat_row tenant i) (db_snats d))"

definition q_GetSnatInternal :: "string \<Rightarrow> string \<Rightarrow> NetworkSnatBinding prog" where
  "q_GetSnatInternal tenant i = query (\<lambda>d. find_row (snat_row tenant i) (db_snats d))"

text \<open>A public binding by its own identity or by its VPC, joined with its address.\<close>

definition q_GetSnat :: "string \<Rightarrow> string \<Rightarrow> bool \<Rightarrow> (NetworkSnatBinding \<times> string) prog" where
  "q_GetSnat tenant i byVpc = query (\<lambda>d. one_row (concat (map (\<lambda>s.
     if nsn_TenantID s = tenant \<and> nsn_Purpose s = ''public''
        \<and> (if byVpc then nsn_VpcID s = i \<and> nsn_State s \<noteq> Deleted else nsn_SnatID s = i)
     then map (\<lambda>x. (s, nei_Address x)) (filter (\<lambda>x. eip_row tenant (nsn_EipID s) x \<and> tenant_public x) (db_eips d))
     else []) (db_snats d))))"

definition q_BlockingSnatForVPC :: "string \<Rightarrow> string \<Rightarrow> int prog" where
  "q_BlockingSnatForVPC tenant vpcID = query (\<lambda>d. Inr (count_where (\<lambda>s. nsn_TenantID s = tenant \<and> nsn_VpcID s = vpcID
      \<and> nsn_Purpose s = ''public'' \<and> nsn_State s \<noteq> Deleted) (db_snats d)))"

definition q_BlockingSnatForEIP :: "string \<Rightarrow> string \<Rightarrow> int prog" where
  "q_BlockingSnatForEIP tenant eipID = query (\<lambda>d. Inr (count_where (claim_active tenant eipID) (db_claims d)))"

text \<open>\<^verbatim>\<open>ON CONFLICT DO NOTHING\<close> over the unique indexes of active claims: of the address, and of the target.\<close>

definition insert_claim :: "NetworkEipClaim \<Rightarrow> int prog" where
  "insert_claim c = stmt (\<lambda>clk d.
     if list_ex (\<lambda>x. ncl_TenantID x = ncl_TenantID c \<and> (ncl_EipID x = ncl_EipID c \<or> ncl_Target x = ncl_Target c)
         \<and> ncl_ReleasedAt x = None) (db_claims d)
     then Inr (0, d)
     else Inr (1, d\<lparr>db_claims := db_claims d @ [c]\<rparr>))"

definition q_ClaimEIPForSnat :: "string \<Rightarrow> string \<Rightarrow> string \<Rightarrow> string \<Rightarrow> string \<Rightarrow> go_time \<Rightarrow> int prog" where
  "q_ClaimEIPForSnat tenant eipID cluster namespace snatID createdAt = insert_claim
     \<lparr>ncl_TenantID = tenant, ncl_ClusterID = cluster, ncl_Namespace = namespace, ncl_EipID = eipID, ncl_Target = RSnat snatID,
      ncl_State = ''reserved'', ncl_CreatedAt = createdAt, ncl_ReleasedAt = None\<rparr>"

definition snat_claim :: "string \<Rightarrow> string \<Rightarrow> NetworkEipClaim \<Rightarrow> bool" where
  "snat_claim tenant i c \<longleftrightarrow> ncl_TenantID c = tenant \<and> ncl_Target c = RSnat i \<and> ncl_ReleasedAt c = None"

definition q_ReleaseSnatClaim :: "string \<Rightarrow> string \<Rightarrow> unit prog" where
  "q_ReleaseSnatClaim tenant i = stmt (\<lambda>clk d. Inr ((), d\<lparr>db_claims :=
     update_where (snat_claim tenant i) (ncl_ReleasedAt_update (\<lambda>_. Some (clk 0))) (db_claims d)\<rparr>))"

definition q_ConfirmSnatClaim :: "string \<Rightarrow> string \<Rightarrow> unit prog" where
  "q_ConfirmSnatClaim tenant i = stmt (\<lambda>clk d. Inr ((), d\<lparr>db_claims :=
     update_where (snat_claim tenant i) (ncl_State_update (\<lambda>_. ''bound'')) (db_claims d)\<rparr>))"

definition update_snat ::
  "string \<Rightarrow> string \<Rightarrow> int \<Rightarrow> ((nat \<Rightarrow> go_time) \<Rightarrow> NetworkSnatBinding \<Rightarrow> NetworkSnatBinding) \<Rightarrow> NetworkSnatBinding prog" where
  "update_snat tenant i version f = stmt (\<lambda>clk d.
     let P = (\<lambda>x. snat_row tenant i x \<and> nsn_Version x = version) in
     map_sum (\<lambda>x. x) (\<lambda>x. (f clk x, d\<lparr>db_snats := update_where P (f clk) (db_snats d)\<rparr>)) (find_row P (db_snats d)))"

definition q_SetSnatIntent :: "string \<Rightarrow> string \<Rightarrow> int \<Rightarrow> bool \<Rightarrow> string \<Rightarrow> NetworkSnatBinding prog" where
  "q_SetSnatIntent tenant i version enabled operationID = update_snat tenant i version (\<lambda>clk x.
     x\<lparr>nsn_DesiredEnabled := enabled, nsn_AppliedEnabled := None, nsn_State := Provisioning, nsn_Reason := NoReason,
       nsn_LastOperationID := operationID, nsn_Version := nsn_Version x + 1, nsn_UpdatedAt := clk 0\<rparr>)"

definition q_AdvanceSnat ::
  "string \<Rightarrow> string \<Rightarrow> int \<Rightarrow> resource_state \<Rightarrow> reason \<Rightarrow> bool \<Rightarrow> go_time option \<Rightarrow> bool option \<Rightarrow> int \<Rightarrow> NetworkSnatBinding prog" where
  "q_AdvanceSnat tenant i version state reason observed observedAt appliedEnabled targetGeneration = update_snat tenant i version (\<lambda>clk x.
     x\<lparr>nsn_State := state, nsn_Reason := reason, nsn_Version := nsn_Version x + 1, nsn_UpdatedAt := clk 0,
       nsn_AppliedEnabled := appliedEnabled, nsn_TargetGeneration := max (nsn_TargetGeneration x) targetGeneration,
       nsn_ObservedAt := (if observed then observedAt else nsn_ObservedAt x)\<rparr>)"

definition q_AdmitSnatDeletion :: "string \<Rightarrow> string \<Rightarrow> int \<Rightarrow> string \<Rightarrow> NetworkSnatBinding prog" where
  "q_AdmitSnatDeletion tenant i version operationID = update_snat tenant i version (\<lambda>clk x.
     x\<lparr>nsn_State := Deleting, nsn_Reason := NoReason, nsn_AppliedEnabled := None, nsn_LastOperationID := operationID,
       nsn_Version := nsn_Version x + 1, nsn_UpdatedAt := clk 0\<rparr>)"

section \<open>Base connectivity\<close>

definition q_GetBaseConnectivity :: "string \<Rightarrow> string \<Rightarrow> NetworkVpcBaseConnectivity prog" where
  "q_GetBaseConnectivity tenant vpcID = query (\<lambda>d. find_row (base_row tenant vpcID) (db_base d))"

definition q_GetConnectivityRollout :: "string \<Rightarrow> NetworkConnectivityRollout prog" where
  "q_GetConnectivityRollout cluster = query (\<lambda>d. find_row (\<lambda>r. nro_ClusterID r = cluster) (db_rollouts d))"

definition q_InsertBaseConnectivity ::
  "string \<Rightarrow> string \<Rightarrow> string \<Rightarrow> string \<Rightarrow> string \<Rightarrow> int \<Rightarrow> string \<Rightarrow> string \<Rightarrow> string \<Rightarrow> unit prog" where
  "q_InsertBaseConnectivity tenant vpcID cluster namespace poolID poolRevision eipID snatID operationID = stmt (\<lambda>clk d.
     if list_ex (\<lambda>b. nbc_TenantID b = tenant \<and> (nbc_VpcID b = vpcID \<or> nbc_EipID b = eipID \<or> nbc_SnatID b = snatID)) (db_base d)
     then Inl (constraint ''network_vpc_base_connectivity_pkey'')
     else Inr ((), d\<lparr>db_base := db_base d @
       [\<lparr>nbc_TenantID = tenant, nbc_VpcID = vpcID, nbc_ClusterID = cluster, nbc_Namespace = namespace, nbc_PoolID = poolID,
         nbc_PoolRevision = poolRevision, nbc_EipID = eipID, nbc_SnatID = snatID, nbc_OperationID = operationID,
         nbc_State = ''pending'', nbc_Reason = NoReason, nbc_ProviderReady = False, nbc_ProviderObservedAt = None,
         nbc_ObservedAt = None, nbc_Terminating = False, nbc_Version = 1\<rparr>]\<rparr>))"

definition q_SetBaseObservation ::
  "string \<Rightarrow> string \<Rightarrow> string \<Rightarrow> reason \<Rightarrow> bool \<Rightarrow> go_time option \<Rightarrow> go_time option \<Rightarrow> unit prog" where
  "q_SetBaseObservation tenant vpcID state reason providerReady providerObservedAt observedAt = stmt (\<lambda>clk d.
     Inr ((), d\<lparr>db_base := update_where (base_row tenant vpcID) (\<lambda>b. b\<lparr>nbc_State := state, nbc_Reason := reason,
       nbc_ProviderReady := providerReady, nbc_ProviderObservedAt := providerObservedAt, nbc_ObservedAt := observedAt,
       nbc_Version := nbc_Version b + 1\<rparr>) (db_base d)\<rparr>))"

definition q_TerminateBase :: "string \<Rightarrow> string \<Rightarrow> unit prog" where
  "q_TerminateBase tenant vpcID = stmt (\<lambda>clk d.
     Inr ((), d\<lparr>db_base := update_where (base_row tenant vpcID) (\<lambda>b. b\<lparr>nbc_Terminating := True, nbc_State := ''deleting'',
       nbc_Reason := NoReason, nbc_Version := nbc_Version b + 1\<rparr>) (db_base d)\<rparr>))"

text \<open>\<^verbatim>\<open>kind NOT LIKE 'delete_%'\<close>, where the underscore is any one character.\<close>

definition deletion_kind :: "string \<Rightarrow> bool" where
  "deletion_kind k \<longleftrightarrow> hasPrefix k ''delete'' \<and> 6 < length k"

definition q_RetireActiveOperation :: "string \<Rightarrow> string \<Rightarrow> unit prog" where
  "q_RetireActiveOperation tenant operationID = stmt (\<lambda>clk d.
     Inr ((), d\<lparr>db_operations := update_where
       (\<lambda>o1. nop_TenantID o1 = tenant \<and> nop_OperationID o1 = operationID \<and> nop_CompletedAt o1 = None \<and> \<not> deletion_kind (nop_Kind o1))
       (\<lambda>o1. o1\<lparr>nop_State := OpFailed, nop_Reason := CreateTerminated, nop_CompletedAt := Some (clk 0), nop_UpdatedAt := clk 1,
         nop_NextAttemptAt := None\<rparr>) (db_operations d)\<rparr>))"

text \<open>A hint wakes a reconciliation, but never before its retry time.\<close>

definition notified :: "go_time \<Rightarrow> NetworkReconciliation \<Rightarrow> NetworkReconciliation" where
  "notified now r = r\<lparr>nre_RequestedGeneration := nre_RequestedGeneration r + 1,
     nre_NextRunAt := Some (max (nre_RetryNotBefore r) (case nre_NextRunAt r of None \<Rightarrow> now | Some t \<Rightarrow> min t now))\<rparr>"

definition q_NotifyBaseParent :: "string \<Rightarrow> string \<Rightarrow> unit prog" where
  "q_NotifyBaseParent tenant resourceID = stmt (\<lambda>clk d.
     Inr ((), d\<lparr>db_reconciliations := update_where
       (\<lambda>r. \<not> nre_Retired r \<and> nre_TenantID r = tenant \<and> list_ex (\<lambda>b. nbc_TenantID b = tenant \<and> nre_Ref r = RVpc (nbc_VpcID b)
          \<and> (nbc_EipID b = resourceID \<or> nbc_SnatID b = resourceID)) (db_base d))
       (notified (clk 0)) (db_reconciliations d)\<rparr>))"

definition q_NotifyBaseChildren :: "string \<Rightarrow> string \<Rightarrow> unit prog" where
  "q_NotifyBaseChildren tenant vpcID = stmt (\<lambda>clk d.
     Inr ((), d\<lparr>db_reconciliations := update_where
       (\<lambda>r. \<not> nre_Retired r \<and> nre_TenantID r = tenant \<and> list_ex (\<lambda>b. base_row tenant vpcID b
          \<and> (nre_Ref r = REip (nbc_EipID b) \<or> nre_Ref r = RSnat (nbc_SnatID b))) (db_base d))
       (notified (clk 0)) (db_reconciliations d)\<rparr>))"

section \<open>Address pools\<close>

definition q_GetPlatform :: "string \<Rightarrow> string \<Rightarrow> string \<Rightarrow> NetworkPlatformResource prog" where
  "q_GetPlatform cluster pkind i = query (\<lambda>d.
     find_row (\<lambda>r. npl_ClusterID r = cluster \<and> npl_Kind r = pkind \<and> npl_ResourceID r = i) (db_platform d))"

definition pool_row :: "string \<Rightarrow> string \<Rightarrow> NetworkPublicPool \<Rightarrow> bool" where
  "pool_row cluster i p \<longleftrightarrow> npp_ClusterID p = cluster \<and> npp_ResourceID p = i"

definition q_GetPublicPool :: "string \<Rightarrow> string \<Rightarrow> NetworkPublicPool prog" where
  "q_GetPublicPool cluster i = query (\<lambda>d. find_row (pool_row cluster i) (db_pools d))"

definition q_LockPublicPool :: "string \<Rightarrow> string \<Rightarrow> NetworkPublicPool prog" where
  "q_LockPublicPool cluster i = query (\<lambda>d. find_row (pool_row cluster i) (db_pools d))"

definition q_GetVlanNetwork :: "string \<Rightarrow> string \<Rightarrow> NetworkVlanNetwork prog" where
  "q_GetVlanNetwork cluster i = query (\<lambda>d.
     find_row (\<lambda>v. nvl_ClusterID v = cluster \<and> nvl_ResourceID v = i) (db_vlans d))"

definition q_GetDefaultPublicPool :: "string \<Rightarrow> NetworkDefaultPool prog" where
  "q_GetDefaultPublicPool cluster = query (\<lambda>d. find_row (\<lambda>p. ndp_ClusterID p = cluster) (db_default_public d))"

definition q_GetDefaultIntranetPool :: "string \<Rightarrow> NetworkDefaultPool prog" where
  "q_GetDefaultIntranetPool cluster = query (\<lambda>d. find_row (\<lambda>p. ndp_ClusterID p = cluster) (db_default_intranet d))"

end
