(* ===== verification/Net_Queries_Work.thy ===== *)
theory Net_Queries_Work
  imports Net_Queries_Egress
begin

text \<open>
  The statements of the durable executor: leases, operations and provider bindings of tenant resources
  (\<^verbatim>\<open>sqlcgen/worker.sql.go\<close>, \<^verbatim>\<open>observation.sql.go\<close>), the platform lane (\<^verbatim>\<open>platform.sql.go\<close>) and the load balancer
  projections (\<^verbatim>\<open>load_balancers.sql.go\<close>).
\<close>

section \<open>Leases\<close>

definition work_row :: "string \<Rightarrow> string \<Rightarrow> NetworkReconciliation \<Rightarrow> bool" where
  "work_row tenant resourceID r \<longleftrightarrow> nre_TenantID r = tenant \<and> ref_id (nre_Ref r) = resourceID"

text \<open>A lease that is not over.\<close>

definition lease_live :: "go_time \<Rightarrow> go_time option \<Rightarrow> bool" where
  "lease_live now until = (case until of None \<Rightarrow> False | Some t \<Rightarrow> now < t)"

definition q_AcquireLease :: "string \<Rightarrow> string \<Rightarrow> string \<Rightarrow> int \<Rightarrow> NetworkReconciliation prog" where
  "q_AcquireLease tenant resourceID owner leaseMicros = stmt (\<lambda>clk d.
     let P = (\<lambda>r. work_row tenant resourceID r \<and> \<not> lease_live (clk 1) (nre_LeaseUntil r));
         f = (\<lambda>r. r\<lparr>nre_LeaseOwner := Some owner, nre_LeaseEpoch := nre_LeaseEpoch r + 1,
                     nre_LeaseUntil := Some (clk 0 + micro_interval leaseMicros)\<rparr>)
     in map_sum (\<lambda>x. x) (\<lambda>r. (f r, d\<lparr>db_reconciliations := update_where P f (db_reconciliations d)\<rparr>))
          (find_row P (db_reconciliations d)))"

text \<open>The fence: the owner and the epoch of the work hold a lease that is not over.\<close>

definition holds_lease :: "string \<Rightarrow> string \<Rightarrow> string \<Rightarrow> int \<Rightarrow> go_time \<Rightarrow> NetworkReconciliation \<Rightarrow> bool" where
  "holds_lease tenant resourceID owner epoch now r \<longleftrightarrow> work_row tenant resourceID r \<and> nre_LeaseOwner r = Some owner
     \<and> nre_LeaseEpoch r = epoch \<and> lease_live now (nre_LeaseUntil r)"

definition q_CheckLease :: "string \<Rightarrow> string \<Rightarrow> string \<Rightarrow> int \<Rightarrow> NetworkReconciliation prog" where
  "q_CheckLease tenant resourceID owner epoch = timed_query (\<lambda>clk d.
     find_row (holds_lease tenant resourceID owner epoch (clk 0)) (db_reconciliations d))"

definition released :: "(nat \<Rightarrow> go_time) \<Rightarrow> int \<Rightarrow> int \<Rightarrow> bool \<Rightarrow> string \<Rightarrow> bool \<Rightarrow> NetworkReconciliation \<Rightarrow> NetworkReconciliation" where
  "released clk delayMicros coveredGeneration observed evidenceHash backoff r =
     r\<lparr>nre_LeaseOwner := None, nre_LeaseUntil := None,
       nre_ProcessedGeneration := max (nre_ProcessedGeneration r) coveredGeneration,
       nre_EvidenceHash := (if observed then evidenceHash else nre_EvidenceHash r),
       nre_EvidenceAppliedAt := (if observed then clk 0 else nre_EvidenceAppliedAt r),
       nre_RetryNotBefore := (if backoff then clk 1 + micro_interval delayMicros else unix_epoch),
       nre_NextRunAt := Some (if coveredGeneration < nre_RequestedGeneration r \<and> \<not> backoff then clk 2
                              else clk 3 + micro_interval delayMicros)\<rparr>"

definition q_ReleaseLease ::
  "string \<Rightarrow> string \<Rightarrow> string \<Rightarrow> int \<Rightarrow> int \<Rightarrow> int \<Rightarrow> bool \<Rightarrow> string \<Rightarrow> bool \<Rightarrow> int prog" where
  "q_ReleaseLease tenant resourceID owner epoch delayMicros coveredGeneration observed evidenceHash backoff = stmt (\<lambda>clk d.
     let P = holds_lease tenant resourceID owner epoch (clk 4) in
     Inr (count_where P (db_reconciliations d), d\<lparr>db_reconciliations := update_where P
       (released clk delayMicros coveredGeneration observed evidenceHash backoff) (db_reconciliations d)\<rparr>))"

definition q_ScheduleDeletion :: "string \<Rightarrow> string \<Rightarrow> int prog" where
  "q_ScheduleDeletion tenant resourceID = stmt (\<lambda>clk d.
     let P = work_row tenant resourceID in
     Inr (count_where P (db_reconciliations d), d\<lparr>db_reconciliations := update_where P
       (\<lambda>r. r\<lparr>nre_NextRunAt := Some (clk 0), nre_LeaseOwner := None, nre_LeaseUntil := None,
              nre_LeaseEpoch := nre_LeaseEpoch r + 1\<rparr>) (db_reconciliations d)\<rparr>))"

text \<open>\<^verbatim>\<open>coalesce(eip_id,snat_id)\<close> is null for the other kinds.\<close>

definition q_RetireCancelledResource :: "string \<Rightarrow> string \<Rightarrow> string \<Rightarrow> int \<Rightarrow> int prog" where
  "q_RetireCancelledResource tenant resourceID owner epoch = stmt (\<lambda>clk d.
     let P = (\<lambda>r. (nre_Ref r = REip resourceID \<or> nre_Ref r = RSnat resourceID) \<and> holds_lease tenant resourceID owner epoch (clk 0) r) in
     Inr (count_where P (db_reconciliations d), d\<lparr>db_reconciliations := update_where P
       (\<lambda>r. r\<lparr>nre_Retired := True, nre_NextRunAt := None, nre_LeaseOwner := None, nre_LeaseUntil := None,
              nre_ProcessedGeneration := nre_RequestedGeneration r\<rparr>) (db_reconciliations d)\<rparr>))"

definition q_NotifyResource :: "string \<Rightarrow> string \<Rightarrow> int prog" where
  "q_NotifyResource tenant resourceID = stmt (\<lambda>clk d.
     let P = (\<lambda>r. \<not> nre_Retired r \<and> work_row tenant resourceID r) in
     Inr (count_where P (db_reconciliations d), d\<lparr>db_reconciliations := update_where P (notified (clk 0)) (db_reconciliations d)\<rparr>))"

section \<open>Operations and bindings of the work\<close>

definition q_RunOperation :: "string \<Rightarrow> string \<Rightarrow> string \<Rightarrow> int \<Rightarrow> NetworkOperation prog" where
  "q_RunOperation tenant resourceID operationID epoch = stmt (\<lambda>clk d.
     let P = (\<lambda>o1. nop_TenantID o1 = tenant \<and> ref_id (nop_Ref o1) = resourceID \<and> nop_OperationID o1 = operationID \<and> op_active o1);
         f = (\<lambda>o1. o1\<lparr>nop_State := Running, nop_Attempt := nop_Attempt o1 + 1, nop_ExecutionEpoch := epoch, nop_UpdatedAt := clk 0\<rparr>)
     in map_sum (\<lambda>x. x) (\<lambda>o1. (f o1, d\<lparr>db_operations := update_where P f (db_operations d)\<rparr>)) (find_row P (db_operations d)))"

text \<open>The state of an operation after an attempt; a deletion never fails, and an empty state is no state.\<close>

definition deletion_never_fails :: "operation_state option \<Rightarrow> string \<Rightarrow> bool" where
  "deletion_never_fails state opkind \<longleftrightarrow>
     \<not> (state = Some OpFailed \<and> opkind \<in> {''delete_vpc'', ''delete_subnet'', ''delete_eip'', ''delete_snat'', ''delete_load_balancer''})"

definition q_CompleteAttempt :: "string \<Rightarrow> string \<Rightarrow> string \<Rightarrow> int \<Rightarrow> operation_state option \<Rightarrow> reason \<Rightarrow> int \<Rightarrow> int prog" where
  "q_CompleteAttempt tenant resourceID operationID epoch state reason delayMicros = stmt (\<lambda>clk d.
     let P = (\<lambda>o1. nop_TenantID o1 = tenant \<and> ref_id (nop_Ref o1) = resourceID \<and> nop_OperationID o1 = operationID
               \<and> nop_ExecutionEpoch o1 = epoch \<and> op_active o1);
         rows = filter P (db_operations d)
     in if rows = [] then Inr (0, d)
        else case state of
          None \<Rightarrow> Inl (constraint ''network_operations_state_check'')
        | Some st \<Rightarrow>
            if list_ex (\<lambda>o1. \<not> deletion_never_fails state (nop_Kind o1)) rows then Inl (constraint ''network_operations_check'')
            else Inr (int (length rows), d\<lparr>db_operations := update_where P (\<lambda>o1. o1\<lparr>nop_State := st, nop_Reason := reason,
               nop_UpdatedAt := clk 0, nop_CompletedAt := (if op_final st then Some (clk 1) else None),
               nop_NextAttemptAt := (if op_final st then None else Some (clk 2 + micro_interval delayMicros))\<rparr>) (db_operations d)\<rparr>))"

text \<open>The provider identity is written once: both statements require it to be empty or the same.\<close>

definition uid_open :: "string \<Rightarrow> string \<Rightarrow> bool" where
  "uid_open uid identity \<longleftrightarrow> uid = [] \<or> uid = identity"

definition uid_written :: "string \<Rightarrow> string \<Rightarrow> string" where
  "uid_written uid identity = (if uid = [] then identity else uid)"

definition mutation_allowed :: "action \<Rightarrow> string \<Rightarrow> NetworkProviderBinding \<Rightarrow> bool" where
  "mutation_allowed act identity b = (case act of
      NoAction \<Rightarrow> False
    | ActCreate \<Rightarrow> nbi_PendingAction b = NoAction
    | ActUpdate \<Rightarrow> nbi_ProviderUid b \<noteq> [] \<and> nbi_PendingAction b \<in> {NoAction, ActUpdate}
    | ActDelete \<Rightarrow> nbi_PendingAction b \<in> {NoAction, ActDelete} \<or> identity \<noteq> [])"

definition q_BeginProviderMutation :: "string \<Rightarrow> string \<Rightarrow> string \<Rightarrow> action \<Rightarrow> string \<Rightarrow> int prog" where
  "q_BeginProviderMutation tenant resourceID bindingID act identity = stmt (\<lambda>clk d.
     let P = (\<lambda>b. binding_row tenant resourceID b \<and> nbi_BindingID b = bindingID \<and> uid_open (nbi_ProviderUid b) identity
               \<and> mutation_allowed act identity b) in
     Inr (count_where P (db_bindings d), d\<lparr>db_bindings := update_where P
       (\<lambda>b. b\<lparr>nbi_PendingAction := act, nbi_PendingSince := Some (clk 0),
              nbi_CreateDispatched := nbi_CreateDispatched b \<or> act = ActCreate,
              nbi_ProviderUid := uid_written (nbi_ProviderUid b) identity\<rparr>) (db_bindings d)\<rparr>))"

definition q_SaveBindingObservation :: "string \<Rightarrow> string \<Rightarrow> string \<Rightarrow> string \<Rightarrow> bool \<Rightarrow> int prog" where
  "q_SaveBindingObservation tenant resourceID bindingID identity clearPending = stmt (\<lambda>clk d.
     let P = (\<lambda>b. binding_row tenant resourceID b \<and> nbi_BindingID b = bindingID \<and> uid_open (nbi_ProviderUid b) identity) in
     Inr (count_where P (db_bindings d), d\<lparr>db_bindings := update_where P
       (\<lambda>b. b\<lparr>nbi_ProviderUid := uid_written (nbi_ProviderUid b) identity,
              nbi_PendingAction := (if clearPending then NoAction else nbi_PendingAction b),
              nbi_PendingSince := (if clearPending then None else nbi_PendingSince b)\<rparr>) (db_bindings d)\<rparr>))"

section \<open>Due work\<close>

record DueResource =
  dr_TenantID :: string
  dr_ResourceID :: string
  dr_Kind :: kind
  dr_ParentVpcID :: string
  dr_ParentEipID :: string
  dr_DueAt :: go_time

definition first_col :: "('a \<Rightarrow> bool) \<Rightarrow> ('a \<Rightarrow> string) \<Rightarrow> 'a list \<Rightarrow> string" where
  "first_col P f xs = (case find_row P xs of Inl _ \<Rightarrow> [] | Inr x \<Rightarrow> f x)"

definition parent_vpc :: "db \<Rightarrow> string \<Rightarrow> ref \<Rightarrow> string" where
  "parent_vpc d tenant r = (case r of
      RVpc i \<Rightarrow> i
    | RSubnet i \<Rightarrow> first_col (subnet_row tenant i) nsu_VpcID (db_subnets d)
    | RSnat i \<Rightarrow> first_col (snat_row tenant i) nsn_VpcID (db_snats d)
    | REip i \<Rightarrow> first_col (eip_row tenant i) (\<lambda>x. textValue (nei_SystemOwnerVpc x)) (db_eips d)
    | RLb i \<Rightarrow> first_col (\<lambda>l. nlb_TenantID l = tenant \<and> nlb_LbID l = i) nlb_VpcID (db_lbs d))"

definition parent_eip :: "db \<Rightarrow> string \<Rightarrow> ref \<Rightarrow> string" where
  "parent_eip d tenant r = (case r of
      REip i \<Rightarrow> i
    | RSnat i \<Rightarrow> first_col (snat_row tenant i) nsn_EipID (db_snats d)
    | _ \<Rightarrow> [])"

text \<open>A reconciliation is due when it is not retired, its time has come and no lease on it is live; it is listed once for
  each binding of its resource. The clock is read twice for each row.\<close>

definition due :: "go_time \<Rightarrow> go_time \<Rightarrow> NetworkReconciliation \<Rightarrow> bool" where
  "due now1 now2 r \<longleftrightarrow> \<not> nre_Retired r \<and> (case nre_NextRunAt r of None \<Rightarrow> False | Some t \<Rightarrow> t \<le> now1)
     \<and> \<not> lease_live now2 (nre_LeaseUntil r)"

definition q_DueResourceCandidates :: "DueResource list prog" where
  "q_DueResourceCandidates = timed_query (\<lambda>clk d.
     Inr (take 32 (sort_key (\<lambda>c. (dr_DueAt c, dr_ResourceID c)) (concat (map (\<lambda>(i, r).
       if due (clk (2 * i)) (clk (2 * i + 1)) r
       then map (\<lambda>b. \<lparr>dr_TenantID = nre_TenantID r, dr_ResourceID = ref_id (nre_Ref r), dr_Kind = ref_kind (nbi_Ref b),
                dr_ParentVpcID = parent_vpc d (nre_TenantID r) (nre_Ref r), dr_ParentEipID = parent_eip d (nre_TenantID r) (nre_Ref r),
                dr_DueAt = (case nre_NextRunAt r of None \<Rightarrow> 0 | Some t \<Rightarrow> t)\<rparr>)
              (filter (binding_row (nre_TenantID r) (ref_id (nre_Ref r))) (db_bindings d))
       else []) (zip [0..<length (db_reconciliations d)] (db_reconciliations d)))))))"

section \<open>The platform lane\<close>

definition kind_name :: "kind \<Rightarrow> string" where
  "kind_name k = (case k of KVpc \<Rightarrow> ''vpc'' | KSubnet \<Rightarrow> ''subnet'' | KEip \<Rightarrow> ''eip'' | KSnat \<Rightarrow> ''snat'' | KDevice \<Rightarrow> ''device''
     | KVlan \<Rightarrow> ''vlan'' | KEgressGateway \<Rightarrow> ''egress_gateway'' | KPublicPool \<Rightarrow> ''public_pool''
     | KLoadBalancer \<Rightarrow> ''load_balancer'' | OtherKind s \<Rightarrow> s)"

definition kind_of :: "string \<Rightarrow> kind" where
  "kind_of s = (if s = ''vpc'' then KVpc else if s = ''subnet'' then KSubnet else if s = ''eip'' then KEip
     else if s = ''snat'' then KSnat else if s = ''device'' then KDevice else if s = ''vlan'' then KVlan
     else if s = ''egress_gateway'' then KEgressGateway else if s = ''public_pool'' then KPublicPool
     else if s = ''load_balancer'' then KLoadBalancer else OtherKind s)"

lemma kind_name_of [simp]: "kind_name (kind_of s) = s"
  by (simp add: kind_of_def kind_name_def)

definition q_LockPlatform :: "string \<Rightarrow> string \<Rightarrow> string \<Rightarrow> NetworkPlatformResource prog" where
  "q_LockPlatform cluster pkind i = query (\<lambda>d.
     find_row (\<lambda>r. npl_ClusterID r = cluster \<and> npl_Kind r = pkind \<and> npl_ResourceID r = i) (db_platform d))"

text \<open>\<^verbatim>\<open>FOR UPDATE ... SKIP LOCKED\<close> over many rows: the first due row that no other transaction holds. The rows held are those
  whose number is in \<open>ev_skip\<close>.\<close>

definition q_DuePlatformCandidate :: "string \<Rightarrow> NetworkPlatformResource prog" where
  "q_DuePlatformCandidate cluster e t = timed_query (\<lambda>clk d.
     one_row (map snd (sort_key (\<lambda>(due, p). (due, npl_ResourceID p)) (concat (map (\<lambda>(i, p).
       if npl_ClusterID p = cluster \<and> \<not> ev_skip e i
       then map (\<lambda>r. (npr_NextRunAt r, p)) (filter (\<lambda>r. npr_ResourceID r = npl_ResourceID p \<and> npr_NextRunAt r \<le> clk (2 * i)
              \<and> \<not> lease_live (clk (2 * i + 1)) (npr_LeaseUntil r)) (db_platform_reconciliations d))
       else []) (zip [0..<length (db_platform d)] (db_platform d))))))) e t"

definition q_AcquirePlatformLease :: "string \<Rightarrow> string \<Rightarrow> int \<Rightarrow> NetworkPlatformReconciliation prog" where
  "q_AcquirePlatformLease resourceID owner leaseMicros = stmt (\<lambda>clk d.
     let P = (\<lambda>r. npr_ResourceID r = resourceID \<and> \<not> lease_live (clk 1) (npr_LeaseUntil r));
         f = (\<lambda>r. r\<lparr>npr_LeaseOwner := Some owner, npr_LeaseEpoch := npr_LeaseEpoch r + 1,
                     npr_LeaseUntil := Some (clk 0 + micro_interval leaseMicros)\<rparr>)
     in map_sum (\<lambda>x. x) (\<lambda>r. (f r, d\<lparr>db_platform_reconciliations := update_where P f (db_platform_reconciliations d)\<rparr>))
          (find_row P (db_platform_reconciliations d)))"

definition holds_platform_lease :: "string \<Rightarrow> string \<Rightarrow> int \<Rightarrow> go_time \<Rightarrow> NetworkPlatformReconciliation \<Rightarrow> bool" where
  "holds_platform_lease resourceID owner epoch now r \<longleftrightarrow> npr_ResourceID r = resourceID \<and> npr_LeaseOwner r = Some owner
     \<and> npr_LeaseEpoch r = epoch \<and> lease_live now (npr_LeaseUntil r)"

definition q_CheckPlatformLease :: "string \<Rightarrow> string \<Rightarrow> int \<Rightarrow> NetworkPlatformReconciliation prog" where
  "q_CheckPlatformLease resourceID owner epoch = timed_query (\<lambda>clk d.
     find_row (holds_platform_lease resourceID owner epoch (clk 0)) (db_platform_reconciliations d))"

definition q_GetPlatformOperation :: "string \<Rightarrow> string \<Rightarrow> NetworkPlatformOperation prog" where
  "q_GetPlatformOperation cluster operationID = query (\<lambda>d. find_row (\<lambda>o1. npo_OperationID o1 = operationID
     \<and> list_ex (\<lambda>r. npl_ResourceID r = npo_ResourceID o1 \<and> npl_ClusterID r = cluster) (db_platform d)) (db_platform_operations d))"

definition q_RunPlatformOperation :: "string \<Rightarrow> string \<Rightarrow> int \<Rightarrow> NetworkPlatformOperation prog" where
  "q_RunPlatformOperation resourceID operationID epoch = stmt (\<lambda>clk d.
     let P = (\<lambda>o1. npo_OperationID o1 = operationID \<and> npo_ResourceID o1 = resourceID \<and> npo_CompletedAt o1 = None);
         f = (\<lambda>o1. o1\<lparr>npo_State := Running, npo_Attempt := npo_Attempt o1 + 1, npo_ExecutionEpoch := epoch, npo_UpdatedAt := clk 0\<rparr>)
     in map_sum (\<lambda>x. x) (\<lambda>o1. (f o1, d\<lparr>db_platform_operations := update_where P f (db_platform_operations d)\<rparr>))
          (find_row P (db_platform_operations d)))"

definition q_BeginPlatformMutation :: "string \<Rightarrow> string \<Rightarrow> action \<Rightarrow> string \<Rightarrow> int prog" where
  "q_BeginPlatformMutation resourceID bindingID act identity = stmt (\<lambda>clk d.
     let P = (\<lambda>r. npl_ResourceID r = resourceID \<and> npl_BindingID r = bindingID \<and> uid_open (npl_ProviderUid r) identity
        \<and> ((act = ActCreate \<and> npl_PendingAction r = NoAction)
           \<or> (act = ActDelete \<and> (npl_PendingAction r \<in> {NoAction, ActDelete} \<or> identity \<noteq> [])))) in
     Inr (count_where P (db_platform d), d\<lparr>db_platform := update_where P
       (\<lambda>r. r\<lparr>npl_PendingAction := act, npl_PendingSince := Some (clk 0),
              npl_ProviderUid := uid_written (npl_ProviderUid r) identity\<rparr>) (db_platform d)\<rparr>))"

definition q_AdvancePlatform ::
  "string \<Rightarrow> int \<Rightarrow> resource_state \<Rightarrow> reason \<Rightarrow> string \<Rightarrow> bool \<Rightarrow> go_time option \<Rightarrow> bool \<Rightarrow> NetworkPlatformResource prog" where
  "q_AdvancePlatform resourceID version state reason identity observed observedAt clearPending = stmt (\<lambda>clk d.
     let P = (\<lambda>r. npl_ResourceID r = resourceID \<and> npl_Version r = version \<and> uid_open (npl_ProviderUid r) identity);
         f = (\<lambda>r. r\<lparr>npl_State := state, npl_Reason := reason, npl_Version := npl_Version r + 1, npl_UpdatedAt := clk 0,
               npl_ProviderUid := uid_written (npl_ProviderUid r) identity,
               npl_ObservedAt := (if observed then observedAt else npl_ObservedAt r),
               npl_PendingAction := (if clearPending then NoAction else npl_PendingAction r),
               npl_PendingSince := (if clearPending then None else npl_PendingSince r)\<rparr>)
     in map_sum (\<lambda>x. x) (\<lambda>r. (f r, d\<lparr>db_platform := update_where P f (db_platform d)\<rparr>)) (find_row P (db_platform d)))"

definition q_CompletePlatformAttempt :: "string \<Rightarrow> string \<Rightarrow> int \<Rightarrow> operation_state option \<Rightarrow> reason \<Rightarrow> int \<Rightarrow> int prog" where
  "q_CompletePlatformAttempt resourceID operationID epoch state reason delayMicros = stmt (\<lambda>clk d.
     let P = (\<lambda>o1. npo_OperationID o1 = operationID \<and> npo_ResourceID o1 = resourceID \<and> npo_ExecutionEpoch o1 = epoch
               \<and> npo_CompletedAt o1 = None);
         rows = filter P (db_platform_operations d)
     in if rows = [] then Inr (0, d)
        else case state of
          None \<Rightarrow> Inl (constraint ''network_platform_operations_state_check'')
        | Some st \<Rightarrow>
            if list_ex (\<lambda>o1. deletion_kind (npo_Kind o1) \<and> st = OpFailed) rows then Inl (constraint ''network_platform_operations_check'')
            else Inr (int (length rows), d\<lparr>db_platform_operations := update_where P (\<lambda>o1. o1\<lparr>npo_State := st, npo_Reason := reason,
               npo_UpdatedAt := clk 0, npo_CompletedAt := (if op_final st then Some (clk 1) else None),
               npo_NextAttemptAt := (if op_final st then None else Some (clk 2 + micro_interval delayMicros))\<rparr>) (db_platform_operations d)\<rparr>))"

definition q_ReleasePlatformLease :: "string \<Rightarrow> string \<Rightarrow> int \<Rightarrow> int \<Rightarrow> int \<Rightarrow> bool \<Rightarrow> string \<Rightarrow> bool \<Rightarrow> int prog" where
  "q_ReleasePlatformLease resourceID owner epoch delayMicros coveredGeneration observed evidenceHash backoff = stmt (\<lambda>clk d.
     let P = holds_platform_lease resourceID owner epoch (clk 4) in
     Inr (count_where P (db_platform_reconciliations d), d\<lparr>db_platform_reconciliations := update_where P
       (\<lambda>r. r\<lparr>npr_LeaseOwner := None, npr_LeaseUntil := None,
         npr_ProcessedGeneration := max (npr_ProcessedGeneration r) coveredGeneration,
         npr_EvidenceHash := (if observed then evidenceHash else npr_EvidenceHash r),
         npr_EvidenceAppliedAt := (if observed then clk 0 else npr_EvidenceAppliedAt r),
         npr_RetryNotBefore := (if backoff then clk 1 + micro_interval delayMicros else unix_epoch),
         npr_NextRunAt := (if coveredGeneration < npr_RequestedGeneration r \<and> \<not> backoff then clk 2
                           else clk 3 + micro_interval delayMicros)\<rparr>) (db_platform_reconciliations d)\<rparr>))"

definition q_SavePlatformImages :: "string \<Rightarrow> string \<Rightarrow> string list \<Rightarrow> int prog" where
  "q_SavePlatformImages cluster resourceID images = stmt (\<lambda>clk d.
     let P = (\<lambda>r. npl_ClusterID r = cluster \<and> npl_ResourceID r = resourceID) in
     Inr (count_where P (db_platform d), d\<lparr>db_platform := update_where P (npl_ProviderImages_update (\<lambda>_. images)) (db_platform d)\<rparr>))"

definition q_RetireVlanSlot :: "string \<Rightarrow> string \<Rightarrow> int prog" where
  "q_RetireVlanSlot cluster resourceID = stmt (\<lambda>clk d.
     let P = (\<lambda>v. nvl_ClusterID v = cluster \<and> nvl_ResourceID v = resourceID) in
     Inr (count_where P (db_vlans d), d\<lparr>db_vlans := update_where P (nvl_Retired_update (\<lambda>_. True)) (db_vlans d)\<rparr>))"

definition q_RetirePublicPoolSlot :: "string \<Rightarrow> string \<Rightarrow> int prog" where
  "q_RetirePublicPoolSlot cluster resourceID = stmt (\<lambda>clk d.
     let P = pool_row cluster resourceID in
     Inr (count_where P (db_pools d), d\<lparr>db_pools := update_where P (npp_Retired_update (\<lambda>_. True)) (db_pools d)\<rparr>))"

definition q_SaveDeviceProgress :: "string \<Rightarrow> string \<Rightarrow> NodeInterface list \<Rightarrow> int prog" where
  "q_SaveDeviceProgress cluster resourceID nodes = stmt (\<lambda>clk d.
     let P = (\<lambda>v. nda_ClusterID v = cluster \<and> nda_ResourceID v = resourceID) in
     Inr (count_where P (db_devices d), d\<lparr>db_devices := update_where P (nda_NodeProgress_update (\<lambda>_. nodes)) (db_devices d)\<rparr>))"

definition q_GetDeviceAdoption :: "string \<Rightarrow> string \<Rightarrow> NetworkDeviceAdoption prog" where
  "q_GetDeviceAdoption cluster resourceID = query (\<lambda>d.
     find_row (\<lambda>v. nda_ClusterID v = cluster \<and> nda_ResourceID v = resourceID) (db_devices d))"

definition q_InsertPlatformHistory :: "NetworkPlatformHistory \<Rightarrow> unit prog" where
  "q_InsertPlatformHistory h = stmt (\<lambda>clk d.
     if list_ex (\<lambda>x. nph_HistoryID x = nph_HistoryID h) (db_platform_history d) then Inl (constraint ''network_platform_history_pkey'')
     else Inr ((), d\<lparr>db_platform_history := db_platform_history d @ [h]\<rparr>))"

end
