(* ===== verification/Net_Store.thy ===== *)
theory Net_Store
  imports Net_Queries_Work
begin

text \<open>
  The repository of VPCs, subnets and their base connectivity: \<^verbatim>\<open>postgres.go\<close>, \<^verbatim>\<open>subnet.go\<close>, \<^verbatim>\<open>DeleteVPC\<close> of \<^verbatim>\<open>worker.go\<close>,
  the admission half of \<^verbatim>\<open>base_connectivity.go\<close>, and the pool readiness of \<^verbatim>\<open>platform.go\<close> it depends on. One definition per
  method: a program of the statements of the method in their order, with the returns that skip the commit.

  \<^verbatim>\<open>json.Marshal\<close> of a snapshot fails when a time is outside the years 0 to 9999; otherwise the snapshot is the value, because
  the accepted texts are valid UTF-8 and a marshalled time denotes the same instant.
\<close>

section \<open>Repository\<close>

record Postgres =
  pg_ClusterID :: string
  pg_NamespacePrefix :: string
  pg_baseFreshness :: duration

definition lower_letter :: "char \<Rightarrow> bool" where
  "lower_letter c \<longleftrightarrow> CHR ''a'' \<le> c \<and> c \<le> CHR ''z''"

definition namespace_char :: "char \<Rightarrow> bool" where
  "namespace_char c \<longleftrightarrow> lower_letter c \<or> (CHR ''0'' \<le> c \<and> c \<le> CHR ''9'') \<or> c = CHR ''-''"

text \<open>The placement that \<^verbatim>\<open>OpenPostgres\<close> accepts; the prefix matches \<^verbatim>\<open>^[a-z][a-z0-9-]{0,25}-$\<close>.\<close>

definition placement_ok :: "string \<Rightarrow> string \<Rightarrow> bool" where
  "placement_ok cluster prefix \<longleftrightarrow> trim_space cluster \<noteq> [] \<and> length cluster \<le> 128
     \<and> 2 \<le> length prefix \<and> length prefix \<le> 27 \<and> lower_letter (hd prefix) \<and> list_all namespace_char (butlast (tl prefix))
     \<and> last prefix = CHR ''-''"

definition baseFreshnessLimit :: "Postgres \<Rightarrow> duration" where
  "baseFreshnessLimit p = (if 0 < pg_baseFreshness p then pg_baseFreshness p else 60000000000)"

text \<open>A statement whose error is returned through \<^verbatim>\<open>databaseFailure\<close>.\<close>

definition call :: "'a prog \<Rightarrow> ('a \<Rightarrow> 'b prog) \<Rightarrow> 'b prog" where
  "call q k = andThen (wrapped q) k"

definition vpcQueryFailure :: "bool \<Rightarrow> goerr \<Rightarrow> goerr" where
  "vpcQueryFailure ctxErr err =
     (if errors_is err DeadlineExceeded \<and> \<not> ctxErr
      then BizError DependencyUnavailable ''Network database connection timed out'' (Some err)
      else databaseFailure err)"

section \<open>Conversions\<close>

definition vpc :: "NetworkVpc \<Rightarrow> VPC" where
  "vpc row = \<lparr>vpc_BaseConnectivity = None, vpc_ID = nv_VpcID row, vpc_TenantID = nv_TenantID row, vpc_Name = nv_Name row,
     vpc_CIDR = nv_Cidr row, vpc_Description = nv_Description row, vpc_State = nv_State row, vpc_Reason = nv_Reason row,
     vpc_Version = nv_Version row, vpc_CreatedAt = nv_CreatedAt row, vpc_UpdatedAt = nv_UpdatedAt row,
     vpc_ObservedAt = nv_ObservedAt row, vpc_ObservationStale = False, vpc_LastOperationID = nv_LastOperationID row,
     vpc_SubnetCount = 0\<rparr>"

definition vpc_of_row :: "VPCRow \<Rightarrow> VPC" where
  "vpc_of_row r = (vpc (vr_NetworkVpc r))\<lparr>vpc_SubnetCount := vr_SubnetCount r,
     vpc_BaseConnectivity := Some \<lparr>bc_State = vr_BaseState r, bc_Reason = vr_BaseReason r, bc_ObservedAt = vr_BaseObservedAt r,
       bc_ObservationStale = False\<rparr>\<rparr>"

definition subnet :: "NetworkSubnet \<Rightarrow> Subnet" where
  "subnet row = \<lparr>sn_ID = nsu_SubnetID row, sn_TenantID = nsu_TenantID row, sn_VPCID = nsu_VpcID row, sn_Name = nsu_Name row,
     sn_CIDR = nsu_Cidr row, sn_Gateway = nsu_Gateway row, sn_Description = nsu_Description row, sn_State = nsu_State row,
     sn_Reason = nsu_Reason row, sn_Version = nsu_Version row, sn_CreatedAt = nsu_CreatedAt row, sn_UpdatedAt = nsu_UpdatedAt row,
     sn_ObservedAt = nsu_ObservedAt row, sn_ObservationStale = False, sn_LastOperationID = nsu_LastOperationID row\<rparr>"

definition operation :: "NetworkOperation \<Rightarrow> Operation" where
  "operation row = \<lparr>op_ID = nop_OperationID row, op_TenantID = nop_TenantID row, op_ResourceID = ref_id (nop_Ref row),
     op_ResourceType = kind_name (ref_kind (nop_Ref row)), op_Kind = nop_Kind row, op_State = nop_State row,
     op_Reason = nop_Reason row, op_CreatedAt = nop_CreatedAt row, op_UpdatedAt = nop_UpdatedAt row,
     op_CompletedAt = nop_CompletedAt row, op_NextAttemptAt = nop_NextAttemptAt row\<rparr>"

definition newEgressID :: "string \<Rightarrow> string prog" where
  "newEgressID prefix = andThen newUUID (\<lambda>u. ret (prefix @ ''_'' @ replace_all_dash u))"

definition freshTime :: "go_time option \<Rightarrow> go_time \<Rightarrow> duration \<Rightarrow> bool" where
  "freshTime t now limit = (case t of None \<Rightarrow> False | Some t \<Rightarrow> \<not> time_after t now \<and> time_sub now t \<le> limit)"

definition freshResource :: "resource_state \<Rightarrow> go_time option \<Rightarrow> go_time \<Rightarrow> duration \<Rightarrow> bool" where
  "freshResource state observed now limit \<longleftrightarrow> state = Available \<and> freshTime observed now limit"

definition marshals :: "go_time list \<Rightarrow> unit prog" where
  "marshals ts = (if list_all time_marshals ts then ret ()
     else throw (OtherError ''json: error calling MarshalJSON for type time.Time: year outside of range [0,9999]''))"

section \<open>Address pools\<close>

record PublicPoolTopologyRow =
  tp_ResourceID :: string
  tp_ClusterID :: string
  tp_ConfigRevision :: int
  tp_Mode :: string
  tp_GatewayID :: "string option"
  tp_Cidr :: string
  tp_OvnGatewayIp :: string
  tp_ExcludedIps :: "string list"
  tp_VlanNetworkID :: "string option"
  tp_UpstreamGatewayIp :: "string option"
  tp_PoolUid :: string
  tp_ProviderImages :: "string list"
  tp_GatewayUid :: string
  tp_VlanUid :: string
  tp_DeviceConfigUid :: string

definition platform_uid :: "db \<Rightarrow> string \<Rightarrow> string option \<Rightarrow> string" where
  "platform_uid d cluster i = (case i of None \<Rightarrow> []
     | Some i \<Rightarrow> first_col (\<lambda>r. npl_ClusterID r = cluster \<and> npl_ResourceID r = i) npl_ProviderUid (db_platform d))"

definition vlan_device :: "db \<Rightarrow> string \<Rightarrow> string option \<Rightarrow> string option" where
  "vlan_device d cluster i = (case i of None \<Rightarrow> None | Some i \<Rightarrow>
     (case find_row (\<lambda>v. nvl_ClusterID v = cluster \<and> nvl_ResourceID v = i) (db_vlans d) of
        Inl _ \<Rightarrow> None | Inr v \<Rightarrow> Some (nvl_DeviceID v)))"

definition q_PublicPoolTopology :: "string \<Rightarrow> string \<Rightarrow> PublicPoolTopologyRow prog" where
  "q_PublicPoolTopology cluster i = query (\<lambda>d. one_row (concat (map (\<lambda>p.
     map (\<lambda>r. \<lparr>tp_ResourceID = npp_ResourceID p, tp_ClusterID = npp_ClusterID p, tp_ConfigRevision = npp_ConfigRevision p,
        tp_Mode = npp_Mode p, tp_GatewayID = npp_GatewayID p, tp_Cidr = npp_Cidr p, tp_OvnGatewayIp = npp_OvnGatewayIp p,
        tp_ExcludedIps = npp_ExcludedIps p, tp_VlanNetworkID = npp_VlanNetworkID p, tp_UpstreamGatewayIp = npp_UpstreamGatewayIp p,
        tp_PoolUid = npl_ProviderUid r, tp_ProviderImages = npl_ProviderImages r,
        tp_GatewayUid = platform_uid d cluster (npp_GatewayID p), tp_VlanUid = platform_uid d cluster (npp_VlanNetworkID p),
        tp_DeviceConfigUid = platform_uid d cluster (vlan_device d cluster (npp_VlanNetworkID p))\<rparr>)
       (filter (\<lambda>r. npl_ClusterID r = npp_ClusterID p \<and> npl_ResourceID r = npp_ResourceID p) (db_platform d)))
     (filter (pool_row cluster i) (db_pools d)))))"

definition json_opt :: "string option \<Rightarrow> json" where
  "json_opt v = (case v of None \<Rightarrow> JNull | Some s \<Rightarrow> JStr s)"

definition topology_json :: "PublicPoolTopologyRow \<Rightarrow> json" where
  "topology_json t = JObj [(''ResourceID'', JStr (tp_ResourceID t)), (''ClusterID'', JStr (tp_ClusterID t)),
     (''ConfigRevision'', JInt (tp_ConfigRevision t)), (''Mode'', JStr (tp_Mode t)), (''GatewayID'', json_opt (tp_GatewayID t)),
     (''Cidr'', JStr (tp_Cidr t)), (''OvnGatewayIp'', JStr (tp_OvnGatewayIp t)), (''ExcludedIps'', JArr (map JStr (tp_ExcludedIps t))),
     (''VlanNetworkID'', json_opt (tp_VlanNetworkID t)), (''UpstreamGatewayIp'', json_opt (tp_UpstreamGatewayIp t)),
     (''PoolUid'', JStr (tp_PoolUid t)), (''ProviderImages'', JArr (map JStr (tp_ProviderImages t))),
     (''GatewayUid'', JStr (tp_GatewayUid t)), (''VlanUid'', JStr (tp_VlanUid t)), (''DeviceConfigUid'', JStr (tp_DeviceConfigUid t))]"

definition addressPoolTopologyHash :: "NetworkPublicPool \<Rightarrow> PublicPoolTopologyRow \<Rightarrow> string" where
  "addressPoolTopologyHash pool topology =
     (if npp_Scope pool \<noteq> ''intranet'' then fingerprint_of (topology_json topology)
      else fingerprint_of (JObj [(''Topology'', topology_json topology), (''Scope'', JStr (npp_Scope pool)),
        (''DefaultVPCName'', JStr (npp_DefaultVpcName pool)), (''DefaultVPCUID'', JStr (npp_DefaultVpcUid pool)),
        (''IntranetNetworks'', JArr (map JStr (npp_IntranetNetworks pool)))]))"

definition sameProviderImages :: "string list \<Rightarrow> string list \<Rightarrow> bool" where
  "sameProviderImages a b \<longleftrightarrow> a \<noteq> [] \<and> sort_compact a = sort_compact b"

definition poolUnavailableReason :: "string \<Rightarrow> reason" where
  "poolUnavailableReason scope = (if scope = ''intranet'' then BaseConnectivityNotReady else PublicEgressNotReady)"

definition pool_unavailable :: "NetworkPublicPool \<Rightarrow> goerr" where
  "pool_unavailable pool = Fail (poolUnavailableReason (npp_Scope pool)) ''address pool configuration or evidence is not ready''"

text \<open>The parts of a pool that must be fresh: itself, its gateway unless it is an intranet pool, its VLAN and device.\<close>

definition pool_refs :: "NetworkPublicPool \<Rightarrow> (string \<times> string) list prog" where
  "pool_refs pool =
     (let refs = [(''public_pool'', npp_ResourceID pool)]
            @ (if npp_Scope pool \<noteq> ''intranet'' then [(''egress_gateway'', textValue (npp_GatewayID pool))] else [])
      in case npp_VlanNetworkID pool of
           None \<Rightarrow> ret refs
         | Some vlanID \<Rightarrow> call (q_GetVlanNetwork (npp_ClusterID pool) vlanID) (\<lambda>vlan.
             ret (refs @ [(''vlan'', vlanID), (''device'', nvl_DeviceID vlan)])))"

definition poolReady :: "NetworkPublicPool \<Rightarrow> go_time \<Rightarrow> duration \<Rightarrow> bool \<Rightarrow> unit prog" where
  "poolReady pool now freshness allocation =
     (if allocation \<and> \<not> npp_AllocationEnabled pool then throw (pool_unavailable pool)
      else case (npp_VerificationExpiresAt pool, npp_Verification pool) of
        (Some expires, Some evidence) \<Rightarrow>
          if \<not> time_after expires now then throw (pool_unavailable pool)
          else call (q_PublicPoolTopology (npp_ClusterID pool) (npp_ResourceID pool)) (\<lambda>topology.
            if pv_TopologyFingerprint evidence \<noteq> addressPoolTopologyHash pool topology
               \<or> \<not> sameProviderImages (pv_ProviderImageDigests evidence) (tp_ProviderImages topology)
               \<or> ValidatePoolVerificationForScope evidence (npp_Scope pool) now \<noteq> None
            then throw (pool_unavailable pool)
            else andThen (pool_refs pool) (\<lambda>refs. for_each (\<lambda>(k, i).
              call (q_GetPlatform (npp_ClusterID pool) k i) (\<lambda>r.
                if \<not> freshResource (npl_State r) (npl_ObservedAt r) now freshness \<or> npl_ProviderUid r = []
                then throw (pool_unavailable pool) else ret ())) refs))
      | _ \<Rightarrow> throw (pool_unavailable pool))"

section \<open>Base connectivity admission\<close>

text \<open>The records of one internal child: its operation, binding and reconciliation.\<close>

definition child_records :: "Postgres \<Rightarrow> string \<Rightarrow> string \<Rightarrow> go_time \<Rightarrow> (ref \<times> string \<times> string) \<Rightarrow> unit prog" where
  "child_records p tenant namespace now = (\<lambda>(r, op, opkind).
     call (q_InsertOperation tenant op r opkind now) (\<lambda>_.
     andThen newUUID (\<lambda>bindingID.
     call (q_InsertBinding tenant r bindingID (pg_ClusterID p) namespace (replace_underscore (ref_id r))) (\<lambda>_.
     call (q_InsertReconciliation tenant r now) (\<lambda>_. ret ())))))"

definition base_pool :: "Postgres \<Rightarrow> string \<Rightarrow> string prog" where
  "base_pool p poolID =
     (if poolID = []
      then call (optional (q_GetDefaultIntranetPool (pg_ClusterID p))) (\<lambda>def.
        case def of None \<Rightarrow> throw (Fail BaseConnectivityNotReady ''default Intranet pool is missing'')
        | Some v \<Rightarrow> ret (ndp_PoolID v))
      else ret poolID)"

definition acceptBaseConnectivity ::
  "Postgres \<Rightarrow> string \<Rightarrow> string \<Rightarrow> string \<Rightarrow> string \<Rightarrow> string \<Rightarrow> int \<Rightarrow> go_time \<Rightarrow> bool \<Rightarrow> unit prog" where
  "acceptBaseConnectivity p tenant vpcID namespace operationID poolID poolRevision now0 required =
     call (q_LockPlatformCluster (pg_ClusterID p)) (\<lambda>_.
     andThen (base_pool p poolID) (\<lambda>poolID.
     call (q_LockPublicPool (pg_ClusterID p) poolID) (\<lambda>pool.
     if npp_Scope pool \<noteq> ''intranet'' \<or> (poolRevision \<noteq> 0 \<and> npp_ConfigRevision pool \<noteq> poolRevision)
     then throw (Fail BaseConnectivityNotReady ''fixed Intranet pool revision differs'')
     else
     call q_DatabaseTime (\<lambda>now.
     andThen (poolReady pool now (baseFreshnessLimit p) True) (\<lambda>_.
     andThen (newEgressID ''eip'') (\<lambda>eipID. andThen (newEgressID ''snat'') (\<lambda>snatID.
     andThen newUUID (\<lambda>eipOp. andThen newUUID (\<lambda>snatOp.
     call (q_InsertBaseEIP tenant eipID (pg_ClusterID p) namespace poolID (npp_ConfigRevision pool) vpcID now eipOp) (\<lambda>_.
     call (q_InsertBaseSnat tenant snatID (pg_ClusterID p) namespace vpcID eipID now snatOp) (\<lambda>_.
     andThen (for_each (child_records p tenant namespace now) [(REip eipID, eipOp, ''create_eip''), (RSnat snatID, snatOp, ''bind_snat'')]) (\<lambda>_.
     andThen (affected (q_ClaimEIPForSnat tenant eipID (pg_ClusterID p) namespace snatID now)) (\<lambda>_.
     call (q_InsertBaseConnectivity tenant vpcID (pg_ClusterID p) namespace poolID (npp_ConfigRevision pool) eipID snatID operationID) (\<lambda>_.
     if required then wrapped (q_RequireVPCBase tenant vpcID) else ret ()))))))))))))))"

section \<open>VPCs\<close>

text \<open>The replay of a recorded acceptance: the fingerprint must be the recorded one, and the snapshot must be the
  recorded resource's.\<close>

definition vpc_replay :: "VPCIntent \<Rightarrow> NetworkIdempotency \<Rightarrow> VPC prog" where
  "vpc_replay intent previous =
     (if nid_FingerprintVersion previous \<noteq> 1 \<or> nid_Fingerprint previous \<noteq> VPCIntent_Fingerprint intent
      then throw (Fail IdempotencyConflict ''key already accepted a different VPC intent'')
      else case nid_Response previous of
        SnapVpc value \<Rightarrow>
          if nid_Ref previous \<noteq> RVpc (vpc_ID value) \<or> vpc_TenantID value \<noteq> vi_TenantID intent
             \<or> vpc_LastOperationID value \<noteq> nid_OperationID previous
          then throw (databaseFailure (OtherError ''invalid acceptance snapshot''))
          else ret value
      | _ \<Rightarrow> throw (databaseFailure (OtherError ''json: cannot unmarshal'')))"

definition accepted_history ::
  "string \<Rightarrow> string \<Rightarrow> ref \<Rightarrow> string \<Rightarrow> Attribution \<Rightarrow> go_time \<Rightarrow> NetworkResourceHistory" where
  "accepted_history tenant historyID r operationID a now =
     \<lparr>nhi_TenantID = tenant, nhi_HistoryID = historyID, nhi_Ref = r, nhi_OperationID = Some operationID,
      nhi_Event = ''create_accepted'', nhi_ResourceState = Provisioning, nhi_OperationState = Some Queued, nhi_Reason = NoReason,
      nhi_ActorRef = at_Actor a, nhi_CallerRef = at_DirectCaller a, nhi_CorrelationID = at_CorrelationID a, nhi_CreatedAt = now\<rparr>"

definition pending_base :: BaseConnectivity where
  "pending_base = \<lparr>bc_State = ''pending'', bc_Reason = BaseConnectivityNotReady, bc_ObservedAt = None, bc_ObservationStale = True\<rparr>"

definition newVPC :: "Postgres \<Rightarrow> VPCIntent \<Rightarrow> Attribution \<Rightarrow> VPC prog" where
  "newVPC p intent attribution =
     call q_DatabaseTime (\<lambda>now.
     andThen newUUID (\<lambda>u. let vpcID = ''vpc_'' @ replace_all_dash u in
     andThen newUUID (\<lambda>operationID.
     call (q_InsertVPC (vi_TenantID intent) vpcID (vi_Name intent) (vi_Description intent) (vi_CIDR intent) now operationID) (\<lambda>row.
     call (q_InsertOperation (vi_TenantID intent) operationID (RVpc vpcID) ''create_vpc'' now) (\<lambda>_.
     call (q_InsertReconciliation (vi_TenantID intent) (RVpc vpcID) now) (\<lambda>_.
     call (q_EnsureTenantNamespace (vi_TenantID intent) (pg_ClusterID p) (pg_NamespacePrefix p @ vi_TenantID intent)) (\<lambda>_.
     call (q_GetTenantNamespace (vi_TenantID intent) (pg_ClusterID p)) (\<lambda>namespace.
     andThen newUUID (\<lambda>bindingID.
     call (q_InsertBinding (vi_TenantID intent) (RVpc vpcID) bindingID (pg_ClusterID p) namespace (replace_underscore vpcID)) (\<lambda>_.
     call (q_LockConnectivityRollout (pg_ClusterID p)) (\<lambda>_.
     call (optional (q_GetConnectivityRollout (pg_ClusterID p))) (\<lambda>rollout.
     let enabled = (case rollout of None \<Rightarrow> False | Some r \<Rightarrow> nro_NewVpcsEnabled r) in
     andThen (if enabled
       then acceptBaseConnectivity p (vi_TenantID intent) vpcID namespace operationID [] 0 now True else ret ()) (\<lambda>_.
     let value = (vpc row)\<lparr>vpc_BaseConnectivity := (if enabled then Some pending_base else None), vpc_ObservationStale := True\<rparr> in
     andThen (wrapped (marshals [vpc_CreatedAt value, vpc_UpdatedAt value])) (\<lambda>_.
     call (q_InsertIdempotency (vi_TenantID intent) (vi_IdempotencyKey intent) (VPCIntent_Fingerprint intent) vpcID operationID (SnapVpc value) now) (\<lambda>_.
     andThen newUUID (\<lambda>historyID.
     call (q_InsertHistory (accepted_history (vi_TenantID intent) historyID (RVpc vpcID) operationID attribution now)) (\<lambda>_.
     ret value)))))))))))))))))"

definition acceptVPC :: "Postgres \<Rightarrow> VPCIntent \<Rightarrow> Attribution \<Rightarrow> VPC tx_outcome prog" where
  "acceptVPC p intent attribution =
     call (q_LockCreationKey (vi_TenantID intent) (vi_IdempotencyKey intent)) (\<lambda>_.
     call (optional (q_GetIdempotency (vi_TenantID intent) (vi_IdempotencyKey intent))) (\<lambda>previous.
     case previous of
       Some row \<Rightarrow> andThen (vpc_replay intent row) (\<lambda>value. ret (Unsaved value))
     | None \<Rightarrow> andThen (newVPC p intent attribution) (\<lambda>value. ret (Commit value))))"

definition Postgres_AcceptVPC :: "Postgres \<Rightarrow> env \<Rightarrow> VPCIntent \<Rightarrow> Attribution \<Rightarrow> db \<Rightarrow> VPC res \<times> db" where
  "Postgres_AcceptVPC p e intent attribution = transaction (acceptVPC p intent attribution) e"

definition Postgres_GetVPC :: "bool \<Rightarrow> env \<Rightarrow> string \<Rightarrow> string \<Rightarrow> db \<Rightarrow> VPC res \<times> db" where
  "Postgres_GetVPC ctxErr e tenant i d =
     (case autocommit (q_GetVPC tenant i) e d of
        (Inl x, d) \<Rightarrow> (Inl (vpcQueryFailure ctxErr x), d)
      | (Inr row, d) \<Rightarrow> (Inr (vpc_of_row row), d))"

text \<open>Operations of system addresses and intranet bindings are hidden. The three queries run outside a transaction.\<close>

definition getOperation :: "string \<Rightarrow> string \<Rightarrow> Operation prog" where
  "getOperation tenant i =
     call (q_GetOperation tenant i) (\<lambda>row.
     case nop_Ref row of
       REip eipID \<Rightarrow> call (q_GetEIPInternal tenant eipID) (\<lambda>x.
         if nei_ManagedBy x = ''system'' then throw (Fail ResourceNotFound ''operation not found'') else ret (operation row))
     | RSnat snatID \<Rightarrow> call (q_GetSnatInternal tenant snatID) (\<lambda>x.
         if nsn_Purpose x = ''intranet'' then throw (Fail ResourceNotFound ''operation not found'') else ret (operation row))
     | _ \<Rightarrow> ret (operation row))"

definition Postgres_GetOperation :: "env \<Rightarrow> string \<Rightarrow> string \<Rightarrow> db \<Rightarrow> Operation res \<times> db" where
  "Postgres_GetOperation e tenant i = autocommit (getOperation tenant i) e"

definition Postgres_ListVPCs :: "env \<Rightarrow> string \<Rightarrow> VPCFilter \<Rightarrow> db \<Rightarrow> VPC list res \<times> db" where
  "Postgres_ListVPCs e tenant f = autocommit (call (q_ListVPCs tenant (vf_Name f) (vf_State f) (vf_AfterID f) (vf_AfterCreatedAt f)
     (vf_Limit f)) (\<lambda>rows. ret (map vpc_of_row rows))) e"

definition deleted_history :: "string \<Rightarrow> string \<Rightarrow> ref \<Rightarrow> string \<Rightarrow> resource_state \<Rightarrow> go_time \<Rightarrow> NetworkResourceHistory" where
  "deleted_history tenant historyID r operationID state now =
     \<lparr>nhi_TenantID = tenant, nhi_HistoryID = historyID, nhi_Ref = r, nhi_OperationID = Some operationID,
      nhi_Event = ''delete_accepted'', nhi_ResourceState = state, nhi_OperationState = Some Queued, nhi_Reason = NoReason,
      nhi_ActorRef = [], nhi_CallerRef = [], nhi_CorrelationID = [], nhi_CreatedAt = now\<rparr>"

text \<open>The active creation of a VPC with base connectivity is retired; one without it makes the deletion wait.\<close>

definition retire_creation :: "string \<Rightarrow> string \<Rightarrow> NetworkOperation \<Rightarrow> unit prog" where
  "retire_creation tenant i op =
     (if nop_CompletedAt op = None
      then call (optional (q_GetBaseConnectivity tenant i)) (\<lambda>b. case b of
          None \<Rightarrow> throw (Fail ResourceBusy ''legacy VPC creation is still active'')
        | Some _ \<Rightarrow> wrapped (q_RetireActiveOperation tenant (nop_OperationID op)))
      else ret ())"

definition deleteVPC :: "string \<Rightarrow> string \<Rightarrow> VPC tx_outcome prog" where
  "deleteVPC tenant i =
     call (q_LockVPC tenant i) (\<lambda>row.
     if nv_State row = Deleting \<or> nv_State row = Deleted then ret (Unsaved (vpc row))
     else
     call (q_BlockingLBForVPC tenant i) (\<lambda>lbCount.
     if 0 < lbCount then throw (Fail ResourceInUse ''load balancers must be deleted before their VPC'')
     else
     call (q_BlockingSnatForVPC tenant i) (\<lambda>snatCount.
     if 0 < snatCount then throw (Fail VPCSnatExists ''SNAT binding must be deleted before its VPC'')
     else
     call (q_CountBlockingSubnets tenant i) (\<lambda>count.
     if 0 < count then throw (Fail ResourceInUse ''subnets must be deleted before their VPC'')
     else
     call (q_GetOperation tenant (nv_LastOperationID row)) (\<lambda>op.
     andThen (retire_creation tenant i op) (\<lambda>_.
     call (q_TerminateBase tenant i) (\<lambda>_.
     call q_DatabaseTime (\<lambda>now.
     andThen newUUID (\<lambda>opID.
     call (q_InsertOperation tenant opID (RVpc i) ''delete_vpc'' now) (\<lambda>_.
     call (q_AdmitDeletion tenant i (nv_Version row) opID) (\<lambda>row.
     andThen (affected (q_ScheduleDeletion tenant i)) (\<lambda>_.
     andThen newUUID (\<lambda>historyID.
     call (q_InsertHistory (deleted_history tenant historyID (RVpc i) opID (nv_State row) now)) (\<lambda>_.
     ret (Commit (vpc row))))))))))))))))"

definition Postgres_DeleteVPC :: "env \<Rightarrow> string \<Rightarrow> string \<Rightarrow> db \<Rightarrow> VPC res \<times> db" where
  "Postgres_DeleteVPC e tenant i = transaction (deleteVPC tenant i) e"

section \<open>Subnets\<close>

text \<open>\<open>None\<close>: no acceptance is recorded under the key.\<close>

definition subnetReplay :: "SubnetIntent \<Rightarrow> Subnet option prog" where
  "subnetReplay intent =
     call (optional (q_GetSubnetIdempotency (vi_TenantID (si_VPCIntent intent)) (vi_IdempotencyKey (si_VPCIntent intent)))) (\<lambda>prior.
     case prior of
       None \<Rightarrow> ret None
     | Some row \<Rightarrow>
         if nid_FingerprintVersion row \<noteq> 1 \<or> nid_Fingerprint row \<noteq> SubnetIntent_Fingerprint intent
         then throw (Fail IdempotencyConflict ''key already accepted a different subnet intent'')
         else case nid_Response row of
           SnapSubnet value \<Rightarrow>
             if nid_Ref row \<noteq> RSubnet (sn_ID value) \<or> sn_TenantID value \<noteq> vi_TenantID (si_VPCIntent intent)
                \<or> sn_LastOperationID value \<noteq> nid_OperationID row
             then throw (databaseFailure (OtherError ''invalid subnet acceptance snapshot''))
             else ret (Some value)
         | _ \<Rightarrow> throw (databaseFailure (OtherError ''json: cannot unmarshal'')))"

definition newSubnet :: "SubnetIntent \<Rightarrow> Attribution \<Rightarrow> go_time \<Rightarrow> Subnet prog" where
  "newSubnet intent attribution now =
     (let common = si_VPCIntent intent; tenant = vi_TenantID common in
     andThen newUUID (\<lambda>u. let i = ''subnet_'' @ replace_all_dash u in
     andThen newUUID (\<lambda>opID.
     call (q_InsertSubnet tenant i (si_VPCID intent) (vi_Name common) (vi_Description common) (vi_CIDR common) (si_Gateway intent) now opID) (\<lambda>row.
     call (q_InsertOperation tenant opID (RSubnet i) ''create_subnet'' now) (\<lambda>_.
     call (q_InsertReconciliation tenant (RSubnet i) now) (\<lambda>_.
     call (q_GetBinding tenant (si_VPCID intent)) (\<lambda>parentBinding.
     andThen newUUID (\<lambda>bindingID.
     call (q_InsertBinding tenant (RSubnet i) bindingID (nbi_ClusterID parentBinding) (nbi_Namespace parentBinding) (replace_underscore i)) (\<lambda>_.
     let value = (subnet row)\<lparr>sn_ObservationStale := True\<rparr> in
     andThen (wrapped (marshals [sn_CreatedAt value, sn_UpdatedAt value])) (\<lambda>_.
     call (q_InsertSubnetIdempotency tenant (vi_IdempotencyKey common) (SubnetIntent_Fingerprint intent) i opID (SnapSubnet value) now) (\<lambda>_.
     andThen newUUID (\<lambda>historyID.
     call (q_InsertHistory (accepted_history tenant historyID (RSubnet i) opID attribution now)) (\<lambda>_.
     ret value)))))))))))))"

text \<open>\<^verbatim>\<open>netip.MustParsePrefix\<close> panics on a text that is no prefix.\<close>

definition must_prefix :: "string \<Rightarrow> (v4 \<times> nat) prog" where
  "must_prefix s = (case parse_v4_prefix s of None \<Rightarrow> throw (OtherError ''panic: netip.MustParsePrefix'') | Some p \<Rightarrow> ret p)"

definition acceptSubnet :: "SubnetIntent \<Rightarrow> Attribution \<Rightarrow> duration \<Rightarrow> Subnet tx_outcome prog" where
  "acceptSubnet intent attribution freshness =
     (let common = si_VPCIntent intent; tenant = vi_TenantID common in
     call (q_LockVPC tenant (si_VPCID intent)) (\<lambda>parent.
     call (q_LockSubnetCreationKey tenant (vi_IdempotencyKey common)) (\<lambda>_.
     andThen (subnetReplay intent) (\<lambda>found.
     case found of
       Some value \<Rightarrow> ret (Unsaved value)
     | None \<Rightarrow>
     call q_DatabaseTime (\<lambda>now.
     if nv_State parent \<noteq> Available \<or> (case nv_ObservedAt parent of None \<Rightarrow> True | Some t \<Rightarrow> freshness < time_sub now t)
     then throw (Fail ParentNotReady ''parent VPC requires a fresh available observation'')
     else
     andThen (must_prefix (vi_CIDR common)) (\<lambda>(w, n).
     andThen (must_prefix (nv_Cidr parent)) (\<lambda>(pw, pn).
     if n < pn \<or> \<not> v4_contains pw pn w
     then throw (Fail InvalidArgument ''subnet CIDR must be contained in the parent VPC'')
     else
     call (q_SubnetOverlaps tenant (si_VPCID intent) (vi_CIDR common)) (\<lambda>overlap.
     if overlap then throw (Fail CIDROverlap ''subnet CIDR overlaps an unreleased subnet'')
     else andThen (newSubnet intent attribution now) (\<lambda>value. ret (Commit value))))))))))"

text \<open>The replay is first looked up outside the transaction; \<open>e\<close> and \<open>e'\<close> are the environments of the two.\<close>

definition Postgres_AcceptSubnet :: "env \<Rightarrow> env \<Rightarrow> SubnetIntent \<Rightarrow> Attribution \<Rightarrow> duration \<Rightarrow> db \<Rightarrow> Subnet res \<times> db" where
  "Postgres_AcceptSubnet e e' intent attribution freshness d =
     (case autocommit (subnetReplay intent) e d of
        (Inl x, d) \<Rightarrow> (Inl x, d)
      | (Inr (Some value), d) \<Rightarrow> (Inr value, d)
      | (Inr None, d) \<Rightarrow> transaction (acceptSubnet intent attribution freshness) e' d)"

definition Postgres_GetSubnet :: "env \<Rightarrow> string \<Rightarrow> string \<Rightarrow> db \<Rightarrow> Subnet res \<times> db" where
  "Postgres_GetSubnet e tenant i = autocommit (call (q_GetSubnet tenant i) (\<lambda>row. ret (subnet row))) e"

definition Postgres_ListSubnets :: "env \<Rightarrow> string \<Rightarrow> SubnetFilter \<Rightarrow> db \<Rightarrow> Subnet list res \<times> db" where
  "Postgres_ListSubnets e tenant f = autocommit (call (q_ListSubnets tenant (sf_VPCID f) (vf_Name (sf_VPCFilter f)) (vf_State (sf_VPCFilter f))
     (vf_AfterID (sf_VPCFilter f)) (vf_AfterCreatedAt (sf_VPCFilter f)) (vf_Limit (sf_VPCFilter f))) (\<lambda>rows. ret (map subnet rows))) e"

definition deleteSubnet :: "string \<Rightarrow> string \<Rightarrow> Subnet tx_outcome prog" where
  "deleteSubnet tenant i =
     call (q_GetSubnet tenant i) (\<lambda>initial.
     call (q_LockVPC tenant (nsu_VpcID initial)) (\<lambda>_.
     call (q_LockSubnet tenant i) (\<lambda>row.
     if nsu_State row = Deleting \<or> nsu_State row = Deleted then ret (Unsaved (subnet row))
     else
     call (q_BlockingLBForSubnet tenant i) (\<lambda>lbCount.
     if 0 < lbCount then throw (Fail ResourceInUse ''subnet has an unreleased load balancer'')
     else
     call (q_CountAttachments tenant i) (\<lambda>count.
     if count \<noteq> 0 then throw (Fail ResourceInUse ''subnet has unreleased attachments or protocol violations'')
     else
     call (q_GetOperation tenant (nsu_LastOperationID row)) (\<lambda>op.
     if nop_CompletedAt op = None then throw (Fail ResourceBusy ''subnet creation is still active'')
     else
     call q_DatabaseTime (\<lambda>now.
     andThen newUUID (\<lambda>opID.
     call (q_InsertOperation tenant opID (RSubnet i) ''delete_subnet'' now) (\<lambda>_.
     call (q_AdmitSubnetDeletion tenant i (nsu_Version row) opID) (\<lambda>row.
     andThen (affected (q_ScheduleDeletion tenant i)) (\<lambda>_.
     andThen newUUID (\<lambda>historyID.
     call (q_InsertHistory (deleted_history tenant historyID (RSubnet i) opID (nsu_State row) now)) (\<lambda>_.
     ret (Commit (subnet row)))))))))))))))"

definition Postgres_DeleteSubnet :: "env \<Rightarrow> string \<Rightarrow> string \<Rightarrow> db \<Rightarrow> Subnet res \<times> db" where
  "Postgres_DeleteSubnet e tenant i = transaction (deleteSubnet tenant i) e"

end
