(* ===== verification/Net_Store_Egress.thy ===== *)
theory Net_Store_Egress
  imports Net_Store
begin

text \<open>
  The repository of tenant addresses and SNAT bindings: \<^verbatim>\<open>internal/data/network/egress.go\<close>, and
  \<^verbatim>\<open>requireBaseConnectivity\<close> of \<^verbatim>\<open>base_connectivity.go\<close>. A \<^verbatim>\<open>pgtype.Bool\<close> is a \<open>bool option\<close>.
\<close>

section \<open>Conversions\<close>

definition eip_metadata :: "NetworkEip \<Rightarrow> EgressMetadata" where
  "eip_metadata r = \<lparr>em_ID = nei_EipID r, em_Name = nei_Name r, em_Description = nei_Description r, em_State = nei_State r,
     em_Reason = nei_Reason r, em_Version = nei_Version r, em_CreatedAt = nei_CreatedAt r, em_UpdatedAt = nei_UpdatedAt r,
     em_ObservedAt = nei_ObservedAt r, em_ObservationStale = False, em_LastOperationID = nei_LastOperationID r\<rparr>"

definition eipResource :: "NetworkEip \<Rightarrow> EIP" where
  "eipResource r = \<lparr>eip_Metadata = eip_metadata r, eip_TenantID = nei_TenantID r, eip_Address = nei_Address r, eip_BindingID = [],
     eip_BindingState = ''unbound'', eip_BindingTarget = None, eip_Scope = nei_Scope r, eip_ManagedBy = nei_ManagedBy r\<rparr>"

definition snatResource :: "NetworkSnatBinding \<Rightarrow> string \<Rightarrow> VPCSnatBinding" where
  "snatResource r address =
     \<lparr>snat_Metadata = \<lparr>em_ID = nsn_SnatID r, em_Name = nsn_Name r, em_Description = nsn_Description r, em_State = nsn_State r,
        em_Reason = nsn_Reason r, em_Version = nsn_Version r, em_CreatedAt = nsn_CreatedAt r, em_UpdatedAt = nsn_UpdatedAt r,
        em_ObservedAt = nsn_ObservedAt r, em_ObservationStale = False, em_LastOperationID = nsn_LastOperationID r\<rparr>,
      snat_TenantID = nsn_TenantID r, snat_VPCID = nsn_VpcID r, snat_EIPID = nsn_EipID r, snat_EIPAddress = address,
      snat_Purpose = nsn_Purpose r, snat_DesiredEnabled = nsn_DesiredEnabled r, snat_AppliedEnabled = nsn_AppliedEnabled r\<rparr>"

definition eipBindingTarget :: "string \<Rightarrow> string \<Rightarrow> string \<Rightarrow> EIPBindingTarget option" where
  "eipBindingTarget tkind i state = (if tkind = [] then None else Some \<lparr>bt_Kind = tkind, bt_ID = i, bt_State = state\<rparr>)"

definition eip_of_row :: "EIPRow \<Rightarrow> EIP" where
  "eip_of_row r = (eipResource (er_NetworkEip r))\<lparr>eip_BindingID := er_BindingID r, eip_BindingState := er_BindingState r,
     eip_BindingTarget := eipBindingTarget (er_BindingTargetKind r) (er_BindingTargetID r) (er_BindingState r)\<rparr>"

section \<open>Replay and acceptance records\<close>

text \<open>The recorded answer to an intent, \<open>None\<close> when there is none; the snapshot is checked by the caller's test.\<close>

definition egressReplay :: "EgressIntent \<Rightarrow> (NetworkIdempotency \<Rightarrow> snapshot \<Rightarrow> 'a option) \<Rightarrow> 'a option prog" where
  "egressReplay i valid =
     call (q_LockEgressKey (ei_TenantID i) (ei_Kind i) (ei_IdempotencyKey i)) (\<lambda>_.
     call (optional (q_GetEgressIdempotency (ei_TenantID i) (ei_Kind i) (ei_IdempotencyKey i))) (\<lambda>prev.
     case prev of
       None \<Rightarrow> ret None
     | Some row \<Rightarrow>
         if nid_FingerprintVersion row \<noteq> 1 \<or> nid_Fingerprint row \<noteq> EgressIntent_Fingerprint i
         then throw (Fail IdempotencyConflict ''key already accepted another intent'')
         else case valid row (nid_Response row) of
           None \<Rightarrow> throw (databaseFailure (OtherError ''invalid egress acceptance snapshot''))
         | Some v \<Rightarrow> ret (Some v)))"

definition eip_snapshot :: "EgressIntent \<Rightarrow> NetworkIdempotency \<Rightarrow> snapshot \<Rightarrow> EIP option" where
  "eip_snapshot i row s = (case s of
      SnapEip v \<Rightarrow> if eip_TenantID v = ei_TenantID i \<and> nid_Ref row = REip (em_ID (eip_Metadata v))
          \<and> em_LastOperationID (eip_Metadata v) = nid_OperationID row then Some v else None
    | _ \<Rightarrow> None)"

definition snat_snapshot :: "EgressIntent \<Rightarrow> NetworkIdempotency \<Rightarrow> snapshot \<Rightarrow> VPCSnatBinding option" where
  "snat_snapshot i row s = (case s of
      SnapSnat v \<Rightarrow> if snat_TenantID v = ei_TenantID i \<and> nid_Ref row = RSnat (em_ID (snat_Metadata v))
          \<and> em_LastOperationID (snat_Metadata v) = nid_OperationID row then Some v else None
    | _ \<Rightarrow> None)"

definition insertEgressAcceptance ::
  "EgressIntent \<Rightarrow> Attribution \<Rightarrow> snapshot \<Rightarrow> EgressMetadata \<Rightarrow> ref \<Rightarrow> string \<Rightarrow> string \<Rightarrow> go_time \<Rightarrow> bool \<Rightarrow> unit prog" where
  "insertEgressAcceptance i a v meta r cluster namespace now newResource =
     call (q_InsertOperation (ei_TenantID i) (em_LastOperationID meta) r (ei_Kind i) now) (\<lambda>_.
     andThen (if newResource
       then call (q_InsertReconciliation (ei_TenantID i) r now) (\<lambda>_.
            andThen newUUID (\<lambda>bindingID.
            call (q_InsertBinding (ei_TenantID i) r bindingID cluster namespace (replace_underscore (em_ID meta))) (\<lambda>_. ret ())))
       else affected (q_ScheduleDeletion (ei_TenantID i) (em_ID meta))) (\<lambda>_.
     andThen (marshals ([em_CreatedAt meta, em_UpdatedAt meta] @ (case em_ObservedAt meta of None \<Rightarrow> [] | Some t \<Rightarrow> [t]))) (\<lambda>_.
     call (q_InsertEgressIdempotency (ei_TenantID i) (ei_Kind i) (ei_IdempotencyKey i) (EgressIntent_Fingerprint i) r (em_LastOperationID meta) v now) (\<lambda>_.
     andThen newUUID (\<lambda>historyID.
     wrapped (q_InsertHistory
       \<lparr>nhi_TenantID = ei_TenantID i, nhi_HistoryID = historyID, nhi_Ref = r, nhi_OperationID = Some (em_LastOperationID meta),
        nhi_Event = ei_Kind i @ ''_accepted'', nhi_ResourceState = em_State meta, nhi_OperationState = Some Queued, nhi_Reason = NoReason,
        nhi_ActorRef = at_Actor a, nhi_CallerRef = at_DirectCaller a, nhi_CorrelationID = at_CorrelationID a, nhi_CreatedAt = now\<rparr>))))))"

section \<open>Addresses\<close>

definition newEIP :: "Postgres \<Rightarrow> EgressIntent \<Rightarrow> Attribution \<Rightarrow> duration \<Rightarrow> EIP prog" where
  "newEIP p i a freshness =
     call (q_LockPlatformCluster (pg_ClusterID p)) (\<lambda>_.
     call (optional (q_GetDefaultPublicPool (pg_ClusterID p))) (\<lambda>def.
     case def of
       None \<Rightarrow> throw (Fail PublicEgressNotReady ''default public pool is not ready'')
     | Some def \<Rightarrow>
     call (q_LockPublicPool (pg_ClusterID p) (ndp_PoolID def)) (\<lambda>pool.
     call q_DatabaseTime (\<lambda>now.
     andThen (poolReady pool now freshness True) (\<lambda>_.
     call (q_EnsureTenantNamespace (ei_TenantID i) (pg_ClusterID p) (pg_NamespacePrefix p @ ei_TenantID i)) (\<lambda>_.
     call (q_GetTenantNamespace (ei_TenantID i) (pg_ClusterID p)) (\<lambda>namespace.
     andThen (newEgressID ''eip'') (\<lambda>eipID. andThen newUUID (\<lambda>opID.
     call (q_InsertEIP (ei_TenantID i) eipID (pg_ClusterID p) namespace (ei_Name i) (ei_Description i) (npp_ResourceID pool)
        (npp_ConfigRevision pool) now opID) (\<lambda>row.
     let v = (eipResource row)\<lparr>eip_Metadata := (eip_metadata row)\<lparr>em_ObservationStale := True\<rparr>\<rparr> in
     andThen (insertEgressAcceptance i a (SnapEip v) (eip_Metadata v) (REip (nei_EipID row)) (nei_ClusterID row) (nei_Namespace row) now True) (\<lambda>_.
     ret v)))))))))))"

definition acceptEIP :: "Postgres \<Rightarrow> EgressIntent \<Rightarrow> Attribution \<Rightarrow> duration \<Rightarrow> EIP tx_outcome prog" where
  "acceptEIP p i a freshness =
     andThen (egressReplay i (eip_snapshot i)) (\<lambda>replay. case replay of
       Some v \<Rightarrow> ret (Unsaved v)
     | None \<Rightarrow> andThen (newEIP p i a freshness) (\<lambda>v. ret (Commit v)))"

definition Postgres_AcceptEIP :: "Postgres \<Rightarrow> env \<Rightarrow> EgressIntent \<Rightarrow> Attribution \<Rightarrow> duration \<Rightarrow> db \<Rightarrow> EIP res \<times> db" where
  "Postgres_AcceptEIP p e i a freshness = transaction (acceptEIP p i a freshness) e"

definition requireTenantPublicEIP :: "NetworkEip \<Rightarrow> unit prog" where
  "requireTenantPublicEIP row =
     (if nei_Scope row \<noteq> ''public'' \<or> nei_ManagedBy row \<noteq> ''tenant'' then throw (Fail ResourceNotFound ''EIP not found'') else ret ())"

definition requirePublicSnat :: "NetworkSnatBinding \<Rightarrow> unit prog" where
  "requirePublicSnat row =
     (if nsn_Purpose row \<noteq> ''public'' then throw (Fail ResourceNotFound ''SNAT binding not found'') else ret ())"

definition Postgres_GetEIP :: "env \<Rightarrow> string \<Rightarrow> string \<Rightarrow> db \<Rightarrow> EIP res \<times> db" where
  "Postgres_GetEIP e tenant i = autocommit (call (q_GetEIP tenant i) (\<lambda>r. ret (eip_of_row r))) e"

definition Postgres_ListEIPs :: "env \<Rightarrow> string \<Rightarrow> VPCFilter \<Rightarrow> db \<Rightarrow> EIP list res \<times> db" where
  "Postgres_ListEIPs e tenant f = autocommit (call (q_ListEIPs tenant (vf_Name f) (vf_State f) (vf_AfterID f) (vf_AfterCreatedAt f)
     (vf_Limit f)) (\<lambda>rows. ret (map eip_of_row rows))) e"

definition completedOperation :: "string \<Rightarrow> string \<Rightarrow> unit prog" where
  "completedOperation tenant i = call (q_GetOperation tenant i) (\<lambda>op.
     if nop_CompletedAt op = None then throw (Fail ResourceBusy ''resource has an unfinished operation'') else ret ())"

definition deletionRecords :: "string \<Rightarrow> ref \<Rightarrow> string \<Rightarrow> string \<Rightarrow> Attribution \<Rightarrow> go_time \<Rightarrow> unit prog" where
  "deletionRecords tenant r rkind opID a now =
     call (q_InsertOperation tenant opID r (''delete_'' @ rkind) now) (\<lambda>_.
     andThen (affected (q_ScheduleDeletion tenant (ref_id r))) (\<lambda>_.
     andThen newUUID (\<lambda>historyID.
     wrapped (q_InsertHistory
       \<lparr>nhi_TenantID = tenant, nhi_HistoryID = historyID, nhi_Ref = r, nhi_OperationID = Some opID, nhi_Event = ''delete_accepted'',
        nhi_ResourceState = Deleting, nhi_OperationState = Some Queued, nhi_Reason = NoReason, nhi_ActorRef = at_Actor a,
        nhi_CallerRef = at_DirectCaller a, nhi_CorrelationID = at_CorrelationID a, nhi_CreatedAt = now\<rparr>))))"

definition deleteEIP :: "string \<Rightarrow> string \<Rightarrow> Attribution \<Rightarrow> EIP tx_outcome prog" where
  "deleteEIP tenant i a =
     call (q_LockEIP tenant i) (\<lambda>row.
     andThen (requireTenantPublicEIP row) (\<lambda>_.
     if nei_State row = Deleting \<or> nei_State row = Deleted then ret (Unsaved (eipResource row))
     else
     call (q_BlockingSnatForEIP tenant i) (\<lambda>count.
     if 0 < count then throw (Fail EIPInUse ''binding must be removed before releasing the EIP'')
     else
     andThen (completedOperation tenant (nei_LastOperationID row)) (\<lambda>_.
     call q_DatabaseTime (\<lambda>now.
     andThen newUUID (\<lambda>op.
     call (q_AdmitEIPDeletion tenant i (nei_Version row) op) (\<lambda>row.
     andThen (deletionRecords tenant (REip i) ''eip'' op a now) (\<lambda>_.
     ret (Commit (eipResource row))))))))))"

definition Postgres_DeleteEIP :: "env \<Rightarrow> string \<Rightarrow> string \<Rightarrow> Attribution \<Rightarrow> db \<Rightarrow> EIP res \<times> db" where
  "Postgres_DeleteEIP e tenant i a = transaction (deleteEIP tenant i a) e"

section \<open>SNAT bindings\<close>

text \<open>The base connectivity a public binding needs: ready, fresh, its address and binding applied, their provider identities
  known and no mutation pending, and the address claimed by the binding.\<close>

definition base_dependencies :: "NetworkVpcBaseConnectivity \<Rightarrow> NetworkEip \<Rightarrow> NetworkSnatBinding \<Rightarrow> go_time \<Rightarrow> duration \<Rightarrow> bool" where
  "base_dependencies b x s now freshness \<longleftrightarrow> nbc_ProviderReady b \<and> freshTime (nbc_ProviderObservedAt b) now freshness
     \<and> freshResource (nei_State x) (nei_ObservedAt x) now freshness \<and> freshResource (nsn_State s) (nsn_ObservedAt s) now freshness
     \<and> nsn_AppliedEnabled s = Some True"

definition binding_settled :: "string \<Rightarrow> string \<Rightarrow> unit prog" where
  "binding_settled tenant i = call (q_GetBinding tenant i) (\<lambda>binding.
     if nbi_ProviderUid binding = [] \<or> nbi_PendingAction binding \<noteq> NoAction
     then throw (Fail BaseConnectivityNotReady ''base identity or mutation unresolved'') else ret ())"

definition requireBaseConnectivity :: "string \<Rightarrow> string \<Rightarrow> go_time \<Rightarrow> duration \<Rightarrow> unit prog" where
  "requireBaseConnectivity tenant vpcID now freshness =
     call (optional (q_GetBaseConnectivity tenant vpcID)) (\<lambda>b. case b of
       None \<Rightarrow> throw (Fail BaseConnectivityNotReady ''VPC base connectivity has not been ensured'')
     | Some b \<Rightarrow>
     if nbc_Terminating b \<or> nbc_State b \<noteq> ''ready'' \<or> \<not> freshTime (nbc_ObservedAt b) now freshness
     then throw (Fail BaseConnectivityNotReady ''VPC base connectivity is not fresh and ready'')
     else
     call (q_GetEIPInternal tenant (nbc_EipID b)) (\<lambda>x.
     call (q_GetSnatInternal tenant (nbc_SnatID b)) (\<lambda>s.
     if \<not> base_dependencies b x s now freshness
     then throw (Fail BaseConnectivityNotReady ''base dependencies are not ready'')
     else
     andThen (for_each (binding_settled tenant) [vpcID, nbc_EipID b, nbc_SnatID b]) (\<lambda>_.
     call (q_GetEIPClaim tenant (nbc_EipID b)) (\<lambda>claim.
     if er_BindingID claim \<noteq> nbc_SnatID b \<or> er_BindingState claim \<noteq> ''bound''
     then throw (Fail BaseConnectivityNotReady ''base claim has not been confirmed'') else ret ())))))"

text \<open>The checks of a change of an existing binding, and of a new one.\<close>

definition snat_change :: "EgressIntent \<Rightarrow> string \<Rightarrow> string \<Rightarrow> unit prog" where
  "snat_change i vpcID eipID =
     call (q_LockSnat (ei_TenantID i) (ei_ID i)) (\<lambda>prior.
     if nsn_VpcID prior \<noteq> vpcID \<or> nsn_EipID prior \<noteq> eipID then throw (Fail ResourceBusy ''binding parents changed'')
     else if nsn_State prior = Deleted \<or> nsn_State prior = Deleting then throw (Fail ResourceBusy ''binding is being removed'')
     else if nsn_Version prior \<noteq> ei_ExpectedVersion i then throw (Fail ResourceBusy ''binding version changed'')
     else completedOperation (ei_TenantID i) (nsn_LastOperationID prior))"

definition snat_free :: "EgressIntent \<Rightarrow> string \<Rightarrow> string \<Rightarrow> unit prog" where
  "snat_free i vpcID eipID =
     call (q_BlockingSnatForVPC (ei_TenantID i) vpcID) (\<lambda>occupied.
     if 0 < occupied then throw (Fail VPCSnatExists ''VPC already has a binding'')
     else
     call (q_BlockingSnatForEIP (ei_TenantID i) eipID) (\<lambda>occupied.
     if 0 < occupied then throw (Fail EIPInUse ''EIP is reserved by a binding'') else ret ()))"

definition snat_parents_ready :: "EgressIntent \<Rightarrow> string \<Rightarrow> NetworkVpc \<Rightarrow> NetworkEip \<Rightarrow> go_time \<Rightarrow> duration \<Rightarrow> unit prog" where
  "snat_parents_ready i vpcID parent x now freshness =
     andThen (requireBaseConnectivity (ei_TenantID i) vpcID now freshness) (\<lambda>_.
     if \<not> freshResource (nv_State parent) (nv_ObservedAt parent) now freshness
        \<or> \<not> freshResource (nei_State x) (nei_ObservedAt x) now freshness
     then throw (Fail PublicEgressNotReady ''network parents are not ready'')
     else
     andThen (completedOperation (ei_TenantID i) (nei_LastOperationID x)) (\<lambda>_.
     call (q_GetPublicPool (nei_ClusterID x) (nei_PoolID x)) (\<lambda>pool.
     if npp_ConfigRevision pool \<noteq> nei_PoolRevision x then throw (Fail PublicEgressNotReady ''fixed exit configuration changed'')
     else poolReady pool now freshness False)))"

definition placement_matches :: "Postgres \<Rightarrow> NetworkEip \<Rightarrow> NetworkProviderBinding \<Rightarrow> NetworkProviderBinding \<Rightarrow> bool" where
  "placement_matches p x pb eb \<longleftrightarrow> nei_ClusterID x = pg_ClusterID p \<and> nbi_ClusterID pb = nei_ClusterID x
     \<and> nbi_Namespace pb = nei_Namespace x \<and> nbi_Namespace eb = nei_Namespace x \<and> nbi_ClusterID eb = nei_ClusterID x
     \<and> nbi_ProviderUid pb \<noteq> [] \<and> nbi_ProviderUid eb \<noteq> []"

definition claim_for_snat :: "EgressIntent \<Rightarrow> string \<Rightarrow> NetworkEip \<Rightarrow> string \<Rightarrow> go_time \<Rightarrow> unit prog" where
  "claim_for_snat i eipID x snatID now =
     call (q_ClaimEIPForSnat (ei_TenantID i) eipID (nei_ClusterID x) (nei_Namespace x) snatID now) (\<lambda>claimed.
     if claimed \<noteq> 1 then throw (Fail EIPInUse ''EIP is reserved by another target'') else ret ())"

definition newSnat :: "Postgres \<Rightarrow> EgressIntent \<Rightarrow> Attribution \<Rightarrow> duration \<Rightarrow> string \<Rightarrow> string \<Rightarrow> VPCSnatBinding prog" where
  "newSnat p i a freshness vpcID eipID =
     (let tenant = ei_TenantID i; change = (ei_Kind i = ''set_snat_enabled'') in
     call (q_LockVPC tenant vpcID) (\<lambda>parent.
     call (q_LockEIP tenant eipID) (\<lambda>x.
     andThen (requireTenantPublicEIP x) (\<lambda>_.
     andThen (if change then snat_change i vpcID eipID else snat_free i vpcID eipID) (\<lambda>_.
     call q_DatabaseTime (\<lambda>now.
     andThen (if ei_Kind i = ''bind_snat'' \<or> ei_Enabled i then snat_parents_ready i vpcID parent x now freshness else ret ()) (\<lambda>_.
     call (q_GetBinding tenant vpcID) (\<lambda>parentBinding.
     call (q_GetBinding tenant eipID) (\<lambda>eipBinding.
     if \<not> placement_matches p x parentBinding eipBinding
     then throw (Fail ProviderOwnership ''resource placement or identity does not match'')
     else
     andThen newUUID (\<lambda>opID.
     andThen (if change
       then wrapped (q_SetSnatIntent tenant (ei_ID i) (ei_ExpectedVersion i) (ei_Enabled i) opID)
       else andThen (newEgressID ''snat'') (\<lambda>snatID.
         wrapped (q_InsertSnat tenant snatID (nei_ClusterID x) (nei_Namespace x) vpcID eipID now opID))) (\<lambda>row.
     andThen (if ei_Kind i = ''bind_snat'' then claim_for_snat i eipID x (nsn_SnatID row) now else ret ()) (\<lambda>_.
     let v = snatResource row (nei_Address x);
         v = v\<lparr>snat_Metadata := (snat_Metadata v)\<lparr>em_ObservationStale := True\<rparr>\<rparr> in
     andThen (insertEgressAcceptance i a (SnapSnat v) (snat_Metadata v) (RSnat (nsn_SnatID row)) (nsn_ClusterID row) (nsn_Namespace row)
        now (ei_Kind i = ''bind_snat'')) (\<lambda>_.
     ret v)))))))))))))"

definition acceptSnat :: "Postgres \<Rightarrow> EgressIntent \<Rightarrow> Attribution \<Rightarrow> duration \<Rightarrow> VPCSnatBinding tx_outcome prog" where
  "acceptSnat p i a freshness =
     andThen (egressReplay i (snat_snapshot i)) (\<lambda>replay. case replay of
       Some v \<Rightarrow> ret (Unsaved v)
     | None \<Rightarrow>
         andThen (if ei_Kind i = ''set_snat_enabled''
           then call (q_GetSnatInternal (ei_TenantID i) (ei_ID i)) (\<lambda>prior.
             andThen (requirePublicSnat prior) (\<lambda>_. ret (nsn_VpcID prior, nsn_EipID prior)))
           else ret (ei_VPCID i, ei_EIPID i)) (\<lambda>(vpcID, eipID).
         andThen (newSnat p i a freshness vpcID eipID) (\<lambda>v. ret (Commit v))))"

definition Postgres_AcceptSnat :: "Postgres \<Rightarrow> env \<Rightarrow> EgressIntent \<Rightarrow> Attribution \<Rightarrow> duration \<Rightarrow> db \<Rightarrow> VPCSnatBinding res \<times> db" where
  "Postgres_AcceptSnat p e i a freshness = transaction (acceptSnat p i a freshness) e"

definition Postgres_GetSnat :: "env \<Rightarrow> string \<Rightarrow> string \<Rightarrow> bool \<Rightarrow> db \<Rightarrow> VPCSnatBinding res \<times> db" where
  "Postgres_GetSnat e tenant i byVPC = autocommit (call (q_GetSnat tenant i byVPC) (\<lambda>(r, address). ret (snatResource r address))) e"

definition deleteSnat :: "string \<Rightarrow> string \<Rightarrow> Attribution \<Rightarrow> VPCSnatBinding tx_outcome prog" where
  "deleteSnat tenant i a =
     call (q_GetSnatInternal tenant i) (\<lambda>r.
     andThen (requirePublicSnat r) (\<lambda>_.
     call (q_LockVPC tenant (nsn_VpcID r)) (\<lambda>_.
     call (q_LockEIP tenant (nsn_EipID r)) (\<lambda>x.
     andThen (requireTenantPublicEIP x) (\<lambda>_.
     call (q_LockSnat tenant i) (\<lambda>row.
     if nsn_State row = Deleting \<or> nsn_State row = Deleted then ret (Unsaved (snatResource row (nei_Address x)))
     else if nsn_VpcID row \<noteq> nsn_VpcID r \<or> nsn_EipID row \<noteq> nsn_EipID r then throw (Fail ResourceBusy ''binding parents changed'')
     else
     andThen (completedOperation tenant (nsn_LastOperationID row)) (\<lambda>_.
     call q_DatabaseTime (\<lambda>now.
     andThen newUUID (\<lambda>op.
     call (q_AdmitSnatDeletion tenant i (nsn_Version row) op) (\<lambda>row.
     andThen (deletionRecords tenant (RSnat i) ''snat'' op a now) (\<lambda>_.
     ret (Commit (snatResource row (nei_Address x))))))))))))))"

definition Postgres_DeleteSnat :: "env \<Rightarrow> string \<Rightarrow> string \<Rightarrow> Attribution \<Rightarrow> db \<Rightarrow> VPCSnatBinding res \<times> db" where
  "Postgres_DeleteSnat e tenant i a = transaction (deleteSnat tenant i a) e"

end
