(* ===== verification/Net_Queries_LB.thy ===== *)
theory Net_Queries_LB
  imports Net_Queries_Work
begin

text \<open>
  The statements on load balancers, of \<^verbatim>\<open>sqlcgen/load_balancers.sql.go\<close>: first those that the executor runs and those of
  \<^verbatim>\<open>loadLB\<close>, then those of the admission and the deletion of a load balancer.
\<close>

type_synonym resource_id = string

definition lb_row :: "string \<Rightarrow> string \<Rightarrow> NetworkLoadBalancer \<Rightarrow> bool" where
  "lb_row tenant i l \<longleftrightarrow> nlb_TenantID l = tenant \<and> nlb_LbID l = i"

definition q_GetLBInternal :: "string \<Rightarrow> string \<Rightarrow> NetworkLoadBalancer prog" where
  "q_GetLBInternal tenant i = query (\<lambda>d. find_row (lb_row tenant i) (db_lbs d))"

definition q_LockLB :: "string \<Rightarrow> string \<Rightarrow> NetworkLoadBalancer prog" where
  "q_LockLB tenant i = query (\<lambda>d. find_row (lb_row tenant i) (db_lbs d))"

definition q_GetLBConfiguration :: "string \<Rightarrow> string \<Rightarrow> int \<Rightarrow> NetworkLbConfiguration prog" where
  "q_GetLBConfiguration tenant i version = query (\<lambda>d.
     find_row (\<lambda>c. nlc_TenantID c = tenant \<and> nlc_LbID c = i \<and> nlc_ConfigVersion c = version) (db_lb_configurations d))"

definition q_GetLBListener :: "string \<Rightarrow> string \<Rightarrow> NetworkLbListener prog" where
  "q_GetLBListener tenant i = query (\<lambda>d. find_row (\<lambda>l. nll_TenantID l = tenant \<and> nll_LbID l = i) (db_lb_listeners d))"

text \<open>The members of a configuration with their weights.\<close>

definition q_ListLBMembers :: "string \<Rightarrow> string \<Rightarrow> int \<Rightarrow> (NetworkLbMember \<times> int) list prog" where
  "q_ListLBMembers tenant i version = query (\<lambda>d.
     Inr (sort_key (\<lambda>(m, _). nlm_MemberID m) (concat (map (\<lambda>m.
       map (\<lambda>c. (m, ncm_Weight c)) (filter (\<lambda>c. ncm_TenantID c = tenant \<and> ncm_LbID c = i \<and> ncm_ConfigVersion c = version
          \<and> nlm_TenantID m = ncm_TenantID c \<and> nlm_LbID m = ncm_LbID c \<and> nlm_MemberID m = ncm_MemberID c)
         (db_lb_configuration_members d))) (db_lb_members d)))))"

definition q_ListLBSubnetRefs :: "string \<Rightarrow> string \<Rightarrow> NetworkLbSubnetRef list prog" where
  "q_ListLBSubnetRefs tenant i = query (\<lambda>d.
     Inr (sort_key nlr_SubnetID (filter (\<lambda>r. nlr_TenantID r = tenant \<and> nlr_LbID r = i \<and> nlr_ReleasedAt r = None) (db_lb_subnets d))))"

definition lb_kind_name :: "lb_kind \<Rightarrow> string" where
  "lb_kind_name k = (case k of CBackend \<Rightarrow> ''backend'' | CGateway \<Rightarrow> ''gateway'' | CPolicy \<Rightarrow> ''policy'' | CRoute \<Rightarrow> ''route'' | COther s \<Rightarrow> s)"

definition q_ListLBComponents :: "string \<Rightarrow> string \<Rightarrow> NetworkLbComponent list prog" where
  "q_ListLBComponents tenant i = query (\<lambda>d.
     Inr (sort_key (\<lambda>c. (lb_kind_name (nlk_Kind c), nlk_ComponentID c))
       (filter (\<lambda>c. nlk_TenantID c = tenant \<and> nlk_LbID c = i) (db_lb_components d))))"

definition q_ListLBMemberIdentities :: "string \<Rightarrow> string \<Rightarrow> (NetworkLbMember \<times> string) list prog" where
  "q_ListLBMemberIdentities tenant i = query (\<lambda>d.
     Inr (sort_key (\<lambda>(m, _). nlm_MemberID m) (concat (map (\<lambda>m.
       map (\<lambda>a. (m, nta_PodName a)) (filter (\<lambda>a. nta_TenantID a = nlm_TenantID m \<and> nta_AttachmentID a = nlm_AttachmentID m) (db_attachments d)))
       (filter (\<lambda>m. nlm_TenantID m = tenant \<and> nlm_LbID m = i) (db_lb_members d))))))"

definition component_row :: "string \<Rightarrow> string \<Rightarrow> string \<Rightarrow> NetworkLbComponent \<Rightarrow> bool" where
  "component_row tenant i componentID c \<longleftrightarrow> nlk_TenantID c = tenant \<and> nlk_LbID c = i \<and> nlk_ComponentID c = componentID"

definition component_mutation_allowed :: "action \<Rightarrow> string \<Rightarrow> NetworkLbComponent \<Rightarrow> bool" where
  "component_mutation_allowed act identity c = (case act of
      NoAction \<Rightarrow> False
    | ActCreate \<Rightarrow> nlk_PendingAction c = NoAction \<and> nlk_ProviderUid c = []
    | ActUpdate \<Rightarrow> nlk_ProviderUid c \<noteq> [] \<and> nlk_PendingAction c \<in> {NoAction, ActUpdate}
    | ActDelete \<Rightarrow> identity \<noteq> [])"

definition q_BeginLBComponentMutation :: "string \<Rightarrow> string \<Rightarrow> string \<Rightarrow> action \<Rightarrow> string \<Rightarrow> int \<Rightarrow> int prog" where
  "q_BeginLBComponentMutation tenant i componentID act identity targetVersion = stmt (\<lambda>clk d.
     let P = (\<lambda>c. component_row tenant i componentID c \<and> nlk_DeletedAt c = None \<and> uid_open (nlk_ProviderUid c) identity
               \<and> component_mutation_allowed act identity c) in
     Inr (count_where P (db_lb_components d), d\<lparr>db_lb_components := update_where P
       (\<lambda>c. c\<lparr>nlk_PendingAction := act, nlk_PendingSince := Some (clk 0), nlk_CreateDispatched := nlk_CreateDispatched c \<or> act = ActCreate,
              nlk_TargetVersion := targetVersion, nlk_ProviderUid := uid_written (nlk_ProviderUid c) identity\<rparr>) (db_lb_components d)\<rparr>))"

definition q_SaveLBComponentObservation :: "string \<Rightarrow> string \<Rightarrow> string \<Rightarrow> string \<Rightarrow> bool \<Rightarrow> bool \<Rightarrow> int \<Rightarrow> int prog" where
  "q_SaveLBComponentObservation tenant i componentID identity clearPending deleted appliedVersion = stmt (\<lambda>clk d.
     let P = (\<lambda>c. component_row tenant i componentID c \<and> uid_open (nlk_ProviderUid c) identity) in
     Inr (count_where P (db_lb_components d), d\<lparr>db_lb_components := update_where P
       (\<lambda>c. c\<lparr>nlk_ProviderUid := uid_written (nlk_ProviderUid c) identity,
              nlk_PendingAction := (if clearPending then NoAction else nlk_PendingAction c),
              nlk_PendingSince := (if clearPending then None else nlk_PendingSince c),
              nlk_AppliedVersion := max (nlk_AppliedVersion c) appliedVersion,
              nlk_TargetVersion := max (nlk_TargetVersion c) appliedVersion,
              nlk_DeletedAt := (if deleted then Some (case nlk_DeletedAt c of None \<Rightarrow> clk 0 | Some t \<Rightarrow> t) else nlk_DeletedAt c)\<rparr>)
       (db_lb_components d)\<rparr>))"

definition q_AdvanceLB ::
  "string \<Rightarrow> string \<Rightarrow> int \<Rightarrow> resource_state \<Rightarrow> reason \<Rightarrow> bool \<Rightarrow> go_time option \<Rightarrow> string \<Rightarrow> int \<Rightarrow> string \<Rightarrow> string \<Rightarrow> NetworkLoadBalancer prog" where
  "q_AdvanceLB tenant i version state reason observed observedAt configurationState appliedVersion occupied absence = stmt (\<lambda>clk d.
     let P = (\<lambda>l. lb_row tenant i l \<and> nlb_Version l = version);
         f = (\<lambda>l. l\<lparr>nlb_State := state, nlb_Reason := reason, nlb_Version := nlb_Version l + 1, nlb_UpdatedAt := clk 0,
            nlb_VipOccupiedRevision := (if occupied \<noteq> [] then occupied else nlb_VipOccupiedRevision l),
            nlb_VipAbsenceRevision := (if nlb_VipAbsenceRevision l = [] then absence else nlb_VipAbsenceRevision l),
            nlb_ObservedAt := (if observed then observedAt else nlb_ObservedAt l),
            nlb_ConfigurationState := configurationState, nlb_AppliedVersion := max (nlb_AppliedVersion l) appliedVersion,
            nlb_DataPlaneState := ''unknown'', nlb_DataPlaneObservedAt := None\<rparr>)
     in map_sum (\<lambda>x. x) (\<lambda>l. (f l, d\<lparr>db_lbs := update_where P f (db_lbs d)\<rparr>)) (find_row P (db_lbs d)))"

definition q_SaveLBMemberObservation :: "string \<Rightarrow> string \<Rightarrow> string \<Rightarrow> bool \<Rightarrow> reason \<Rightarrow> go_time \<Rightarrow> int prog" where
  "q_SaveLBMemberObservation tenant i memberID eligible reason observedAt = stmt (\<lambda>clk d.
     let P = (\<lambda>m. nlm_TenantID m = tenant \<and> nlm_LbID m = i \<and> nlm_MemberID m = memberID
               \<and> (case nlm_ObservedAt m of None \<Rightarrow> True | Some t \<Rightarrow> t \<le> observedAt)) in
     Inr (count_where P (db_lb_members d), d\<lparr>db_lb_members := update_where P
       (\<lambda>m. m\<lparr>nlm_State := (if eligible then ''available'' else ''unavailable''), nlm_Reason := reason, nlm_ObservedAt := Some observedAt\<rparr>)
       (db_lb_members d)\<rparr>))"

text \<open>\<^verbatim>\<open>ON CONFLICT ... DO UPDATE ... WHERE\<close>: a row of the same object is updated when its identity agrees and the observation is
  not older; otherwise no row is affected.\<close>

definition q_SaveLBGenerated :: "NetworkLbGeneratedResource \<Rightarrow> int prog" where
  "q_SaveLBGenerated g = stmt (\<lambda>clk d.
     let same = (\<lambda>x. nlg_TenantID x = nlg_TenantID g \<and> nlg_LbID x = nlg_LbID g \<and> nlg_Kind x = nlg_Kind g \<and> nlg_ProviderUid x = nlg_ProviderUid g);
         P = (\<lambda>x. same x \<and> nlg_GatewayUid x = nlg_GatewayUid g \<and> nlg_Namespace x = nlg_Namespace g
               \<and> nlg_ProviderName x = nlg_ProviderName g \<and> nlg_ObservedAt x \<le> nlg_ObservedAt g)
     in if list_ex same (db_lb_generated d)
        then Inr (count_where P (db_lb_generated d), d\<lparr>db_lb_generated := update_where P
          (\<lambda>x. x\<lparr>nlg_ObservedAt := nlg_ObservedAt g, nlg_ReleasedAt := nlg_ReleasedAt g\<rparr>) (db_lb_generated d)\<rparr>)
        else Inr (1, d\<lparr>db_lb_generated := db_lb_generated d @ [g]\<rparr>))"

definition lb_claim :: "string \<Rightarrow> string \<Rightarrow> NetworkEipClaim \<Rightarrow> bool" where
  "lb_claim tenant i c \<longleftrightarrow> ncl_TenantID c = tenant \<and> ncl_Target c = RLb i \<and> ncl_ReleasedAt c = None"

definition q_ReleaseLBClaim :: "string \<Rightarrow> string \<Rightarrow> unit prog" where
  "q_ReleaseLBClaim tenant i = stmt (\<lambda>clk d. Inr ((), d\<lparr>db_claims :=
     update_where (lb_claim tenant i) (ncl_ReleasedAt_update (\<lambda>_. Some (clk 0))) (db_claims d)\<rparr>))"

definition q_BoundLBClaim :: "string \<Rightarrow> string \<Rightarrow> unit prog" where
  "q_BoundLBClaim tenant i = stmt (\<lambda>clk d. Inr ((), d\<lparr>db_claims :=
     update_where (lb_claim tenant i) (ncl_State_update (\<lambda>_. ''bound'')) (db_claims d)\<rparr>))"

definition q_ReleaseLBVIP :: "string \<Rightarrow> string \<Rightarrow> unit prog" where
  "q_ReleaseLBVIP tenant i = stmt (\<lambda>clk d. Inr ((), d\<lparr>db_lb_vips := update_where
     (\<lambda>v. nvi_TenantID v = tenant \<and> nvi_LbID v = i \<and> nvi_ReleasedAt v = None) (nvi_ReleasedAt_update (\<lambda>_. Some (clk 0))) (db_lb_vips d)\<rparr>))"

text \<open>A reference to a subnet is released when the load balancer is deleted, or when the subnet is neither the entry, nor
  one of a member of the desired configuration, nor one of a member with an undeleted component.\<close>

definition lb_subnet_unused :: "db \<Rightarrow> string \<Rightarrow> int \<Rightarrow> NetworkLbSubnetRef \<Rightarrow> bool" where
  "lb_subnet_unused d entry desired r \<longleftrightarrow> nlr_SubnetID r \<noteq> entry
     \<and> \<not> list_ex (\<lambda>m. nlm_TenantID m = nlr_TenantID r \<and> nlm_LbID m = nlr_LbID r \<and> nlm_SubnetID m = nlr_SubnetID r
          \<and> (list_ex (\<lambda>c. ncm_TenantID c = nlm_TenantID m \<and> ncm_LbID c = nlm_LbID m \<and> ncm_MemberID c = nlm_MemberID m
                \<and> ncm_ConfigVersion c = desired) (db_lb_configuration_members d)
             \<or> list_ex (\<lambda>c. nlk_TenantID c = nlm_TenantID m \<and> nlk_LbID c = nlm_LbID m \<and> nlk_MemberID c = Some (nlm_MemberID m)
                \<and> nlk_DeletedAt c = None) (db_lb_components d))) (db_lb_members d)"

definition q_ReleaseLBSubnetRefs :: "string \<Rightarrow> string \<Rightarrow> bool \<Rightarrow> string \<Rightarrow> int \<Rightarrow> unit prog" where
  "q_ReleaseLBSubnetRefs tenant i deleted entrySubnet desiredVersion = stmt (\<lambda>clk d. Inr ((), d\<lparr>db_lb_subnets := update_where
     (\<lambda>r. nlr_TenantID r = tenant \<and> nlr_LbID r = i \<and> nlr_ReleasedAt r = None \<and> (deleted \<or> lb_subnet_unused d entrySubnet desiredVersion r))
     (nlr_ReleasedAt_update (\<lambda>_. Some (clk 0))) (db_lb_subnets d)\<rparr>))"

section \<open>Admission\<close>

definition nullif :: "string \<Rightarrow> string option" where
  "nullif s = (if s = [] then None else Some s)"

definition q_InsertLB ::
  "string \<Rightarrow> resource_id \<Rightarrow> string \<Rightarrow> string \<Rightarrow> resource_id \<Rightarrow> resource_id \<Rightarrow> string \<Rightarrow> resource_id \<Rightarrow> string \<Rightarrow> string \<Rightarrow> string \<Rightarrow> go_time \<Rightarrow> string
   \<Rightarrow> NetworkLoadBalancer prog" where
  "q_InsertLB tenant lbID cluster namespace vpcID subnetID exposure publicEipID privateIp name description createdAt operationID = stmt (\<lambda>clk d.
     if \<not> pg_text name \<or> \<not> pg_text description then Inl (OtherError ''invalid byte sequence for encoding UTF8: 0x00'')
     else if \<not> hex_id ''lb_'' lbID then Inl (constraint ''network_load_balancers_lb_id_check'')
     else if list_ex (\<lambda>l. nlb_LbID l = lbID) (db_lbs d) then Inl (constraint ''network_load_balancers_lb_id_key'')
     else (let row = \<lparr>nlb_TenantID = tenant, nlb_LbID = lbID, nlb_ClusterID = cluster, nlb_Namespace = namespace, nlb_VpcID = vpcID,
         nlb_SubnetID = subnetID, nlb_Exposure = exposure, nlb_PublicEipID = nullif publicEipID, nlb_PrivateIp = nullif privateIp,
         nlb_State = Provisioning, nlb_Version = 1, nlb_CreatedAt = createdAt, nlb_Name = name, nlb_Description = description,
         nlb_Flavor = ''small'', nlb_Reason = NoReason, nlb_UpdatedAt = createdAt, nlb_ObservedAt = None, nlb_VipOccupiedRevision = [],
         nlb_VipAbsenceRevision = [], nlb_LastOperationID = Some operationID, nlb_DesiredVersion = 1, nlb_AppliedVersion = 0,
         nlb_ConfigurationState = ''pending'', nlb_DataPlaneState = ''unknown'', nlb_DataPlaneObservedAt = None\<rparr>
       in Inr (row, d\<lparr>db_lbs := db_lbs d @ [row]\<rparr>)))"

definition update_lb ::
  "(NetworkLoadBalancer \<Rightarrow> bool) \<Rightarrow> ((nat \<Rightarrow> go_time) \<Rightarrow> NetworkLoadBalancer \<Rightarrow> NetworkLoadBalancer) \<Rightarrow> NetworkLoadBalancer prog" where
  "update_lb P f = stmt (\<lambda>clk d.
     map_sum (\<lambda>x. x) (\<lambda>l. (f clk l, d\<lparr>db_lbs := update_where P (f clk) (db_lbs d)\<rparr>)) (find_row P (db_lbs d)))"

definition q_UpdateLBIntent :: "string \<Rightarrow> string \<Rightarrow> int \<Rightarrow> string \<Rightarrow> string \<Rightarrow> string \<Rightarrow> NetworkLoadBalancer prog" where
  "q_UpdateLBIntent tenant i version name description operationID = stmt (\<lambda>clk d.
     if \<not> pg_text name \<or> \<not> pg_text description then Inl (OtherError ''invalid byte sequence for encoding UTF8: 0x00'')
     else (let P = (\<lambda>l. lb_row tenant i l \<and> nlb_Version l = version \<and> nlb_State l \<notin> {Deleting, Deleted});
         f = (\<lambda>l. l\<lparr>nlb_Name := name, nlb_Description := description, nlb_DesiredVersion := nlb_DesiredVersion l + 1,
           nlb_ConfigurationState := ''pending'', nlb_DataPlaneState := ''unknown'', nlb_DataPlaneObservedAt := None,
           nlb_Version := nlb_Version l + 1, nlb_UpdatedAt := clk 0, nlb_LastOperationID := Some operationID\<rparr>)
       in map_sum (\<lambda>x. x) (\<lambda>l. (f l, d\<lparr>db_lbs := update_where P f (db_lbs d)\<rparr>)) (find_row P (db_lbs d))))"

definition q_AdmitLBDeletion :: "string \<Rightarrow> string \<Rightarrow> int \<Rightarrow> string \<Rightarrow> NetworkLoadBalancer prog" where
  "q_AdmitLBDeletion tenant i version operationID = update_lb (\<lambda>l. lb_row tenant i l \<and> nlb_Version l = version)
     (\<lambda>clk l. l\<lparr>nlb_State := Deleting, nlb_Reason := NoReason, nlb_Version := nlb_Version l + 1, nlb_UpdatedAt := clk 0,
        nlb_LastOperationID := Some operationID, nlb_DataPlaneState := ''unknown'', nlb_DataPlaneObservedAt := None\<rparr>)"

text \<open>The unfinished creation or update is closed by the deletion.\<close>

definition q_RetireLBMutation :: "string \<Rightarrow> string \<Rightarrow> string \<Rightarrow> unit prog" where
  "q_RetireLBMutation tenant i operationID = stmt (\<lambda>clk d.
     Inr ((), d\<lparr>db_operations := update_where
       (\<lambda>o1. nop_TenantID o1 = tenant \<and> nop_Ref o1 = RLb i \<and> nop_OperationID o1 = operationID \<and> nop_CompletedAt o1 = None
          \<and> (nop_Kind o1 = ''create_load_balancer'' \<or> nop_Kind o1 = ''update_load_balancer''))
       (\<lambda>o1. o1\<lparr>nop_State := OpFailed, nop_Reason := MutationTerminated, nop_CompletedAt := Some (clk 0), nop_UpdatedAt := clk 1,
         nop_NextAttemptAt := None\<rparr>) (db_operations d)\<rparr>))"

definition q_InsertLBListener :: "string \<Rightarrow> string \<Rightarrow> string \<Rightarrow> string \<Rightarrow> string \<Rightarrow> int \<Rightarrow> unit prog" where
  "q_InsertLBListener tenant cluster namespace lbID listenerID port = stmt (\<lambda>clk d.
     if list_ex (\<lambda>l. nll_TenantID l = tenant \<and> (nll_LbID l = lbID \<or> nll_ListenerID l = listenerID)) (db_lb_listeners d)
     then Inl (constraint ''network_lb_listeners_pkey'')
     else Inr ((), d\<lparr>db_lb_listeners := db_lb_listeners d @
       [\<lparr>nll_TenantID = tenant, nll_ClusterID = cluster, nll_Namespace = namespace, nll_LbID = lbID, nll_ListenerID = listenerID,
         nll_Protocol = ''HTTP'', nll_Port = port\<rparr>]\<rparr>))"

definition q_ClaimEIPForLB :: "string \<Rightarrow> string \<Rightarrow> string \<Rightarrow> string \<Rightarrow> string \<Rightarrow> go_time \<Rightarrow> int prog" where
  "q_ClaimEIPForLB tenant cluster namespace eipID lbID createdAt = insert_claim
     \<lparr>ncl_TenantID = tenant, ncl_ClusterID = cluster, ncl_Namespace = namespace, ncl_EipID = eipID, ncl_Target = RLb lbID,
      ncl_State = ''reserved'', ncl_CreatedAt = createdAt, ncl_ReleasedAt = None\<rparr>"

text \<open>One reservation per load balancer, and one unreleased reservation of an address in a VPC.\<close>

definition q_ReserveLBVIP :: "string \<Rightarrow> string \<Rightarrow> string \<Rightarrow> string \<Rightarrow> string \<Rightarrow> string \<Rightarrow> string \<Rightarrow> int prog" where
  "q_ReserveLBVIP tenant cluster namespace vpcID subnetID lbID address = stmt (\<lambda>clk d.
     if list_ex (\<lambda>v. nvi_TenantID v = tenant \<and> (nvi_LbID v = lbID
          \<or> nvi_ClusterID v = cluster \<and> nvi_VpcID v = vpcID \<and> nvi_Address v = address \<and> nvi_ReleasedAt v = None)) (db_lb_vips d)
     then Inr (0, d)
     else Inr (1, d\<lparr>db_lb_vips := db_lb_vips d @
       [\<lparr>nvi_TenantID = tenant, nvi_LbID = lbID, nvi_ClusterID = cluster, nvi_Namespace = namespace, nvi_VpcID = vpcID,
         nvi_SubnetID = subnetID, nvi_Address = address, nvi_ReleasedAt = None\<rparr>]\<rparr>))"

definition q_InsertLBConfiguration ::
  "string \<Rightarrow> string \<Rightarrow> string \<Rightarrow> string \<Rightarrow> int \<Rightarrow> string \<Rightarrow> string \<Rightarrow> int \<Rightarrow> int \<Rightarrow> int \<Rightarrow> int \<Rightarrow> int \<Rightarrow> unit prog" where
  "q_InsertLBConfiguration tenant cluster namespace lbID version name description interval timeout unhealthy healthy port = stmt (\<lambda>clk d.
     if list_ex (\<lambda>c. nlc_TenantID c = tenant \<and> nlc_LbID c = lbID \<and> nlc_ConfigVersion c = version) (db_lb_configurations d)
     then Inl (constraint ''network_lb_configurations_pkey'')
     else Inr ((), d\<lparr>db_lb_configurations := db_lb_configurations d @
       [\<lparr>nlc_TenantID = tenant, nlc_ClusterID = cluster, nlc_Namespace = namespace, nlc_LbID = lbID, nlc_ConfigVersion = version,
         nlc_Name = name, nlc_Description = description, nlc_IntervalSeconds = interval, nlc_TimeoutSeconds = timeout,
         nlc_UnhealthyThreshold = unhealthy, nlc_HealthyThreshold = healthy, nlc_CreatedAt = clk 0, nlc_HealthCheckPort = port\<rparr>]\<rparr>))"

text \<open>The argument has the state \<^verbatim>\<open>'available'\<close> and no reason, as the statement inserts them.\<close>

definition q_InsertLBMember :: "NetworkLbMember \<Rightarrow> unit prog" where
  "q_InsertLBMember m = stmt (\<lambda>clk d.
     if list_ex (\<lambda>x. nlm_TenantID x = nlm_TenantID m \<and> nlm_LbID x = nlm_LbID m \<and> nlm_MemberID x = nlm_MemberID m) (db_lb_members d)
     then Inl (constraint ''network_lb_members_pkey'')
     else Inr ((), d\<lparr>db_lb_members := db_lb_members d @ [m\<lparr>nlm_State := ''available'', nlm_Reason := NoReason\<rparr>]\<rparr>))"

definition q_InsertLBConfigurationMember :: "string \<Rightarrow> string \<Rightarrow> string \<Rightarrow> string \<Rightarrow> int \<Rightarrow> string \<Rightarrow> int \<Rightarrow> unit prog" where
  "q_InsertLBConfigurationMember tenant cluster namespace lbID version memberID weight = stmt (\<lambda>clk d.
     if list_ex (\<lambda>c. ncm_TenantID c = tenant \<and> ncm_LbID c = lbID \<and> ncm_ConfigVersion c = version \<and> ncm_MemberID c = memberID)
         (db_lb_configuration_members d)
     then Inl (constraint ''network_lb_configuration_members_pkey'')
     else Inr ((), d\<lparr>db_lb_configuration_members := db_lb_configuration_members d @
       [\<lparr>ncm_TenantID = tenant, ncm_ClusterID = cluster, ncm_Namespace = namespace, ncm_LbID = lbID, ncm_ConfigVersion = version,
         ncm_MemberID = memberID, ncm_Weight = weight\<rparr>]\<rparr>))"

text \<open>The provider name of a component is unique, as are the route and the policy of a load balancer, and the backend of a member.\<close>

definition component_clash :: "NetworkLbComponent \<Rightarrow> NetworkLbComponent \<Rightarrow> bool" where
  "component_clash c x \<longleftrightarrow>
     component_row (nlk_TenantID c) (nlk_LbID c) (nlk_ComponentID c) x
     \<or> nlk_ClusterID x = nlk_ClusterID c \<and> nlk_Namespace x = nlk_Namespace c \<and> nlk_Kind x = nlk_Kind c \<and> nlk_ProviderName x = nlk_ProviderName c
     \<or> nlk_TenantID x = nlk_TenantID c \<and> nlk_LbID x = nlk_LbID c \<and> nlk_MemberID x = nlk_MemberID c
       \<and> (nlk_MemberID c = None \<longrightarrow> nlk_Kind x = nlk_Kind c)"

definition q_InsertLBComponent :: "string \<Rightarrow> string \<Rightarrow> string \<Rightarrow> string \<Rightarrow> string \<Rightarrow> lb_kind \<Rightarrow> string option \<Rightarrow> string \<Rightarrow> unit prog" where
  "q_InsertLBComponent tenant cluster namespace lbID componentID ckind memberID providerName = stmt (\<lambda>clk d.
     let c = \<lparr>nlk_TenantID = tenant, nlk_ClusterID = cluster, nlk_Namespace = namespace, nlk_LbID = lbID, nlk_ComponentID = componentID,
         nlk_Kind = ckind, nlk_MemberID = memberID, nlk_ProviderName = providerName, nlk_ProviderUid = [], nlk_CreateDispatched = False,
         nlk_PendingAction = NoAction, nlk_PendingSince = None, nlk_TargetVersion = 1, nlk_AppliedVersion = 0, nlk_DeletedAt = None\<rparr>
     in if list_ex (component_clash c) (db_lb_components d) then Inl (constraint ''network_lb_components_pkey'')
        else Inr ((), d\<lparr>db_lb_components := db_lb_components d @ [c]\<rparr>))"

text \<open>A reservation that was released is taken again; a new one refers to its load balancer.\<close>

definition subnet_ref :: "string \<Rightarrow> string \<Rightarrow> string \<Rightarrow> NetworkLbSubnetRef \<Rightarrow> bool" where
  "subnet_ref tenant lbID subnetID r \<longleftrightarrow> nlr_TenantID r = tenant \<and> nlr_LbID r = lbID \<and> nlr_SubnetID r = subnetID"

definition q_ReserveLBSubnet :: "string \<Rightarrow> string \<Rightarrow> string \<Rightarrow> string \<Rightarrow> string \<Rightarrow> string \<Rightarrow> unit prog" where
  "q_ReserveLBSubnet tenant cluster namespace lbID vpcID subnetID = stmt (\<lambda>clk d.
     if list_ex (subnet_ref tenant lbID subnetID) (db_lb_subnets d)
     then Inr ((), d\<lparr>db_lb_subnets := update_where (subnet_ref tenant lbID subnetID) (nlr_ReleasedAt_update (\<lambda>_. None)) (db_lb_subnets d)\<rparr>)
     else if \<not> list_ex (\<lambda>l. lb_row tenant lbID l \<and> nlb_ClusterID l = cluster \<and> nlb_Namespace l = namespace \<and> nlb_VpcID l = vpcID) (db_lbs d)
     then Inl (constraint ''network_lb_subnet_refs_tenant_id_fkey'')
     else Inr ((), d\<lparr>db_lb_subnets := db_lb_subnets d @
       [\<lparr>nlr_TenantID = tenant, nlr_ClusterID = cluster, nlr_Namespace = namespace, nlr_LbID = lbID, nlr_VpcID = vpcID,
         nlr_SubnetID = subnetID, nlr_ReleasedAt = None\<rparr>]\<rparr>))"

definition q_InsertLBIdempotency :: "string \<Rightarrow> string \<Rightarrow> string \<Rightarrow> string \<Rightarrow> string \<Rightarrow> string \<Rightarrow> snapshot \<Rightarrow> go_time \<Rightarrow> unit prog" where
  "q_InsertLBIdempotency tenant opkind key fingerprint lbID operationID response createdAt =
     insert_idempotency tenant opkind key fingerprint (RLb lbID) operationID response createdAt"

definition q_GetLBCapability :: "string \<Rightarrow> NetworkLbCapability prog" where
  "q_GetLBCapability cluster = query (\<lambda>d. find_row (\<lambda>c. nca_ClusterID c = cluster) (db_lb_capabilities d))"

definition q_ListLBBackendAttachments :: "string \<Rightarrow> string \<Rightarrow> NetworkAttachment list prog" where
  "q_ListLBBackendAttachments tenant subnetID = query (\<lambda>d.
     Inr (sort_key nta_AttachmentID (filter (\<lambda>a. nta_TenantID a = tenant \<and> nta_SubnetID a = subnetID \<and> nta_State a = Attached
        \<and> \<not> nta_ProtocolBlocked a \<and> nta_Reason a = NoReason) (db_attachments d))))"

definition q_GetLBMember :: "string \<Rightarrow> string \<Rightarrow> string \<Rightarrow> NetworkLbMember prog" where
  "q_GetLBMember tenant lbID memberID = query (\<lambda>d.
     find_row (\<lambda>m. nlm_TenantID m = tenant \<and> nlm_LbID m = lbID \<and> nlm_MemberID m = memberID) (db_lb_members d))"

definition q_ListLBs ::
  "string \<Rightarrow> string \<Rightarrow> string \<Rightarrow> string \<Rightarrow> string \<Rightarrow> string \<Rightarrow> string \<Rightarrow> go_time \<Rightarrow> int \<Rightarrow> NetworkLoadBalancer list prog" where
  "q_ListLBs tenant nameFilter vpcFilter subnetFilter exposureFilter stateFilter afterID afterCreatedAt maxResults = query (\<lambda>d.
     Inr (take (nat maxResults) (newest_first (\<lambda>l. (nlb_CreatedAt l, nlb_LbID l))
       (filter (\<lambda>l. nlb_TenantID l = tenant \<and> nlb_LastOperationID l \<noteq> None \<and> (nameFilter = [] \<or> nlb_Name l = nameFilter)
           \<and> (vpcFilter = [] \<or> nlb_VpcID l = vpcFilter) \<and> (subnetFilter = [] \<or> nlb_SubnetID l = subnetFilter)
           \<and> (exposureFilter = [] \<or> nlb_Exposure l = exposureFilter) \<and> state_matches stateFilter (nlb_State l)
           \<and> keyset_after afterID afterCreatedAt (nlb_CreatedAt l) (nlb_LbID l)) (db_lbs d)))))"

end
