(* ===== verification/Net_Store_Work.thy ===== *)
theory Net_Store_Work
  imports Net_Store_Egress Net_Queries_LB
begin

text \<open>
  The durable executor's half of the repository: \<^verbatim>\<open>worker.go\<close>, \<^verbatim>\<open>resource_work.go\<close>, \<^verbatim>\<open>observation.go\<close>,
  \<^verbatim>\<open>load_balancer_worker.go\<close>, \<^verbatim>\<open>platform_worker.go\<close>, \<^verbatim>\<open>loadLB\<close> of \<^verbatim>\<open>load_balancers.go\<close>, \<^verbatim>\<open>platformSnapshot\<close> of
  \<^verbatim>\<open>platform.go\<close> and the execution half of \<^verbatim>\<open>base_connectivity.go\<close>. Work is claimed under a lease; every later write
  is fenced by the version of the resource and by the owner, the epoch and the end of the lease.
\<close>

section \<open>Resources as work\<close>

definition zero_work :: ResourceWork where
  "zero_work = \<lparr>rw_LoadBalancer = None, rw_BaseRequired = False, rw_SystemManaged = False, rw_Egress = None, rw_ID = [], rw_TenantID = [],
     rw_Kind = OtherKind [], rw_VPCID = [], rw_CIDR = [], rw_Gateway = [], rw_LastOperationID = [], rw_State = Provisioning,
     rw_Reason = NoReason, rw_Version = 0, rw_UpdatedAt = 0, rw_ObservedAt = None\<rparr>"

definition zero_egress :: EgressWorkSpec where
  "zero_egress = \<lparr>es_EIPID = [], es_PoolID = [], es_DesiredEnabled = False, es_TargetGeneration = 0, es_Platform = None\<rparr>"

definition vpcWork :: "NetworkVpc \<Rightarrow> ResourceWork" where
  "vpcWork v = zero_work\<lparr>rw_ID := nv_VpcID v, rw_TenantID := nv_TenantID v, rw_Kind := KVpc, rw_BaseRequired := nv_BaseConnectivityRequired v,
     rw_CIDR := nv_Cidr v, rw_State := nv_State v, rw_Reason := nv_Reason v, rw_Version := nv_Version v, rw_UpdatedAt := nv_UpdatedAt v,
     rw_ObservedAt := nv_ObservedAt v, rw_LastOperationID := nv_LastOperationID v\<rparr>"

definition subnetWork :: "NetworkSubnet \<Rightarrow> ResourceWork" where
  "subnetWork s = zero_work\<lparr>rw_ID := nsu_SubnetID s, rw_TenantID := nsu_TenantID s, rw_Kind := KSubnet, rw_VPCID := nsu_VpcID s,
     rw_CIDR := nsu_Cidr s, rw_Gateway := nsu_Gateway s, rw_State := nsu_State s, rw_Reason := nsu_Reason s, rw_Version := nsu_Version s,
     rw_UpdatedAt := nsu_UpdatedAt s, rw_ObservedAt := nsu_ObservedAt s, rw_LastOperationID := nsu_LastOperationID s\<rparr>"

definition eipWork :: "NetworkEip \<Rightarrow> ResourceWork" where
  "eipWork x = zero_work\<lparr>rw_ID := nei_EipID x, rw_TenantID := nei_TenantID x, rw_Kind := KEip, rw_VPCID := textValue (nei_SystemOwnerVpc x),
     rw_SystemManaged := (nei_ManagedBy x = ''system''), rw_State := nei_State x, rw_Reason := nei_Reason x, rw_Version := nei_Version x,
     rw_UpdatedAt := nei_UpdatedAt x, rw_ObservedAt := nei_ObservedAt x, rw_LastOperationID := nei_LastOperationID x,
     rw_Egress := Some (zero_egress\<lparr>es_PoolID := nei_PoolID x\<rparr>)\<rparr>"

definition snatWork :: "NetworkSnatBinding \<Rightarrow> ResourceWork" where
  "snatWork s = zero_work\<lparr>rw_ID := nsn_SnatID s, rw_TenantID := nsn_TenantID s, rw_Kind := KSnat, rw_VPCID := nsn_VpcID s,
     rw_SystemManaged := (nsn_Purpose s = ''intranet''), rw_State := nsn_State s, rw_Reason := nsn_Reason s, rw_Version := nsn_Version s,
     rw_UpdatedAt := nsn_UpdatedAt s, rw_ObservedAt := nsn_ObservedAt s, rw_LastOperationID := nsn_LastOperationID s,
     rw_Egress := Some (zero_egress\<lparr>es_EIPID := nsn_EipID s, es_DesiredEnabled := nsn_DesiredEnabled s,
       es_TargetGeneration := nsn_TargetGeneration s\<rparr>)\<rparr>"

definition lbWork :: "NetworkLoadBalancer \<Rightarrow> ResourceWork" where
  "lbWork l = zero_work\<lparr>rw_ID := nlb_LbID l, rw_TenantID := nlb_TenantID l, rw_Kind := KLoadBalancer, rw_VPCID := nlb_VpcID l,
     rw_State := nlb_State l, rw_Reason := nlb_Reason l, rw_Version := nlb_Version l, rw_UpdatedAt := nlb_UpdatedAt l,
     rw_ObservedAt := nlb_ObservedAt l, rw_LastOperationID := textValue (nlb_LastOperationID l)\<rparr>"

text \<open>A load balancer is locked after its VPC, its subnets in order, and its address.\<close>

definition lockLBWork :: "string \<Rightarrow> string \<Rightarrow> ResourceWork prog" where
  "lockLBWork tenant i =
     andThen (q_GetLBInternal tenant i) (\<lambda>r.
     andThen (q_LockVPC tenant (nlb_VpcID r)) (\<lambda>_.
     andThen (q_ListLBSubnetRefs tenant i) (\<lambda>refs.
     andThen (for_each (\<lambda>s. andThen (q_LockSubnet tenant s) (\<lambda>_. ret ())) (sort_compact (nlb_SubnetID r # map nlr_SubnetID refs))) (\<lambda>_.
     andThen (case nlb_PublicEipID r of None \<Rightarrow> ret () | Some x \<Rightarrow> andThen (q_LockEIP tenant x) (\<lambda>_. ret ())) (\<lambda>_.
     andThen (q_LockLB tenant i) (\<lambda>r. ret (lbWork r)))))))"

definition claim_candidate :: "DueResource \<Rightarrow> NetworkVpc option \<Rightarrow> NetworkEip option \<Rightarrow> ResourceWork option prog" where
  "claim_candidate c v x = (case dr_Kind c of
      KLoadBalancer \<Rightarrow> andThen (lockLBWork (dr_TenantID c) (dr_ResourceID c)) (\<lambda>r. ret (Some r))
    | KVpc \<Rightarrow> ret (Some (case v of Some v \<Rightarrow> vpcWork v | None \<Rightarrow> zero_work\<lparr>rw_Kind := KVpc\<rparr>))
    | KSubnet \<Rightarrow> andThen (q_LockSubnet (dr_TenantID c) (dr_ResourceID c)) (\<lambda>s. ret (Some (subnetWork s)))
    | KEip \<Rightarrow> ret (Some (case x of Some x \<Rightarrow> eipWork x | None \<Rightarrow> zero_work\<lparr>rw_Kind := KEip, rw_Egress := Some zero_egress\<rparr>))
    | KSnat \<Rightarrow> andThen (optional (q_TryLockWorkSnat (dr_TenantID c) (dr_ResourceID c))) (\<lambda>s. ret (map_option snatWork s))
    | _ \<Rightarrow> throw ErrLeaseLost)"

text \<open>The first candidate whose parents are free; \<open>None\<close> from a step is \<^verbatim>\<open>continue\<close>.\<close>

fun claim_first :: "DueResource list \<Rightarrow> ResourceWork prog" where
  "claim_first [] = throw ErrNoRows"
| "claim_first (c # cs) =
     andThen (if dr_ParentVpcID c \<noteq> [] then andThen (optional (q_TryLockWorkVPC (dr_TenantID c) (dr_ParentVpcID c))) (\<lambda>v. ret (v = None, v))
              else ret (False, None)) (\<lambda>(busy, v).
     if busy then claim_first cs
     else andThen (if dr_ParentEipID c \<noteq> [] then andThen (optional (q_TryLockWorkEIP (dr_TenantID c) (dr_ParentEipID c))) (\<lambda>x. ret (x = None, x))
              else ret (False, None)) (\<lambda>(busy, x).
     if busy then claim_first cs
     else andThen (claim_candidate c v x) (\<lambda>r. case r of Some r \<Rightarrow> ret r | None \<Rightarrow> claim_first cs)))"

definition claimResource :: "ResourceWork prog" where
  "claimResource = andThen q_DueResourceCandidates claim_first"

text \<open>Locking the resource of a work item again, parents first.\<close>

definition lockResource :: "ResourceWork \<Rightarrow> ResourceWork prog" where
  "lockResource r =
     (if rw_Kind r = KLoadBalancer then lockLBWork (rw_TenantID r) (rw_ID r)
      else if rw_Kind r = KEip then
        andThen (if rw_VPCID r \<noteq> [] then andThen (q_LockVPC (rw_TenantID r) (rw_VPCID r)) (\<lambda>_. ret ()) else ret ()) (\<lambda>_.
        andThen (q_LockEIP (rw_TenantID r) (rw_ID r)) (\<lambda>x. ret (eipWork x)))
      else if rw_Kind r = KSnat then
        (case rw_Egress r of
           None \<Rightarrow> throw ErrLeaseLost
         | Some spec \<Rightarrow>
             andThen (q_LockVPC (rw_TenantID r) (rw_VPCID r)) (\<lambda>_.
             andThen (q_LockEIP (rw_TenantID r) (es_EIPID spec)) (\<lambda>_.
             andThen (q_LockSnat (rw_TenantID r) (rw_ID r)) (\<lambda>s.
             if nsn_VpcID s \<noteq> rw_VPCID r \<or> nsn_EipID s \<noteq> es_EIPID spec then throw ErrLeaseLost else ret (snatWork s)))))
      else
        let parent = (if rw_Kind r = KSubnet then rw_VPCID r else rw_ID r) in
        andThen (q_LockVPC (rw_TenantID r) parent) (\<lambda>v.
        if rw_Kind r = KVpc then ret (vpcWork v)
        else if rw_Kind r \<noteq> KSubnet then throw ErrLeaseLost
        else andThen (q_LockSubnet (rw_TenantID r) (rw_ID r)) (\<lambda>s.
          if nsu_VpcID s \<noteq> parent then throw ErrLeaseLost else ret (subnetWork s))))"

definition proofTime :: "bool \<Rightarrow> ObservationProof \<Rightarrow> go_time option" where
  "proofTime observed proof = (if observed then Some (pr_CollectedAt proof) else None)"

definition coveredGeneration :: "bool \<Rightarrow> ObservationProof \<Rightarrow> ObservationRequirement \<Rightarrow> int" where
  "coveredGeneration observed proof requirement =
     (if observed then min (pr_CoveredGeneration proof) (rq_RequestedGeneration requirement) else 0)"

definition no_facts :: EgressAppliedFacts where
  "no_facts = \<lparr>ef_ProviderImages = [], ef_Address = [], ef_AppliedEnabled = None, ef_TargetGeneration = 0, ef_DeviceNodes = []\<rparr>"

definition applied_facts :: "Progress \<Rightarrow> EgressAppliedFacts" where
  "applied_facts p = (case pg_Egress p of Some f \<Rightarrow> if pg_Observed p then f else no_facts | None \<Rightarrow> no_facts)"

definition advanceResource :: "ResourceWork \<Rightarrow> Progress \<Rightarrow> ResourceWork prog" where
  "advanceResource r p =
     (let tenant = rw_TenantID r; i = rw_ID r; v = rw_Version r; st = pg_State p; re = pg_Reason p; ob = pg_Observed p;
          taken = proofTime (pg_Observed p) (pg_Proof p) in
      if rw_Kind r = KLoadBalancer then
        (let o1 = (if ob then pg_LoadBalancer p else None) in
         andThen (q_AdvanceLB tenant i v st re ob taken (case o1 of Some l \<Rightarrow> lo_ConfigurationState l | None \<Rightarrow> ''unknown'')
           (case o1 of Some l \<Rightarrow> lo_AppliedVersion l | None \<Rightarrow> 0) (case o1 of Some l \<Rightarrow> lo_VIPOccupiedRevision l | None \<Rightarrow> [])
           (case o1 of Some l \<Rightarrow> lo_VIPAbsenceRevision l | None \<Rightarrow> [])) (\<lambda>l. ret (lbWork l)))
      else if rw_Kind r = KEip then
        andThen (q_AdvanceEIP tenant i v st re ob taken (ef_Address (applied_facts p))) (\<lambda>x. ret (eipWork x))
      else if rw_Kind r = KSnat then
        andThen (q_AdvanceSnat tenant i v st re ob taken (ef_AppliedEnabled (applied_facts p)) (ef_TargetGeneration (applied_facts p))) (\<lambda>s. ret (snatWork s))
      else if rw_Kind r = KSubnet then andThen (q_AdvanceSubnet tenant i v st re ob taken) (\<lambda>s. ret (subnetWork s))
      else andThen (q_AdvanceVPC tenant i v st re ob taken) (\<lambda>x. ret (vpcWork x)))"

section \<open>Base connectivity in the executor\<close>

definition no_attribution :: Attribution where
  "no_attribution = \<lparr>at_Actor = [], at_DirectCaller = [], at_CorrelationID = []\<rparr>"

text \<open>The internal binding is deleted before the internal address; \<open>True\<close> once both are gone.\<close>

definition prepareBaseCleanup :: "NetworkVpcBaseConnectivity \<Rightarrow> go_time \<Rightarrow> bool prog" where
  "prepareBaseCleanup b now =
     (let tenant = nbc_TenantID b in
     call (q_LockEIP tenant (nbc_EipID b)) (\<lambda>x.
     call (q_LockSnat tenant (nbc_SnatID b)) (\<lambda>s.
     if nsn_State s \<noteq> Deleted then
       (if nsn_State s \<noteq> Deleting then
          call (q_RetireActiveOperation tenant (nsn_LastOperationID s)) (\<lambda>_.
          andThen newUUID (\<lambda>op.
          call (q_AdmitSnatDeletion tenant (nsn_SnatID s) (nsn_Version s) op) (\<lambda>_.
          andThen (deletionRecords tenant (RSnat (nsn_SnatID s)) ''snat'' op no_attribution now) (\<lambda>_. ret False))))
        else ret False)
     else if nei_State x \<noteq> Deleted then
       (if nei_State x \<noteq> Deleting then
          call (q_RetireActiveOperation tenant (nei_LastOperationID x)) (\<lambda>_.
          andThen newUUID (\<lambda>op.
          call (q_AdmitEIPDeletion tenant (nei_EipID x) (nei_Version x) op) (\<lambda>_.
          andThen (deletionRecords tenant (REip (nei_EipID x)) ''eip'' op no_attribution now) (\<lambda>_. ret False))))
        else ret False)
     else ret True)))"

definition baseWorkGate :: "Postgres \<Rightarrow> ResourceWork \<Rightarrow> go_time \<Rightarrow> reason prog" where
  "baseWorkGate p r now =
     (if rw_Kind r \<noteq> KVpc \<and> \<not> rw_SystemManaged r then ret NoReason
      else call (optional (q_GetBaseConnectivity (rw_TenantID r) (if rw_Kind r = KVpc then rw_ID r else rw_VPCID r))) (\<lambda>b. case b of
        None \<Rightarrow> ret NoReason
      | Some b \<Rightarrow>
          if rw_Kind r = KVpc then
            (if rw_State r \<noteq> Deleting \<and> rw_State r \<noteq> Deleted then ret NoReason
             else andThen (prepareBaseCleanup b now) (\<lambda>done. ret (if done then NoReason else CleanupPending)))
          else if rw_State r = Deleting \<or> rw_State r = Deleted then ret NoReason
          else if nbc_Terminating b \<or> \<not> nbc_ProviderReady b \<or> \<not> freshTime (nbc_ProviderObservedAt b) now (baseFreshnessLimit p)
          then ret BaseConnectivityNotReady
          else if rw_Kind r = KSnat then
            call (q_GetEIPInternal (rw_TenantID r) (nbc_EipID b)) (\<lambda>x.
            call (q_GetBinding (rw_TenantID r) (nbc_EipID b)) (\<lambda>eb.
            ret (if \<not> freshResource (nei_State x) (nei_ObservedAt x) now (baseFreshnessLimit p) \<or> nbi_ProviderUid eb = []
                   \<or> nbi_PendingAction eb \<noteq> NoAction then BaseConnectivityNotReady else NoReason)))
          else ret NoReason))"

text \<open>The product decision of a VPC with base connectivity: what is stored about it, and the progress it allows.\<close>

definition base_ready :: "Postgres \<Rightarrow> Progress \<Rightarrow> go_time option \<Rightarrow> NetworkEip \<Rightarrow> NetworkSnatBinding \<Rightarrow> go_time \<Rightarrow> bool" where
  "base_ready p progress providerTime x s now \<longleftrightarrow>
     pg_Observed progress \<and> pg_State progress = Available \<and> pg_Identity progress \<noteq> []
     \<and> freshTime providerTime now (baseFreshnessLimit p) \<and> freshResource (nei_State x) (nei_ObservedAt x) now (baseFreshnessLimit p)
     \<and> freshResource (nsn_State s) (nsn_ObservedAt s) now (baseFreshnessLimit p) \<and> nsn_AppliedEnabled s = Some True"

definition settled :: "NetworkProviderBinding \<Rightarrow> bool" where
  "settled b \<longleftrightarrow> nbi_ProviderUid b \<noteq> [] \<and> nbi_PendingAction b = NoAction"

definition base_reason :: "bool \<Rightarrow> Progress \<Rightarrow> NetworkEip \<Rightarrow> NetworkSnatBinding \<Rightarrow> reason" where
  "base_reason providerReady progress x s =
     (if \<not> providerReady \<and> pg_Reason progress \<noteq> NoReason then pg_Reason progress
      else if nei_State x \<noteq> Available \<and> nei_Reason x \<noteq> NoReason then nei_Reason x
      else if nsn_State s \<noteq> Available \<and> nsn_Reason s \<noteq> NoReason then nsn_Reason s
      else BaseConnectivityNotReady)"

definition oldest :: "go_time option list \<Rightarrow> go_time option" where
  "oldest ts = (case [t. Some t \<leftarrow> ts] of [] \<Rightarrow> None | u # us \<Rightarrow> Some (fold min us u))"

definition base_progress :: "Work \<Rightarrow> Progress \<Rightarrow> bool \<Rightarrow> bool \<Rightarrow> reason \<Rightarrow> Progress" where
  "base_progress w progress ready aggregate reason =
     (if ready then progress
      else
       let q = (if wk_ActiveOperation w \<and> pg_State progress \<noteq> Failed
                   \<and> (op_Kind (wk_Operation w) = ''create_vpc'' \<or> op_Kind (wk_Operation w) = ''ensure_vpc_base_connectivity'')
                then progress\<lparr>pg_OperationState := (if pg_OperationState progress \<noteq> Some Blocked then Some Retrying else Some Blocked),
                       pg_Reason := reason, pg_Backoff := True\<rparr>
                else progress)
       in if aggregate \<and> pg_State q = Available
          then q\<lparr>pg_State := (if rw_State (wk_Resource w) = Available \<or> rw_State (wk_Resource w) = Degraded then Degraded else Provisioning),
                 pg_Reason := reason\<rparr>
          else q)"

definition finish_vpc_base :: "Postgres \<Rightarrow> Work \<Rightarrow> Progress \<Rightarrow> go_time \<Rightarrow> NetworkVpcBaseConnectivity \<Rightarrow> Progress prog" where
  "finish_vpc_base p w progress now b =
     (let r = wk_Resource w; tenant = rw_TenantID r;
          providerReady = (pg_Observed progress \<and> pg_State progress = Available \<and> pg_Identity progress \<noteq> []);
          providerTime = (if pg_Observed progress then Some (pr_CollectedAt (pg_Proof progress)) else nbc_ProviderObservedAt b) in
     call (q_GetEIPInternal tenant (nbc_EipID b)) (\<lambda>x.
     call (q_GetSnatInternal tenant (nbc_SnatID b)) (\<lambda>s.
     call (q_GetBinding tenant (nbc_EipID b)) (\<lambda>xb.
     call (q_GetBinding tenant (nbc_SnatID b)) (\<lambda>sb.
     let ready = (base_ready p progress providerTime x s now \<and> settled xb \<and> settled sb);
         state = (if ready then ''ready'' else if nbc_State b = ''ready'' \<or> nbc_State b = ''degraded'' then ''degraded'' else ''pending'');
         reason = (if ready then NoReason else base_reason providerReady progress x s);
         observed = (if ready then oldest [providerTime, nei_ObservedAt x, nsn_ObservedAt s] else None) in
     call (q_SetBaseObservation tenant (rw_ID r) state reason providerReady providerTime observed) (\<lambda>_.
     andThen (if nbc_ProviderReady b \<noteq> providerReady then wrapped (q_NotifyBaseChildren tenant (rw_ID r)) else ret ()) (\<lambda>_.
     andThen (if rw_BaseRequired r then ret True
              else call (optional (q_GetConnectivityRollout (nbc_ClusterID b))) (\<lambda>rollout.
                ret (case rollout of None \<Rightarrow> False | Some v \<Rightarrow> nro_LegacyAggregationEnabled v))) (\<lambda>aggregate.
     ret (base_progress w progress ready aggregate reason)))))))))"

definition finishBaseConnectivity :: "Postgres \<Rightarrow> Work \<Rightarrow> Progress \<Rightarrow> go_time \<Rightarrow> Progress prog" where
  "finishBaseConnectivity p w progress now =
     (let r = wk_Resource w; tenant = rw_TenantID r in
     andThen (if rw_Kind r = KSnat then
         (if pg_State progress = Deleted then wrapped (q_ReleaseSnatClaim tenant (rw_ID r))
          else if pg_Observed progress \<and> (case pg_Egress progress of None \<Rightarrow> False | Some f \<Rightarrow> ef_AppliedEnabled f \<noteq> None)
          then wrapped (q_ConfirmSnatClaim tenant (rw_ID r)) else ret ())
       else ret ()) (\<lambda>_.
     if rw_Kind r \<noteq> KVpc then
       andThen (if rw_SystemManaged r \<and> (rw_State r \<noteq> pg_State progress \<or> rw_Reason r \<noteq> pg_Reason progress \<or> wk_KnownIdentity w \<noteq> pg_Identity progress)
         then wrapped (q_NotifyBaseParent tenant (rw_ID r)) else ret ()) (\<lambda>_. ret progress)
     else
     call (optional (q_GetBaseConnectivity tenant (rw_ID r))) (\<lambda>b. case b of
       None \<Rightarrow> ret progress
     | Some b \<Rightarrow>
         if nbc_Terminating b
         then call (q_SetBaseObservation tenant (rw_ID r) (if pg_State progress = Deleted then ''deleted'' else ''deleting'')
                 (pg_Reason progress) False None None) (\<lambda>_. ret progress)
         else finish_vpc_base p w progress now b)))"

section \<open>Load balancers in the executor\<close>

definition lbBackendRow :: "NetworkLbMember \<Rightarrow> u32 \<Rightarrow> LoadBalancerBackend" where
  "lbBackendRow m weight = \<lparr>lbb_ID = nlm_MemberID m, lbb_SubnetID = nlm_SubnetID m, lbb_Address = nlm_Address m,
     lbb_Port = word_of_int (nlm_Port m), lbb_Weight = weight, lbb_AttachmentID = nlm_AttachmentID m, lbb_State = nlm_State m,
     lbb_Reason = nlm_Reason m, lbb_ObservedAt = nlm_ObservedAt m, lbb_ObservationStale = False\<rparr>"

definition loadLB :: "NetworkLoadBalancer \<Rightarrow> LoadBalancer prog" where
  "loadLB row = (case nlb_LastOperationID row of
      None \<Rightarrow> throw (Fail ResourceNotFound ''load balancer not found'')
    | Some opID \<Rightarrow>
        call (q_GetLBListener (nlb_TenantID row) (nlb_LbID row)) (\<lambda>l.
        call (q_GetLBConfiguration (nlb_TenantID row) (nlb_LbID row) (nlb_DesiredVersion row)) (\<lambda>c.
        call (q_ListLBMembers (nlb_TenantID row) (nlb_LbID row) (nlb_DesiredVersion row)) (\<lambda>members.
        andThen (case nlb_PublicEipID row of None \<Rightarrow> ret []
          | Some x \<Rightarrow> call (q_GetEIPInternal (nlb_TenantID row) x) (\<lambda>x. ret (nei_Address x))) (\<lambda>publicAddress.
        ret \<lparr>lb_Metadata = \<lparr>em_ID = nlb_LbID row, em_Name = nlb_Name row, em_Description = nlb_Description row, em_State = nlb_State row,
               em_Reason = nlb_Reason row, em_Version = nlb_Version row, em_CreatedAt = nlb_CreatedAt row, em_UpdatedAt = nlb_UpdatedAt row,
               em_ObservedAt = nlb_ObservedAt row, em_ObservationStale = False, em_LastOperationID = opID\<rparr>,
             lb_TenantID = nlb_TenantID row, lb_VPCID = nlb_VpcID row, lb_SubnetID = nlb_SubnetID row, lb_Exposure = nlb_Exposure row,
             lb_Flavor = nlb_Flavor row, lb_PublicEIPID = textValue (nlb_PublicEipID row), lb_PrivateIP = textValue (nlb_PrivateIp row),
             lb_PublicAddress = publicAddress, lb_Listener = \<lparr>ll_ID = nll_ListenerID l, ll_Port = word_of_int (nll_Port l)\<rparr>,
             lb_Backends = map (\<lambda>(m, weight). lbBackendRow m (word_of_int weight)) members,
             lb_Health = \<lparr>lh_IntervalSeconds = word_of_int (nlc_IntervalSeconds c), lh_TimeoutSeconds = word_of_int (nlc_TimeoutSeconds c),
               lh_UnhealthyThreshold = word_of_int (nlc_UnhealthyThreshold c), lh_HealthyThreshold = word_of_int (nlc_HealthyThreshold c),
               lh_Port = word_of_int (nlc_HealthCheckPort c)\<rparr>,
             lb_DesiredVersion = nlb_DesiredVersion row, lb_AppliedVersion = nlb_AppliedVersion row,
             lb_ConfigurationState = nlb_ConfigurationState row, lb_DataPlaneState = nlb_DataPlaneState row,
             lb_DataPlaneObservedAt = nlb_DataPlaneObservedAt row\<rparr>)))))"

definition gateway_component :: "NetworkProviderBinding \<Rightarrow> LoadBalancerComponent" where
  "gateway_component b = \<lparr>co_ID = nbi_BindingID b, co_Kind = CGateway, co_MemberID = [], co_Name = nbi_ProviderName b,
     co_Identity = nbi_ProviderUid b, co_PendingAction = nbi_PendingAction b, co_CreateDispatched = nbi_CreateDispatched b,
     co_Deleted = False, co_TargetVersion = 1, co_AppliedVersion = 0\<rparr>"

definition lbComponentRow :: "NetworkLbComponent \<Rightarrow> LoadBalancerComponent" where
  "lbComponentRow c = \<lparr>co_ID = nlk_ComponentID c, co_Kind = nlk_Kind c, co_MemberID = textValue (nlk_MemberID c), co_Name = nlk_ProviderName c,
     co_Identity = nlk_ProviderUid c, co_PendingAction = nlk_PendingAction c, co_CreateDispatched = nlk_CreateDispatched c,
     co_Deleted = (nlk_DeletedAt c \<noteq> None), co_TargetVersion = nlk_TargetVersion c, co_AppliedVersion = nlk_AppliedVersion c\<rparr>"

definition lb_member_identity :: "NetworkLbMember \<times> string \<Rightarrow> LoadBalancerMemberIdentity" where
  "lb_member_identity = (\<lambda>(m, podName). \<lparr>mi_Backend = \<lparr>lbb_ID = nlm_MemberID m, lbb_SubnetID = nlm_SubnetID m, lbb_Address = nlm_Address m,
       lbb_Port = word_of_int (nlm_Port m), lbb_Weight = 0, lbb_AttachmentID = nlm_AttachmentID m, lbb_State = [], lbb_Reason = NoReason,
       lbb_ObservedAt = None, lbb_ObservationStale = False\<rparr>, mi_PodName = podName, mi_PodUID = nlm_PodUid m, mi_VNicName = nlm_VnicName m,
     mi_VNicUID = nlm_VnicUid m, mi_VNicIPName = nlm_VnicipName m, mi_VNicIPUID = nlm_VnicipUid m\<rparr>)"

definition hydrateLBWork :: "ResourceWork \<Rightarrow> NetworkProviderBinding \<Rightarrow> ResourceWork prog" where
  "hydrateLBWork work b =
     andThen (q_GetLBInternal (rw_TenantID work) (rw_ID work)) (\<lambda>r.
     andThen (loadLB r) (\<lambda>v.
     andThen (q_ListLBComponents (nlb_TenantID r) (nlb_LbID r)) (\<lambda>cs.
     andThen (q_ListLBMemberIdentities (nlb_TenantID r) (nlb_LbID r)) (\<lambda>ms.
     ret (work\<lparr>rw_LoadBalancer := Some \<lparr>lw_VIPOccupiedRevision = nlb_VipOccupiedRevision r, lw_VIPAbsenceRevision = nlb_VipAbsenceRevision r,
       lw_LoadBalancer = v, lw_Members = map lb_member_identity ms, lw_Components = gateway_component b # map lbComponentRow cs\<rparr>\<rparr>)))))"

text \<open>An observation without an identity keeps the known one; the last component of that identifier counts.\<close>

definition known_identity :: "LoadBalancerWork \<Rightarrow> LoadBalancerComponentObservation \<Rightarrow> string" where
  "known_identity lw c = (if cb_Identity c \<noteq> [] then cb_Identity c
     else fold (\<lambda>known acc. if co_ID known = cb_ID c then co_Identity known else acc) (lw_Components lw) [])"

definition finishLB :: "Postgres \<Rightarrow> Work \<Rightarrow> Progress \<Rightarrow> unit prog" where
  "finishLB p w pv =
     (case (rw_LoadBalancer (wk_Resource w), if pg_Observed pv then pg_LoadBalancer pv else None) of
        (Some lw, Some o1) \<Rightarrow>
          (let tenant = rw_TenantID (wk_Resource w); i = rw_ID (wk_Resource w); lb = lw_LoadBalancer lw in
          andThen (for_each (\<lambda>c. if cb_ID c = wk_BindingID w then ret ()
             else affected (q_SaveLBComponentObservation tenant i (cb_ID c) (known_identity lw c) (cb_ClearPending c) (cb_Deleted c) (cb_AppliedVersion c)))
             (lo_Components o1)) (\<lambda>_.
          andThen (for_each (\<lambda>m. affected (q_SaveLBMemberObservation tenant i (mo_ID m) (mo_Eligible m) (mo_Reason m) (pr_CollectedAt (lo_Proof o1))))
             (lo_Members o1)) (\<lambda>_.
          andThen (for_each (\<lambda>g. affected (q_SaveLBGenerated \<lparr>nlg_TenantID = tenant, nlg_ClusterID = pg_ClusterID p, nlg_Namespace = gr_Namespace g,
               nlg_LbID = i, nlg_Kind = gr_Kind g, nlg_ProviderName = gr_Name g, nlg_ProviderUid = gr_Identity g, nlg_GatewayUid = gr_GatewayIdentity g,
               nlg_ObservedAt = pr_CollectedAt (lo_Proof o1),
               nlg_ReleasedAt = (if gr_Released g then Some (pr_CollectedAt (lo_Proof o1)) else None)\<rparr>)) (lo_Generated o1)) (\<lambda>_.
          andThen (if lo_GeneratedReady o1 then q_BoundLBClaim tenant i else ret ()) (\<lambda>_.
          andThen (if pg_State pv = Deleted then
              (if \<not> lo_GeneratedReleased o1 \<or> \<not> lo_AddressReleased o1 then throw ErrLeaseLost
               else andThen (q_ReleaseLBClaim tenant i) (\<lambda>_. q_ReleaseLBVIP tenant i))
            else ret ()) (\<lambda>_.
          q_ReleaseLBSubnetRefs tenant i (pg_State pv = Deleted) (lb_SubnetID lb) (lb_DesiredVersion lb)))))))
      | _ \<Rightarrow> ret ())"

section \<open>The platform lane\<close>

definition platformMetadata :: "NetworkPlatformResource \<Rightarrow> PlatformResource" where
  "platformMetadata r = \<lparr>plr_Metadata = \<lparr>em_ID = npl_ResourceID r, em_Name = npl_Name r, em_Description = npl_Description r,
       em_State = npl_State r, em_Reason = npl_Reason r, em_Version = npl_Version r, em_CreatedAt = npl_CreatedAt r,
       em_UpdatedAt = npl_UpdatedAt r, em_ObservedAt = npl_ObservedAt r, em_ObservationStale = False,
       em_LastOperationID = npl_LastOperationID r\<rparr>,
     plr_ClusterID = npl_ClusterID r, plr_Kind = npl_Kind r, plr_Device = None, plr_Vlan = None, plr_Pool = None,
     plr_AllocationEnabled = False, plr_IsDefault = False, plr_ConfigRevision = 0, plr_TopologyFingerprint = [],
     plr_ObservedProviderImages = [], plr_Verification = None\<rparr>"

definition poolConfig :: "NetworkPublicPool \<Rightarrow> PublicPoolConfig" where
  "poolConfig p = \<lparr>pp_Scope = (if npp_Scope p = ''intranet'' then ''intranet'' else []), pp_DefaultVPCName = npp_DefaultVpcName p,
     pp_DefaultVPCUID = npp_DefaultVpcUid p, pp_IntranetNetworks = npp_IntranetNetworks p, pp_Mode = npp_Mode p,
     pp_GatewayID = textValue (npp_GatewayID p), pp_CIDR = npp_Cidr p, pp_OVNGatewayIP = npp_OvnGatewayIp p,
     pp_ExcludedIPs = npp_ExcludedIps p, pp_VlanNetworkID = textValue (npp_VlanNetworkID p),
     pp_UpstreamGatewayIP = textValue (npp_UpstreamGatewayIp p)\<rparr>"

definition default_is :: "NetworkDefaultPool option \<Rightarrow> string \<Rightarrow> bool" where
  "default_is def i \<longleftrightarrow> (case def of None \<Rightarrow> [] | Some v \<Rightarrow> ndp_PoolID v) = i"

definition platformSnapshot :: "NetworkPlatformResource \<Rightarrow> PlatformResource prog" where
  "platformSnapshot r =
     (let v = platformMetadata r; cluster = npl_ClusterID r; i = npl_ResourceID r in
      if npl_Kind r = ''device'' then
        call (q_GetDeviceAdoption cluster i) (\<lambda>a.
        ret (v\<lparr>plr_Device := Some \<lparr>dc_DeviceName = nda_DeviceName a, dc_InventoryFingerprint = nda_InventoryFingerprint a,
          dc_Nodes = (if nda_NodeProgress a = [] then nda_NodeInventory a else nda_NodeProgress a)\<rparr>\<rparr>))
      else if npl_Kind r = ''vlan'' then
        call (q_GetVlanNetwork cluster i) (\<lambda>a. ret (v\<lparr>plr_Vlan := Some \<lparr>vc_DeviceID = nvl_DeviceID a, vc_VlanID = nvl_VlanID a\<rparr>\<rparr>))
      else if npl_Kind r = ''public_pool'' then
        call (q_GetPublicPool cluster i) (\<lambda>a.
        call (q_PublicPoolTopology cluster i) (\<lambda>topology.
        call (optional (if npp_Scope a = ''intranet'' then q_GetDefaultIntranetPool cluster else q_GetDefaultPublicPool cluster)) (\<lambda>def.
        ret (v\<lparr>plr_Pool := Some (poolConfig a), plr_ConfigRevision := npp_ConfigRevision a,
          plr_TopologyFingerprint := addressPoolTopologyHash a topology, plr_ObservedProviderImages := npl_ProviderImages r,
          plr_AllocationEnabled := npp_AllocationEnabled a, plr_Verification := npp_Verification a, plr_IsDefault := default_is def i,
          plr_Kind := (if npp_Scope a = ''intranet'' then ''intranet_pool'' else npl_Kind r)\<rparr>))))
      else ret v)"

text \<open>\<open>None\<close> is \<^verbatim>\<open>found = false\<close> without an error; a found work item is committed by the caller.\<close>

definition claimPlatform :: "Postgres \<Rightarrow> string \<Rightarrow> duration \<Rightarrow> Work option prog" where
  "claimPlatform p owner duration =
     call (optional (q_DuePlatformCandidate (pg_ClusterID p))) (\<lambda>r. case r of
       None \<Rightarrow> ret None
     | Some r \<Rightarrow>
     if npl_ClusterID r \<noteq> pg_ClusterID p then throw (Fail DependencyUnavailable ''platform placement does not match executor'')
     else
     call (optional (q_AcquirePlatformLease (npl_ResourceID r) owner (microseconds duration))) (\<lambda>lease. case lease of
       None \<Rightarrow> ret None
     | Some lease \<Rightarrow>
     call (q_GetPlatformOperation (pg_ClusterID p) (npl_LastOperationID r)) (\<lambda>op.
     let active = (npo_CompletedAt op = None) in
     andThen (if active then wrapped (q_RunPlatformOperation (npl_ResourceID r) (npo_OperationID op) (npr_LeaseEpoch lease)) else ret op) (\<lambda>op.
     andThen (platformSnapshot r) (\<lambda>value.
     call q_DatabaseTime (\<lambda>now.
     ret (Some \<lparr>wk_GateReason = NoReason, wk_CancelUnsent = False,
       wk_Requirement = \<lparr>rq_RequestedGeneration = npr_RequestedGeneration lease, rq_AppliedAt = npr_EvidenceAppliedAt lease, rq_Hash = npr_EvidenceHash lease\<rparr>,
       wk_Resource = zero_work\<lparr>rw_ID := npl_ResourceID r, rw_Kind := kind_of (npl_Kind r), rw_State := npl_State r, rw_Reason := npl_Reason r,
         rw_Version := npl_Version r, rw_ObservedAt := npl_ObservedAt r, rw_UpdatedAt := npl_UpdatedAt r,
         rw_LastOperationID := npl_LastOperationID r, rw_Egress := Some (zero_egress\<lparr>es_Platform := Some value\<rparr>)\<rparr>,
       wk_Operation = \<lparr>op_ID = npo_OperationID op, op_TenantID = [], op_ResourceID = npl_ResourceID r, op_ResourceType = npl_Kind r,
         op_Kind = npo_Kind op, op_State = npo_State op, op_Reason = npo_Reason op, op_CreatedAt = 0, op_UpdatedAt = 0,
         op_CompletedAt = None, op_NextAttemptAt = None\<rparr>,
       wk_ActiveOperation = active, wk_BindingID = npl_BindingID r, wk_KnownIdentity = npl_ProviderUid r, wk_PendingAction = npl_PendingAction r,
       wk_Owner = owner, wk_Epoch = npr_LeaseEpoch lease, wk_Attempt = npo_Attempt op, wk_Now = now\<rparr>)))))))"

definition lockedPlatform :: "Postgres \<Rightarrow> Work \<Rightarrow> unit prog" where
  "lockedPlatform p w =
     call (optional (q_LockPlatform (pg_ClusterID p) (kind_name (rw_Kind (wk_Resource w))) (rw_ID (wk_Resource w)))) (\<lambda>r. case r of
       None \<Rightarrow> throw ErrLeaseLost
     | Some r \<Rightarrow>
     if npl_Version r \<noteq> rw_Version (wk_Resource w) \<or> npl_BindingID r \<noteq> wk_BindingID w then throw ErrLeaseLost
     else call (optional (q_CheckPlatformLease (npl_ResourceID r) (wk_Owner w) (wk_Epoch w))) (\<lambda>l. case l of
       None \<Rightarrow> throw ErrLeaseLost | Some _ \<Rightarrow> ret ()))"

definition beginPlatformMutation :: "Postgres \<Rightarrow> Work \<Rightarrow> action \<Rightarrow> string \<Rightarrow> unit tx_outcome prog" where
  "beginPlatformMutation p w act identity =
     andThen (lockedPlatform p w) (\<lambda>_.
     andThen (affected (q_BeginPlatformMutation (rw_ID (wk_Resource w)) (wk_BindingID w) act identity)) (\<lambda>_. ret (Commit ())))"

definition finishPlatform :: "Postgres \<Rightarrow> Work \<Rightarrow> Progress \<Rightarrow> unit tx_outcome prog" where
  "finishPlatform p w progress =
     (let res = wk_Resource w; observed = pg_Observed progress; nodes = (case pg_Egress progress of None \<Rightarrow> [] | Some f \<Rightarrow> ef_DeviceNodes f) in
     andThen (lockedPlatform p w) (\<lambda>_.
     if observed \<and> \<not> Covers (pg_Proof progress) (wk_Requirement w) then throw ErrLeaseLost
     else
     call (q_AdvancePlatform (rw_ID res) (rw_Version res) (pg_State progress) (pg_Reason progress) (pg_Identity progress) observed
        (proofTime observed (pg_Proof progress)) (pg_ClearPending progress)) (\<lambda>r.
     andThen (case pg_Egress progress of
         Some f \<Rightarrow> if observed \<and> npl_Kind r = ''public_pool''
           then affected (q_SavePlatformImages (npl_ClusterID r) (npl_ResourceID r) (ef_ProviderImages f)) else ret ()
       | None \<Rightarrow> ret ()) (\<lambda>_.
     andThen (if pg_State progress = Deleted \<and> npl_Kind r = ''vlan'' then affected (q_RetireVlanSlot (npl_ClusterID r) (npl_ResourceID r))
       else if pg_State progress = Deleted \<and> npl_Kind r = ''public_pool'' then affected (q_RetirePublicPoolSlot (npl_ClusterID r) (npl_ResourceID r))
       else ret ()) (\<lambda>_.
     andThen (if nodes \<noteq> [] \<and> npl_Kind r = ''device''
       then andThen (marshals (map ni_ObservedAt nodes)) (\<lambda>_. affected (q_SaveDeviceProgress (npl_ClusterID r) (npl_ResourceID r) nodes))
       else ret ()) (\<lambda>_.
     andThen (if wk_ActiveOperation w
       then affected (q_CompletePlatformAttempt (npl_ResourceID r) (op_ID (wk_Operation w)) (wk_Epoch w) (pg_OperationState progress)
         (pg_Reason progress) (microseconds (pg_NextDelay progress))) else ret ()) (\<lambda>_.
     andThen (if wk_ActiveOperation w \<or> rw_State res \<noteq> pg_State progress \<or> rw_Reason res \<noteq> pg_Reason progress
       then andThen newUUID (\<lambda>historyID. wrapped (q_InsertPlatformHistory
         \<lparr>nph_HistoryID = historyID, nph_ResourceID = npl_ResourceID r, nph_OperationID = (if wk_ActiveOperation w then Some (op_ID (wk_Operation w)) else None),
          nph_Event = ''reconciled'', nph_ResourceState = npl_State r, nph_OperationState = (if wk_ActiveOperation w then pg_OperationState progress else None),
          nph_Reason = npl_Reason r, nph_ActorRef = [], nph_CallerRef = [], nph_CreatedAt = npl_UpdatedAt r\<rparr>))
       else ret ()) (\<lambda>_.
     andThen (affected (q_ReleasePlatformLease (npl_ResourceID r) (wk_Owner w) (wk_Epoch w) (microseconds (pg_NextDelay progress))
        (coveredGeneration observed (pg_Proof progress) (wk_Requirement w)) observed (pr_Hash (pg_Proof progress)) (pg_Backoff progress))) (\<lambda>_.
     ret (Commit ()))))))))))"

section \<open>Claiming work\<close>

definition claim_tenant :: "Postgres \<Rightarrow> string \<Rightarrow> duration \<Rightarrow> ResourceWork \<Rightarrow> Work option tx_outcome prog" where
  "claim_tenant p owner duration r0 =
     call (optional (q_AcquireLease (rw_TenantID r0) (rw_ID r0) owner (microseconds duration))) (\<lambda>lease. case lease of
       None \<Rightarrow> ret (Unsaved None)
     | Some lease \<Rightarrow>
     call (q_GetOperation (rw_TenantID r0) (rw_LastOperationID r0)) (\<lambda>op.
     let active = (nop_CompletedAt op = None) in
     andThen (if active then wrapped (q_RunOperation (rw_TenantID r0) (rw_ID r0) (nop_OperationID op) (nre_LeaseEpoch lease)) else ret op) (\<lambda>op.
     call (q_GetBinding (rw_TenantID r0) (rw_ID r0)) (\<lambda>binding.
     andThen (if rw_Kind r0 = KLoadBalancer then wrapped (hydrateLBWork r0 binding) else ret r0) (\<lambda>r.
     call q_DatabaseTime (\<lambda>now.
     andThen (baseWorkGate p r now) (\<lambda>gate.
     ret (Commit (Some \<lparr>wk_GateReason = gate,
       wk_CancelUnsent = ((rw_State r = Deleting \<or> rw_State r = Deleted) \<and> rw_SystemManaged r \<and> \<not> nbi_CreateDispatched binding
          \<and> nbi_ProviderUid binding = [] \<and> nbi_PendingAction binding = NoAction),
       wk_Requirement = \<lparr>rq_RequestedGeneration = nre_RequestedGeneration lease, rq_AppliedAt = nre_EvidenceAppliedAt lease, rq_Hash = nre_EvidenceHash lease\<rparr>,
       wk_Resource = r, wk_Operation = operation op, wk_ActiveOperation = active, wk_BindingID = nbi_BindingID binding,
       wk_KnownIdentity = nbi_ProviderUid binding, wk_PendingAction = nbi_PendingAction binding, wk_Owner = owner,
       wk_Epoch = nre_LeaseEpoch lease, wk_Attempt = nop_Attempt op, wk_Now = now\<rparr>)))))))))"

text \<open>\<open>turn\<close> is the value of the shared counter after its increment: even turns try the platform lane first.\<close>

definition claim :: "Postgres \<Rightarrow> string \<Rightarrow> duration \<Rightarrow> nat \<Rightarrow> Work option tx_outcome prog" where
  "claim p owner duration turn =
     andThen (if turn mod 2 = 0 then claimPlatform p owner duration else ret None) (\<lambda>first. case first of
       Some w \<Rightarrow> ret (Commit (Some w))
     | None \<Rightarrow>
     call (optional claimResource) (\<lambda>r. case r of
       None \<Rightarrow> andThen (claimPlatform p owner duration) (\<lambda>w. ret (case w of None \<Rightarrow> Unsaved None | Some w \<Rightarrow> Commit (Some w)))
     | Some r \<Rightarrow> claim_tenant p owner duration r))"

definition Postgres_Claim :: "Postgres \<Rightarrow> env \<Rightarrow> string \<Rightarrow> duration \<Rightarrow> nat \<Rightarrow> db \<Rightarrow> Work option res \<times> db" where
  "Postgres_Claim p e owner duration turn = transaction (claim p owner duration turn) e"

section \<open>Fenced writes\<close>

definition lockedWork :: "Work \<Rightarrow> unit prog" where
  "lockedWork w =
     call (optional (lockResource (wk_Resource w))) (\<lambda>row. case row of
       None \<Rightarrow> throw ErrLeaseLost
     | Some row \<Rightarrow>
     if rw_Version row \<noteq> rw_Version (wk_Resource w) then throw ErrLeaseLost
     else call (optional (q_CheckLease (rw_TenantID row) (rw_ID row) (wk_Owner w) (wk_Epoch w))) (\<lambda>l. case l of
       None \<Rightarrow> throw ErrLeaseLost | Some _ \<Rightarrow> ret ()))"

definition beginTenantMutation :: "Work \<Rightarrow> action \<Rightarrow> string \<Rightarrow> unit tx_outcome prog" where
  "beginTenantMutation w act identity =
     (let r = wk_Resource w in
     andThen (lockedWork w) (\<lambda>_.
     andThen (if rw_SystemManaged r \<and> (act = ActCreate \<or> act = ActUpdate)
       then call (q_GetBaseConnectivity (rw_TenantID r) (rw_VPCID r)) (\<lambda>b. if nbc_Terminating b then throw ErrLeaseLost else ret ())
       else ret ()) (\<lambda>_.
     andThen (affected (q_BeginProviderMutation (rw_TenantID r) (rw_ID r) (wk_BindingID w) act identity)) (\<lambda>_. ret (Commit ())))))"

definition beginMutation :: "Postgres \<Rightarrow> Work \<Rightarrow> action \<Rightarrow> string \<Rightarrow> unit tx_outcome prog" where
  "beginMutation p w act identity =
     (if rw_TenantID (wk_Resource w) = [] then beginPlatformMutation p w act identity else beginTenantMutation w act identity)"

definition Postgres_BeginMutation :: "Postgres \<Rightarrow> env \<Rightarrow> Work \<Rightarrow> action \<Rightarrow> string \<Rightarrow> db \<Rightarrow> unit res \<times> db" where
  "Postgres_BeginMutation p e w act identity = transaction (beginMutation p w act identity) e"

definition beginLoadBalancerMutation :: "Work \<Rightarrow> LoadBalancerWork \<Rightarrow> LoadBalancerComponent \<Rightarrow> action \<Rightarrow> string \<Rightarrow> unit tx_outcome prog" where
  "beginLoadBalancerMutation w lw c act identity =
     andThen (lockedWork w) (\<lambda>_.
     if (rw_State (wk_Resource w) = Deleting \<or> rw_State (wk_Resource w) = Deleted) \<and> act \<noteq> ActDelete then throw ErrLeaseLost
     else andThen (affected (q_BeginLBComponentMutation (rw_TenantID (wk_Resource w)) (rw_ID (wk_Resource w)) (co_ID c) act identity
        (lb_DesiredVersion (lw_LoadBalancer lw)))) (\<lambda>_. ret (Commit ())))"

definition Postgres_BeginLoadBalancerMutation ::
  "Postgres \<Rightarrow> env \<Rightarrow> Work \<Rightarrow> LoadBalancerComponent \<Rightarrow> action \<Rightarrow> string \<Rightarrow> db \<Rightarrow> unit res \<times> db" where
  "Postgres_BeginLoadBalancerMutation p e w c act identity d =
     (case rw_LoadBalancer (wk_Resource w) of
        None \<Rightarrow> (Inl ErrLeaseLost, d)
      | Some lw \<Rightarrow>
          if co_Kind c = CGateway then Postgres_BeginMutation p e w act identity d
          else transaction (beginLoadBalancerMutation w lw c act identity) e d)"

text \<open>The column a history row refers by, from the kind of the resource.\<close>

definition work_ref :: "kind \<Rightarrow> string \<Rightarrow> ref" where
  "work_ref k i = (case k of KLoadBalancer \<Rightarrow> RLb i | KEip \<Rightarrow> REip i | KSnat \<Rightarrow> RSnat i | KSubnet \<Rightarrow> RSubnet i | _ \<Rightarrow> RVpc i)"

definition reconciled_history :: "string \<Rightarrow> Work \<Rightarrow> Progress \<Rightarrow> ResourceWork \<Rightarrow> NetworkResourceHistory" where
  "reconciled_history historyID w progress row =
     \<lparr>nhi_TenantID = rw_TenantID row, nhi_HistoryID = historyID, nhi_Ref = work_ref (rw_Kind row) (rw_ID row),
      nhi_OperationID = (if wk_ActiveOperation w then Some (op_ID (wk_Operation w)) else None), nhi_Event = ''reconciled'',
      nhi_ResourceState = rw_State row, nhi_OperationState = (if wk_ActiveOperation w then pg_OperationState progress else None),
      nhi_Reason = rw_Reason row, nhi_ActorRef = [], nhi_CallerRef = [], nhi_CorrelationID = [], nhi_CreatedAt = rw_UpdatedAt row\<rparr>"

text \<open>The last statement releases the lease, and checks it again.\<close>

definition finish_lease :: "Work \<Rightarrow> Progress \<Rightarrow> ResourceWork \<Rightarrow> unit prog" where
  "finish_lease w progress row =
     (if wk_CancelUnsent w \<and> pg_State progress = Deleted
      then affected (q_RetireCancelledResource (rw_TenantID row) (rw_ID row) (wk_Owner w) (wk_Epoch w))
      else affected (q_ReleaseLease (rw_TenantID row) (rw_ID row) (wk_Owner w) (wk_Epoch w) (microseconds (pg_NextDelay progress))
        (coveredGeneration (pg_Observed progress) (pg_Proof progress) (wk_Requirement w)) (pg_Observed progress)
        (pr_Hash (pg_Proof progress)) (pg_Backoff progress)))"

definition finish_records :: "Postgres \<Rightarrow> Work \<Rightarrow> Progress \<Rightarrow> unit prog" where
  "finish_records p w progress =
     (let r = wk_Resource w in
     andThen (if rw_Kind r = KLoadBalancer then wrapped (finishLB p w progress) else ret ()) (\<lambda>_.
     call (advanceResource r progress) (\<lambda>row.
     andThen (if wk_ActiveOperation w
       then affected (q_CompleteAttempt (rw_TenantID row) (rw_ID row) (op_ID (wk_Operation w)) (wk_Epoch w) (pg_OperationState progress)
         (pg_Reason progress) (microseconds (pg_NextDelay progress))) else ret ()) (\<lambda>_.
     andThen (affected (q_SaveBindingObservation (rw_TenantID row) (rw_ID row) (wk_BindingID w) (pg_Identity progress) (pg_ClearPending progress))) (\<lambda>_.
     andThen (if wk_ActiveOperation w \<or> rw_State r \<noteq> pg_State progress \<or> rw_Reason r \<noteq> pg_Reason progress
       then andThen newUUID (\<lambda>historyID. wrapped (q_InsertHistory (reconciled_history historyID w progress row))) else ret ()) (\<lambda>_.
     finish_lease w progress row))))))"

definition finishTenant :: "Postgres \<Rightarrow> Work \<Rightarrow> Progress \<Rightarrow> unit tx_outcome prog" where
  "finishTenant p w progress =
     andThen (lockedWork w) (\<lambda>_.
     if pg_Observed progress \<and> \<not> Covers (pg_Proof progress) (wk_Requirement w) then throw ErrLeaseLost
     else
     call q_DatabaseTime (\<lambda>now.
     andThen (finishBaseConnectivity p w progress now) (\<lambda>progress.
     andThen (finish_records p w progress) (\<lambda>_. ret (Commit ())))))"

definition finish :: "Postgres \<Rightarrow> Work \<Rightarrow> Progress \<Rightarrow> unit tx_outcome prog" where
  "finish p w progress =
     (if rw_TenantID (wk_Resource w) = [] then finishPlatform p w progress else finishTenant p w progress)"

definition Postgres_Finish :: "Postgres \<Rightarrow> env \<Rightarrow> Work \<Rightarrow> Progress \<Rightarrow> db \<Rightarrow> unit res \<times> db" where
  "Postgres_Finish p e w progress = transaction (finish p w progress) e"

definition Postgres_NotifyResource :: "env \<Rightarrow> string \<Rightarrow> string \<Rightarrow> db \<Rightarrow> unit res \<times> db" where
  "Postgres_NotifyResource e tenant i = autocommit (call (q_NotifyResource tenant i) (\<lambda>_. ret ())) e"

end
