(* ===== verification/Net_Store_LB.thy ===== *)
theory Net_Store_LB
  imports Net_Store_Work Net_LoadBalancer
begin

text \<open>
  The repository of load balancers: \<^verbatim>\<open>internal/data/network/load_balancers.go\<close>. A request is admitted in one transaction,
  which holds the locks of the VPC, of every subnet it uses, in the order of their identifiers, and of the public address. The
  backends are resolved before anything is written. Go visits the keys of a map in any order: \<open>order n\<close> is the order of the
  \<open>n\<close>-th such loop.
\<close>

section \<open>Provider relations of an attachment\<close>

record attachmentRelation =
  rel_Kind :: string
  rel_Namespace :: string
  rel_Name :: string
  rel_UID :: string
  rel_OwnerUID :: string
  rel_Address :: string
  rel_Current :: bool
  rel_AddressEligible :: bool

definition zero_relation :: attachmentRelation where
  "zero_relation = \<lparr>rel_Kind = [], rel_Namespace = [], rel_Name = [], rel_UID = [], rel_OwnerUID = [], rel_Address = [],
     rel_Current = False, rel_AddressEligible = False\<rparr>"

text \<open>\<^verbatim>\<open>json.Unmarshal\<close> into a list of relations.\<close>

definition relation_string :: "jtree \<Rightarrow> (string \<Rightarrow> attachmentRelation) \<Rightarrow> attachmentRelation \<Rightarrow> attachmentRelation option" where
  "relation_string v f r = (case v of TStr raw \<Rightarrow> Some (f (unquote raw)) | TNull \<Rightarrow> Some r | _ \<Rightarrow> None)"

definition relation_bool :: "jtree \<Rightarrow> (bool \<Rightarrow> attachmentRelation) \<Rightarrow> attachmentRelation \<Rightarrow> attachmentRelation option" where
  "relation_bool v f r = (case v of TBool b \<Rightarrow> Some (f b) | TNull \<Rightarrow> Some r | _ \<Rightarrow> None)"

definition relation_member :: "string \<Rightarrow> jtree \<Rightarrow> attachmentRelation \<Rightarrow> attachmentRelation option" where
  "relation_member k v r =
     (if same_name k ''Kind'' then relation_string v (\<lambda>s. r\<lparr>rel_Kind := s\<rparr>) r
      else if same_name k ''Namespace'' then relation_string v (\<lambda>s. r\<lparr>rel_Namespace := s\<rparr>) r
      else if same_name k ''Name'' then relation_string v (\<lambda>s. r\<lparr>rel_Name := s\<rparr>) r
      else if same_name k ''UID'' then relation_string v (\<lambda>s. r\<lparr>rel_UID := s\<rparr>) r
      else if same_name k ''OwnerUID'' then relation_string v (\<lambda>s. r\<lparr>rel_OwnerUID := s\<rparr>) r
      else if same_name k ''Address'' then relation_string v (\<lambda>s. r\<lparr>rel_Address := s\<rparr>) r
      else if same_name k ''Current'' then relation_bool v (\<lambda>b. r\<lparr>rel_Current := b\<rparr>) r
      else if same_name k ''AddressEligible'' then relation_bool v (\<lambda>b. r\<lparr>rel_AddressEligible := b\<rparr>) r
      else Some r)"

fun relation_members :: "(string \<times> jtree) list \<Rightarrow> attachmentRelation \<Rightarrow> attachmentRelation option" where
  "relation_members [] r = Some r"
| "relation_members ((k, v) # ms) r = Option.bind (relation_member k v r) (relation_members ms)"

fun relation_values :: "jtree list \<Rightarrow> attachmentRelation list option" where
  "relation_values [] = Some []"
| "relation_values (v # vs) = Option.bind (case v of TObj ms \<Rightarrow> relation_members ms zero_relation | TNull \<Rightarrow> Some zero_relation | _ \<Rightarrow> None)
     (\<lambda>r. map_option ((#) r) (relation_values vs))"

definition unmarshal_relations :: "string \<Rightarrow> attachmentRelation list option" where
  "unmarshal_relations body = (case json_parse body of Some (TArr vs) \<Rightarrow> relation_values vs | Some TNull \<Rightarrow> Some [] | _ \<Rightarrow> None)"

section \<open>Readers\<close>

fun map_prog :: "('a \<Rightarrow> 'b prog) \<Rightarrow> 'a list \<Rightarrow> 'b list prog" where
  "map_prog f [] = ret []"
| "map_prog f (x # xs) = andThen (f x) (\<lambda>y. andThen (map_prog f xs) (\<lambda>ys. ret (y # ys)))"

definition lb_column :: "ref \<Rightarrow> string" where
  "lb_column r = (case r of RLb i \<Rightarrow> i | _ \<Rightarrow> [])"

definition lbResult :: "NetworkLoadBalancer \<Rightarrow> LoadBalancerResult prog" where
  "lbResult row =
     andThen (loadLB row) (\<lambda>v.
     call (q_GetOperation (nlb_TenantID row) (em_LastOperationID (lb_Metadata v))) (\<lambda>op.
     if lb_column (nop_Ref op) \<noteq> nlb_LbID row then throw (Fail DependencyUnavailable ''invalid load balancer operation relationship'')
     else ret \<lparr>lr_LoadBalancer = v, lr_Operation = operation op\<rparr>))"

definition Postgres_GetLoadBalancer :: "env \<Rightarrow> string \<Rightarrow> string \<Rightarrow> db \<Rightarrow> LoadBalancer res \<times> db" where
  "Postgres_GetLoadBalancer e tenant i = transaction
     (call (q_GetLBInternal tenant i) (\<lambda>row. andThen (loadLB row) (\<lambda>v. ret (Unsaved v)))) e"

definition Postgres_ListLoadBalancers :: "env \<Rightarrow> string \<Rightarrow> LoadBalancerFilter \<Rightarrow> db \<Rightarrow> LoadBalancer list res \<times> db" where
  "Postgres_ListLoadBalancers e tenant f = (let g = lf_VPCFilter f in transaction
     (call (q_ListLBs tenant (vf_Name g) (lf_VPCID f) (lf_SubnetID f) (lf_Exposure f) (vf_State g) (vf_AfterID g) (vf_AfterCreatedAt g) (vf_Limit g))
       (\<lambda>rows. andThen (map_prog loadLB rows) (\<lambda>vs. ret (Unsaved vs)))) e)"

definition Postgres_GetLoadBalancerOperation :: "env \<Rightarrow> string \<Rightarrow> string \<Rightarrow> db \<Rightarrow> Operation res \<times> db" where
  "Postgres_GetLoadBalancerOperation e tenant i = autocommit (call (q_GetOperation tenant i) (\<lambda>op.
     case nop_Ref op of RLb _ \<Rightarrow> ret (operation op) | _ \<Rightarrow> throw (Fail ResourceNotFound ''operation not found''))) e"

section \<open>Replay\<close>

definition lb_snapshot_valid :: "LoadBalancerIntent \<Rightarrow> NetworkIdempotency \<Rightarrow> LoadBalancerResult \<Rightarrow> bool" where
  "lb_snapshot_valid i prev result \<longleftrightarrow>
     (let lb = lr_LoadBalancer result; op = lr_Operation result in
      em_ID (lb_Metadata lb) = lb_column (nid_Ref prev) \<and> lb_TenantID lb = li_TenantID i \<and> op_TenantID op = li_TenantID i
      \<and> op_ID op = nid_OperationID prev \<and> op_ResourceID op = em_ID (lb_Metadata lb) \<and> em_LastOperationID (lb_Metadata lb) = nid_OperationID prev)"

definition lbReplay :: "LoadBalancerIntent \<Rightarrow> LoadBalancerResult option prog" where
  "lbReplay i =
     call (q_LockEgressKey (li_TenantID i) (li_Kind i) (li_IdempotencyKey i)) (\<lambda>_.
     call (optional (q_GetEgressIdempotency (li_TenantID i) (li_Kind i) (li_IdempotencyKey i))) (\<lambda>prev.
     case prev of
       None \<Rightarrow> ret None
     | Some prev \<Rightarrow>
         if nid_FingerprintVersion prev \<noteq> 1 \<or> nid_Fingerprint prev \<noteq> LoadBalancerIntent_Fingerprint i
         then throw (Fail IdempotencyConflict ''key already accepted another load balancer intent'')
         else case nid_Response prev of
           SnapLb result \<Rightarrow>
             if lb_snapshot_valid i prev result then ret (Some result)
             else throw (Fail DependencyUnavailable ''invalid load balancer acceptance snapshot'')
         | _ \<Rightarrow> throw (Fail DependencyUnavailable ''invalid load balancer acceptance snapshot'')))"

section \<open>Backends\<close>

text \<open>A backend is an address that the observed relations of one fresh, attached Pod allocate to it: the Pod owns a network
  card, the card owns the address.\<close>

definition address_eligible :: "string \<Rightarrow> string \<Rightarrow> attachmentRelation \<Rightarrow> bool" where
  "address_eligible namespace address ip \<longleftrightarrow> rel_Kind ip = ''VNicIP'' \<and> rel_Namespace ip = namespace \<and> rel_UID ip \<noteq> []
     \<and> rel_Current ip \<and> rel_AddressEligible ip \<and> rel_Address ip = address"

definition card_of :: "string \<Rightarrow> string \<Rightarrow> attachmentRelation \<Rightarrow> attachmentRelation \<Rightarrow> bool" where
  "card_of namespace podUID ip nic \<longleftrightarrow> rel_Kind nic = ''VNic'' \<and> rel_Namespace nic = namespace \<and> rel_Current nic
     \<and> rel_UID nic = rel_OwnerUID ip \<and> rel_OwnerUID nic = podUID"

definition backend_member ::
  "string \<Rightarrow> string \<Rightarrow> string \<Rightarrow> string \<Rightarrow> LoadBalancerBackend \<Rightarrow> NetworkAttachment \<Rightarrow> attachmentRelation \<Rightarrow> attachmentRelation \<Rightarrow> NetworkLbMember" where
  "backend_member tenant cluster namespace vpcID b a ip nic =
     \<lparr>nlm_TenantID = tenant, nlm_ClusterID = cluster, nlm_Namespace = namespace, nlm_LbID = [], nlm_MemberID = [], nlm_VpcID = vpcID,
      nlm_SubnetID = lbb_SubnetID b, nlm_AttachmentID = nta_AttachmentID a, nlm_Address = lbb_Address b, nlm_Port = sint (lbb_Port b),
      nlm_PodUid = nta_PodUid a, nlm_VnicName = rel_Name nic, nlm_VnicUid = rel_UID nic, nlm_VnicipName = rel_Name ip,
      nlm_VnicipUid = rel_UID ip, nlm_State = ''available'', nlm_Reason = NoReason, nlm_ObservedAt = nta_ObservedAt a\<rparr>"

definition attachment_members ::
  "string \<Rightarrow> string \<Rightarrow> string \<Rightarrow> string \<Rightarrow> LoadBalancerBackend \<Rightarrow> NetworkAttachment \<Rightarrow> attachmentRelation list \<Rightarrow> NetworkLbMember list" where
  "attachment_members tenant cluster namespace vpcID b a refs =
     concat (map (\<lambda>ip. map (backend_member tenant cluster namespace vpcID b a ip) (filter (card_of namespace (nta_PodUid a) ip) refs))
       (filter (address_eligible namespace (lbb_Address b)) refs))"

definition attachment_counts :: "string \<Rightarrow> string \<Rightarrow> string \<Rightarrow> go_time \<Rightarrow> duration \<Rightarrow> NetworkAttachment \<Rightarrow> bool" where
  "attachment_counts cluster namespace vpcID now freshness a \<longleftrightarrow> nta_ClusterID a = cluster \<and> nta_Namespace a = namespace
     \<and> nta_VpcID a = vpcID \<and> nta_PodUid a \<noteq> [] \<and> freshTime (nta_ObservedAt a) now freshness"

text \<open>A document that is no list of relations ends the search.\<close>

fun backend_candidates :: "(NetworkAttachment \<Rightarrow> attachmentRelation list \<Rightarrow> 'm list) \<Rightarrow> NetworkAttachment list \<Rightarrow> 'm list res" where
  "backend_candidates f [] = Inr []"
| "backend_candidates f (a # as) = (case unmarshal_relations (nta_ProviderRelations a) of
      None \<Rightarrow> Inl (databaseFailure (OtherError ''json: cannot unmarshal''))
    | Some refs \<Rightarrow> bind_res (backend_candidates f as) (\<lambda>ms. Inr (f a refs @ ms)))"

definition lbBackendIdentity ::
  "string \<Rightarrow> string \<Rightarrow> string \<Rightarrow> string \<Rightarrow> LoadBalancerBackend \<Rightarrow> go_time \<Rightarrow> duration \<Rightarrow> NetworkLbMember prog" where
  "lbBackendIdentity tenant cluster namespace vpcID b now freshness =
     call (q_ListLBBackendAttachments tenant (lbb_SubnetID b)) (\<lambda>rows.
     case backend_candidates (attachment_members tenant cluster namespace vpcID b) (filter (attachment_counts cluster namespace vpcID now freshness) rows) of
       Inl x \<Rightarrow> throw x
     | Inr found \<Rightarrow> (case found of
         [c] \<Rightarrow> ret c
       | _ \<Rightarrow> throw (Fail BackendIdentityMismatch ''backend requires one fresh allocated Attachment address identity'')))"

definition sameLBMember :: "NetworkLbMember \<Rightarrow> NetworkLbMember \<Rightarrow> bool" where
  "sameLBMember m c \<longleftrightarrow> nlm_SubnetID m = nlm_SubnetID c \<and> nlm_Address m = nlm_Address c \<and> nlm_Port m = nlm_Port c
     \<and> nlm_AttachmentID m = nlm_AttachmentID c \<and> nlm_PodUid m = nlm_PodUid c \<and> nlm_VnicName m = nlm_VnicName c \<and> nlm_VnicUid m = nlm_VnicUid c
     \<and> nlm_VnicipName m = nlm_VnicipName c \<and> nlm_VnicipUid m = nlm_VnicipUid c"

section \<open>Parents\<close>

type_synonym subnets = "(string \<times> NetworkSubnet) list"

fun lock_subnets :: "string \<Rightarrow> string \<Rightarrow> string list \<Rightarrow> subnets prog" where
  "lock_subnets tenant vpcID [] = ret []"
| "lock_subnets tenant vpcID (i # is) =
     call (q_LockSubnet tenant i) (\<lambda>s.
     if nsu_VpcID s \<noteq> vpcID then throw (Fail PlacementMismatch ''subnet belongs to another VPC'')
     else andThen (lock_subnets tenant vpcID is) (\<lambda>out. ret ((i, s) # out)))"

definition lockLBSubnets :: "string \<Rightarrow> string \<Rightarrow> string list \<Rightarrow> subnets prog" where
  "lockLBSubnets tenant vpcID ids = lock_subnets tenant vpcID (sort_compact ids)"

definition lastAddress :: "v4 \<Rightarrow> nat \<Rightarrow> v4" where
  "lastAddress w n = w OR drop_bit n (- 1)"

text \<open>The parents of the request: from the intent, or from the load balancer that is updated.\<close>

definition lb_creating :: "LoadBalancerIntent \<Rightarrow> bool" where
  "lb_creating i \<longleftrightarrow> li_Kind i = ''create_load_balancer''"

definition lb_parents :: "LoadBalancerIntent \<Rightarrow> (string \<times> string \<times> string) prog" where
  "lb_parents i =
     (if lb_creating i then ret (li_VPCID i, li_SubnetID i, li_PublicEIPID i)
      else call (q_GetLBInternal (li_TenantID i) (li_ID i)) (\<lambda>prior.
        if nlb_LastOperationID prior = None then throw (Fail ResourceNotFound ''load balancer not found'')
        else ret (nlb_VpcID prior, nlb_SubnetID prior, textValue (nlb_PublicEipID prior))))"

definition lb_subnet_ids :: "LoadBalancerIntent \<Rightarrow> string \<Rightarrow> string list prog" where
  "lb_subnet_ids i subnetID =
     (let ids = subnetID # map lbb_SubnetID (li_Backends i) in
      if lb_creating i then ret ids
      else call (q_ListLBSubnetRefs (li_TenantID i) (li_ID i)) (\<lambda>refs. ret (ids @ map nlr_SubnetID refs)))"

definition lock_public_eip :: "LoadBalancerIntent \<Rightarrow> string \<Rightarrow> NetworkEip option prog" where
  "lock_public_eip i eipID =
     (if eipID = [] then ret None
      else call (q_LockEIP (li_TenantID i) eipID) (\<lambda>x. andThen (requireTenantPublicEIP x) (\<lambda>_. ret (Some x))))"

definition lb_update_open :: "LoadBalancerIntent \<Rightarrow> NetworkLoadBalancer option prog" where
  "lb_update_open i =
     (if lb_creating i then ret None
      else call (q_LockLB (li_TenantID i) (li_ID i)) (\<lambda>prior.
        if nlb_State prior = Deleting \<or> nlb_State prior = Deleted
        then throw (Fail ResourceBusy ''load balancer deletion has closed updates'')
        else if nlb_Version prior \<noteq> li_ExpectedVersion i then throw (Fail VersionConflict ''load balancer version changed'')
        else andThen (completedOperation (li_TenantID i) (textValue (nlb_LastOperationID prior))) (\<lambda>_. ret (Some prior))))"

definition lb_capable :: "string \<Rightarrow> go_time \<Rightarrow> duration \<Rightarrow> unit prog" where
  "lb_capable cluster now freshness =
     call (optional (q_GetLBCapability cluster)) (\<lambda>c. case c of
       None \<Rightarrow> throw (Fail LoadBalancerNotReady ''load balancer capability is not fresh and ready'')
     | Some c \<Rightarrow>
         if \<not> nca_Ready c \<or> \<not> freshTime (Some (nca_ObservedAt c)) now freshness
         then throw (Fail LoadBalancerNotReady ''load balancer capability is not fresh and ready'') else ret ())"

text \<open>A subnet that the transaction has not locked reads as the zero row, which is not available.\<close>

definition lb_subnet_ready :: "LoadBalancerIntent \<Rightarrow> NetworkProviderBinding \<Rightarrow> subnets \<Rightarrow> go_time \<Rightarrow> duration \<Rightarrow> string \<Rightarrow> unit prog" where
  "lb_subnet_ready i pb subnets now freshness s =
     call (q_GetBinding (li_TenantID i) s) (\<lambda>sb.
     if (case map_of subnets s of None \<Rightarrow> True | Some row \<Rightarrow> \<not> freshResource (nsu_State row) (nsu_ObservedAt row) now freshness)
     then throw (Fail ParentNotReady ''subnet is not fresh and ready'')
     else if nbi_ClusterID sb \<noteq> nbi_ClusterID pb \<or> nbi_Namespace sb \<noteq> nbi_Namespace pb \<or> nbi_ProviderUid sb = [] \<or> nbi_PendingAction sb \<noteq> NoAction
     then throw (Fail ProviderOwnership ''subnet placement or identity differs'') else ret ())"

definition lb_eip_ready :: "LoadBalancerIntent \<Rightarrow> NetworkProviderBinding \<Rightarrow> go_time \<Rightarrow> duration \<Rightarrow> string \<Rightarrow> NetworkEip \<Rightarrow> unit prog" where
  "lb_eip_ready i pb now freshness eipID x =
     (if nei_ClusterID x \<noteq> nbi_ClusterID pb \<or> nei_Namespace x \<noteq> nbi_Namespace pb
      then throw (Fail ProviderOwnership ''EIP placement differs'')
      else
      call (q_GetBinding (li_TenantID i) eipID) (\<lambda>eb.
      if nbi_ProviderUid eb = [] \<or> nbi_PendingAction eb \<noteq> NoAction \<or> nbi_ClusterID eb \<noteq> nbi_ClusterID pb \<or> nbi_Namespace eb \<noteq> nbi_Namespace pb
         \<or> nei_Address x = [] \<or> \<not> freshResource (nei_State x) (nei_ObservedAt x) now freshness
      then throw (Fail PublicEgressNotReady ''Public EIP is not fresh and allocated'')
      else
      call (q_GetPublicPool (nei_ClusterID x) (nei_PoolID x)) (\<lambda>pool.
      if npp_ConfigRevision pool \<noteq> nei_PoolRevision x then throw (Fail PublicEgressNotReady ''fixed exit configuration changed'')
      else
      andThen (completedOperation (li_TenantID i) (nei_LastOperationID x)) (\<lambda>_.
      andThen (poolReady pool now freshness False) (\<lambda>_.
      if lb_creating i then call (q_BlockingSnatForEIP (li_TenantID i) eipID) (\<lambda>count.
        if 0 < count then throw (Fail EIPInUse ''EIP is reserved by a binding'') else ret ())
      else ret ())))))"

definition lb_vip_usable :: "LoadBalancerIntent \<Rightarrow> NetworkSubnet option \<Rightarrow> bool" where
  "lb_vip_usable i s = (case s of None \<Rightarrow> False | Some s \<Rightarrow>
     (case (parse_v4_prefix (nsu_Cidr s), parse_v4 (li_PrivateIP i)) of
        (Some (w, n), Some ip) \<Rightarrow> v4_contains w n ip \<and> ip \<noteq> w \<and> ip \<noteq> lastAddress w n \<and> li_PrivateIP i \<noteq> nsu_Gateway s
      | _ \<Rightarrow> False))"

definition address_in_subnet :: "NetworkSubnet option \<Rightarrow> string \<Rightarrow> bool" where
  "address_in_subnet s address = (case s of None \<Rightarrow> False | Some s \<Rightarrow>
     (case (parse_v4_prefix (nsu_Cidr s), parse_v4 address) of (Some (w, n), Some ip) \<Rightarrow> v4_contains w n ip | _ \<Rightarrow> False))"

definition lb_current_members :: "LoadBalancerIntent \<Rightarrow> NetworkLoadBalancer option \<Rightarrow> string list prog" where
  "lb_current_members i prior = (case prior of
      None \<Rightarrow> ret []
    | Some prior \<Rightarrow> call (q_ListLBMembers (li_TenantID i) (li_ID i) (nlb_DesiredVersion prior)) (\<lambda>ms. ret (map (\<lambda>(m, _). nlm_MemberID m) ms)))"

definition lb_backend_accepted ::
  "LoadBalancerIntent \<Rightarrow> NetworkProviderBinding \<Rightarrow> string \<Rightarrow> subnets \<Rightarrow> string list \<Rightarrow> go_time \<Rightarrow> duration \<Rightarrow> LoadBalancerBackend \<Rightarrow> NetworkLbMember prog" where
  "lb_backend_accepted i pb vpcID subnets current now freshness b =
     (if \<not> address_in_subnet (map_of subnets (lbb_SubnetID b)) (lbb_Address b)
      then throw (Fail BackendIdentityMismatch ''backend address does not match its subnet identity'')
      else
      andThen (lbBackendIdentity (li_TenantID i) (nbi_ClusterID pb) (nbi_Namespace pb) vpcID b now freshness) (\<lambda>c.
      if lbb_ID b = [] then ret c
      else if lbb_ID b \<notin> set current then throw (Fail BackendIdentityMismatch ''member is not part of the current configuration'')
      else
      call (q_GetLBMember (li_TenantID i) (li_ID i) (lbb_ID b)) (\<lambda>m.
      if \<not> sameLBMember m c then throw (Fail BackendIdentityMismatch ''retained member identity changed'') else ret c)))"

section \<open>Admission\<close>

definition insertLBComponent :: "NetworkLoadBalancer \<Rightarrow> lb_kind \<Rightarrow> string option \<Rightarrow> unit prog" where
  "insertLBComponent row ckind member = andThen newUUID (\<lambda>i. wrapped (q_InsertLBComponent (nlb_TenantID row) (nlb_ClusterID row)
     (nlb_Namespace row) (nlb_LbID row) i ckind member (''lb-'' @ lb_kind_name ckind @ ''-'' @ replace_all_dash i)))"

definition lbHistory :: "NetworkLoadBalancer \<Rightarrow> Attribution \<Rightarrow> string \<Rightarrow> go_time \<Rightarrow> unit prog" where
  "lbHistory row a event now = andThen newUUID (\<lambda>historyID. wrapped (q_InsertHistory
     \<lparr>nhi_TenantID = nlb_TenantID row, nhi_HistoryID = historyID, nhi_Ref = RLb (nlb_LbID row), nhi_OperationID = nlb_LastOperationID row,
      nhi_Event = event, nhi_ResourceState = nlb_State row, nhi_OperationState = Some Queued, nhi_Reason = NoReason, nhi_ActorRef = at_Actor a,
      nhi_CallerRef = at_DirectCaller a, nhi_CorrelationID = at_CorrelationID a, nhi_CreatedAt = now\<rparr>))"

text \<open>What only a new load balancer has: its listener, its claim of the public address, its reservation of the private one, and
  the route and the policy.\<close>

definition lb_new_parts :: "LoadBalancerIntent \<Rightarrow> NetworkProviderBinding \<Rightarrow> string \<Rightarrow> string \<Rightarrow> string \<Rightarrow> go_time \<Rightarrow> NetworkLoadBalancer \<Rightarrow> unit prog" where
  "lb_new_parts i pb vpcID subnetID eipID now row =
     (let tenant = li_TenantID i; cluster = nbi_ClusterID pb; namespace = nbi_Namespace pb in
     andThen newUUID (\<lambda>listenerID.
     call (q_InsertLBListener tenant cluster namespace (nlb_LbID row) listenerID (sint (li_ListenerPort i))) (\<lambda>_.
     andThen (if eipID = [] then ret () else
       call (q_ClaimEIPForLB tenant cluster namespace eipID (nlb_LbID row) now) (\<lambda>n.
       if n \<noteq> 1 then throw (Fail EIPInUse ''EIP is reserved by another target'') else ret ())) (\<lambda>_.
     andThen (if li_PrivateIP i = [] then ret () else
       call (q_ReserveLBVIP tenant cluster namespace vpcID subnetID (nlb_LbID row) (li_PrivateIP i)) (\<lambda>n.
       if n \<noteq> 1 then throw (Fail VIPInUse ''VIP is reserved by another load balancer'') else ret ())) (\<lambda>_.
     for_each (\<lambda>k. insertLBComponent row k None) [CRoute, CPolicy])))))"

definition lb_member_parts :: "LoadBalancerIntent \<Rightarrow> NetworkProviderBinding \<Rightarrow> NetworkLoadBalancer \<Rightarrow> LoadBalancerBackend \<times> NetworkLbMember \<Rightarrow> unit prog" where
  "lb_member_parts i pb row = (\<lambda>(b, c).
     andThen (if lbb_ID b \<noteq> [] then ret (lbb_ID b)
       else andThen newUUID (\<lambda>memberID.
         call (q_InsertLBMember (c\<lparr>nlm_LbID := nlb_LbID row, nlm_MemberID := memberID\<rparr>)) (\<lambda>_.
         andThen (insertLBComponent row CBackend (Some memberID)) (\<lambda>_. ret memberID)))) (\<lambda>memberID.
     wrapped (q_InsertLBConfigurationMember (li_TenantID i) (nbi_ClusterID pb) (nbi_Namespace pb) (nlb_LbID row) (nlb_DesiredVersion row) memberID
       (sint (lbb_Weight b)))))"

definition lb_times :: "LoadBalancerResult \<Rightarrow> go_time list" where
  "lb_times result =
     (let lb = lr_LoadBalancer result; op = lr_Operation result; opt = (\<lambda>t. case t of None \<Rightarrow> [] | Some t \<Rightarrow> [t]) in
      [em_CreatedAt (lb_Metadata lb), em_UpdatedAt (lb_Metadata lb), op_CreatedAt op, op_UpdatedAt op] @ opt (em_ObservedAt (lb_Metadata lb))
      @ opt (lb_DataPlaneObservedAt lb) @ concat (map (\<lambda>b. opt (lbb_ObservedAt b)) (lb_Backends lb)) @ opt (op_CompletedAt op) @ opt (op_NextAttemptAt op))"

definition lb_accepted_view :: "go_time \<Rightarrow> duration \<Rightarrow> LoadBalancerResult \<Rightarrow> LoadBalancerResult" where
  "lb_accepted_view now freshness result =
     (let lb = lr_LoadBalancer result in
      result\<lparr>lr_LoadBalancer := lb\<lparr>lb_Metadata := (lb_Metadata lb)\<lparr>em_ObservationStale := True\<rparr>,
        lb_Backends := map (\<lambda>b. b\<lparr>lbb_ObservationStale := \<not> freshTime (lbb_ObservedAt b) now freshness\<rparr>) (lb_Backends lb)\<rparr>\<rparr>)"

definition lb_record ::
  "LoadBalancerIntent \<Rightarrow> Attribution \<Rightarrow> duration \<Rightarrow> NetworkProviderBinding \<Rightarrow> go_time \<Rightarrow> string \<Rightarrow> NetworkLoadBalancer \<Rightarrow> LoadBalancerResult prog" where
  "lb_record i a freshness pb now opID row =
     (let tenant = li_TenantID i in
     call (q_InsertOperation tenant opID (RLb (nlb_LbID row)) (li_Kind i) now) (\<lambda>_.
     andThen (if lb_creating i
       then andThen newUUID (\<lambda>bindingID.
         call (q_InsertBinding tenant (RLb (nlb_LbID row)) bindingID (nbi_ClusterID pb) (nbi_Namespace pb) (replace_underscore (nlb_LbID row))) (\<lambda>_.
         call (q_InsertReconciliation tenant (RLb (nlb_LbID row)) now) (\<lambda>_. ret ())))
       else affected (q_ScheduleDeletion tenant (nlb_LbID row))) (\<lambda>_.
     andThen (lbResult row) (\<lambda>result.
     let result = lb_accepted_view now freshness result in
     andThen (marshals (lb_times result)) (\<lambda>_.
     call (q_InsertLBIdempotency tenant (li_Kind i) (li_IdempotencyKey i) (LoadBalancerIntent_Fingerprint i) (nlb_LbID row) opID (SnapLb result) now) (\<lambda>_.
     andThen (lbHistory row a (li_Kind i @ ''_accepted'') now) (\<lambda>_.
     ret result)))))))"

definition lb_write ::
  "(nat \<Rightarrow> string list \<Rightarrow> string list) \<Rightarrow> LoadBalancerIntent \<Rightarrow> Attribution \<Rightarrow> duration \<Rightarrow> NetworkProviderBinding \<Rightarrow> string \<Rightarrow> string \<Rightarrow> string
   \<Rightarrow> string list \<Rightarrow> NetworkLbMember list \<Rightarrow> go_time \<Rightarrow> LoadBalancerResult prog" where
  "lb_write order i a freshness pb vpcID subnetID eipID needed identities now =
     (let tenant = li_TenantID i; cluster = nbi_ClusterID pb; namespace = nbi_Namespace pb; h = li_Health i in
     andThen newUUID (\<lambda>opID.
     andThen (if lb_creating i
       then andThen (newEgressID ''lb'') (\<lambda>lbID. wrapped (q_InsertLB tenant lbID cluster namespace vpcID subnetID (li_Exposure i) eipID
         (li_PrivateIP i) (li_Name i) (li_Description i) now opID))
       else wrapped (q_UpdateLBIntent tenant (li_ID i) (li_ExpectedVersion i) (li_Name i) (li_Description i) opID)) (\<lambda>row.
     andThen (if lb_creating i then lb_new_parts i pb vpcID subnetID eipID now row else ret ()) (\<lambda>_.
     call (q_InsertLBConfiguration tenant cluster namespace (nlb_LbID row) (nlb_DesiredVersion row) (li_Name i) (li_Description i)
        (uint (lh_IntervalSeconds h)) (uint (lh_TimeoutSeconds h)) (uint (lh_UnhealthyThreshold h)) (uint (lh_HealthyThreshold h))
        (sint (lh_Port h))) (\<lambda>_.
     andThen (for_each (lb_member_parts i pb row) (zip (li_Backends i) identities)) (\<lambda>_.
     andThen (for_each (\<lambda>s. wrapped (q_ReserveLBSubnet tenant cluster namespace (nlb_LbID row) vpcID s)) (order 1 needed)) (\<lambda>_.
     lb_record i a freshness pb now opID row)))))))"

definition newLB ::
  "Postgres \<Rightarrow> (nat \<Rightarrow> string list \<Rightarrow> string list) \<Rightarrow> LoadBalancerIntent \<Rightarrow> Attribution \<Rightarrow> duration \<Rightarrow> string \<Rightarrow> string \<Rightarrow> string
   \<Rightarrow> NetworkVpc \<Rightarrow> subnets \<Rightarrow> NetworkEip option \<Rightarrow> NetworkLoadBalancer option \<Rightarrow> LoadBalancerResult prog" where
  "newLB p order i a freshness vpcID subnetID eipID parent subnets eip prior =
     (let tenant = li_TenantID i; needed = remdups (subnetID # map lbb_SubnetID (li_Backends i)) in
     call q_DatabaseTime (\<lambda>now.
     andThen (requireBaseConnectivity tenant vpcID now freshness) (\<lambda>_.
     if \<not> freshResource (nv_State parent) (nv_ObservedAt parent) now freshness then throw (Fail ParentNotReady ''VPC is not fresh and ready'')
     else
     call (q_GetBinding tenant vpcID) (\<lambda>pb.
     if nbi_ClusterID pb \<noteq> pg_ClusterID p \<or> nbi_ProviderUid pb = [] \<or> nbi_PendingAction pb \<noteq> NoAction
     then throw (Fail ProviderOwnership ''parent placement or identity is not ready'')
     else
     andThen (lb_capable (nbi_ClusterID pb) now freshness) (\<lambda>_.
     andThen (for_each (lb_subnet_ready i pb subnets now freshness) (order 0 needed)) (\<lambda>_.
     andThen (case eip of None \<Rightarrow> ret () | Some x \<Rightarrow> lb_eip_ready i pb now freshness eipID x) (\<lambda>_.
     if lb_creating i \<and> li_PrivateIP i \<noteq> [] \<and> \<not> lb_vip_usable i (map_of subnets subnetID)
     then throw (Fail InvalidArgument ''VIP is not a usable address in the entry subnet'')
     else
     andThen (lb_current_members i prior) (\<lambda>current.
     andThen (map_prog (lb_backend_accepted i pb vpcID subnets current now freshness) (li_Backends i)) (\<lambda>identities.
     lb_write order i a freshness pb vpcID subnetID eipID needed identities now)))))))))"

definition acceptLoadBalancer ::
  "Postgres \<Rightarrow> (nat \<Rightarrow> string list \<Rightarrow> string list) \<Rightarrow> LoadBalancerIntent \<Rightarrow> Attribution \<Rightarrow> duration \<Rightarrow> LoadBalancerResult tx_outcome prog" where
  "acceptLoadBalancer p order i a freshness =
     andThen (lbReplay i) (\<lambda>replay. case replay of
       Some result \<Rightarrow> ret (Unsaved result)
     | None \<Rightarrow>
     andThen (lb_parents i) (\<lambda>(vpcID, subnetID, eipID).
     call (q_LockVPC (li_TenantID i) vpcID) (\<lambda>parent.
     andThen (lb_subnet_ids i subnetID) (\<lambda>ids.
     andThen (lockLBSubnets (li_TenantID i) vpcID ids) (\<lambda>subnets.
     andThen (lock_public_eip i eipID) (\<lambda>eip.
     andThen (lb_update_open i) (\<lambda>prior.
     andThen (newLB p order i a freshness vpcID subnetID eipID parent subnets eip prior) (\<lambda>result.
     ret (Commit result)))))))))"

definition Postgres_AcceptLoadBalancer ::
  "Postgres \<Rightarrow> (nat \<Rightarrow> string list \<Rightarrow> string list) \<Rightarrow> env \<Rightarrow> LoadBalancerIntent \<Rightarrow> Attribution \<Rightarrow> duration \<Rightarrow> db \<Rightarrow> LoadBalancerResult res \<times> db" where
  "Postgres_AcceptLoadBalancer p order e i a freshness = transaction (acceptLoadBalancer p order i a freshness) e"

section \<open>Deletion\<close>

definition deleteLoadBalancer :: "string \<Rightarrow> string \<Rightarrow> Attribution \<Rightarrow> LoadBalancerResult tx_outcome prog" where
  "deleteLoadBalancer tenant i a =
     call (q_GetLBInternal tenant i) (\<lambda>first.
     if nlb_LastOperationID first = None then throw (Fail ResourceNotFound ''load balancer not found'')
     else
     call (q_LockVPC tenant (nlb_VpcID first)) (\<lambda>_.
     call (q_ListLBSubnetRefs tenant i) (\<lambda>refs.
     andThen (lockLBSubnets tenant (nlb_VpcID first) (nlb_SubnetID first # map nlr_SubnetID refs)) (\<lambda>_.
     andThen (case nlb_PublicEipID first of None \<Rightarrow> ret () | Some x \<Rightarrow> call (q_LockEIP tenant x) (\<lambda>_. ret ())) (\<lambda>_.
     call (q_LockLB tenant i) (\<lambda>row.
     if nlb_State row = Deleting \<or> nlb_State row = Deleted then andThen (lbResult row) (\<lambda>result. ret (Unsaved result))
     else case nlb_LastOperationID row of
       None \<Rightarrow> throw (OtherError ''panic: nil pointer dereference'')
     | Some lastID \<Rightarrow>
     call (q_RetireLBMutation tenant i lastID) (\<lambda>_.
     call q_DatabaseTime (\<lambda>now.
     andThen newUUID (\<lambda>opID.
     call (q_InsertOperation tenant opID (RLb i) ''delete_load_balancer'' now) (\<lambda>_.
     call (q_AdmitLBDeletion tenant i (nlb_Version row) opID) (\<lambda>row.
     andThen (affected (q_ScheduleDeletion tenant i)) (\<lambda>_.
     andThen (lbHistory row a ''delete_load_balancer_accepted'' now) (\<lambda>_.
     andThen (lbResult row) (\<lambda>result.
     ret (Commit result)))))))))))))))"

definition Postgres_DeleteLoadBalancer :: "env \<Rightarrow> string \<Rightarrow> string \<Rightarrow> Attribution \<Rightarrow> db \<Rightarrow> LoadBalancerResult res \<times> db" where
  "Postgres_DeleteLoadBalancer e tenant i a = transaction (deleteLoadBalancer tenant i a) e"

end
