(* ===== verification/Net_Store_Attachment.thy ===== *)
theory Net_Store_Attachment
  imports Net_Store
begin

text \<open>
  The repository of attachments: \<^verbatim>\<open>attachment.go\<close> and \<^verbatim>\<open>attachment_worker.go\<close> of \<^verbatim>\<open>internal/data/network\<close> with the
  statements of \<^verbatim>\<open>sqlcgen/attachments.sql.go\<close>. Every write takes the locks of the VPC, the subnet and the attachment in
  that order. The stored plan and the provider relations are the values that were marshalled.
\<close>

section \<open>Statements\<close>

definition attachment_row :: "string \<Rightarrow> string \<Rightarrow> NetworkAttachment \<Rightarrow> bool" where
  "attachment_row tenant i a \<longleftrightarrow> nta_TenantID a = tenant \<and> nta_AttachmentID a = i"

definition q_GetAttachment :: "string \<Rightarrow> string \<Rightarrow> NetworkAttachment prog" where
  "q_GetAttachment tenant i = query (\<lambda>d. find_row (attachment_row tenant i) (db_attachments d))"

definition q_LockAttachment :: "string \<Rightarrow> string \<Rightarrow> NetworkAttachment prog" where
  "q_LockAttachment tenant i = query (\<lambda>d. find_row (attachment_row tenant i) (db_attachments d))"

definition request_row :: "string \<Rightarrow> string \<Rightarrow> string \<Rightarrow> string \<Rightarrow> NetworkAttachment \<Rightarrow> bool" where
  "request_row tenant instanceID slot key a \<longleftrightarrow>
     nta_TenantID a = tenant \<and> nta_InstanceID a = instanceID \<and> nta_Slot a = slot \<and> nta_RequestKey a = key"

definition q_GetAttachmentReplay :: "string \<Rightarrow> string \<Rightarrow> string \<Rightarrow> string \<Rightarrow> NetworkAttachment prog" where
  "q_GetAttachmentReplay tenant instanceID slot key = query (\<lambda>d. find_row (request_row tenant instanceID slot key) (db_attachments d))"

definition q_LockAttachmentSlot :: "string \<Rightarrow> string \<Rightarrow> string \<Rightarrow> unit prog" where
  "q_LockAttachmentSlot tenant instanceID slot = advisory_lock"

definition slot_used :: "string \<Rightarrow> string \<Rightarrow> string \<Rightarrow> NetworkAttachment \<Rightarrow> bool" where
  "slot_used tenant instanceID slot a \<longleftrightarrow> nta_TenantID a = tenant \<and> nta_InstanceID a = instanceID \<and> nta_Slot a = slot
     \<and> (nta_State a \<noteq> Released \<or> nta_ProtocolBlocked a)"

definition q_HasAttachmentSlot :: "string \<Rightarrow> string \<Rightarrow> string \<Rightarrow> bool prog" where
  "q_HasAttachmentSlot tenant instanceID slot = query (\<lambda>d. Inr (list_ex (slot_used tenant instanceID slot) (db_attachments d)))"

text \<open>The keys of the table: the identity, the request, and the slot of an unreleased attachment. The argument is the row
  without the columns that have a default.\<close>

definition q_InsertAttachment :: "NetworkAttachment \<Rightarrow> NetworkAttachment prog" where
  "q_InsertAttachment a = stmt (\<lambda>clk d.
     if \<not> hex_id ''att_'' (nta_AttachmentID a) then Inl (constraint ''network_attachments_attachment_id_check'')
     else if list_ex (attachment_row (nta_TenantID a) (nta_AttachmentID a)) (db_attachments d) then Inl (constraint ''network_attachments_pkey'')
     else if list_ex (request_row (nta_TenantID a) (nta_InstanceID a) (nta_Slot a) (nta_RequestKey a)) (db_attachments d)
     then Inl (constraint ''network_attachments_tenant_id_key'')
     else if list_ex (\<lambda>x. nta_TenantID x = nta_TenantID a \<and> nta_InstanceID x = nta_InstanceID a \<and> nta_Slot x = nta_Slot a
         \<and> nta_State x \<noteq> Released) (db_attachments d) then Inl (constraint ''network_attachment_active_slot'')
     else (let row = a\<lparr>nta_State := Reserved, nta_Reason := NoReason, nta_ProtocolBlocked := False, nta_Version := 1, nta_PodName := [],
          nta_PodUid := [], nta_ConfirmUid := [], nta_FinalizationID := None, nta_ProviderRelations := ''[]'', nta_CreatedAt := clk 0,
          nta_UpdatedAt := clk 1, nta_ObservedAt := None, nta_ReleasedAt := None, nta_NextCheckAt := clk 2, nta_LeaseOwner := None,
          nta_LeaseUntil := None, nta_Epoch := 0, nta_RequestedGeneration := 1, nta_ProcessedGeneration := 0,
          nta_RetryNotBefore := unix_epoch, nta_EvidenceHash := [], nta_EvidenceAppliedAt := unix_epoch\<rparr>
       in Inr (row, d\<lparr>db_attachments := db_attachments d @ [row]\<rparr>)))"

text \<open>The check that exactly the attachments under release carry a finalization.\<close>

definition attachment_check :: "NetworkAttachment \<Rightarrow> bool" where
  "attachment_check a \<longleftrightarrow> (nta_State a = Releasing \<or> nta_State a = Released) = (nta_FinalizationID a \<noteq> None)"

definition update_attachment ::
  "((nat \<Rightarrow> go_time) \<Rightarrow> NetworkAttachment \<Rightarrow> bool) \<Rightarrow> ((nat \<Rightarrow> go_time) \<Rightarrow> NetworkAttachment \<Rightarrow> NetworkAttachment) \<Rightarrow> NetworkAttachment prog" where
  "update_attachment P f = stmt (\<lambda>clk d.
     if list_ex (\<lambda>a. P clk a \<and> \<not> attachment_check (f clk a)) (db_attachments d) then Inl (constraint ''network_attachments_check'')
     else map_sum (\<lambda>x. x) (\<lambda>a. (f clk a, d\<lparr>db_attachments := update_where (P clk) (f clk) (db_attachments d)\<rparr>))
       (find_row (P clk) (db_attachments d)))"

definition q_ConfirmAttachment :: "string \<Rightarrow> string \<Rightarrow> string \<Rightarrow> string \<Rightarrow> NetworkAttachment prog" where
  "q_ConfirmAttachment tenant i podName podUid = update_attachment (\<lambda>clk. attachment_row tenant i)
     (\<lambda>clk a. a\<lparr>nta_PodName := podName, nta_PodUid := podUid, nta_ConfirmUid := podUid, nta_Version := nta_Version a + 1,
        nta_UpdatedAt := clk 0, nta_NextCheckAt := clk 1, nta_LeaseOwner := None, nta_LeaseUntil := None\<rparr>)"

definition q_ReleaseAttachment :: "string \<Rightarrow> string \<Rightarrow> string \<Rightarrow> NetworkAttachment prog" where
  "q_ReleaseAttachment tenant i finalizationID = update_attachment (\<lambda>clk. attachment_row tenant i)
     (\<lambda>clk a. a\<lparr>nta_FinalizationID := Some finalizationID, nta_State := Releasing, nta_Version := nta_Version a + 1,
        nta_UpdatedAt := clk 0, nta_NextCheckAt := clk 1, nta_LeaseOwner := None, nta_LeaseUntil := None\<rparr>)"

definition q_InsertAttachmentHistory :: "NetworkAttachmentHistory \<Rightarrow> unit prog" where
  "q_InsertAttachmentHistory h = stmt (\<lambda>clk d.
     if list_ex (\<lambda>x. nah_TenantID x = nah_TenantID h \<and> nah_HistoryID x = nah_HistoryID h) (db_attachment_history d)
     then Inl (constraint ''network_attachment_history_pkey'')
     else Inr ((), d\<lparr>db_attachment_history := db_attachment_history d @ [h\<lparr>nah_CreatedAt := clk 0\<rparr>]\<rparr>))"

text \<open>An attachment is due when its check time has come and no lease on it is live. The due parents are taken in the order of
  their earliest check without a live lease, a parent without one last; held rows are skipped. Each clock occurrence is read
  once.\<close>

definition unleased :: "go_time \<Rightarrow> NetworkAttachment \<Rightarrow> bool" where
  "unleased now a \<longleftrightarrow> (case nta_LeaseUntil a of None \<Rightarrow> True | Some t \<Rightarrow> t \<le> now)"

definition earliest :: "go_time list \<Rightarrow> bool \<times> go_time" where
  "earliest ts = (case ts of [] \<Rightarrow> (True, 0) | t # us \<Rightarrow> (False, fold min us t))"

definition q_LockDueAttachmentParent :: "NetworkVpc prog" where
  "q_LockDueAttachmentParent e t = timed_query (\<lambda>clk d.
     let mine = (\<lambda>v a. nta_TenantID a = nv_TenantID v \<and> nta_VpcID a = nv_VpcID v);
         vs = filter (\<lambda>v. list_ex (\<lambda>a. mine v a \<and> nta_NextCheckAt a \<le> clk 0 \<and> unleased (clk 1) a) (db_attachments d))
                [v. (i, v) \<leftarrow> zip [0..<length (db_vpcs d)] (db_vpcs d), \<not> ev_skip e i]
     in one_row (sort_key (\<lambda>v. (earliest (map nta_NextCheckAt (filter (\<lambda>a. mine v a \<and> unleased (clk 2) a) (db_attachments d))), nv_VpcID v)) vs)) e t"

definition q_LockDueAttachmentSubnet :: "string \<Rightarrow> string \<Rightarrow> NetworkSubnet prog" where
  "q_LockDueAttachmentSubnet tenant vpcID e t = timed_query (\<lambda>clk d.
     let mine = (\<lambda>s a. nta_TenantID a = nsu_TenantID s \<and> nta_SubnetID a = nsu_SubnetID s);
         ss = filter (\<lambda>s. nsu_TenantID s = tenant \<and> nsu_VpcID s = vpcID
                  \<and> list_ex (\<lambda>a. mine s a \<and> nta_NextCheckAt a \<le> clk 0 \<and> unleased (clk 1) a) (db_attachments d))
                [s. (i, s) \<leftarrow> zip [0..<length (db_subnets d)] (db_subnets d), \<not> ev_skip e i]
     in one_row (sort_key (\<lambda>s. (earliest (map nta_NextCheckAt (filter (\<lambda>a. mine s a \<and> unleased (clk 2) a) (db_attachments d))), nsu_SubnetID s)) ss)) e t"

definition q_LockDueAttachment :: "string \<Rightarrow> string \<Rightarrow> NetworkAttachment prog" where
  "q_LockDueAttachment tenant subnetID e t = timed_query (\<lambda>clk d.
     one_row (sort_key (\<lambda>a. (nta_NextCheckAt a, nta_AttachmentID a))
       (filter (\<lambda>a. nta_TenantID a = tenant \<and> nta_SubnetID a = subnetID \<and> nta_NextCheckAt a \<le> clk 0 \<and> unleased (clk 1) a)
         [a. (i, a) \<leftarrow> zip [0..<length (db_attachments d)] (db_attachments d), \<not> ev_skip e i]))) e t"

definition q_ClaimAttachment :: "string \<Rightarrow> string \<Rightarrow> string \<Rightarrow> int \<Rightarrow> NetworkAttachment prog" where
  "q_ClaimAttachment tenant i owner leaseMicros = update_attachment (\<lambda>clk. attachment_row tenant i)
     (\<lambda>clk a. a\<lparr>nta_LeaseOwner := Some owner, nta_LeaseUntil := Some (clk 0 + micro_interval leaseMicros), nta_Epoch := nta_Epoch a + 1\<rparr>)"

definition finished_attachment ::
  "(nat \<Rightarrow> go_time) \<Rightarrow> AttachmentProgress \<Rightarrow> bool \<Rightarrow> string option \<Rightarrow> int \<Rightarrow> NetworkAttachment \<Rightarrow> NetworkAttachment" where
  "finished_attachment clk p isBlocked finalization covered a =
     a\<lparr>nta_State := ap_State p, nta_Reason := ap_Reason p, nta_ProtocolBlocked := isBlocked, nta_PodName := ap_PodName p,
       nta_PodUid := ap_PodUID p, nta_FinalizationID := finalization, nta_ProviderRelations := ap_Relations p,
       nta_Version := nta_Version a + 1, nta_UpdatedAt := clk 0,
       nta_ObservedAt := (if ap_Observed p then Some (pr_CollectedAt (ap_Proof p)) else nta_ObservedAt a),
       nta_ReleasedAt := (if ap_State p = Released then Some (case nta_ReleasedAt a of None \<Rightarrow> clk 1 | Some t \<Rightarrow> t) else None),
       nta_ProcessedGeneration := max (nta_ProcessedGeneration a) covered,
       nta_EvidenceHash := (if ap_Observed p then pr_Hash (ap_Proof p) else nta_EvidenceHash a),
       nta_EvidenceAppliedAt := (if ap_Observed p then clk 2 else nta_EvidenceAppliedAt a),
       nta_RetryNotBefore := (if ap_Backoff p then clk 3 + micro_interval (microseconds (ap_NextDelay p)) else unix_epoch),
       nta_NextCheckAt := (if covered < nta_RequestedGeneration a \<and> \<not> ap_Backoff p then clk 4
                           else clk 5 + micro_interval (microseconds (ap_NextDelay p))),
       nta_LeaseOwner := None, nta_LeaseUntil := None\<rparr>"

definition q_FinishAttachment ::
  "string \<Rightarrow> string \<Rightarrow> int \<Rightarrow> int \<Rightarrow> string \<Rightarrow> AttachmentProgress \<Rightarrow> bool \<Rightarrow> string option \<Rightarrow> int \<Rightarrow> NetworkAttachment prog" where
  "q_FinishAttachment tenant i version epoch owner p isBlocked finalization covered = update_attachment
     (\<lambda>clk a. attachment_row tenant i a \<and> nta_Version a = version \<and> nta_Epoch a = epoch \<and> nta_LeaseOwner a = Some owner
        \<and> (case nta_LeaseUntil a of None \<Rightarrow> False | Some t \<Rightarrow> clk 6 < t))
     (\<lambda>clk. finished_attachment clk p isBlocked finalization covered)"

definition q_NotifyAttachment :: "string \<Rightarrow> string \<Rightarrow> int prog" where
  "q_NotifyAttachment tenant i = stmt (\<lambda>clk d.
     let P = attachment_row tenant i in
     Inr (count_where P (db_attachments d), d\<lparr>db_attachments := update_where P
       (\<lambda>a. a\<lparr>nta_RequestedGeneration := nta_RequestedGeneration a + 1,
              nta_NextCheckAt := max (nta_RetryNotBefore a) (min (nta_NextCheckAt a) (clk 0))\<rparr>) (db_attachments d)\<rparr>))"

section \<open>Use by consumers\<close>

definition attachment :: "NetworkAttachment \<Rightarrow> Attachment" where
  "attachment row = \<lparr>a_ID = nta_AttachmentID row, a_TenantID = nta_TenantID row, a_VPCID = nta_VpcID row, a_SubnetID = nta_SubnetID row,
     a_InstanceID = nta_InstanceID row, a_Slot = nta_Slot row, a_SubmissionID = nta_SubmissionID row, a_Generation = nta_Generation row,
     a_ClusterID = nta_ClusterID row, a_Namespace = nta_Namespace row, a_BindingRevision = nta_BindingRevision row, a_State = nta_State row,
     a_Reason = nta_Reason row, a_Version = nta_Version row,
     a_Plan = (if nta_State row = Reserved \<or> nta_State row = Attached then Some (nta_Plan row) else None),
     a_PodName = nta_PodName row, a_PodUID = nta_PodUid row, a_ConfirmUID = nta_ConfirmUid row,
     a_FinalizationID = textValue (nta_FinalizationID row), a_CreatedAt = nta_CreatedAt row, a_UpdatedAt = nta_UpdatedAt row,
     a_ObservedAt = nta_ObservedAt row, a_ReleasedAt = nta_ReleasedAt row\<rparr>"

definition attachmentReplay :: "PrepareAttachment \<Rightarrow> Attachment option prog" where
  "attachmentReplay r =
     call (optional (q_GetAttachmentReplay (pa_TenantID r) (pa_InstanceID r) (pa_Slot r) (pa_RequestKey r))) (\<lambda>row. case row of
       None \<Rightarrow> ret None
     | Some row \<Rightarrow>
         if nta_Fingerprint row \<noteq> PrepareAttachment_Fingerprint r
         then throw (Fail IdempotencyConflict ''attachment key already accepted another intent'')
         else ret (Some (attachment row)))"

definition attachmentHistory :: "NetworkAttachment \<Rightarrow> string \<Rightarrow> unit prog" where
  "attachmentHistory row event = andThen newUUID (\<lambda>historyID. q_InsertAttachmentHistory
     \<lparr>nah_TenantID = nta_TenantID row, nah_HistoryID = historyID, nah_AttachmentID = nta_AttachmentID row, nah_Version = nta_Version row,
      nah_Event = event, nah_State = nta_State row, nah_Reason = nta_Reason row, nah_PodUid = nta_PodUid row,
      nah_FinalizationID = nta_FinalizationID row, nah_CreatedAt = 0\<rparr>)"

text \<open>The row of a new attachment; the columns with a default are filled by the insertion.\<close>

definition prepared_row :: "PrepareAttachment \<Rightarrow> string \<Rightarrow> NetworkSubnet \<Rightarrow> NetworkProviderBinding \<Rightarrow> NetworkAttachment" where
  "prepared_row r i s b =
     \<lparr>nta_TenantID = pa_TenantID r, nta_AttachmentID = i, nta_VpcID = nsu_VpcID s, nta_SubnetID = nsu_SubnetID s,
      nta_BindingID = nbi_BindingID b, nta_InstanceID = pa_InstanceID r, nta_Slot = pa_Slot r, nta_RequestKey = pa_RequestKey r,
      nta_SubmissionID = pa_SubmissionID r, nta_Generation = pa_Generation r, nta_Fingerprint = PrepareAttachment_Fingerprint r,
      nta_ClusterID = nbi_ClusterID b, nta_Namespace = nbi_Namespace b, nta_BindingRevision = nbi_BindingID b @ '':'' @ nbi_ProviderUid b,
      nta_Plan = \<lparr>pl_FormatVersion = 1, pl_Namespace = nbi_Namespace b, pl_PrimaryNetworkRef = nbi_Namespace b @ ''/'' @ nbi_ProviderName b,
        pl_TenantID = pa_TenantID r, pl_InstanceID = pa_InstanceID r, pl_AttachmentID = i, pl_SubmissionID = pa_SubmissionID r,
        pl_Generation = pa_Generation r\<rparr>,
      nta_State = Reserved, nta_Reason = NoReason, nta_ProtocolBlocked = False, nta_Version = 1, nta_PodName = [], nta_PodUid = [],
      nta_ConfirmUid = [], nta_FinalizationID = None, nta_ProviderRelations = [], nta_CreatedAt = 0, nta_UpdatedAt = 0,
      nta_ObservedAt = None, nta_ReleasedAt = None, nta_NextCheckAt = 0, nta_LeaseOwner = None, nta_LeaseUntil = None, nta_Epoch = 0,
      nta_RequestedGeneration = 1, nta_ProcessedGeneration = 0, nta_RetryNotBefore = 0, nta_EvidenceHash = [], nta_EvidenceAppliedAt = 0\<rparr>"

definition parent_stale :: "go_time \<Rightarrow> duration \<Rightarrow> go_time option \<Rightarrow> bool" where
  "parent_stale now freshness t = (case t of None \<Rightarrow> True | Some t \<Rightarrow> freshness < time_sub now t)"

definition newAttachment :: "PrepareAttachment \<Rightarrow> duration \<Rightarrow> NetworkVpc \<Rightarrow> NetworkSubnet \<Rightarrow> Attachment prog" where
  "newAttachment r freshness v s =
     call (q_HasAttachmentSlot (pa_TenantID r) (pa_InstanceID r) (pa_Slot r)) (\<lambda>occupied.
     if occupied then throw (Fail AttachmentConflict ''instance primary slot is occupied'')
     else
     call q_DatabaseTime (\<lambda>now.
     if nv_State v \<noteq> Available \<or> nsu_State s \<noteq> Available \<or> parent_stale now freshness (nv_ObservedAt v) \<or> parent_stale now freshness (nsu_ObservedAt s)
     then throw (Fail NetworkNotReady ''fresh available VPC and subnet required'')
     else if pa_VPCID r \<noteq> [] \<and> pa_VPCID r \<noteq> nsu_VpcID s then throw (Fail InvalidArgument ''subnet does not belong to requested VPC'')
     else
     call (q_GetBinding (pa_TenantID r) (pa_SubnetID r)) (\<lambda>b.
     if nbi_ClusterID b \<noteq> pa_ClusterID r \<or> nbi_Namespace b \<noteq> pa_Namespace r
     then throw (Fail PlacementMismatch ''consumer placement differs from network binding'')
     else if nbi_ProviderUid b = [] then throw (Fail NetworkNotReady ''subnet binding identity is unavailable'')
     else
     andThen newUUID (\<lambda>u.
     call (q_InsertAttachment (prepared_row r (''att_'' @ replace_all_dash u) s b)) (\<lambda>row.
     call (attachmentHistory row ''prepared'') (\<lambda>_.
     ret (attachment row)))))))"

definition prepareAttachment :: "PrepareAttachment \<Rightarrow> duration \<Rightarrow> Attachment tx_outcome prog" where
  "prepareAttachment r freshness =
     call (q_GetSubnet (pa_TenantID r) (pa_SubnetID r)) (\<lambda>initial.
     call (q_LockVPC (pa_TenantID r) (nsu_VpcID initial)) (\<lambda>v.
     call (q_LockSubnet (pa_TenantID r) (pa_SubnetID r)) (\<lambda>s.
     call (q_LockAttachmentSlot (pa_TenantID r) (pa_InstanceID r) (pa_Slot r)) (\<lambda>_.
     andThen (attachmentReplay r) (\<lambda>found. case found of
       Some a \<Rightarrow> ret (Unsaved a)
     | None \<Rightarrow> andThen (newAttachment r freshness v s) (\<lambda>a. ret (Commit a)))))))"

definition Postgres_PrepareAttachment :: "env \<Rightarrow> env \<Rightarrow> PrepareAttachment \<Rightarrow> duration \<Rightarrow> db \<Rightarrow> Attachment res \<times> db" where
  "Postgres_PrepareAttachment e e' r freshness d =
     (case autocommit (attachmentReplay r) e d of
        (Inl x, d) \<Rightarrow> (Inl x, d)
      | (Inr (Some a), d) \<Rightarrow> (Inr a, d)
      | (Inr None, d) \<Rightarrow> transaction (prepareAttachment r freshness) e' d)"

definition Postgres_GetAttachment :: "env \<Rightarrow> string \<Rightarrow> string \<Rightarrow> db \<Rightarrow> Attachment res \<times> db" where
  "Postgres_GetAttachment e tenant i = autocommit (call (q_GetAttachment tenant i) (\<lambda>row. ret (attachment row))) e"

definition lockAttachmentParents :: "string \<Rightarrow> string \<Rightarrow> NetworkAttachment prog" where
  "lockAttachmentParents tenant i =
     andThen (q_GetAttachment tenant i) (\<lambda>initial.
     andThen (q_LockVPC tenant (nta_VpcID initial)) (\<lambda>_.
     andThen (q_LockSubnet tenant (nta_SubnetID initial)) (\<lambda>_.
     q_LockAttachment tenant i)))"

definition confirmAttachment :: "ConfirmAttachment \<Rightarrow> Attachment tx_outcome prog" where
  "confirmAttachment r =
     call (lockAttachmentParents (ca_TenantID r) (ca_AttachmentID r)) (\<lambda>row.
     if ca_ClusterID r \<noteq> nta_ClusterID row \<or> ca_Namespace r \<noteq> nta_Namespace row
     then throw (Fail PlacementMismatch ''Pod placement differs from attachment'')
     else if nta_PodUid row = ca_PodUID r \<and> nta_PodName row = ca_PodName r then ret (Unsaved (attachment row))
     else if nta_PodUid row \<noteq> [] \<or> nta_ConfirmUid row \<noteq> [] then throw (Fail AttachmentConflict ''attachment already registered another Pod'')
     else if nta_State row \<noteq> Reserved then throw (Fail AttachmentConflict ''attachment no longer accepts submission'')
     else if nta_Version row \<noteq> ca_ExpectedVersion r then throw (Fail VersionConflict ''attachment version changed'')
     else
     call (q_ConfirmAttachment (ca_TenantID r) (ca_AttachmentID r) (ca_PodName r) (ca_PodUID r)) (\<lambda>row.
     call (attachmentHistory row ''confirm_requested'') (\<lambda>_.
     ret (Commit (attachment row)))))"

definition Postgres_ConfirmAttachment :: "env \<Rightarrow> ConfirmAttachment \<Rightarrow> db \<Rightarrow> Attachment res \<times> db" where
  "Postgres_ConfirmAttachment e r = transaction (confirmAttachment r) e"

definition releaseAttachment :: "ReleaseAttachment \<Rightarrow> Attachment tx_outcome prog" where
  "releaseAttachment r =
     call (lockAttachmentParents (ra_TenantID r) (ra_AttachmentID r)) (\<lambda>row. case nta_FinalizationID row of
       Some f \<Rightarrow>
         if f \<noteq> ra_FinalizationID r then throw (Fail AttachmentConflict ''attachment has another finalization identity'')
         else ret (Unsaved (attachment row))
     | None \<Rightarrow>
     if nta_Version row \<noteq> ra_ExpectedVersion r then throw (Fail VersionConflict ''attachment version changed'')
     else
     call (q_ReleaseAttachment (ra_TenantID r) (ra_AttachmentID r) (ra_FinalizationID r)) (\<lambda>row.
     call (attachmentHistory row ''release_requested'') (\<lambda>_.
     ret (Commit (attachment row)))))"

definition Postgres_ReleaseAttachment :: "env \<Rightarrow> ReleaseAttachment \<Rightarrow> db \<Rightarrow> Attachment res \<times> db" where
  "Postgres_ReleaseAttachment e r = transaction (releaseAttachment r) e"

section \<open>The attachment executor\<close>

text \<open>The pod identities of consumers are not stored: the executor fills them in.\<close>

definition claimAttachment :: "string \<Rightarrow> duration \<Rightarrow> AttachmentWork option tx_outcome prog" where
  "claimAttachment owner lease =
     call (optional q_LockDueAttachmentParent) (\<lambda>v. case v of None \<Rightarrow> ret (Unsaved None) | Some v \<Rightarrow>
     call (optional (q_LockDueAttachmentSubnet (nv_TenantID v) (nv_VpcID v))) (\<lambda>s. case s of None \<Rightarrow> ret (Unsaved None) | Some s \<Rightarrow>
     call (optional (q_LockDueAttachment (nsu_TenantID s) (nsu_SubnetID s))) (\<lambda>a. case a of None \<Rightarrow> ret (Unsaved None) | Some a \<Rightarrow>
     call (q_ClaimAttachment (nta_TenantID a) (nta_AttachmentID a) owner (microseconds lease)) (\<lambda>a.
     call q_DatabaseTime (\<lambda>now.
     ret (Commit (Some \<lparr>aw_Requirement = \<lparr>rq_RequestedGeneration = nta_RequestedGeneration a, rq_AppliedAt = nta_EvidenceAppliedAt a,
           rq_Hash = nta_EvidenceHash a\<rparr>,
        aw_Now = now, aw_RequireFreshRelations = False, aw_Attachment = attachment a, aw_Plan = nta_Plan a, aw_Relations = nta_ProviderRelations a,
        aw_ConsumerPodUIDs = [], aw_ProtocolBlocked = nta_ProtocolBlocked a, aw_Owner = owner, aw_Epoch = nta_Epoch a\<rparr>)))))))"

definition Postgres_ClaimAttachment :: "env \<Rightarrow> string \<Rightarrow> duration \<Rightarrow> db \<Rightarrow> AttachmentWork option res \<times> db" where
  "Postgres_ClaimAttachment e owner lease = transaction (claimAttachment owner lease) e"

fun attachment_move :: "attachment_state \<Rightarrow> attachment_state \<Rightarrow> bool" where
  "attachment_move Reserved s \<longleftrightarrow> True"
| "attachment_move Attached s \<longleftrightarrow> s \<noteq> Reserved"
| "attachment_move Releasing s \<longleftrightarrow> s = Releasing \<or> s = Released"
| "attachment_move Released s \<longleftrightarrow> s = Released"

definition finishAttachment :: "AttachmentWork \<Rightarrow> AttachmentProgress \<Rightarrow> unit tx_outcome prog" where
  "finishAttachment w p =
     call (lockAttachmentParents (a_TenantID (aw_Attachment w)) (a_ID (aw_Attachment w))) (\<lambda>a.
     if nta_Version a \<noteq> a_Version (aw_Attachment w) \<or> nta_Epoch a \<noteq> aw_Epoch w \<or> textValue (nta_LeaseOwner a) \<noteq> aw_Owner w then throw ErrLeaseLost
     else if ap_Observed p \<and> \<not> Covers (ap_Proof p) (aw_Requirement w) then throw ErrLeaseLost
     else if \<not> attachment_move (nta_State a) (ap_State p) \<or> (nta_PodUid a \<noteq> [] \<and> nta_PodUid a \<noteq> ap_PodUID p)
        \<or> (case nta_FinalizationID a of None \<Rightarrow> False | Some f \<Rightarrow> f \<noteq> ap_FinalizationID p) then throw ErrLeaseLost
     else
     call (optional (q_FinishAttachment (nta_TenantID a) (nta_AttachmentID a) (nta_Version a) (aw_Epoch w) (aw_Owner w) p
        (nta_ProtocolBlocked a \<or> ap_ProtocolBlocked p) (if ap_FinalizationID p \<noteq> [] then Some (ap_FinalizationID p) else None)
        (if ap_Observed p then min (pr_CoveredGeneration (ap_Proof p)) (rq_RequestedGeneration (aw_Requirement w)) else 0))) (\<lambda>row. case row of
       None \<Rightarrow> throw ErrLeaseLost
     | Some row \<Rightarrow>
     andThen (if nta_State row \<noteq> nta_State a \<or> nta_Reason row \<noteq> nta_Reason a \<or> nta_PodUid row \<noteq> nta_PodUid a
          \<or> textValue (nta_FinalizationID row) \<noteq> textValue (nta_FinalizationID a) \<or> nta_ProviderRelations row \<noteq> nta_ProviderRelations a
       then wrapped (attachmentHistory row ''observed'') else ret ()) (\<lambda>_.
     ret (Commit ()))))"

definition Postgres_FinishAttachment :: "env \<Rightarrow> AttachmentWork \<Rightarrow> AttachmentProgress \<Rightarrow> db \<Rightarrow> unit res \<times> db" where
  "Postgres_FinishAttachment e w p = transaction (finishAttachment w p) e"

definition Postgres_NotifyAttachment :: "env \<Rightarrow> string \<Rightarrow> string \<Rightarrow> db \<Rightarrow> unit res \<times> db" where
  "Postgres_NotifyAttachment e tenant i = autocommit (call (q_NotifyAttachment tenant i) (\<lambda>_. ret ())) e"

end
