(* ===== verification/Net_Statements.thy ===== *)
theory Net_Statements
  imports Net_Store_LB Net_Store_Attachment
begin

text \<open>
  What the statements keep, the repository keeps.

  A predicate on databases that every writing statement keeps is kept by every program of the repositories. The locales
  state this contract once: \<open>quiet_statements\<close> for the statements that neither change the rows of VPCs and subnets nor take up
  a subnet, with the programs built from them, \<open>resource_statements\<close> for those and the statements by which attachments and load
  balancers take up subnets, \<open>vpc_admission\<close> for the quiet ones and the two that admit a VPC, and \<open>row_statements\<close> for all
  statements, with all programs. Readers keep everything.
\<close>

section \<open>Rules for the shapes of the programs\<close>

lemma keeps_call [keeps_rules]: "keeps I q \<Longrightarrow> (\<And>a. keeps I (k a)) \<Longrightarrow> keeps I (call q k)"
  by (simp add: call_def keeps_andThen keeps_wrapped)

lemma wp_call [wp_rules]:
  "wp q e (\<lambda>a. wp (k a) e Q R) (\<lambda>x. R (databaseFailure x)) d \<Longrightarrow> wp (call q k) e Q R d"
  by (simp add: call_def wp_andThen wp_wrapped)

lemma keeps_prod [keeps_rules]: "(\<And>a b. keeps I (f a b)) \<Longrightarrow> keeps I (case x of (a, b) \<Rightarrow> f a b)"
  by (cases x) simp

lemma keeps_snapshot [keeps_rules]:
  "(\<And>v. keeps I (f v)) \<Longrightarrow> (\<And>v. keeps I (g v)) \<Longrightarrow> (\<And>v. keeps I (h v)) \<Longrightarrow> (\<And>v. keeps I (k v)) \<Longrightarrow> (\<And>v. keeps I (l v))
   \<Longrightarrow> keeps I (case s of SnapVpc v \<Rightarrow> f v | SnapSubnet v \<Rightarrow> g v | SnapEip v \<Rightarrow> h v | SnapSnat v \<Rightarrow> k v | SnapLb v \<Rightarrow> l v)"
  by (cases s) simp_all

lemma keeps_ref [keeps_rules]:
  "(\<And>v. keeps I (f v)) \<Longrightarrow> (\<And>v. keeps I (g v)) \<Longrightarrow> (\<And>v. keeps I (h v)) \<Longrightarrow> (\<And>v. keeps I (k v)) \<Longrightarrow> (\<And>v. keeps I (l v))
   \<Longrightarrow> keeps I (case r of RVpc v \<Rightarrow> f v | RSubnet v \<Rightarrow> g v | REip v \<Rightarrow> h v | RSnat v \<Rightarrow> k v | RLb v \<Rightarrow> l v)"
  by (cases r) simp_all

lemma keeps_sum [keeps_rules]:
  "(\<And>x. keeps I (f x)) \<Longrightarrow> (\<And>y. keeps I (g y)) \<Longrightarrow> keeps I (case r of Inl x \<Rightarrow> f x | Inr y \<Rightarrow> g y)"
  by (cases r) simp_all

lemma keeps_list [keeps_rules]:
  "keeps I p \<Longrightarrow> (\<And>x xs. keeps I (f x xs)) \<Longrightarrow> keeps I (case r of [] \<Rightarrow> p | x # xs \<Rightarrow> f x xs)"
  by (cases r) simp_all

lemma keeps_map_prog [keeps_rules]: "(\<And>x. keeps I (f x)) \<Longrightarrow> keeps I (map_prog f xs)"
  by (induction xs) (auto intro!: keeps_ret keeps_andThen)

lemma keeps_pointwise:
  assumes "\<And>e t. \<exists>f. p e t = timed_query f e t"
  shows "keeps I p"
  unfolding keeps_def wp_def
proof (intro allI impI)
  fix e d n m
  assume "I d"
  let ?t = "\<lparr>tx_db = d, tx_calls = n, tx_ids = m\<rparr>"
  obtain f where "p e ?t = timed_query f e ?t" using assms by blast
  then show "case p e ?t of (Inr a, t) \<Rightarrow> I (tx_db t) | (Inl x, t) \<Rightarrow> I (tx_db t)"
    using keepsD [of I "timed_query f" d e, OF keeps_query(2) \<open>I d\<close>, unfolded wp_def, rule_format, of n m] by simp
qed

section \<open>Readers\<close>

lemma keeps_reads [keeps_rules]:
  "keeps I q_DatabaseTime" "keeps I advisory_lock" "keeps I (q_LockCreationKey a b)" "keeps I (q_LockSubnetCreationKey a b)"
  "keeps I (q_LockEgressKey a b c)" "keeps I (q_LockPlatformCluster a)" "keeps I (q_LockConnectivityRollout a)"
  "keeps I (q_GetIdempotency a b)" "keeps I (q_GetSubnetIdempotency a b)" "keeps I (q_GetEgressIdempotency a b c)"
  "keeps I (q_GetOperation a b)" "keeps I (q_GetBinding a b)" "keeps I (q_GetTenantNamespace a b)" "keeps I (q_LockVPC a b)"
  "keeps I (q_TryLockWorkVPC a b)" "keeps I (q_GetVPC a b)" "keeps I (q_ListVPCs a b c d t n)" "keeps I (q_GetSubnet a b)"
  "keeps I (q_LockSubnet a b)" "keeps I (q_CountBlockingSubnets a b)" "keeps I (q_SubnetOverlaps a b c)"
  "keeps I (q_ListSubnets a b c d f t n)" "keeps I (q_CountAttachments a b)" "keeps I (q_BlockingLBForVPC a b)"
  "keeps I (q_BlockingLBForSubnet a b)" "keeps I (q_LockEIP a b)" "keeps I (q_TryLockWorkEIP a b)"
  "keeps I (q_GetEIPInternal a b)" "keeps I (q_GetEIP a b)" "keeps I (q_GetEIPClaim a b)" "keeps I (q_ListEIPs a b c d t n)"
  "keeps I (q_LockSnat a b)" "keeps I (q_TryLockWorkSnat a b)" "keeps I (q_GetSnatInternal a b)" "keeps I (q_GetSnat a b y)"
  "keeps I (q_BlockingSnatForVPC a b)" "keeps I (q_BlockingSnatForEIP a b)" "keeps I (q_GetBaseConnectivity a b)"
  "keeps I (q_GetConnectivityRollout a)" "keeps I (q_GetPlatform a b c)" "keeps I (q_GetPublicPool a b)"
  "keeps I (q_LockPublicPool a b)" "keeps I (q_GetVlanNetwork a b)" "keeps I (q_GetDefaultPublicPool a)"
  "keeps I (q_GetDefaultIntranetPool a)" "keeps I (q_CheckLease a b c n)" "keeps I q_DueResourceCandidates"
  "keeps I (q_LockPlatform a b c)" "keeps I (q_CheckPlatformLease a b n)" "keeps I (q_GetPlatformOperation a b)"
  "keeps I (q_GetDeviceAdoption a b)" "keeps I (q_GetLBInternal a b)" "keeps I (q_LockLB a b)"
  "keeps I (q_GetLBConfiguration a b n)" "keeps I (q_GetLBListener a b)" "keeps I (q_ListLBMembers a b n)"
  "keeps I (q_ListLBSubnetRefs a b)" "keeps I (q_ListLBComponents a b)" "keeps I (q_ListLBMemberIdentities a b)"
  "keeps I (q_PublicPoolTopology a b)" "keeps I (q_GetAttachment a b)" "keeps I (q_LockAttachment a b)"
  "keeps I (q_GetAttachmentReplay a b c d)" "keeps I (q_LockAttachmentSlot a b c)" "keeps I (q_HasAttachmentSlot a b c)"
  "keeps I (q_GetLBCapability a)" "keeps I (q_ListLBBackendAttachments a b)" "keeps I (q_GetLBMember a b c)"
  "keeps I (q_ListLBs a b c d f g h t n)"
  by (simp_all add: keeps_query 
    q_DatabaseTime_def advisory_lock_def q_LockCreationKey_def q_LockSubnetCreationKey_def q_LockEgressKey_def
    q_LockPlatformCluster_def q_LockConnectivityRollout_def q_GetIdempotency_def q_GetSubnetIdempotency_def
    q_GetEgressIdempotency_def q_GetOperation_def q_GetBinding_def q_GetTenantNamespace_def q_LockVPC_def
    q_TryLockWorkVPC_def q_GetVPC_def q_ListVPCs_def q_GetSubnet_def q_LockSubnet_def q_CountBlockingSubnets_def
    q_SubnetOverlaps_def q_ListSubnets_def q_CountAttachments_def q_BlockingLBForVPC_def q_BlockingLBForSubnet_def
    q_LockEIP_def q_TryLockWorkEIP_def q_GetEIPInternal_def q_GetEIP_def q_GetEIPClaim_def q_ListEIPs_def q_LockSnat_def
    q_TryLockWorkSnat_def q_GetSnatInternal_def q_GetSnat_def q_BlockingSnatForVPC_def q_BlockingSnatForEIP_def
    q_GetBaseConnectivity_def q_GetConnectivityRollout_def q_GetPlatform_def q_GetPublicPool_def q_LockPublicPool_def
    q_GetVlanNetwork_def q_GetDefaultPublicPool_def q_GetDefaultIntranetPool_def q_CheckLease_def
    q_DueResourceCandidates_def q_LockPlatform_def q_CheckPlatformLease_def q_GetPlatformOperation_def
    q_GetDeviceAdoption_def q_GetLBInternal_def q_LockLB_def q_GetLBConfiguration_def q_GetLBListener_def
    q_ListLBMembers_def q_ListLBSubnetRefs_def q_ListLBComponents_def q_ListLBMemberIdentities_def q_PublicPoolTopology_def
    q_GetAttachment_def q_LockAttachment_def q_GetAttachmentReplay_def q_LockAttachmentSlot_def q_HasAttachmentSlot_def
    q_GetLBCapability_def q_ListLBBackendAttachments_def q_GetLBMember_def q_ListLBs_def)

lemma keeps_skip_locked [keeps_rules]:
  "keeps I (q_DuePlatformCandidate a)" "keeps I q_LockDueAttachmentParent" "keeps I (q_LockDueAttachmentSubnet a b)"
  "keeps I (q_LockDueAttachment a b)"
  by (rule keeps_pointwise, rule exI, rule q_DuePlatformCandidate_def q_LockDueAttachmentParent_def
    q_LockDueAttachmentSubnet_def q_LockDueAttachment_def)+

text \<open>The locks an executor takes.\<close>

lemma keeps_lockLBWork [keeps_rules]: "keeps I (lockLBWork a b)"
  unfolding lockLBWork_def Let_def by (intro keeps_rules)

lemma keeps_claim_candidate [keeps_rules]: "keeps I (claim_candidate a b c)"
  by (cases "dr_Kind a"; simp add: claim_candidate_def; intro keeps_rules)

lemma keeps_claim_first [keeps_rules]: "keeps I (claim_first a)"
  by (induction a rule: claim_first.induct) (simp_all only: claim_first.simps, (intro keeps_rules; assumption?)+)

lemma keeps_claimResource [keeps_rules]: "keeps I claimResource"
  unfolding claimResource_def Let_def by (intro keeps_rules)

lemma keeps_lockResource [keeps_rules]: "keeps I (lockResource a)"
  unfolding lockResource_def Let_def by (intro keeps_rules)

lemma keeps_lockedWork [keeps_rules]: "keeps I (lockedWork a)"
  unfolding lockedWork_def Let_def by (intro keeps_rules)

text \<open>The programs that only read.\<close>

lemma keeps_marshals [keeps_rules]: "keeps I (marshals a)"
  unfolding marshals_def Let_def by (intro keeps_rules)

lemma keeps_newEgressID [keeps_rules]: "keeps I (newEgressID a)"
  unfolding newEgressID_def Let_def by (intro keeps_rules)

lemma keeps_pool_refs [keeps_rules]: "keeps I (pool_refs a)"
  unfolding pool_refs_def Let_def by (intro keeps_rules)

lemma keeps_poolReady [keeps_rules]: "keeps I (poolReady a b c d)"
  unfolding poolReady_def Let_def by (intro keeps_rules)

lemma keeps_base_pool [keeps_rules]: "keeps I (base_pool a b)"
  unfolding base_pool_def Let_def by (intro keeps_rules)

lemma keeps_subnetReplay [keeps_rules]: "keeps I (subnetReplay a)"
  unfolding subnetReplay_def Let_def by (intro keeps_rules)

lemma keeps_vpc_replay [keeps_rules]: "keeps I (vpc_replay a b)"
  unfolding vpc_replay_def Let_def by (intro keeps_rules)

lemma keeps_getOperation [keeps_rules]: "keeps I (getOperation a b)"
  unfolding getOperation_def Let_def by (intro keeps_rules)

lemma keeps_must_prefix [keeps_rules]: "keeps I (must_prefix a)"
  unfolding must_prefix_def Let_def by (intro keeps_rules)

lemma keeps_requireTenantPublicEIP [keeps_rules]: "keeps I (requireTenantPublicEIP a)"
  unfolding requireTenantPublicEIP_def Let_def by (intro keeps_rules)

lemma keeps_requirePublicSnat [keeps_rules]: "keeps I (requirePublicSnat a)"
  unfolding requirePublicSnat_def Let_def by (intro keeps_rules)

lemma keeps_completedOperation [keeps_rules]: "keeps I (completedOperation a b)"
  unfolding completedOperation_def Let_def by (intro keeps_rules)

lemma keeps_egressReplay [keeps_rules]: "keeps I (egressReplay a b)"
  unfolding egressReplay_def Let_def by (intro keeps_rules)

lemma keeps_binding_settled [keeps_rules]: "keeps I (binding_settled a b)"
  unfolding binding_settled_def Let_def by (intro keeps_rules)

lemma keeps_requireBaseConnectivity [keeps_rules]: "keeps I (requireBaseConnectivity a b c d)"
  unfolding requireBaseConnectivity_def Let_def by (intro keeps_rules)

lemma keeps_snat_change [keeps_rules]: "keeps I (snat_change a b c)"
  unfolding snat_change_def Let_def by (intro keeps_rules)

lemma keeps_snat_free [keeps_rules]: "keeps I (snat_free a b c)"
  unfolding snat_free_def Let_def by (intro keeps_rules)

lemma keeps_snat_parents_ready [keeps_rules]: "keeps I (snat_parents_ready a b c d f g)"
  unfolding snat_parents_ready_def Let_def by (intro keeps_rules)

lemma keeps_loadLB [keeps_rules]: "keeps I (loadLB a)"
  unfolding loadLB_def Let_def by (intro keeps_rules)

lemma keeps_hydrateLBWork [keeps_rules]: "keeps I (hydrateLBWork a b)"
  unfolding hydrateLBWork_def Let_def by (intro keeps_rules)

lemma keeps_platformSnapshot [keeps_rules]: "keeps I (platformSnapshot a)"
  unfolding platformSnapshot_def Let_def by (intro keeps_rules)

lemma keeps_lockedPlatform [keeps_rules]: "keeps I (lockedPlatform a b)"
  unfolding lockedPlatform_def Let_def by (intro keeps_rules)

lemma keeps_attachmentReplay [keeps_rules]: "keeps I (attachmentReplay a)"
  unfolding attachmentReplay_def Let_def by (intro keeps_rules)

lemma keeps_lockAttachmentParents [keeps_rules]: "keeps I (lockAttachmentParents a b)"
  unfolding lockAttachmentParents_def Let_def by (intro keeps_rules)

lemma keeps_lbResult [keeps_rules]: "keeps I (lbResult a)"
  unfolding lbResult_def Let_def by (intro keeps_rules)

lemma keeps_lbReplay [keeps_rules]: "keeps I (lbReplay a)"
  unfolding lbReplay_def Let_def by (intro keeps_rules)

lemma keeps_lbBackendIdentity [keeps_rules]: "keeps I (lbBackendIdentity a b c d f g h)"
  unfolding lbBackendIdentity_def Let_def by (intro keeps_rules)

lemma keeps_lock_subnets [keeps_rules]: "keeps I (lock_subnets a b c)"
  by (induction c) (auto intro!: keeps_rules)

lemma keeps_lockLBSubnets [keeps_rules]: "keeps I (lockLBSubnets a b c)"
  unfolding lockLBSubnets_def Let_def by (intro keeps_rules)

lemma keeps_lb_parents [keeps_rules]: "keeps I (lb_parents a)"
  unfolding lb_parents_def Let_def by (intro keeps_rules)

lemma keeps_lb_subnet_ids [keeps_rules]: "keeps I (lb_subnet_ids a b)"
  unfolding lb_subnet_ids_def Let_def by (intro keeps_rules)

lemma keeps_lock_public_eip [keeps_rules]: "keeps I (lock_public_eip a b)"
  unfolding lock_public_eip_def Let_def by (intro keeps_rules)

lemma keeps_lb_update_open [keeps_rules]: "keeps I (lb_update_open a)"
  unfolding lb_update_open_def Let_def by (intro keeps_rules)

lemma keeps_lb_capable [keeps_rules]: "keeps I (lb_capable a b c)"
  unfolding lb_capable_def Let_def by (intro keeps_rules)

lemma keeps_lb_subnet_ready [keeps_rules]: "keeps I (lb_subnet_ready a b c d f g)"
  unfolding lb_subnet_ready_def Let_def by (intro keeps_rules)

lemma keeps_lb_eip_ready [keeps_rules]: "keeps I (lb_eip_ready a b c d f g)"
  unfolding lb_eip_ready_def Let_def by (intro keeps_rules)

lemma keeps_lb_current_members [keeps_rules]: "keeps I (lb_current_members a b)"
  unfolding lb_current_members_def Let_def by (intro keeps_rules)

lemma keeps_lb_backend_accepted [keeps_rules]: "keeps I (lb_backend_accepted a b c d f g h j)"
  unfolding lb_backend_accepted_def Let_def by (intro keeps_rules)

section \<open>The quiet statements\<close>

locale quiet_statements =
  fixes I :: "db \<Rightarrow> bool"
  assumes
    keeps_InsertOperation [keeps_rules]: "\<And>a b c d f. keeps I (q_InsertOperation a b c d f)"
    and keeps_InsertReconciliation [keeps_rules]: "\<And>a b c. keeps I (q_InsertReconciliation a b c)"
    and keeps_InsertBinding [keeps_rules]: "\<And>a b c d f g. keeps I (q_InsertBinding a b c d f g)"
    and keeps_InsertHistory [keeps_rules]: "\<And>a. keeps I (q_InsertHistory a)"
    and keeps_insert_idempotency [keeps_rules]: "\<And>a b c d f g h j. keeps I (insert_idempotency a b c d f g h j)"
    and keeps_EnsureTenantNamespace [keeps_rules]: "\<And>a b c. keeps I (q_EnsureTenantNamespace a b c)"
    and keeps_insert_eip [keeps_rules]: "\<And>a. keeps I (insert_eip a)"
    and keeps_AdvanceEIP [keeps_rules]: "\<And>a b c d f g h j. keeps I (q_AdvanceEIP a b c d f g h j)"
    and keeps_AdmitEIPDeletion [keeps_rules]: "\<And>a b c d. keeps I (q_AdmitEIPDeletion a b c d)"
    and keeps_insert_snat [keeps_rules]: "\<And>a. keeps I (insert_snat a)"
    and keeps_insert_claim [keeps_rules]: "\<And>a. keeps I (insert_claim a)"
    and keeps_ReleaseSnatClaim [keeps_rules]: "\<And>a b. keeps I (q_ReleaseSnatClaim a b)"
    and keeps_ConfirmSnatClaim [keeps_rules]: "\<And>a b. keeps I (q_ConfirmSnatClaim a b)"
    and keeps_SetSnatIntent [keeps_rules]: "\<And>a b c d f. keeps I (q_SetSnatIntent a b c d f)"
    and keeps_AdvanceSnat [keeps_rules]: "\<And>a b c d f g h j k. keeps I (q_AdvanceSnat a b c d f g h j k)"
    and keeps_AdmitSnatDeletion [keeps_rules]: "\<And>a b c d. keeps I (q_AdmitSnatDeletion a b c d)"
    and keeps_InsertBaseConnectivity [keeps_rules]: "\<And>a b c d f g h j k. keeps I (q_InsertBaseConnectivity a b c d f g h j k)"
    and keeps_SetBaseObservation [keeps_rules]: "\<And>a b c d f g h. keeps I (q_SetBaseObservation a b c d f g h)"
    and keeps_TerminateBase [keeps_rules]: "\<And>a b. keeps I (q_TerminateBase a b)"
    and keeps_RetireActiveOperation [keeps_rules]: "\<And>a b. keeps I (q_RetireActiveOperation a b)"
    and keeps_NotifyBaseParent [keeps_rules]: "\<And>a b. keeps I (q_NotifyBaseParent a b)"
    and keeps_NotifyBaseChildren [keeps_rules]: "\<And>a b. keeps I (q_NotifyBaseChildren a b)"
    and keeps_AcquireLease [keeps_rules]: "\<And>a b c d. keeps I (q_AcquireLease a b c d)"
    and keeps_ReleaseLease [keeps_rules]: "\<And>a b c d f g h j k. keeps I (q_ReleaseLease a b c d f g h j k)"
    and keeps_ScheduleDeletion [keeps_rules]: "\<And>a b. keeps I (q_ScheduleDeletion a b)"
    and keeps_RetireCancelledResource [keeps_rules]: "\<And>a b c d. keeps I (q_RetireCancelledResource a b c d)"
    and keeps_NotifyResource [keeps_rules]: "\<And>a b. keeps I (q_NotifyResource a b)"
    and keeps_RunOperation [keeps_rules]: "\<And>a b c d. keeps I (q_RunOperation a b c d)"
    and keeps_CompleteAttempt [keeps_rules]: "\<And>a b c d f g h. keeps I (q_CompleteAttempt a b c d f g h)"
    and keeps_BeginProviderMutation [keeps_rules]: "\<And>a b c d f. keeps I (q_BeginProviderMutation a b c d f)"
    and keeps_SaveBindingObservation [keeps_rules]: "\<And>a b c d f. keeps I (q_SaveBindingObservation a b c d f)"
    and keeps_AcquirePlatformLease [keeps_rules]: "\<And>a b c. keeps I (q_AcquirePlatformLease a b c)"
    and keeps_RunPlatformOperation [keeps_rules]: "\<And>a b c. keeps I (q_RunPlatformOperation a b c)"
    and keeps_BeginPlatformMutation [keeps_rules]: "\<And>a b c d. keeps I (q_BeginPlatformMutation a b c d)"
    and keeps_AdvancePlatform [keeps_rules]: "\<And>a b c d f g h j. keeps I (q_AdvancePlatform a b c d f g h j)"
    and keeps_CompletePlatformAttempt [keeps_rules]: "\<And>a b c d f g. keeps I (q_CompletePlatformAttempt a b c d f g)"
    and keeps_ReleasePlatformLease [keeps_rules]: "\<And>a b c d f g h j. keeps I (q_ReleasePlatformLease a b c d f g h j)"
    and keeps_SavePlatformImages [keeps_rules]: "\<And>a b c. keeps I (q_SavePlatformImages a b c)"
    and keeps_RetireVlanSlot [keeps_rules]: "\<And>a b. keeps I (q_RetireVlanSlot a b)"
    and keeps_RetirePublicPoolSlot [keeps_rules]: "\<And>a b. keeps I (q_RetirePublicPoolSlot a b)"
    and keeps_SaveDeviceProgress [keeps_rules]: "\<And>a b c. keeps I (q_SaveDeviceProgress a b c)"
    and keeps_InsertPlatformHistory [keeps_rules]: "\<And>a. keeps I (q_InsertPlatformHistory a)"
    and keeps_BeginLBComponentMutation [keeps_rules]: "\<And>a b c d f g. keeps I (q_BeginLBComponentMutation a b c d f g)"
    and keeps_SaveLBComponentObservation [keeps_rules]: "\<And>a b c d f g h. keeps I (q_SaveLBComponentObservation a b c d f g h)"
    and keeps_SaveLBMemberObservation [keeps_rules]: "\<And>a b c d f g. keeps I (q_SaveLBMemberObservation a b c d f g)"
    and keeps_SaveLBGenerated [keeps_rules]: "\<And>a. keeps I (q_SaveLBGenerated a)"
    and keeps_ReleaseLBClaim [keeps_rules]: "\<And>a b. keeps I (q_ReleaseLBClaim a b)"
    and keeps_BoundLBClaim [keeps_rules]: "\<And>a b. keeps I (q_BoundLBClaim a b)"
    and keeps_ReleaseLBVIP [keeps_rules]: "\<And>a b. keeps I (q_ReleaseLBVIP a b)"
    and keeps_ReleaseLBSubnetRefs [keeps_rules]: "\<And>a b c d f. keeps I (q_ReleaseLBSubnetRefs a b c d f)"
    and keeps_ConfirmAttachment [keeps_rules]: "\<And>a b c d. keeps I (q_ConfirmAttachment a b c d)"
    and keeps_InsertAttachmentHistory [keeps_rules]: "\<And>a. keeps I (q_InsertAttachmentHistory a)"
    and keeps_ClaimAttachment [keeps_rules]: "\<And>a b c d. keeps I (q_ClaimAttachment a b c d)"
    and keeps_NotifyAttachment [keeps_rules]: "\<And>a b. keeps I (q_NotifyAttachment a b)"
    and keeps_UpdateLBIntent [keeps_rules]: "\<And>a b c d f g. keeps I (q_UpdateLBIntent a b c d f g)"
    and keeps_RetireLBMutation [keeps_rules]: "\<And>a b c. keeps I (q_RetireLBMutation a b c)"
    and keeps_InsertLBListener [keeps_rules]: "\<And>a b c d f g. keeps I (q_InsertLBListener a b c d f g)"
    and keeps_ReserveLBVIP [keeps_rules]: "\<And>a b c d f g h. keeps I (q_ReserveLBVIP a b c d f g h)"
    and keeps_InsertLBConfiguration [keeps_rules]: "\<And>a b c d f g h j k l m n. keeps I (q_InsertLBConfiguration a b c d f g h j k l m n)"
    and keeps_InsertLBMember [keeps_rules]: "\<And>a. keeps I (q_InsertLBMember a)"
    and keeps_InsertLBConfigurationMember [keeps_rules]: "\<And>a b c d f g h. keeps I (q_InsertLBConfigurationMember a b c d f g h)"
    and keeps_InsertLBComponent [keeps_rules]: "\<And>a b c d f g h j. keeps I (q_InsertLBComponent a b c d f g h j)"
begin

lemma keeps_inserts [keeps_rules]:
  "keeps I (q_InsertIdempotency a b c d f v t)" "keeps I (q_InsertSubnetIdempotency a b c d f v t)"
  "keeps I (q_InsertEgressIdempotency a b c d r f v t)" "keeps I (q_InsertEIP a b c d f g h n t k)"
  "keeps I (q_InsertBaseEIP a b c d f n g t h)" "keeps I (q_InsertSnat a b c d f g t h)"
  "keeps I (q_InsertBaseSnat a b c d f g t h)" "keeps I (q_ClaimEIPForSnat a b c d f t)"
  "keeps I (q_ClaimEIPForLB a b c d f t)" "keeps I (q_InsertLBIdempotency a b c d f g v t)"
  by (simp_all only: q_InsertIdempotency_def q_InsertSubnetIdempotency_def q_InsertEgressIdempotency_def q_InsertEIP_def
    q_InsertBaseEIP_def q_InsertSnat_def q_InsertBaseSnat_def q_ClaimEIPForSnat_def
    q_ClaimEIPForLB_def q_InsertLBIdempotency_def keeps_insert_idempotency keeps_insert_eip
    keeps_insert_snat keeps_insert_claim)

lemma keeps_child_records [keeps_rules]: "keeps I (child_records a b c d f)"
  unfolding child_records_def Let_def by (intro keeps_rules)

lemma keeps_retire_creation [keeps_rules]: "keeps I (retire_creation a b c)"
  unfolding retire_creation_def Let_def by (intro keeps_rules)

lemma keeps_insertEgressAcceptance [keeps_rules]: "keeps I (insertEgressAcceptance a b c d f g h j k)"
  unfolding insertEgressAcceptance_def Let_def by (intro keeps_rules)

lemma keeps_newEIP [keeps_rules]: "keeps I (newEIP a b c d)"
  unfolding newEIP_def Let_def by (intro keeps_rules)

lemma keeps_acceptEIP [keeps_rules]: "keeps I (acceptEIP a b c d)"
  unfolding acceptEIP_def Let_def by (intro keeps_rules)

lemma keeps_deletionRecords [keeps_rules]: "keeps I (deletionRecords a b c d f g)"
  unfolding deletionRecords_def Let_def by (intro keeps_rules)

lemma keeps_deleteEIP [keeps_rules]: "keeps I (deleteEIP a b c)"
  unfolding deleteEIP_def Let_def by (intro keeps_rules)

lemma keeps_claim_for_snat [keeps_rules]: "keeps I (claim_for_snat a b c d f)"
  unfolding claim_for_snat_def Let_def by (intro keeps_rules)

lemma keeps_newSnat [keeps_rules]: "keeps I (newSnat a b c d f g)"
  unfolding newSnat_def Let_def by (intro keeps_rules)

lemma keeps_acceptSnat [keeps_rules]: "keeps I (acceptSnat a b c d)"
  unfolding acceptSnat_def Let_def by (intro keeps_rules)

lemma keeps_deleteSnat [keeps_rules]: "keeps I (deleteSnat a b c)"
  unfolding deleteSnat_def Let_def by (intro keeps_rules)

lemma keeps_prepareBaseCleanup [keeps_rules]: "keeps I (prepareBaseCleanup a b)"
  unfolding prepareBaseCleanup_def Let_def by (intro keeps_rules)

lemma keeps_baseWorkGate [keeps_rules]: "keeps I (baseWorkGate a b c)"
  unfolding baseWorkGate_def Let_def by (intro keeps_rules)

lemma keeps_finish_vpc_base [keeps_rules]: "keeps I (finish_vpc_base a b c d f)"
  unfolding finish_vpc_base_def Let_def by (intro keeps_rules)

lemma keeps_finishBaseConnectivity [keeps_rules]: "keeps I (finishBaseConnectivity a b c d)"
  unfolding finishBaseConnectivity_def Let_def by (intro keeps_rules)

lemma keeps_finishLB [keeps_rules]: "keeps I (finishLB a b c)"
  unfolding finishLB_def Let_def by (intro keeps_rules)

lemma keeps_claimPlatform [keeps_rules]: "keeps I (claimPlatform a b c)"
  unfolding claimPlatform_def Let_def by (intro keeps_rules)

lemma keeps_beginPlatformMutation [keeps_rules]: "keeps I (beginPlatformMutation a b c d)"
  unfolding beginPlatformMutation_def Let_def by (intro keeps_rules)

lemma keeps_finishPlatform [keeps_rules]: "keeps I (finishPlatform a b c)"
  unfolding finishPlatform_def Let_def by (intro keeps_rules)

lemma keeps_claim_tenant [keeps_rules]: "keeps I (claim_tenant a b c d)"
  unfolding claim_tenant_def Let_def by (intro keeps_rules)

lemma keeps_claim [keeps_rules]: "keeps I (claim a b c d)"
  unfolding claim_def Let_def by (intro keeps_rules)

lemma keeps_beginTenantMutation [keeps_rules]: "keeps I (beginTenantMutation a b c)"
  unfolding beginTenantMutation_def Let_def by (intro keeps_rules)

lemma keeps_beginMutation [keeps_rules]: "keeps I (beginMutation a b c d)"
  unfolding beginMutation_def Let_def by (intro keeps_rules)

lemma keeps_beginLoadBalancerMutation [keeps_rules]: "keeps I (beginLoadBalancerMutation a b c d f)"
  unfolding beginLoadBalancerMutation_def Let_def by (intro keeps_rules)

lemma keeps_finish_lease [keeps_rules]: "keeps I (finish_lease a b c)"
  unfolding finish_lease_def Let_def by (intro keeps_rules)

lemma keeps_attachmentHistory [keeps_rules]: "keeps I (attachmentHistory a b)"
  unfolding attachmentHistory_def Let_def by (intro keeps_rules)

lemma keeps_confirmAttachment [keeps_rules]: "keeps I (confirmAttachment a)"
  unfolding confirmAttachment_def Let_def by (intro keeps_rules)

lemma keeps_claimAttachment [keeps_rules]: "keeps I (claimAttachment a b)"
  unfolding claimAttachment_def Let_def by (intro keeps_rules)

lemma keeps_insertLBComponent [keeps_rules]: "keeps I (insertLBComponent a b c)"
  unfolding insertLBComponent_def Let_def by (intro keeps_rules)

lemma keeps_lbHistory [keeps_rules]: "keeps I (lbHistory a b c d)"
  unfolding lbHistory_def Let_def by (intro keeps_rules)

lemma keeps_lb_new_parts [keeps_rules]: "keeps I (lb_new_parts a b c d f g h)"
  unfolding lb_new_parts_def Let_def by (intro keeps_rules)

lemma keeps_lb_member_parts [keeps_rules]: "keeps I (lb_member_parts a b c d)"
  unfolding lb_member_parts_def by (intro keeps_rules)

lemma keeps_lb_record [keeps_rules]: "keeps I (lb_record a b c d f g h)"
  unfolding lb_record_def Let_def by (intro keeps_rules)

end

section \<open>The statements that leave VPC and subnet rows alone\<close>

locale resource_statements = quiet_statements +
  assumes
    keeps_AdvanceLB [keeps_rules]: "\<And>a b c d f g h j k l m. keeps I (q_AdvanceLB a b c d f g h j k l m)"
    and keeps_InsertAttachment [keeps_rules]: "\<And>a. keeps I (q_InsertAttachment a)"
    and keeps_ReleaseAttachment [keeps_rules]: "\<And>a b c. keeps I (q_ReleaseAttachment a b c)"
    and keeps_FinishAttachment [keeps_rules]: "\<And>a b c d f g h j k. keeps I (q_FinishAttachment a b c d f g h j k)"
    and keeps_InsertLB [keeps_rules]: "\<And>a b c d f g h j k l m n u. keeps I (q_InsertLB a b c d f g h j k l m n u)"
    and keeps_AdmitLBDeletion [keeps_rules]: "\<And>a b c d. keeps I (q_AdmitLBDeletion a b c d)"
    and keeps_ReserveLBSubnet [keeps_rules]: "\<And>a b c d f g. keeps I (q_ReserveLBSubnet a b c d f g)"
begin

lemma keeps_newAttachment [keeps_rules]: "keeps I (newAttachment a b c d)"
  unfolding newAttachment_def Let_def by (intro keeps_rules)

lemma keeps_prepareAttachment [keeps_rules]: "keeps I (prepareAttachment a b)"
  unfolding prepareAttachment_def Let_def by (intro keeps_rules)

lemma keeps_releaseAttachment [keeps_rules]: "keeps I (releaseAttachment a)"
  unfolding releaseAttachment_def Let_def by (intro keeps_rules)

lemma keeps_finishAttachment [keeps_rules]: "keeps I (finishAttachment a b)"
  unfolding finishAttachment_def Let_def by (intro keeps_rules)

lemma keeps_lb_write [keeps_rules]: "keeps I (lb_write a b c d f g h j k l m)"
  unfolding lb_write_def Let_def by (intro keeps_rules)

lemma keeps_newLB [keeps_rules]: "keeps I (newLB a b c d f g h j k l m n)"
  unfolding newLB_def Let_def by (intro keeps_rules)

lemma keeps_acceptLoadBalancer [keeps_rules]: "keeps I (acceptLoadBalancer a b c d f)"
  unfolding acceptLoadBalancer_def Let_def by (intro keeps_rules)

lemma keeps_deleteLoadBalancer [keeps_rules]: "keeps I (deleteLoadBalancer a b c)"
  unfolding deleteLoadBalancer_def Let_def by (intro keeps_rules)

end

section \<open>The admission of VPCs\<close>

locale vpc_admission = quiet_statements +
  assumes
    keeps_InsertVPC [keeps_rules]: "\<And>a b c d f g h. keeps I (q_InsertVPC a b c d f g h)"
    and keeps_RequireVPCBase [keeps_rules]: "\<And>a b. keeps I (q_RequireVPCBase a b)"
begin

lemma keeps_acceptBaseConnectivity [keeps_rules]: "keeps I (acceptBaseConnectivity a b c d f g h j k)"
  unfolding acceptBaseConnectivity_def Let_def by (intro keeps_rules)

lemma keeps_newVPC [keeps_rules]: "keeps I (newVPC a b c)"
  unfolding newVPC_def Let_def by (intro keeps_rules)

lemma keeps_acceptVPC [keeps_rules]: "keeps I (acceptVPC a b c)"
  unfolding acceptVPC_def Let_def by (intro keeps_rules)

end

section \<open>All statements\<close>

locale row_statements = resource_statements + vpc_admission +
  assumes
    keeps_AdmitDeletion [keeps_rules]: "\<And>a b c d. keeps I (q_AdmitDeletion a b c d)"
    and keeps_AdvanceVPC [keeps_rules]: "\<And>a b c d f g h. keeps I (q_AdvanceVPC a b c d f g h)"
    and keeps_InsertSubnet [keeps_rules]: "\<And>a b c d f g h j k. keeps I (q_InsertSubnet a b c d f g h j k)"
    and keeps_AdmitSubnetDeletion [keeps_rules]: "\<And>a b c d. keeps I (q_AdmitSubnetDeletion a b c d)"
    and keeps_AdvanceSubnet [keeps_rules]: "\<And>a b c d f g h. keeps I (q_AdvanceSubnet a b c d f g h)"
begin

lemma keeps_deleteVPC [keeps_rules]: "keeps I (deleteVPC a b)"
  unfolding deleteVPC_def Let_def by (intro keeps_rules)

lemma keeps_newSubnet [keeps_rules]: "keeps I (newSubnet a b c)"
  unfolding newSubnet_def Let_def by (intro keeps_rules)

lemma keeps_acceptSubnet [keeps_rules]: "keeps I (acceptSubnet a b c)"
  unfolding acceptSubnet_def Let_def by (intro keeps_rules)

lemma keeps_deleteSubnet [keeps_rules]: "keeps I (deleteSubnet a b)"
  unfolding deleteSubnet_def Let_def by (intro keeps_rules)

lemma keeps_advanceResource [keeps_rules]: "keeps I (advanceResource a b)"
  unfolding advanceResource_def Let_def by (intro keeps_rules)

lemma keeps_finish_records [keeps_rules]: "keeps I (finish_records a b c)"
  unfolding finish_records_def Let_def by (intro keeps_rules)

lemma keeps_finishTenant [keeps_rules]: "keeps I (finishTenant a b c)"
  unfolding finishTenant_def Let_def by (intro keeps_rules)

lemma keeps_finish [keeps_rules]: "keeps I (finish a b c)"
  unfolding finish_def Let_def by (intro keeps_rules)

end

end
