(* ===== verification/Net_Evolution.thy ===== *)
theory Net_Evolution
  imports Net_Statements
begin

text \<open>
  How the tables evolve. Each table has a condition on its rows (the keys and unique indexes of the schema, and that an
  operation is final exactly when it has a completion time) and a preorder on them (what a row keeps for ever: its identity, a
  recorded provider identity, a final operation, a released claim, a version or lease epoch never going back). A row is never
  removed. Every statement respects both, so every program of the repository does.
\<close>

section \<open>Tables that only grow\<close>

definition grows :: "('a \<Rightarrow> 'a \<Rightarrow> bool) \<Rightarrow> 'a list \<Rightarrow> 'a list \<Rightarrow> bool" where
  "grows R xs ys \<longleftrightarrow> length xs \<le> length ys \<and> (\<forall>i < length xs. R (xs ! i) (ys ! i))"

lemma grows_refl: "(\<And>x. R x x) \<Longrightarrow> grows R xs xs"
  by (simp add: grows_def)

lemma grows_trans:
  "(\<And>x y z. R x y \<Longrightarrow> R y z \<Longrightarrow> R x z) \<Longrightarrow> grows R xs ys \<Longrightarrow> grows R ys zs \<Longrightarrow> grows R xs zs"
  unfolding grows_def by (meson le_trans less_le_trans)

lemma grows_append: "(\<And>x. R x x) \<Longrightarrow> grows R xs (xs @ ys)"
  by (simp add: grows_def nth_append)

lemma length_update_where [simp]: "length (update_where P f xs) = length xs"
  by (simp add: update_where_def)

lemma grows_update: "(\<And>x. R x x) \<Longrightarrow> (\<And>x. P x \<Longrightarrow> R x (f x)) \<Longrightarrow> grows R xs (update_where P f xs)"
  by (simp add: grows_def update_where_def)

lemma grows_member: "grows R xs ys \<Longrightarrow> x \<in> set xs \<Longrightarrow> \<exists>y \<in> set ys. R x y"
  by (metis grows_def in_set_conv_nth less_le_trans)

lemma grows_eq: "grows (=) xs ys \<longleftrightarrow> (\<exists>zs. ys = xs @ zs)"
proof
  assume "grows (=) xs ys"
  then have "xs = take (length xs) ys"
    by (intro nth_equalityI) (auto simp: grows_def)
  then have "ys = xs @ drop (length xs) ys" by (metis append_take_drop_id)
  then show "\<exists>zs. ys = xs @ zs" by blast
qed (auto simp: grows_append)

text \<open>A table step: from a well-formed table to a well-formed table that has grown.\<close>

definition table_step :: "('a list \<Rightarrow> bool) \<Rightarrow> ('a \<Rightarrow> 'a \<Rightarrow> bool) \<Rightarrow> 'a list \<Rightarrow> 'a list \<Rightarrow> bool" where
  "table_step W R xs ys \<longleftrightarrow> (W xs \<longrightarrow> W ys \<and> grows R xs ys)"

locale table =
  fixes W :: "'a list \<Rightarrow> bool" and R :: "'a \<Rightarrow> 'a \<Rightarrow> bool"
  assumes row_refl: "R x x"
    and row_trans: "R x y \<Longrightarrow> R y z \<Longrightarrow> R x z"
begin

lemma step_refl: "table_step W R xs xs"
  by (simp add: table_step_def grows_refl row_refl)

lemma step_trans: "table_step W R xs ys \<Longrightarrow> table_step W R ys zs \<Longrightarrow> table_step W R xs zs"
  using grows_trans [where R = R and xs = xs and ys = ys and zs = zs] row_trans by (auto simp: table_step_def)

lemma step_insert: "(W xs \<Longrightarrow> W (xs @ [y])) \<Longrightarrow> table_step W R xs (xs @ [y])"
  by (simp add: table_step_def grows_append row_refl)

lemma step_update:
  "(W xs \<Longrightarrow> W (update_where P f xs)) \<Longrightarrow> (\<And>x. P x \<Longrightarrow> R x (f x)) \<Longrightarrow> table_step W R xs (update_where P f xs)"
  by (simp add: table_step_def grows_update row_refl)

end

section \<open>Keys\<close>

lemma distinct_key_append: "distinct (map k xs) \<Longrightarrow> \<not> list_ex (\<lambda>x. k x = k y) xs \<Longrightarrow> distinct (map k (xs @ [y]))"
  by (induction xs) auto

lemma map_update_where: "(\<And>x. P x \<Longrightarrow> k (f x) = k x) \<Longrightarrow> map k (update_where P f xs) = map k xs"
  by (simp add: update_where_def)

lemma distinct_key_update: "(\<And>x. P x \<Longrightarrow> k (f x) = k x) \<Longrightarrow> distinct (map k (update_where P f xs)) = distinct (map k xs)"
  by (simp add: map_update_where)

lemma list_all_update: "list_all Q xs \<Longrightarrow> (\<And>x. P x \<Longrightarrow> Q x \<Longrightarrow> Q (f x)) \<Longrightarrow> list_all Q (update_where P f xs)"
  by (induction xs) (auto simp: update_where_def)

text \<open>A partial unique index: the rows in scope have distinct keys.\<close>

definition unique_where :: "('a \<Rightarrow> bool) \<Rightarrow> ('a \<Rightarrow> 'b) \<Rightarrow> 'a list \<Rightarrow> bool" where
  "unique_where Q k xs \<longleftrightarrow> distinct (map k (filter Q xs))"

lemma unique_where_append: "unique_where Q k xs \<Longrightarrow> \<not> list_ex (\<lambda>x. Q x \<and> k x = k y) xs \<Longrightarrow> unique_where Q k (xs @ [y])"
  by (induction xs) (auto simp: unique_where_def list_ex_iff)

lemma unique_where_update:
  assumes "unique_where Q k xs" and "\<And>x. P x \<Longrightarrow> Q (f x) \<Longrightarrow> Q x" and "\<And>x. P x \<Longrightarrow> k (f x) = k x"
  shows "unique_where Q k (update_where P f xs)"
  using assms(1)
proof (induction xs)
  case (Cons x xs)
  have sub: "set (map k (filter Q (update_where P f xs))) \<subseteq> set (map k (filter Q xs))"
    using assms(2,3) by (auto simp: update_where_def image_iff split: if_splits)
  show ?case
    using Cons sub assms(2,3) by (auto simp: unique_where_def update_where_def split: if_splits)
qed (simp add: unique_where_def update_where_def)

lemma unique_whereD:
  "unique_where Q k xs \<Longrightarrow> x \<in> set xs \<Longrightarrow> y \<in> set xs \<Longrightarrow> Q x \<Longrightarrow> Q y \<Longrightarrow> k x = k y \<Longrightarrow> x = y"
  by (auto simp: unique_where_def distinct_map inj_on_def)

section \<open>What the rows of each table keep\<close>

definition vpc_keeps :: "NetworkVpc \<Rightarrow> NetworkVpc \<Rightarrow> bool" where
  "vpc_keeps v v' \<longleftrightarrow> nv_TenantID v' = nv_TenantID v \<and> nv_VpcID v' = nv_VpcID v \<and> nv_Name v' = nv_Name v
     \<and> nv_Description v' = nv_Description v \<and> nv_Cidr v' = nv_Cidr v \<and> nv_CreatedAt v' = nv_CreatedAt v
     \<and> nv_Version v \<le> nv_Version v' \<and> (nv_BaseConnectivityRequired v \<longrightarrow> nv_BaseConnectivityRequired v')
     \<and> (nv_Version v' = nv_Version v \<longrightarrow> nv_State v' = nv_State v \<and> nv_LastOperationID v' = nv_LastOperationID v)"

definition subnet_keeps :: "NetworkSubnet \<Rightarrow> NetworkSubnet \<Rightarrow> bool" where
  "subnet_keeps s s' \<longleftrightarrow> nsu_TenantID s' = nsu_TenantID s \<and> nsu_SubnetID s' = nsu_SubnetID s \<and> nsu_VpcID s' = nsu_VpcID s
     \<and> nsu_Name s' = nsu_Name s \<and> nsu_Description s' = nsu_Description s \<and> nsu_Cidr s' = nsu_Cidr s \<and> nsu_Gateway s' = nsu_Gateway s
     \<and> nsu_CreatedAt s' = nsu_CreatedAt s \<and> nsu_Version s \<le> nsu_Version s' \<and> (nsu_Version s' = nsu_Version s \<longrightarrow> s' = s)"

definition eip_keeps :: "NetworkEip \<Rightarrow> NetworkEip \<Rightarrow> bool" where
  "eip_keeps x x' \<longleftrightarrow> nei_TenantID x' = nei_TenantID x \<and> nei_EipID x' = nei_EipID x \<and> nei_ClusterID x' = nei_ClusterID x
     \<and> nei_Namespace x' = nei_Namespace x \<and> nei_PoolID x' = nei_PoolID x \<and> nei_PoolRevision x' = nei_PoolRevision x
     \<and> nei_Scope x' = nei_Scope x \<and> nei_ManagedBy x' = nei_ManagedBy x \<and> nei_SystemOwnerVpc x' = nei_SystemOwnerVpc x
     \<and> nei_Version x \<le> nei_Version x' \<and> (nei_Version x' = nei_Version x \<longrightarrow> x' = x)"

definition snat_keeps :: "NetworkSnatBinding \<Rightarrow> NetworkSnatBinding \<Rightarrow> bool" where
  "snat_keeps x x' \<longleftrightarrow> nsn_TenantID x' = nsn_TenantID x \<and> nsn_SnatID x' = nsn_SnatID x \<and> nsn_ClusterID x' = nsn_ClusterID x
     \<and> nsn_Namespace x' = nsn_Namespace x \<and> nsn_VpcID x' = nsn_VpcID x \<and> nsn_EipID x' = nsn_EipID x \<and> nsn_Purpose x' = nsn_Purpose x
     \<and> nsn_TargetGeneration x \<le> nsn_TargetGeneration x' \<and> nsn_Version x \<le> nsn_Version x' \<and> (nsn_Version x' = nsn_Version x \<longrightarrow> x' = x)"

definition claim_keeps :: "NetworkEipClaim \<Rightarrow> NetworkEipClaim \<Rightarrow> bool" where
  "claim_keeps c c' \<longleftrightarrow> ncl_TenantID c' = ncl_TenantID c \<and> ncl_EipID c' = ncl_EipID c \<and> ncl_Target c' = ncl_Target c
     \<and> (ncl_ReleasedAt c \<noteq> None \<longrightarrow> c' = c)"

definition operation_keeps :: "NetworkOperation \<Rightarrow> NetworkOperation \<Rightarrow> bool" where
  "operation_keeps x x' \<longleftrightarrow> nop_TenantID x' = nop_TenantID x \<and> nop_OperationID x' = nop_OperationID x \<and> nop_Ref x' = nop_Ref x
     \<and> nop_Kind x' = nop_Kind x \<and> nop_CreatedAt x' = nop_CreatedAt x \<and> nop_Attempt x \<le> nop_Attempt x'
     \<and> (nop_CompletedAt x \<noteq> None \<longrightarrow> x' = x)"

definition reconciliation_keeps :: "NetworkReconciliation \<Rightarrow> NetworkReconciliation \<Rightarrow> bool" where
  "reconciliation_keeps r r' \<longleftrightarrow> nre_TenantID r' = nre_TenantID r \<and> nre_Ref r' = nre_Ref r \<and> nre_LeaseEpoch r \<le> nre_LeaseEpoch r'
     \<and> nre_RequestedGeneration r \<le> nre_RequestedGeneration r' \<and> (nre_Retired r \<longrightarrow> nre_Retired r')"

definition binding_keeps :: "NetworkProviderBinding \<Rightarrow> NetworkProviderBinding \<Rightarrow> bool" where
  "binding_keeps b b' \<longleftrightarrow> nbi_TenantID b' = nbi_TenantID b \<and> nbi_Ref b' = nbi_Ref b \<and> nbi_BindingID b' = nbi_BindingID b
     \<and> nbi_ClusterID b' = nbi_ClusterID b \<and> nbi_Namespace b' = nbi_Namespace b \<and> nbi_ProviderName b' = nbi_ProviderName b
     \<and> (nbi_ProviderUid b \<noteq> [] \<longrightarrow> nbi_ProviderUid b' = nbi_ProviderUid b) \<and> (nbi_CreateDispatched b \<longrightarrow> nbi_CreateDispatched b')"

definition base_keeps :: "NetworkVpcBaseConnectivity \<Rightarrow> NetworkVpcBaseConnectivity \<Rightarrow> bool" where
  "base_keeps b b' \<longleftrightarrow> nbc_TenantID b' = nbc_TenantID b \<and> nbc_VpcID b' = nbc_VpcID b \<and> nbc_PoolID b' = nbc_PoolID b
     \<and> nbc_PoolRevision b' = nbc_PoolRevision b \<and> nbc_EipID b' = nbc_EipID b \<and> nbc_SnatID b' = nbc_SnatID b
     \<and> (nbc_Terminating b \<longrightarrow> nbc_Terminating b') \<and> nbc_Version b \<le> nbc_Version b'"

definition platform_keeps :: "NetworkPlatformResource \<Rightarrow> NetworkPlatformResource \<Rightarrow> bool" where
  "platform_keeps r r' \<longleftrightarrow> npl_ResourceID r' = npl_ResourceID r \<and> npl_ClusterID r' = npl_ClusterID r \<and> npl_Kind r' = npl_Kind r
     \<and> npl_BindingID r' = npl_BindingID r \<and> (npl_ProviderUid r \<noteq> [] \<longrightarrow> npl_ProviderUid r' = npl_ProviderUid r)
     \<and> npl_Version r \<le> npl_Version r'"

definition platform_operation_keeps :: "NetworkPlatformOperation \<Rightarrow> NetworkPlatformOperation \<Rightarrow> bool" where
  "platform_operation_keeps x x' \<longleftrightarrow> npo_OperationID x' = npo_OperationID x \<and> npo_ResourceID x' = npo_ResourceID x
     \<and> npo_Kind x' = npo_Kind x \<and> (npo_CompletedAt x \<noteq> None \<longrightarrow> x' = x)"

definition platform_reconciliation_keeps :: "NetworkPlatformReconciliation \<Rightarrow> NetworkPlatformReconciliation \<Rightarrow> bool" where
  "platform_reconciliation_keeps r r' \<longleftrightarrow> npr_ResourceID r' = npr_ResourceID r \<and> npr_LeaseEpoch r \<le> npr_LeaseEpoch r'"

definition attachment_keeps :: "NetworkAttachment \<Rightarrow> NetworkAttachment \<Rightarrow> bool" where
  "attachment_keeps a a' \<longleftrightarrow> nta_TenantID a' = nta_TenantID a \<and> nta_AttachmentID a' = nta_AttachmentID a \<and> nta_VpcID a' = nta_VpcID a
     \<and> nta_SubnetID a' = nta_SubnetID a \<and> nta_InstanceID a' = nta_InstanceID a \<and> nta_Slot a' = nta_Slot a
     \<and> nta_RequestKey a' = nta_RequestKey a \<and> nta_Fingerprint a' = nta_Fingerprint a \<and> nta_Plan a' = nta_Plan a
     \<and> nta_Version a \<le> nta_Version a' \<and> nta_Epoch a \<le> nta_Epoch a' \<and> nta_RequestedGeneration a \<le> nta_RequestedGeneration a'"

definition component_keeps :: "NetworkLbComponent \<Rightarrow> NetworkLbComponent \<Rightarrow> bool" where
  "component_keeps c c' \<longleftrightarrow> nlk_TenantID c' = nlk_TenantID c \<and> nlk_LbID c' = nlk_LbID c \<and> nlk_ComponentID c' = nlk_ComponentID c
     \<and> nlk_Kind c' = nlk_Kind c \<and> nlk_ProviderName c' = nlk_ProviderName c
     \<and> (nlk_ProviderUid c \<noteq> [] \<longrightarrow> nlk_ProviderUid c' = nlk_ProviderUid c) \<and> (nlk_DeletedAt c \<noteq> None \<longrightarrow> nlk_DeletedAt c' = nlk_DeletedAt c)
     \<and> nlk_AppliedVersion c \<le> nlk_AppliedVersion c'"

definition lb_keeps :: "NetworkLoadBalancer \<Rightarrow> NetworkLoadBalancer \<Rightarrow> bool" where
  "lb_keeps l l' \<longleftrightarrow> nlb_TenantID l' = nlb_TenantID l \<and> nlb_LbID l' = nlb_LbID l \<and> nlb_ClusterID l' = nlb_ClusterID l
     \<and> nlb_Namespace l' = nlb_Namespace l \<and> nlb_VpcID l' = nlb_VpcID l \<and> nlb_SubnetID l' = nlb_SubnetID l \<and> nlb_Exposure l' = nlb_Exposure l
     \<and> nlb_PublicEipID l' = nlb_PublicEipID l \<and> nlb_PrivateIp l' = nlb_PrivateIp l \<and> nlb_DesiredVersion l \<le> nlb_DesiredVersion l'
     \<and> nlb_AppliedVersion l \<le> nlb_AppliedVersion l' \<and> nlb_Version l \<le> nlb_Version l' \<and> (nlb_Version l' = nlb_Version l \<longrightarrow> l' = l)"

definition member_keeps :: "NetworkLbMember \<Rightarrow> NetworkLbMember \<Rightarrow> bool" where
  "member_keeps m m' \<longleftrightarrow> (\<exists>s r t. m' = m\<lparr>nlm_State := s, nlm_Reason := r, nlm_ObservedAt := t\<rparr>)"

lemma member_keeps_update [simp]: "member_keeps m (m\<lparr>nlm_State := s, nlm_Reason := r, nlm_ObservedAt := t\<rparr>)"
  by (auto simp: member_keeps_def)

definition vip_keeps :: "NetworkLbVipIntent \<Rightarrow> NetworkLbVipIntent \<Rightarrow> bool" where
  "vip_keeps v v' \<longleftrightarrow> (\<exists>t. v' = v\<lparr>nvi_ReleasedAt := t\<rparr>) \<and> (nvi_ReleasedAt v \<noteq> None \<longrightarrow> v' = v)"

lemma vip_keeps_release [simp]: "nvi_ReleasedAt v = None \<Longrightarrow> vip_keeps v (v\<lparr>nvi_ReleasedAt := t\<rparr>)"
  by (auto simp: vip_keeps_def)

section \<open>What holds of the rows of each table\<close>

definition vpcs_ok :: "NetworkVpc list \<Rightarrow> bool" where
  "vpcs_ok vs \<longleftrightarrow> distinct (map nv_VpcID vs) \<and> list_all (\<lambda>v. validVPCID (nv_VpcID v)) vs"

definition subnets_ok :: "NetworkSubnet list \<Rightarrow> bool" where
  "subnets_ok ss \<longleftrightarrow> distinct (map nsu_SubnetID ss) \<and> list_all (\<lambda>s. validSubnetID (nsu_SubnetID s)) ss"

definition eips_ok :: "NetworkEip list \<Rightarrow> bool" where
  "eips_ok xs \<longleftrightarrow> distinct (map nei_EipID xs) \<and> list_all (\<lambda>x. hex_id ''eip_'' (nei_EipID x)) xs"

definition snats_ok :: "NetworkSnatBinding list \<Rightarrow> bool" where
  "snats_ok xs \<longleftrightarrow> distinct (map nsn_SnatID xs) \<and> list_all (\<lambda>x. hex_id ''snat_'' (nsn_SnatID x)) xs"

definition claims_ok :: "NetworkEipClaim list \<Rightarrow> bool" where
  "claims_ok cs \<longleftrightarrow> unique_where (\<lambda>c. ncl_ReleasedAt c = None) (\<lambda>c. (ncl_TenantID c, ncl_EipID c)) cs
     \<and> unique_where (\<lambda>c. ncl_ReleasedAt c = None) (\<lambda>c. (ncl_TenantID c, ncl_Target c)) cs"

definition operations_ok :: "NetworkOperation list \<Rightarrow> bool" where
  "operations_ok xs \<longleftrightarrow> distinct (map (\<lambda>x. (nop_TenantID x, nop_OperationID x)) xs)
     \<and> unique_where op_active (\<lambda>x. (nop_TenantID x, nop_Ref x)) xs
     \<and> list_all (\<lambda>x. op_active x \<longleftrightarrow> nop_CompletedAt x = None) xs"

definition reconciliations_ok :: "NetworkReconciliation list \<Rightarrow> bool" where
  "reconciliations_ok rs \<longleftrightarrow> distinct (map (\<lambda>r. (nre_TenantID r, nre_Ref r)) rs)"

definition bindings_ok :: "NetworkProviderBinding list \<Rightarrow> bool" where
  "bindings_ok bs \<longleftrightarrow> distinct (map (\<lambda>b. (nbi_TenantID b, nbi_BindingID b)) bs) \<and> distinct (map (\<lambda>b. (nbi_TenantID b, nbi_Ref b)) bs)
     \<and> distinct (map (\<lambda>b. (nbi_ClusterID b, ref_kind (nbi_Ref b), nbi_Namespace b, nbi_ProviderName b)) bs)"

definition idempotency_ok :: "NetworkIdempotency list \<Rightarrow> bool" where
  "idempotency_ok xs \<longleftrightarrow> distinct (map (\<lambda>x. (nid_TenantID x, nid_OperationKind x, nid_IdempotencyKey x)) xs)"

definition base_ok :: "NetworkVpcBaseConnectivity list \<Rightarrow> bool" where
  "base_ok bs \<longleftrightarrow> distinct (map (\<lambda>b. (nbc_TenantID b, nbc_VpcID b)) bs)"

definition namespaces_ok :: "NetworkTenantNamespace list \<Rightarrow> bool" where
  "namespaces_ok ns \<longleftrightarrow> distinct (map (\<lambda>n. (nns_TenantID n, nns_ClusterID n)) ns) \<and> distinct (map (\<lambda>n. (nns_ClusterID n, nns_Namespace n)) ns)"

definition attachments_ok :: "NetworkAttachment list \<Rightarrow> bool" where
  "attachments_ok xs \<longleftrightarrow> distinct (map (\<lambda>a. (nta_TenantID a, nta_AttachmentID a)) xs)
     \<and> distinct (map (\<lambda>a. (nta_TenantID a, nta_InstanceID a, nta_Slot a, nta_RequestKey a)) xs) \<and> list_all attachment_check xs"

definition lbs_ok :: "NetworkLoadBalancer list \<Rightarrow> bool" where
  "lbs_ok ls \<longleftrightarrow> distinct (map nlb_LbID ls) \<and> list_all (\<lambda>l. hex_id ''lb_'' (nlb_LbID l)) ls"

definition vips_ok :: "NetworkLbVipIntent list \<Rightarrow> bool" where
  "vips_ok vs \<longleftrightarrow> distinct (map (\<lambda>v. (nvi_TenantID v, nvi_LbID v)) vs)
     \<and> unique_where (\<lambda>v. nvi_ReleasedAt v = None) (\<lambda>v. (nvi_TenantID v, nvi_ClusterID v, nvi_VpcID v, nvi_Address v)) vs"

lemmas row_keeps_defs = vpc_keeps_def subnet_keeps_def eip_keeps_def snat_keeps_def claim_keeps_def operation_keeps_def
  reconciliation_keeps_def binding_keeps_def base_keeps_def platform_keeps_def platform_operation_keeps_def
  platform_reconciliation_keeps_def attachment_keeps_def component_keeps_def lb_keeps_def

lemmas rows_ok_defs = vpcs_ok_def subnets_ok_def eips_ok_def snats_ok_def claims_ok_def operations_ok_def reconciliations_ok_def
  bindings_ok_def idempotency_ok_def base_ok_def namespaces_ok_def attachments_ok_def lbs_ok_def vips_ok_def

interpretation vpcs: table vpcs_ok vpc_keeps by unfold_locales (auto simp: vpc_keeps_def)

interpretation subnets: table subnets_ok subnet_keeps by unfold_locales (auto simp: subnet_keeps_def)

interpretation eips: table eips_ok eip_keeps by unfold_locales (auto simp: eip_keeps_def)

interpretation snats: table snats_ok snat_keeps by unfold_locales (auto simp: snat_keeps_def)

interpretation claims: table claims_ok claim_keeps by unfold_locales (auto simp: claim_keeps_def)

interpretation operations: table operations_ok operation_keeps by unfold_locales (auto simp: operation_keeps_def)

interpretation reconciliations: table reconciliations_ok reconciliation_keeps by unfold_locales (auto simp: reconciliation_keeps_def)

interpretation bindings: table bindings_ok binding_keeps by unfold_locales (auto simp: binding_keeps_def)

interpretation idempotency: table idempotency_ok "(=)" by unfold_locales auto

interpretation log: table "\<lambda>_. True" "(=)" by unfold_locales auto

interpretation base: table base_ok base_keeps by unfold_locales (auto simp: base_keeps_def)

interpretation namespaces: table namespaces_ok "(=)" by unfold_locales auto

interpretation platform: table "\<lambda>_. True" platform_keeps by unfold_locales (auto simp: platform_keeps_def)

interpretation platform_operations: table "\<lambda>_. True" platform_operation_keeps by unfold_locales (auto simp: platform_operation_keeps_def)

interpretation platform_reconciliations: table "\<lambda>_. True" platform_reconciliation_keeps
  by unfold_locales (auto simp: platform_reconciliation_keeps_def)

interpretation attachments: table attachments_ok attachment_keeps by unfold_locales (auto simp: attachment_keeps_def)

interpretation components: table "\<lambda>_. True" component_keeps by unfold_locales (auto simp: component_keeps_def)

interpretation lbs: table lbs_ok lb_keeps
proof
  show "lb_keeps x z" if "lb_keeps x y" "lb_keeps y z" for x y z
  proof (cases "nlb_Version z = nlb_Version x")
    case True
    then have "y = x" "z = y" using that by (auto simp: lb_keeps_def)
    then show ?thesis using that by simp
  next
    case False
    then show ?thesis using that by (simp add: lb_keeps_def)
  qed
qed (simp add: lb_keeps_def)

interpretation members: table "\<lambda>_. True" member_keeps
proof
  show "member_keeps x x" for x
    using member_keeps_update [where m = x and s = "nlm_State x" and r = "nlm_Reason x" and t = "nlm_ObservedAt x"] by simp
  show "member_keeps x z" if "member_keeps x y" "member_keeps y z" for x y z
    using that by (force simp: member_keeps_def)
qed

interpretation vips: table vips_ok vip_keeps
proof
  show "vip_keeps x x" for x
    by (auto simp: vip_keeps_def intro!: exI [of _ "nvi_ReleasedAt x"])
qed (auto simp: vip_keeps_def)

section \<open>Databases\<close>

definition evolves :: "db \<Rightarrow> db \<Rightarrow> bool" where
  "evolves d d' \<longleftrightarrow>
     table_step vpcs_ok vpc_keeps (db_vpcs d) (db_vpcs d')
     \<and> table_step subnets_ok subnet_keeps (db_subnets d) (db_subnets d')
     \<and> table_step eips_ok eip_keeps (db_eips d) (db_eips d')
     \<and> table_step snats_ok snat_keeps (db_snats d) (db_snats d')
     \<and> table_step claims_ok claim_keeps (db_claims d) (db_claims d')
     \<and> table_step operations_ok operation_keeps (db_operations d) (db_operations d')
     \<and> table_step reconciliations_ok reconciliation_keeps (db_reconciliations d) (db_reconciliations d')
     \<and> table_step bindings_ok binding_keeps (db_bindings d) (db_bindings d')
     \<and> table_step idempotency_ok (=) (db_idempotency d) (db_idempotency d')
     \<and> table_step (\<lambda>_. True) (=) (db_history d) (db_history d')
     \<and> table_step base_ok base_keeps (db_base d) (db_base d')
     \<and> table_step namespaces_ok (=) (db_namespaces d) (db_namespaces d')
     \<and> table_step (\<lambda>_. True) platform_keeps (db_platform d) (db_platform d')
     \<and> table_step (\<lambda>_. True) platform_operation_keeps (db_platform_operations d) (db_platform_operations d')
     \<and> table_step (\<lambda>_. True) platform_reconciliation_keeps (db_platform_reconciliations d) (db_platform_reconciliations d')
     \<and> table_step (\<lambda>_. True) (=) (db_platform_history d) (db_platform_history d')
     \<and> table_step attachments_ok attachment_keeps (db_attachments d) (db_attachments d')
     \<and> table_step (\<lambda>_. True) (=) (db_attachment_history d) (db_attachment_history d')
     \<and> table_step (\<lambda>_. True) component_keeps (db_lb_components d) (db_lb_components d')
     \<and> table_step lbs_ok lb_keeps (db_lbs d) (db_lbs d')
     \<and> table_step vips_ok vip_keeps (db_lb_vips d) (db_lb_vips d')
     \<and> table_step (\<lambda>_. True) member_keeps (db_lb_members d) (db_lb_members d')
     \<and> table_step (\<lambda>_. True) (=) (db_lb_configurations d) (db_lb_configurations d')
     \<and> table_step (\<lambda>_. True) (=) (db_lb_configuration_members d) (db_lb_configuration_members d')
     \<and> table_step (\<lambda>_. True) (=) (db_lb_listeners d) (db_lb_listeners d')"

lemmas step_refls = vpcs.step_refl subnets.step_refl eips.step_refl snats.step_refl claims.step_refl operations.step_refl reconciliations.step_refl bindings.step_refl idempotency.step_refl
  log.step_refl base.step_refl namespaces.step_refl platform.step_refl platform_operations.step_refl platform_reconciliations.step_refl attachments.step_refl components.step_refl
  lbs.step_refl vips.step_refl members.step_refl

lemmas step_transs = vpcs.step_trans subnets.step_trans eips.step_trans snats.step_trans claims.step_trans operations.step_trans reconciliations.step_trans bindings.step_trans idempotency.step_trans
  log.step_trans base.step_trans namespaces.step_trans platform.step_trans platform_operations.step_trans platform_reconciliations.step_trans attachments.step_trans components.step_trans
  lbs.step_trans vips.step_trans members.step_trans

lemma evolves_refl [simp]: "evolves d d"
  by (simp add: evolves_def step_refls)

lemma evolves_trans:
  assumes "evolves d d'" and "evolves d' d''"
  shows "evolves d d''"
  using assms unfolding evolves_def by (elim conjE, intro conjI) (erule step_transs, assumption)+

lemma evolves_tables:
  "table_step vpcs_ok vpc_keeps (db_vpcs d) (t0 d) \<Longrightarrow> evolves d (d\<lparr>db_vpcs := t0 d\<rparr>)"
  "table_step subnets_ok subnet_keeps (db_subnets d) (t1 d) \<Longrightarrow> evolves d (d\<lparr>db_subnets := t1 d\<rparr>)"
  "table_step eips_ok eip_keeps (db_eips d) (t2 d) \<Longrightarrow> evolves d (d\<lparr>db_eips := t2 d\<rparr>)"
  "table_step snats_ok snat_keeps (db_snats d) (t3 d) \<Longrightarrow> evolves d (d\<lparr>db_snats := t3 d\<rparr>)"
  "table_step claims_ok claim_keeps (db_claims d) (t4 d) \<Longrightarrow> evolves d (d\<lparr>db_claims := t4 d\<rparr>)"
  "table_step operations_ok operation_keeps (db_operations d) (t5 d) \<Longrightarrow> evolves d (d\<lparr>db_operations := t5 d\<rparr>)"
  "table_step reconciliations_ok reconciliation_keeps (db_reconciliations d) (t6 d) \<Longrightarrow> evolves d (d\<lparr>db_reconciliations := t6 d\<rparr>)"
  "table_step bindings_ok binding_keeps (db_bindings d) (t7 d) \<Longrightarrow> evolves d (d\<lparr>db_bindings := t7 d\<rparr>)"
  "table_step idempotency_ok (=) (db_idempotency d) (t8 d) \<Longrightarrow> evolves d (d\<lparr>db_idempotency := t8 d\<rparr>)"
  "table_step (\<lambda>_. True) (=) (db_history d) (t9 d) \<Longrightarrow> evolves d (d\<lparr>db_history := t9 d\<rparr>)"
  "table_step base_ok base_keeps (db_base d) (t10 d) \<Longrightarrow> evolves d (d\<lparr>db_base := t10 d\<rparr>)"
  "table_step namespaces_ok (=) (db_namespaces d) (t11 d) \<Longrightarrow> evolves d (d\<lparr>db_namespaces := t11 d\<rparr>)"
  "table_step (\<lambda>_. True) platform_keeps (db_platform d) (t12 d) \<Longrightarrow> evolves d (d\<lparr>db_platform := t12 d\<rparr>)"
  "table_step (\<lambda>_. True) platform_operation_keeps (db_platform_operations d) (t13 d) \<Longrightarrow> evolves d (d\<lparr>db_platform_operations := t13 d\<rparr>)"
  "table_step (\<lambda>_. True) platform_reconciliation_keeps (db_platform_reconciliations d) (t14 d) \<Longrightarrow> evolves d (d\<lparr>db_platform_reconciliations := t14 d\<rparr>)"
  "table_step (\<lambda>_. True) (=) (db_platform_history d) (t15 d) \<Longrightarrow> evolves d (d\<lparr>db_platform_history := t15 d\<rparr>)"
  "table_step attachments_ok attachment_keeps (db_attachments d) (t16 d) \<Longrightarrow> evolves d (d\<lparr>db_attachments := t16 d\<rparr>)"
  "table_step (\<lambda>_. True) (=) (db_attachment_history d) (t17 d) \<Longrightarrow> evolves d (d\<lparr>db_attachment_history := t17 d\<rparr>)"
  "table_step (\<lambda>_. True) component_keeps (db_lb_components d) (t18 d) \<Longrightarrow> evolves d (d\<lparr>db_lb_components := t18 d\<rparr>)"
  "table_step lbs_ok lb_keeps (db_lbs d) (t19 d) \<Longrightarrow> evolves d (d\<lparr>db_lbs := t19 d\<rparr>)"
  "table_step vips_ok vip_keeps (db_lb_vips d) (t20 d) \<Longrightarrow> evolves d (d\<lparr>db_lb_vips := t20 d\<rparr>)"
  "table_step (\<lambda>_. True) member_keeps (db_lb_members d) (t21 d) \<Longrightarrow> evolves d (d\<lparr>db_lb_members := t21 d\<rparr>)"
  "table_step (\<lambda>_. True) (=) (db_lb_configurations d) (t22 d) \<Longrightarrow> evolves d (d\<lparr>db_lb_configurations := t22 d\<rparr>)"
  "table_step (\<lambda>_. True) (=) (db_lb_configuration_members d) (t23 d) \<Longrightarrow> evolves d (d\<lparr>db_lb_configuration_members := t23 d\<rparr>)"
  "table_step (\<lambda>_. True) (=) (db_lb_listeners d) (t24 d) \<Longrightarrow> evolves d (d\<lparr>db_lb_listeners := t24 d\<rparr>)"
  by (simp_all add: evolves_def step_refls)

lemma evolves_untracked:
  "evolves d (d\<lparr>db_vlans := u1\<rparr>)" "evolves d (d\<lparr>db_pools := u2\<rparr>)" "evolves d (d\<lparr>db_devices := u3\<rparr>)"
  "evolves d (d\<lparr>db_lb_generated := u4\<rparr>)" "evolves d (d\<lparr>db_lb_subnets := u5\<rparr>)"
  by (simp_all add: evolves_def step_refls)

lemma keeps_evolves:
  assumes "\<And>clk d a d'. f clk d = Inr (a, d') \<Longrightarrow> evolves d d'"
  shows "keeps (evolves d0) (stmt f)"
  using assms evolves_trans by (blast intro: keeps_stmt)

section \<open>Updates\<close>

text \<open>An update that keeps what its rows must keep respects the keys: they are part of the identity of a row.\<close>

lemma table_updates:
  "(\<And>x. P1 x \<Longrightarrow> vpc_keeps x (f1 x)) \<Longrightarrow> table_step vpcs_ok vpc_keeps v1 (update_where P1 f1 v1)"
  "(\<And>x. P2 x \<Longrightarrow> subnet_keeps x (f2 x)) \<Longrightarrow> table_step subnets_ok subnet_keeps v2 (update_where P2 f2 v2)"
  "(\<And>x. P3 x \<Longrightarrow> eip_keeps x (f3 x)) \<Longrightarrow> table_step eips_ok eip_keeps v3 (update_where P3 f3 v3)"
  "(\<And>x. P4 x \<Longrightarrow> snat_keeps x (f4 x)) \<Longrightarrow> table_step snats_ok snat_keeps v4 (update_where P4 f4 v4)"
  "(\<And>x. P5 x \<Longrightarrow> reconciliation_keeps x (f5 x)) \<Longrightarrow> table_step reconciliations_ok reconciliation_keeps v5 (update_where P5 f5 v5)"
  "(\<And>x. P6 x \<Longrightarrow> binding_keeps x (f6 x)) \<Longrightarrow> table_step bindings_ok binding_keeps v6 (update_where P6 f6 v6)"
  "(\<And>x. P7 x \<Longrightarrow> base_keeps x (f7 x)) \<Longrightarrow> table_step base_ok base_keeps v7 (update_where P7 f7 v7)"
  "(\<And>x. P8 x \<Longrightarrow> lb_keeps x (f8 x)) \<Longrightarrow> table_step lbs_ok lb_keeps v8 (update_where P8 f8 v8)"
  by (intro vpcs.step_update subnets.step_update eips.step_update snats.step_update reconciliations.step_update bindings.step_update
      base.step_update lbs.step_update; simp add: rows_ok_defs row_keeps_defs map_update_where list_all_update)+

lemma attachments_update:
  assumes "\<And>x. P x \<Longrightarrow> attachment_keeps x (f x)" and check: "\<And>x. x \<in> set xs \<Longrightarrow> P x \<Longrightarrow> attachment_check x \<Longrightarrow> attachment_check (f x)"
  shows "table_step attachments_ok attachment_keeps xs (update_where P f xs)"
proof (rule attachments.step_update [OF _ assms(1)])
  assume ok: "attachments_ok xs"
  then have "list_all attachment_check (update_where P f xs)"
    using check by (auto simp: attachments_ok_def list_all_iff update_where_def)
  moreover have "map (\<lambda>a. (nta_TenantID a, nta_AttachmentID a)) (update_where P f xs) = map (\<lambda>a. (nta_TenantID a, nta_AttachmentID a)) xs"
    "map (\<lambda>a. (nta_TenantID a, nta_InstanceID a, nta_Slot a, nta_RequestKey a)) (update_where P f xs)
      = map (\<lambda>a. (nta_TenantID a, nta_InstanceID a, nta_Slot a, nta_RequestKey a)) xs"
    using assms(1) by (intro map_update_where; simp add: attachment_keeps_def)+
  ultimately show "attachments_ok (update_where P f xs)"
    using ok by (simp add: attachments_ok_def)
qed

lemma vips_update:
  assumes "\<And>x. P x \<Longrightarrow> vip_keeps x (f x)"
  shows "table_step vips_ok vip_keeps xs (update_where P f xs)"
proof (rule vips.step_update [OF _ assms])
  have keys: "nvi_TenantID (f x) = nvi_TenantID x" "nvi_LbID (f x) = nvi_LbID x" "nvi_ClusterID (f x) = nvi_ClusterID x"
    "nvi_VpcID (f x) = nvi_VpcID x" "nvi_Address (f x) = nvi_Address x" "nvi_ReleasedAt (f x) = None \<longrightarrow> nvi_ReleasedAt x = None" if "P x" for x
    using assms [OF that] by (auto simp: vip_keeps_def)
  then show "vips_ok xs \<Longrightarrow> vips_ok (update_where P f xs)"
    by (auto simp: vips_ok_def map_update_where intro!: unique_where_update)
qed

lemma claims_update:
  assumes "\<And>x. P x \<Longrightarrow> claim_keeps x (f x)"
  shows "table_step claims_ok claim_keeps xs (update_where P f xs)"
proof (rule claims.step_update [OF _ assms])
  have "ncl_ReleasedAt x = None" if "P x" "ncl_ReleasedAt (f x) = None" for x
    using assms [OF that(1)] that(2) by (auto simp: claim_keeps_def)
  then show "claims_ok xs \<Longrightarrow> claims_ok (update_where P f xs)"
    using assms by (auto simp: claims_ok_def claim_keeps_def intro!: unique_where_update)
qed

lemma operations_update:
  assumes keep: "\<And>x. P x \<Longrightarrow> nop_CompletedAt x = None \<Longrightarrow> operation_keeps x (f x)"
    and active: "\<And>x. P x \<Longrightarrow> op_active x \<longleftrightarrow> nop_CompletedAt x = None \<Longrightarrow> nop_CompletedAt x = None"
    and final: "\<And>x. P x \<Longrightarrow> nop_CompletedAt x = None \<Longrightarrow> op_active (f x) \<longleftrightarrow> nop_CompletedAt (f x) = None"
  shows "table_step operations_ok operation_keeps xs (update_where P f xs)"
  unfolding table_step_def
proof
  let ?P = "\<lambda>x. P x \<and> op_active x \<and> nop_CompletedAt x = None"
  assume ok: "operations_ok xs"
  then have "nop_CompletedAt x = None \<and> op_active x" if "x \<in> set xs" "P x" for x
    using that active [OF that(2)] by (auto simp: operations_ok_def list_all_iff)
  then have same: "update_where P f xs = update_where ?P f xs"
    by (auto simp: update_where_def)
  have keys: "(nop_TenantID (f x), nop_Ref (f x)) = (nop_TenantID x, nop_Ref x)"
    "(nop_TenantID (f x), nop_OperationID (f x)) = (nop_TenantID x, nop_OperationID x)" if "?P x" for x
    using keep [of x] that by (auto simp: operation_keeps_def)
  have "unique_where op_active (\<lambda>x. (nop_TenantID x, nop_Ref x)) (update_where ?P f xs)"
    using ok keys by (intro unique_where_update) (auto simp: operations_ok_def)
  moreover have "distinct (map (\<lambda>x. (nop_TenantID x, nop_OperationID x)) (update_where ?P f xs))"
    using ok keys(2) by (subst map_update_where) (auto simp: operations_ok_def)
  ultimately have "operations_ok (update_where P f xs)"
    using ok final unfolding same by (auto simp: operations_ok_def intro!: list_all_update)
  moreover have "grows operation_keeps xs (update_where P f xs)"
    unfolding same using keep by (intro grows_update operations.row_refl) auto
  ultimately show "operations_ok (update_where P f xs) \<and> grows operation_keeps xs (update_where P f xs)" by simp
qed

lemma free_updates:
  "(\<And>x. P1 x \<Longrightarrow> platform_keeps x (f1 x)) \<Longrightarrow> table_step (\<lambda>_. True) platform_keeps v1 (update_where P1 f1 v1)"
  "(\<And>x. P2 x \<Longrightarrow> platform_operation_keeps x (f2 x)) \<Longrightarrow> table_step (\<lambda>_. True) platform_operation_keeps v2 (update_where P2 f2 v2)"
  "(\<And>x. P3 x \<Longrightarrow> platform_reconciliation_keeps x (f3 x)) \<Longrightarrow> table_step (\<lambda>_. True) platform_reconciliation_keeps v3 (update_where P3 f3 v3)"
  "(\<And>x. P4 x \<Longrightarrow> component_keeps x (f4 x)) \<Longrightarrow> table_step (\<lambda>_. True) component_keeps v4 (update_where P4 f4 v4)"
  "(\<And>x. P5 x \<Longrightarrow> member_keeps x (f5 x)) \<Longrightarrow> table_step (\<lambda>_. True) member_keeps v5 (update_where P5 f5 v5)"
  by (simp_all add: members.step_update platform.step_update platform_operations.step_update platform_reconciliations.step_update components.step_update)

section \<open>The statements\<close>

lemma map_sum_Inr [simp]: "map_sum (\<lambda>x. x) g r = Inr y \<longleftrightarrow> (\<exists>a. r = Inr a \<and> y = g a)"
  by (cases r) auto

lemmas row_updates = table_updates attachments_update vips_update claims_update operations_update free_updates

lemmas update_defs = update_vpc_def update_subnet_def update_eip_def update_snat_def update_attachment_def update_lb_def uid_open_def uid_written_def
  notified_def released_def finished_attachment_def

text \<open>Statements that update rows.\<close>

lemma vpc_row_updates:
  "keeps (evolves d0) (q_AdmitDeletion a b n c)" "keeps (evolves d0) (q_RequireVPCBase a b)"
  "keeps (evolves d0) (q_AdvanceVPC a b n s r y t)" "keeps (evolves d0) (q_AdmitSubnetDeletion a b n c)"
  "keeps (evolves d0) (q_AdvanceSubnet a b n s r y t)"
  unfolding q_AdmitDeletion_def q_RequireVPCBase_def q_AdvanceVPC_def q_AdmitSubnetDeletion_def q_AdvanceSubnet_def update_defs
  by (rule keeps_evolves; auto simp: Let_def row_keeps_defs intro!: evolves_tables evolves_untracked row_updates)+

lemma egress_row_updates:
  "keeps (evolves d0) (q_AdvanceEIP a b n s r y t c)" "keeps (evolves d0) (q_AdmitEIPDeletion a b n c)"
  "keeps (evolves d0) (q_ReleaseSnatClaim a b)" "keeps (evolves d0) (q_ConfirmSnatClaim a b)"
  "keeps (evolves d0) (q_SetSnatIntent a b n y c)" "keeps (evolves d0) (q_AdvanceSnat a b n s r y t z m)"
  "keeps (evolves d0) (q_AdmitSnatDeletion a b n c)" "keeps (evolves d0) (q_SetBaseObservation a b c r y t u)"
  "keeps (evolves d0) (q_TerminateBase a b)" "keeps (evolves d0) (q_NotifyBaseParent a b)"
  "keeps (evolves d0) (q_NotifyBaseChildren a b)"
  unfolding q_AdvanceEIP_def q_AdmitEIPDeletion_def q_ReleaseSnatClaim_def q_ConfirmSnatClaim_def q_SetSnatIntent_def q_AdvanceSnat_def q_AdmitSnatDeletion_def q_SetBaseObservation_def q_TerminateBase_def q_NotifyBaseParent_def q_NotifyBaseChildren_def update_defs
  by (rule keeps_evolves; auto simp: Let_def row_keeps_defs snat_claim_def intro!: evolves_tables evolves_untracked row_updates)+

lemma lease_updates:
  "keeps (evolves d0) (q_AcquireLease a b c n)" "keeps (evolves d0) (q_ReleaseLease a b c n m k y f z)"
  "keeps (evolves d0) (q_ScheduleDeletion a b)" "keeps (evolves d0) (q_RetireCancelledResource a b c n)"
  "keeps (evolves d0) (q_NotifyResource a b)" "keeps (evolves d0) (q_BeginProviderMutation a b c x f)"
  "keeps (evolves d0) (q_SaveBindingObservation a b c f y)"
  unfolding q_AcquireLease_def q_ReleaseLease_def q_ScheduleDeletion_def q_RetireCancelledResource_def q_NotifyResource_def q_BeginProviderMutation_def q_SaveBindingObservation_def update_defs
  by (rule keeps_evolves; auto simp: Let_def row_keeps_defs intro!: evolves_tables evolves_untracked row_updates)+

lemma operation_updates:
  "keeps (evolves d0) (q_RetireActiveOperation a b)" "keeps (evolves d0) (q_RunOperation a b c n)"
  "keeps (evolves d0) (q_CompleteAttempt a b c n o1 r m)" "keeps (evolves d0) (q_RetireLBMutation a b c)"
  unfolding q_RetireLBMutation_def q_RetireActiveOperation_def q_RunOperation_def q_CompleteAttempt_def update_defs
  by (rule keeps_evolves; auto simp: Let_def row_keeps_defs holds_lease_def op_active_def split: if_splits option.splits intro!: evolves_tables evolves_untracked row_updates)+

lemma platform_updates:
  "keeps (evolves d0) (q_AcquirePlatformLease a b n)" "keeps (evolves d0) (q_RunPlatformOperation a b n)"
  "keeps (evolves d0) (q_BeginPlatformMutation a b x f)" "keeps (evolves d0) (q_AdvancePlatform a n s r c y t z)"
  "keeps (evolves d0) (q_CompletePlatformAttempt a b n o1 r m)"
  "keeps (evolves d0) (q_ReleasePlatformLease a b n m k y f z)" "keeps (evolves d0) (q_SavePlatformImages a b i)"
  "keeps (evolves d0) (q_RetireVlanSlot a b)" "keeps (evolves d0) (q_RetirePublicPoolSlot a b)"
  "keeps (evolves d0) (q_SaveDeviceProgress a b j)"
  unfolding q_AcquirePlatformLease_def q_RunPlatformOperation_def q_BeginPlatformMutation_def q_AdvancePlatform_def q_CompletePlatformAttempt_def q_ReleasePlatformLease_def q_SavePlatformImages_def q_RetireVlanSlot_def q_RetirePublicPoolSlot_def q_SaveDeviceProgress_def update_defs
  by (rule keeps_evolves; auto simp: Let_def row_keeps_defs split: if_splits option.splits intro!: evolves_tables evolves_untracked row_updates)+

lemma lb_updates:
  "keeps (evolves d0) (q_BeginLBComponentMutation a b c x f n)"
  "keeps (evolves d0) (q_SaveLBComponentObservation a b c f y z n)"
  "keeps (evolves d0) (q_SaveLBMemberObservation a b c y r m)" "keeps (evolves d0) (q_SaveLBGenerated l)"
  "keeps (evolves d0) (q_ReleaseLBClaim a b)" "keeps (evolves d0) (q_BoundLBClaim a b)"
  "keeps (evolves d0) (q_ReleaseLBVIP a b)" "keeps (evolves d0) (q_ReleaseLBSubnetRefs a b y c n)"
  "keeps (evolves d0) (q_ReserveLBSubnet a b c f g h)"
  unfolding q_ReserveLBSubnet_def q_BeginLBComponentMutation_def q_SaveLBComponentObservation_def q_SaveLBMemberObservation_def q_SaveLBGenerated_def q_ReleaseLBClaim_def q_BoundLBClaim_def q_ReleaseLBVIP_def q_ReleaseLBSubnetRefs_def update_defs
  by (rule keeps_evolves; auto simp: Let_def row_keeps_defs lb_claim_def split: if_splits option.splits intro!: evolves_tables evolves_untracked row_updates)+

lemma lb_update:
  assumes "\<And>clk x. P x \<Longrightarrow> lb_keeps x (f clk x)"
  shows "keeps (evolves d0) (update_lb P f)"
  unfolding update_lb_def by (rule keeps_evolves, clarsimp, rule evolves_tables, rule row_updates) (simp add: assms)

lemma AdvanceLB_update: "q_AdvanceLB tenant i version state reason observed observedAt configurationState appliedVersion occupied absence =
  update_lb (\<lambda>l. lb_row tenant i l \<and> nlb_Version l = version)
    (\<lambda>clk l. l\<lparr>nlb_State := state, nlb_Reason := reason, nlb_Version := nlb_Version l + 1, nlb_UpdatedAt := clk 0,
       nlb_VipOccupiedRevision := (if occupied \<noteq> [] then occupied else nlb_VipOccupiedRevision l),
       nlb_VipAbsenceRevision := (if nlb_VipAbsenceRevision l = [] then absence else nlb_VipAbsenceRevision l),
       nlb_ObservedAt := (if observed then observedAt else nlb_ObservedAt l),
       nlb_ConfigurationState := configurationState, nlb_AppliedVersion := max (nlb_AppliedVersion l) appliedVersion,
       nlb_DataPlaneState := ''unknown'', nlb_DataPlaneObservedAt := None\<rparr>)"
  by (simp add: q_AdvanceLB_def update_lb_def Let_def)

lemma lb_row_updates:
  "keeps (evolves d0) (q_AdvanceLB a b n s r y t c m f g)" "keeps (evolves d0) (q_AdmitLBDeletion a b n c)"
  unfolding AdvanceLB_update q_AdmitLBDeletion_def by (rule lb_update; simp add: lb_keeps_def)+

lemma intent_update: "keeps (evolves d0) (q_UpdateLBIntent a b n c f g)"
  unfolding q_UpdateLBIntent_def Let_def
  by (rule keeps_evolves, clarsimp split: if_splits, rule evolves_tables, rule row_updates) (simp add: lb_keeps_def)

lemma attachment_update:
  assumes "\<And>clk x. P clk x \<Longrightarrow> attachment_keeps x (f clk x)"
  shows "keeps (evolves d0) (update_attachment P f)"
  unfolding update_attachment_def
  by (rule keeps_evolves, clarsimp split: if_splits, rule evolves_tables, rule attachments_update) (auto simp: assms list_ex_iff)

lemma attachment_updates:
  "keeps (evolves d0) (q_ConfirmAttachment a b c f)" "keeps (evolves d0) (q_ReleaseAttachment a b c)"
  "keeps (evolves d0) (q_ClaimAttachment a b c n)" "keeps (evolves d0) (q_FinishAttachment a b n m c p y u k)"
  unfolding q_ConfirmAttachment_def q_ReleaseAttachment_def q_ClaimAttachment_def q_FinishAttachment_def finished_attachment_def
  by (rule attachment_update; simp add: attachment_keeps_def)+

lemma attachment_notified: "keeps (evolves d0) (q_NotifyAttachment a b)"
  unfolding q_NotifyAttachment_def
  by (rule keeps_evolves, clarsimp simp: Let_def, rule evolves_tables, rule attachments_update)
    (simp_all add: attachment_keeps_def attachment_check_def)

text \<open>Statements that insert rows.\<close>

lemmas row_inserts = lbs.step_insert vips.step_insert members.step_insert components.step_insert vpcs.step_insert subnets.step_insert eips.step_insert snats.step_insert claims.step_insert operations.step_insert
  reconciliations.step_insert bindings.step_insert idempotency.step_insert log.step_insert base.step_insert namespaces.step_insert
  attachments.step_insert

lemma distinct_snoc: "distinct (map k (xs @ [y])) \<longleftrightarrow> distinct (map k xs) \<and> \<not> list_ex (\<lambda>x. k x = k y) xs"
  by (induction xs) auto

lemma unique_where_snoc:
  "\<not> list_ex (\<lambda>x. Q x \<and> k x = k y) xs \<Longrightarrow> unique_where Q k (xs @ [y]) \<longleftrightarrow> unique_where Q k xs"
  by (induction xs) (auto simp: unique_where_def list_ex_iff)

lemma list_ex_false: "\<not> list_ex Q xs \<Longrightarrow> (\<And>x. P x \<Longrightarrow> Q x) \<Longrightarrow> \<not> list_ex P xs"
  by (auto simp: list_ex_iff)

lemma resource_inserts:
  "keeps (evolves d0) (q_InsertVPC a b c f g t h)" "keeps (evolves d0) (q_InsertSubnet a b c f g h j t k)"
  "keeps (evolves d0) (insert_eip x)" "keeps (evolves d0) (insert_snat y)"
  "keeps (evolves d0) (q_InsertLB a b c f g h j k l m n t u)"
  unfolding q_InsertLB_def q_InsertVPC_def q_InsertSubnet_def insert_eip_def insert_snat_def
  by (rule keeps_evolves; clarsimp simp: Let_def split: if_splits;
      rule evolves_tables, rule row_inserts, simp add: rows_ok_defs distinct_snoc del: map_append)+

lemma record_inserts:
  "keeps (evolves d0) (q_InsertReconciliation a r t)" "keeps (evolves d0) (q_InsertBinding a r b c f g)"
  "keeps (evolves d0) (q_InsertHistory hh)" "keeps (evolves d0) (insert_idempotency a b c f r g s t)"
  "keeps (evolves d0) (q_InsertPlatformHistory ph)" "keeps (evolves d0) (q_InsertAttachmentHistory ah)"
  unfolding q_InsertReconciliation_def q_InsertBinding_def q_InsertHistory_def insert_idempotency_def q_InsertPlatformHistory_def
    q_InsertAttachmentHistory_def
  by (rule keeps_evolves; clarsimp simp: Let_def split: if_splits;
      rule evolves_tables, rule row_inserts, simp add: rows_ok_defs distinct_snoc idempotency_row_def [abs_def] del: map_append)+

lemma lb_inserts:
  "keeps (evolves d0) (q_InsertLBListener a b c f g n)" "keeps (evolves d0) (q_InsertLBConfiguration a b c f n g h i j k l m)"
  "keeps (evolves d0) (q_InsertLBMember x)" "keeps (evolves d0) (q_InsertLBConfigurationMember a b c f n g m)"
  "keeps (evolves d0) (q_InsertLBComponent a b c f g y z h)"
  unfolding q_InsertLBListener_def q_InsertLBConfiguration_def q_InsertLBMember_def q_InsertLBConfigurationMember_def q_InsertLBComponent_def
  by (rule keeps_evolves; clarsimp simp: Let_def split: if_splits; rule evolves_tables, rule row_inserts, rule TrueI)+

lemma vip_insert: "keeps (evolves d0) (q_ReserveLBVIP a b c f g h i)"
  unfolding q_ReserveLBVIP_def
  by (rule keeps_evolves, clarsimp split: if_splits, rule evolves_tables, rule row_inserts)
    (unfold vips_ok_def, elim conjE, intro conjI, simp add: distinct_snoc del: map_append, erule list_ex_false, simp,
     erule unique_where_append, erule list_ex_false, simp)

lemma claim_insert: "keeps (evolves d0) (insert_claim c)"
  unfolding insert_claim_def
  by (rule keeps_evolves, clarsimp split: if_splits, rule evolves_tables, rule row_inserts)
    (unfold claims_ok_def, elim conjE, intro conjI; erule unique_where_append, erule list_ex_false, simp)

lemma attachment_insert: "keeps (evolves d0) (q_InsertAttachment u)"
  unfolding q_InsertAttachment_def
  by (rule keeps_evolves, clarsimp simp: Let_def split: if_splits, rule evolves_tables, rule row_inserts)
    (auto simp: attachments_ok_def distinct_snoc list_ex_iff attachment_row_def request_row_def attachment_check_def simp del: map_append)

lemma base_insert: "keeps (evolves d0) (q_InsertBaseConnectivity a b c f g n h j k)"
  unfolding q_InsertBaseConnectivity_def
  by (rule keeps_evolves, clarsimp split: if_splits, rule evolves_tables, rule row_inserts)
    (auto simp: base_ok_def distinct_snoc list_ex_iff simp del: map_append)

lemma operation_insert: "keeps (evolves d0) (q_InsertOperation a b r c t)"
  unfolding q_InsertOperation_def
  by (rule keeps_evolves, clarsimp split: if_splits, rule evolves_tables, rule row_inserts)
    (auto simp: operations_ok_def distinct_snoc list_ex_iff op_active_def simp del: map_append intro!: unique_where_append)

lemma namespace_insert: "keeps (evolves d0) (q_EnsureTenantNamespace a b c)"
  unfolding q_EnsureTenantNamespace_def
  by (rule keeps_evolves, clarsimp split: if_splits, rule evolves_tables, rule row_inserts)
    (auto simp: namespaces_ok_def distinct_snoc list_ex_iff simp del: map_append)

lemmas insert_laws = lb_inserts vip_insert intent_update lb_row_updates resource_inserts record_inserts claim_insert attachment_insert base_insert operation_insert namespace_insert

interpretation evolution: row_statements "evolves d0" for d0
  by unfold_locales (rule vpc_row_updates egress_row_updates lease_updates operation_updates platform_updates lb_updates
      attachment_updates attachment_notified insert_laws)+

text \<open>A whole transaction, and a statement of its own, evolve the database.\<close>

lemma transaction_evolves: "(\<And>d0. keeps (evolves d0) body) \<Longrightarrow> evolves d (snd (transaction body e d))"
  using transaction_keeps [of "evolves d" body d e] by simp

lemma autocommit_evolves: "(\<And>d0. keeps (evolves d0) p) \<Longrightarrow> evolves d (snd (autocommit p e d))"
  using autocommit_keeps [of "evolves d" p d e] by simp


end
