(* ===== verification/Net_Steps.thy ===== *)
theory Net_Steps
  imports Net_Evolution
begin

text \<open>
  The repository as a transition system. The state is the database with the work items that executors have claimed and may
  still write for, however late. A step is one transaction of the repository, in any environment: any clock, any identifiers,
  any failing statement, a commit that reports an error. An executor finishes an item only with an outcome that follows the
  lifecycle, which is what \<^verbatim>\<open>Step\<close> of the worker persists.
\<close>

section \<open>Results of programs\<close>

text \<open>What every value that a program returns satisfies, whatever the database.\<close>

definition returns :: "'a prog \<Rightarrow> ('a \<Rightarrow> bool) \<Rightarrow> bool" where
  "returns p Q \<longleftrightarrow> (\<forall>e d. wp p e (\<lambda>a _. Q a) (\<lambda>_ _. True) d)"

named_theorems returns_rules \<open>introduction rules for results\<close>

lemma returns_ret [returns_rules]: "Q a \<Longrightarrow> returns (ret a) Q"
  by (simp add: returns_def wp_ret)

lemma returns_throw [returns_rules]: "returns (throw x) Q"
  by (simp add: returns_def wp_throw)

lemma wp_top: "(\<And>a d. Q a d) \<Longrightarrow> (\<And>x d. R x d) \<Longrightarrow> wp p e Q R d"
  by (simp add: wp_def split: prod.splits sum.splits)

lemma wp_then_any: "(\<And>a d. wp (k a) e Q (\<lambda>_ _. True) d) \<Longrightarrow> wp (andThen q k) e Q (\<lambda>_ _. True) d"
  by (rule wp_andThen, rule wp_top) simp_all

lemma wp_call_any: "(\<And>a d. wp (k a) e Q (\<lambda>_ _. True) d) \<Longrightarrow> wp (call q k) e Q (\<lambda>_ _. True) d"
  by (rule wp_call, rule wp_top) simp_all

lemma returns_any: "(\<And>a. Q a) \<Longrightarrow> returns p Q"
  by (simp add: returns_def wp_top)

lemma returns_bind: "returns p P \<Longrightarrow> (\<And>a. P a \<Longrightarrow> returns (f a) Q) \<Longrightarrow> returns (andThen p f) Q"
  unfolding returns_def by (intro allI wp_andThen, rule wp_mono [where Q = "\<lambda>a _. P a" and R = "\<lambda>_ _. True"]) auto

lemma returns_andThen [returns_rules]: "(\<And>a. returns (f a) Q) \<Longrightarrow> returns (andThen p f) Q"
  by (rule returns_bind [of p "\<lambda>_. True"]) (simp_all add: returns_any)

lemma returns_call [returns_rules]: "(\<And>a. returns (k a) Q) \<Longrightarrow> returns (call q k) Q"
  by (simp add: call_def returns_andThen)

lemma returns_if [returns_rules]: "(b \<Longrightarrow> returns p Q) \<Longrightarrow> (\<not> b \<Longrightarrow> returns q Q) \<Longrightarrow> returns (if b then p else q) Q"
  by simp

lemma returns_option [returns_rules]:
  "(v = None \<Longrightarrow> returns p Q) \<Longrightarrow> (\<And>x. v = Some x \<Longrightarrow> returns (f x) Q) \<Longrightarrow> returns (case v of None \<Rightarrow> p | Some x \<Rightarrow> f x) Q"
  by (cases v) simp_all

lemma wp_conj: "wp p e Q R d \<Longrightarrow> wp p e Q' R' d \<Longrightarrow> wp p e (\<lambda>a d. Q a d \<and> Q' a d) (\<lambda>x d. R x d \<and> R' x d) d"
  by (auto simp: wp_def split: prod.splits sum.splits)

lemma wp_returns:
  assumes "returns p Q" and "keeps I p" and "I d" and "\<And>a d. Q a \<Longrightarrow> I d \<Longrightarrow> Q' a d" and "\<And>x d. R x d"
  shows "wp p e Q' R d"
  using wp_conj [OF assms(1) [unfolded returns_def, rule_format, of e d] keepsD [OF assms(2,3), of e]]
  by (rule wp_mono) (use assms(4,5) in auto)

section \<open>Predicates that evolution keeps\<close>

definition lasting :: "(db \<Rightarrow> bool) \<Rightarrow> bool" where
  "lasting I \<longleftrightarrow> (\<forall>d d'. evolves d d' \<longrightarrow> I d \<longrightarrow> I d')"

lemma keeps_lasting: "(\<And>d0. keeps (evolves d0) p) \<Longrightarrow> lasting I \<Longrightarrow> keeps I p"
  by (auto simp: lasting_def keeps_def [of I] intro!: wp_mono [OF keepsD [where I = "evolves _", OF _ evolves_refl]])

definition db_ok :: "db \<Rightarrow> bool" where
  "db_ok d \<longleftrightarrow> vpcs_ok (db_vpcs d) \<and> subnets_ok (db_subnets d) \<and> eips_ok (db_eips d) \<and> snats_ok (db_snats d)
     \<and> claims_ok (db_claims d) \<and> operations_ok (db_operations d) \<and> reconciliations_ok (db_reconciliations d)
     \<and> bindings_ok (db_bindings d) \<and> idempotency_ok (db_idempotency d) \<and> base_ok (db_base d) \<and> namespaces_ok (db_namespaces d)
     \<and> attachments_ok (db_attachments d) \<and> lbs_ok (db_lbs d) \<and> vips_ok (db_lb_vips d)"

lemma db_ok_lasting: "lasting db_ok"
  by (simp add: lasting_def db_ok_def evolves_def table_step_def)

lemma evolves_grows:
  assumes "evolves d d'" and "db_ok d"
  shows "grows vpc_keeps (db_vpcs d) (db_vpcs d')" and "grows subnet_keeps (db_subnets d) (db_subnets d')"
    and "grows operation_keeps (db_operations d) (db_operations d')" and "grows binding_keeps (db_bindings d) (db_bindings d')"
    and "grows (=) (db_idempotency d) (db_idempotency d')" and "grows (=) (db_history d) (db_history d')"
    and "grows reconciliation_keeps (db_reconciliations d) (db_reconciliations d')" and "grows claim_keeps (db_claims d) (db_claims d')"
    and "grows attachment_keeps (db_attachments d) (db_attachments d')" and "grows lb_keeps (db_lbs d) (db_lbs d')"
    and "grows vip_keeps (db_lb_vips d) (db_lb_vips d')" and "grows (=) (db_lb_configurations d) (db_lb_configurations d')"
  using assms by (simp_all add: db_ok_def evolves_def table_step_def)

section \<open>Work items\<close>

text \<open>An item of a VPC, a subnet or a load balancer is tracked by its row: the row has a later version, or the state the item was
  claimed in.\<close>

definition row_tracked :: "db \<Rightarrow> ResourceWork \<Rightarrow> bool" where
  "row_tracked d r \<longleftrightarrow> rw_TenantID r = [] \<or>
     ((rw_Kind r = KVpc \<longrightarrow> (\<exists>v \<in> set (db_vpcs d). vpc_row (rw_TenantID r) (rw_ID r) v \<and> rw_Version r \<le> nv_Version v
        \<and> (rw_Version r = nv_Version v \<longrightarrow> rw_State r = nv_State v)))
    \<and> (rw_Kind r = KSubnet \<longrightarrow> (\<exists>s \<in> set (db_subnets d). subnet_row (rw_TenantID r) (rw_ID r) s \<and> rw_Version r \<le> nsu_Version s
        \<and> (rw_Version r = nsu_Version s \<longrightarrow> rw_State r = nsu_State s)))
    \<and> (rw_Kind r = KVpc \<or> rw_Kind r = KSubnet \<longrightarrow> \<not> rw_SystemManaged r))"

definition lb_tracked :: "db \<Rightarrow> ResourceWork \<Rightarrow> bool" where
  "lb_tracked d r \<longleftrightarrow> rw_TenantID r \<noteq> [] \<and> rw_Kind r = KLoadBalancer \<longrightarrow> \<not> rw_SystemManaged r
     \<and> (\<exists>l \<in> set (db_lbs d). lb_row (rw_TenantID r) (rw_ID r) l \<and> rw_Version r \<le> nlb_Version l
        \<and> (rw_Version r = nlb_Version l \<longrightarrow> rw_State r = nlb_State l))"

definition tracked :: "db \<Rightarrow> ResourceWork \<Rightarrow> bool" where
  "tracked d r \<longleftrightarrow> row_tracked d r \<and> lb_tracked d r"

lemma tracked_lasting: "lasting (\<lambda>d. db_ok d \<and> tracked d r)"
  unfolding lasting_def
proof (intro allI impI)
  fix d d'
  assume ev: "evolves d d'" and ok: "db_ok d \<and> tracked d r"
  then have "db_ok d'" using db_ok_lasting by (auto simp: lasting_def)
  moreover have "\<exists>v' \<in> set (db_vpcs d'). vpc_keeps v v'" if "v \<in> set (db_vpcs d)" for v
    using grows_member [OF evolves_grows(1) [OF ev] that] ok by simp
  moreover have "\<exists>s' \<in> set (db_subnets d'). subnet_keeps s s'" if "s \<in> set (db_subnets d)" for s
    using grows_member [OF evolves_grows(2) [OF ev] that] ok by simp
  ultimately have "db_ok d' \<and> row_tracked d' r"
    using ok unfolding tracked_def row_tracked_def
    by (auto simp: vpc_keeps_def subnet_keeps_def vpc_row_def subnet_row_def) (metis order.antisym order.trans)+
  moreover have "\<exists>l' \<in> set (db_lbs d'). lb_keeps l l'" if "l \<in> set (db_lbs d)" for l
    using grows_member [OF evolves_grows(10) [OF ev] that] ok by simp
  then have "lb_tracked d' r"
    using ok unfolding tracked_def lb_tracked_def by (auto simp: lb_keeps_def lb_row_def) (metis order.antisym order.trans)+
  ultimately show "db_ok d' \<and> tracked d' r"
    by (simp add: tracked_def)
qed

lemma find_row_Inr: "find_row P xs = Inr x \<Longrightarrow> x \<in> set xs \<and> P x"
  unfolding find_row_def by (cases "filter P xs") (auto simp: filter_eq_Cons_iff)

lemma wp_bind_ret: "wp p e (\<lambda>a d. Q (g a) d) R d \<Longrightarrow> wp (andThen p (\<lambda>a. ret (g a))) e Q R d"
  by (rule wp_andThen, erule wp_mono) (simp_all add: wp_ret)

lemma wp_locked:
  assumes "\<And>x. x \<in> set (f d) \<Longrightarrow> P x \<Longrightarrow> Q x d" and "\<And>x. R x d"
  shows "wp (query (\<lambda>d. find_row P (f d))) e Q R d" and "wp (try_lock (\<lambda>d. find_row P (f d))) e Q R d"
  using assms by (auto intro!: wp_query wp_try_lock dest!: find_row_Inr)

lemma tracked_rows:
  "v \<in> set (db_vpcs d) \<Longrightarrow> tracked d (vpcWork v)" "s \<in> set (db_subnets d) \<Longrightarrow> tracked d (subnetWork s)"
  "l \<in> set (db_lbs d) \<Longrightarrow> tracked d (lbWork l)" "tracked d (eipWork x)" "tracked d (snatWork y)" "tracked d (zero_work\<lparr>rw_Kind := k\<rparr>)"
  "tracked d (zero_work\<lparr>rw_Kind := k, rw_Egress := g\<rparr>)"
  by (auto simp: tracked_def row_tracked_def lb_tracked_def vpcWork_def subnetWork_def eipWork_def snatWork_def lbWork_def zero_work_def
      vpc_row_def subnet_row_def lb_row_def)

text \<open>What is claimed is tracked: the rows are read in the transaction that takes the lease.\<close>

lemma wp_claim_candidate:
  assumes "\<And>v. x = Some v \<Longrightarrow> v \<in> set (db_vpcs d)"
  shows "wp (claim_candidate c x y) e (\<lambda>r d. pred_option (tracked d) r) (\<lambda>_ _. True) d"
proof -
  have "wp (q_LockLB a b) e (\<lambda>l d. tracked d (lbWork l)) (\<lambda>_ _. True) d" for a b d
    unfolding q_LockLB_def by (rule wp_locked) (simp_all add: tracked_rows)
  then have "wp (lockLBWork a b) e (\<lambda>r d. tracked d r) (\<lambda>_ _. True) d" for a b
    unfolding lockLBWork_def by (intro wp_then_any wp_bind_ret) simp
  moreover have "wp (optional (q_TryLockWorkSnat a b)) e (\<lambda>s d. pred_option (tracked d) (map_option snatWork s)) (\<lambda>_ _. True) d" for a b
    by (rule wp_top) (auto simp: tracked_rows option.pred_map pred_option_def)
  moreover have "wp (q_LockSubnet a b) e (\<lambda>s d. tracked d (subnetWork s)) (\<lambda>_ _. True) d" for a b
    unfolding q_LockSubnet_def by (rule wp_locked) (simp_all add: tracked_rows)
  ultimately show ?thesis
    using assms
    by (cases "dr_Kind c") (auto simp: claim_candidate_def tracked_rows intro!: wp_bind_ret wp_ret wp_throw split: option.splits)
qed

lemma wp_claim_first: "wp (claim_first cs) e (\<lambda>r d. tracked d r) (\<lambda>_ _. True) d"
proof (induction cs arbitrary: d)
  case (Cons c cs)
  have candidate: "wp (if busy then claim_first cs else
       andThen (claim_candidate c v x) (\<lambda>r. case r of Some r \<Rightarrow> ret r | None \<Rightarrow> claim_first cs)) e (\<lambda>r d. tracked d r) (\<lambda>_ _. True) d"
    if "\<And>y. v = Some y \<Longrightarrow> y \<in> set (db_vpcs d)" for busy v x d
    using Cons by (intro wp_if wp_andThen wp_mono [OF wp_claim_candidate [of v d c x e, OF that]]) (auto split: option.splits intro!: wp_ret)
  have parent: "wp (if b then andThen (optional (q_TryLockWorkVPC t i)) (\<lambda>v. ret (v = None, v)) else ret (False, None)) e
      (\<lambda>(busy, v) d'. d' = d \<and> (\<forall>y. v = Some y \<longrightarrow> y \<in> set (db_vpcs d))) (\<lambda>_ _. True) d" for b t i
    unfolding q_TryLockWorkVPC_def by (intro wp_rules) (auto intro!: wp_ret dest!: find_row_Inr)
  have address: "keeps ((=) d) (if b then andThen (optional (q_TryLockWorkEIP t i)) (\<lambda>x. ret (x = None, x)) else ret (False, None))" for b t i d
    by (intro keeps_rules)
  have rest: "wp (andThen (if b then andThen (optional (q_TryLockWorkEIP t i)) (\<lambda>x. ret (x = None, x)) else ret (False, None)) (\<lambda>(busy, x).
      if busy then claim_first cs
      else andThen (claim_candidate c v x) (\<lambda>r. case r of Some r \<Rightarrow> ret r | None \<Rightarrow> claim_first cs))) e (\<lambda>r d. tracked d r) (\<lambda>_ _. True) d"
    if "\<forall>y. v = Some y \<longrightarrow> y \<in> set (db_vpcs d)" for b t i v d
    using that by (intro wp_andThen wp_keeps [OF address refl]) (auto simp only: split_beta intro!: candidate)
  show ?case
    unfolding claim_first.simps
    by (rule wp_andThen, rule wp_mono [OF parent]) (auto simp only: split_beta intro!: wp_if Cons rest)
qed (simp add: wp_throw)


text \<open>An item is committed with the row it was read from; a load balancer's item has its parts added.\<close>

definition claimed :: "ResourceWork \<Rightarrow> Work \<Rightarrow> bool" where
  "claimed r w \<longleftrightarrow> (\<exists>x. wk_Resource w = r\<lparr>rw_LoadBalancer := x\<rparr>) \<and> (wk_CancelUnsent w \<longrightarrow> rw_SystemManaged (wk_Resource w))"

lemma claimPlatform_returns: "returns (claimPlatform p owner lease) (pred_option (\<lambda>w. rw_TenantID (wk_Resource w) = []))"
  unfolding claimPlatform_def Let_def by (intro returns_rules) (simp_all add: zero_work_def)

lemma hydrateLBWork_returns: "returns (hydrateLBWork r b) (\<lambda>r'. \<exists>x. r' = r\<lparr>rw_LoadBalancer := x\<rparr>)"
  unfolding hydrateLBWork_def by (intro returns_rules) blast

lemma returns_mono: "returns p P \<Longrightarrow> (\<And>a. P a \<Longrightarrow> Q a) \<Longrightarrow> returns p Q"
  unfolding returns_def by (blast intro: wp_mono)

lemma returns_wrapped: "returns p Q \<Longrightarrow> returns (wrapped p) Q"
  unfolding returns_def by (auto intro!: wp_wrapped)

lemma claim_tenant_returns:
  "returns (claim_tenant p owner lease r) (\<lambda>x. \<forall>w. x = Commit (Some w) \<longrightarrow> claimed r w)"
proof -
  have r: "returns (if rw_Kind r = KLoadBalancer then wrapped (hydrateLBWork r b) else ret r)
      (\<lambda>r'. \<exists>x. r' = r\<lparr>rw_LoadBalancer := x\<rparr>)" for b
    by (intro returns_if returns_wrapped returns_ret hydrateLBWork_returns exI [of _ "rw_LoadBalancer r"]) simp
  show ?thesis
    unfolding claim_tenant_def Let_def claimed_def
    by (intro returns_rules returns_bind [OF r]; (auto simp: claimed_def)?)
qed


definition item_ok :: "db \<Rightarrow> Work \<Rightarrow> bool" where
  "item_ok d w \<longleftrightarrow> tracked d (wk_Resource w) \<and>
     (rw_TenantID (wk_Resource w) \<noteq> [] \<and> wk_CancelUnsent w \<longrightarrow> rw_SystemManaged (wk_Resource w))"

lemma keeps_db_ok: "(\<And>d0. keeps (evolves d0) p) \<Longrightarrow> keeps db_ok p"
  by (rule keeps_lasting [OF _ db_ok_lasting])

lemma keeps_tracked: "(\<And>d0. keeps (evolves d0) p) \<Longrightarrow> keeps (\<lambda>d. db_ok d \<and> tracked d r) p"
  by (rule keeps_lasting [OF _ tracked_lasting])

lemma tracked_platform: "rw_TenantID r = [] \<Longrightarrow> tracked d r"
  by (simp add: tracked_def row_tracked_def lb_tracked_def)

lemma tracked_parts [simp]: "tracked d (r\<lparr>rw_LoadBalancer := x\<rparr>) = tracked d r"
  by (simp add: tracked_def row_tracked_def lb_tracked_def)

lemma wp_claim_tenant:
  assumes "db_ok d" and "tracked d r"
  shows "wp (claim_tenant p owner lease r) e (\<lambda>x d. \<forall>w. x = Commit (Some w) \<longrightarrow> item_ok d w) (\<lambda>_ _. True) d"
proof (rule wp_returns [OF claim_tenant_returns keeps_tracked [OF evolution.keeps_claim_tenant]])
  show "db_ok d \<and> tracked d r" using assms by simp
  show "\<forall>w. x = Commit (Some w) \<longrightarrow> item_ok d' w" if "\<forall>w. x = Commit (Some w) \<longrightarrow> claimed r w" "db_ok d' \<and> tracked d' r" for x d'
    using that by (auto simp: item_ok_def claimed_def)
qed simp

lemma wp_claim:
  assumes "db_ok d"
  shows "wp (claim p owner lease turn) e (\<lambda>x d. \<forall>w. x = Commit (Some w) \<longrightarrow> item_ok d w) (\<lambda>_ _. True) d"
proof -
  have first: "wp (if b then claimPlatform p owner lease else ret None) e
      (\<lambda>x d. db_ok d \<and> pred_option (\<lambda>w. rw_TenantID (wk_Resource w) = []) x) (\<lambda>_ _. True) d" for b
    by (rule wp_returns [OF _ keeps_db_ok assms])
      (auto intro!: keeps_rules returns_if claimPlatform_returns returns_ret)
  have platform: "wp (claimPlatform p owner lease) e
      (\<lambda>x d. db_ok d \<and> pred_option (\<lambda>w. rw_TenantID (wk_Resource w) = []) x) (\<lambda>_ _. True) d" if "db_ok d" for d
    by (rule wp_returns [OF claimPlatform_returns keeps_db_ok [OF evolution.keeps_claimPlatform] that]) auto
  have resource: "wp claimResource e (\<lambda>r d. db_ok d \<and> tracked d r) (\<lambda>_. db_ok) d" if "db_ok d" for d
  proof -
    have "wp claimResource e (\<lambda>r d. tracked d r) (\<lambda>_ _. True) d"
      unfolding claimResource_def by (intro wp_andThen wp_top wp_claim_first) simp
    from wp_conj [OF this keepsD [OF keeps_db_ok [OF keeps_claimResource] that]] show ?thesis
      by (rule wp_mono) simp_all
  qed
  show ?thesis
    unfolding claim_def
    by (intro wp_andThen wp_mono [OF first])
      (auto simp: item_ok_def tracked_platform split: option.splits
        intro!: wp_rules wp_mono [OF resource] wp_mono [OF platform] wp_claim_tenant [unfolded item_ok_def])
qed


section \<open>Steps\<close>

text \<open>The outcome of an item follows the lifecycle, or cancels a creation that was never sent.\<close>

definition follows_lifecycle :: "Work \<Rightarrow> Progress \<Rightarrow> bool" where
  "follows_lifecycle w progress \<longleftrightarrow> lifecycle (rw_State (wk_Resource w)) (pg_State progress)
     \<or> (wk_CancelUnsent w \<and> pg_State progress = Deleted)"

text \<open>The visits of a Go map: every key once, in any order.\<close>

definition map_order :: "(nat \<Rightarrow> string list \<Rightarrow> string list) \<Rightarrow> bool" where
  "map_order order \<longleftrightarrow> (\<forall>n xs. mset (order n xs) = mset xs)"

type_synonym world = "db \<times> Work list"

inductive repository_step :: "Postgres \<Rightarrow> world \<Rightarrow> world \<Rightarrow> bool" for p where
  step_AcceptVPC: "Postgres_AcceptVPC p e intent a d = (r, d') \<Longrightarrow> repository_step p (d, ws) (d', ws)"
| step_DeleteVPC: "Postgres_DeleteVPC e tenant i d = (r, d') \<Longrightarrow> repository_step p (d, ws) (d', ws)"
| step_AcceptSubnet: "transaction (acceptSubnet si a freshness) e d = (r, d') \<Longrightarrow> repository_step p (d, ws) (d', ws)"
| step_DeleteSubnet: "Postgres_DeleteSubnet e tenant i d = (r, d') \<Longrightarrow> repository_step p (d, ws) (d', ws)"
| step_AcceptEIP: "Postgres_AcceptEIP p e ei a freshness d = (r, d') \<Longrightarrow> repository_step p (d, ws) (d', ws)"
| step_DeleteEIP: "Postgres_DeleteEIP e tenant i a d = (r, d') \<Longrightarrow> repository_step p (d, ws) (d', ws)"
| step_AcceptSnat: "Postgres_AcceptSnat p e ei a freshness d = (r, d') \<Longrightarrow> repository_step p (d, ws) (d', ws)"
| step_DeleteSnat: "Postgres_DeleteSnat e tenant i a d = (r, d') \<Longrightarrow> repository_step p (d, ws) (d', ws)"
| step_AcceptLoadBalancer: "map_order order \<Longrightarrow> Postgres_AcceptLoadBalancer p order e li a freshness d = (r, d') \<Longrightarrow> repository_step p (d, ws) (d', ws)"
| step_DeleteLoadBalancer: "Postgres_DeleteLoadBalancer e tenant i a d = (r, d') \<Longrightarrow> repository_step p (d, ws) (d', ws)"
| step_PrepareAttachment: "transaction (prepareAttachment pa freshness) e d = (r, d') \<Longrightarrow> repository_step p (d, ws) (d', ws)"
| step_ConfirmAttachment: "Postgres_ConfirmAttachment e ca d = (r, d') \<Longrightarrow> repository_step p (d, ws) (d', ws)"
| step_ReleaseAttachment: "Postgres_ReleaseAttachment e ra d = (r, d') \<Longrightarrow> repository_step p (d, ws) (d', ws)"
| step_ClaimAttachment: "Postgres_ClaimAttachment e owner lease d = (r, d') \<Longrightarrow> repository_step p (d, ws) (d', ws)"
| step_FinishAttachment: "Postgres_FinishAttachment e aw ap d = (r, d') \<Longrightarrow> repository_step p (d, ws) (d', ws)"
| step_NotifyAttachment: "Postgres_NotifyAttachment e tenant i d = (r, d') \<Longrightarrow> repository_step p (d, ws) (d', ws)"
| step_NotifyResource: "Postgres_NotifyResource e tenant i d = (r, d') \<Longrightarrow> repository_step p (d, ws) (d', ws)"
| step_Claim: "Postgres_Claim p e owner lease turn d = (r, d')
    \<Longrightarrow> repository_step p (d, ws) (d', case r of Inr (Some w) \<Rightarrow> w # ws | _ \<Rightarrow> ws)"
| step_BeginMutation: "Postgres_BeginMutation p e w act identity d = (r, d') \<Longrightarrow> repository_step p (d, ws) (d', ws)"
| step_BeginLoadBalancerMutation:
    "Postgres_BeginLoadBalancerMutation p e w c act identity d = (r, d') \<Longrightarrow> repository_step p (d, ws) (d', ws)"
| step_Finish: "w \<in> set ws \<Longrightarrow> follows_lifecycle w progress \<Longrightarrow> Postgres_Finish p e w progress d = (r, d')
    \<Longrightarrow> repository_step p (d, ws) (d', ws)"

definition reaches :: "Postgres \<Rightarrow> world \<Rightarrow> world \<Rightarrow> bool" where
  "reaches p = (repository_step p)\<^sup>*\<^sup>*"

lemma reaches_refl [simp]: "reaches p x x"
  by (simp add: reaches_def)

lemma reaches_step: "reaches p x y \<Longrightarrow> repository_step p y z \<Longrightarrow> reaches p x z"
  by (simp add: reaches_def)

lemma reaches_induct [consumes 1, case_names refl step]:
  assumes "reaches p x y" and "Q x" and "\<And>y z. reaches p x y \<Longrightarrow> Q y \<Longrightarrow> repository_step p y z \<Longrightarrow> Q z"
  shows "Q y"
  using assms unfolding reaches_def by (induction rule: rtranclp_induct) blast+

lemmas method_defs = Postgres_AcceptVPC_def Postgres_DeleteVPC_def Postgres_DeleteSubnet_def Postgres_AcceptEIP_def Postgres_DeleteEIP_def
  Postgres_AcceptSnat_def Postgres_DeleteSnat_def Postgres_ConfirmAttachment_def Postgres_ReleaseAttachment_def
  Postgres_ClaimAttachment_def Postgres_FinishAttachment_def Postgres_NotifyAttachment_def Postgres_NotifyResource_def
  Postgres_AcceptLoadBalancer_def Postgres_DeleteLoadBalancer_def Postgres_Claim_def Postgres_BeginMutation_def Postgres_BeginLoadBalancerMutation_def Postgres_Finish_def

lemma transaction_evolvesD: "transaction body e d = (r, d') \<Longrightarrow> (\<And>d0. keeps (evolves d0) body) \<Longrightarrow> evolves d d'"
  using transaction_evolves [of body d e] by simp

lemma autocommit_evolvesD: "autocommit q e d = (r, d') \<Longrightarrow> (\<And>d0. keeps (evolves d0) q) \<Longrightarrow> evolves d d'"
  using autocommit_evolves [of q d e] by simp

lemma step_evolves: "repository_step p (d, ws) (d', ws') \<Longrightarrow> evolves d d'"
  by (erule repository_step.cases)
    (auto simp: method_defs split: option.splits if_splits intro!: keeps_rules
      elim!: transaction_evolvesD autocommit_evolvesD)

end
