(* ===== verification/Net_Rows.thy ===== *)
theory Net_Rows
  imports Net_Steps
begin

text \<open>
  The rows of VPCs and subnets in every reachable state: undeleted subnets of a VPC have disjoint addresses, and a VPC that is
  being deleted or is deleted has no undeleted subnet.
\<close>

section \<open>Addresses of a network\<close>

definition cidr_addresses :: "string \<Rightarrow> v4 set" where
  "cidr_addresses s = (case parse_v4_prefix s of None \<Rightarrow> {} | Some (w, n) \<Rightarrow> {a. v4_contains w n a})"

lemma v4_contains_sym: "v4_contains p n q \<longleftrightarrow> v4_contains q n p"
  by (auto simp: v4_contains_div)

text \<open>The overlap test of the database decides whether the two networks share an address.\<close>

lemma cidr_overlap_addresses:
  assumes "cidr_overlap a b = Some x"
  shows "x \<longleftrightarrow> cidr_addresses a \<inter> cidr_addresses b \<noteq> {}"
proof -
  obtain w n v m where p: "parse_v4_prefix a = Some (w, n)" "parse_v4_prefix b = Some (v, m)" and x: "x \<longleftrightarrow> v4_contains w (min n m) v"
    using assms by (auto simp: cidr_overlap_def split: option.splits)
  have "(\<exists>y. v4_contains w n y \<and> v4_contains v m y) \<longleftrightarrow> v4_contains w (min n m) v"
  proof (cases "n \<le> m")
    case True
    then show ?thesis using v4_share_iff [of n m w v] by (simp add: min_def)
  next
    case False
    then show ?thesis
      using v4_share_iff [of m n v w] v4_contains_sym [of w m v] by (auto simp: min_def conj_commute)
  qed
  then show ?thesis using p x by (auto simp: cidr_addresses_def)
qed

section \<open>What is kept of the rows\<close>

definition doomed :: "NetworkVpc list \<Rightarrow> (string \<times> string) set" where
  "doomed vs = (\<lambda>v. (nv_TenantID v, nv_VpcID v)) ` {v \<in> set vs. nv_State v = Deleting \<or> nv_State v = Deleted}"

lemma doomed_subset: "doomed vs \<subseteq> D \<longleftrightarrow> (\<forall>v \<in> set vs. nv_State v = Deleting \<or> nv_State v = Deleted \<longrightarrow> (nv_TenantID v, nv_VpcID v) \<in> D)"
  by (auto simp: doomed_def)

definition apart :: "NetworkSubnet \<Rightarrow> NetworkSubnet \<Rightarrow> bool" where
  "apart s s' \<longleftrightarrow> (nsu_TenantID s = nsu_TenantID s' \<and> nsu_VpcID s = nsu_VpcID s' \<and> nsu_State s \<noteq> Deleted \<and> nsu_State s' \<noteq> Deleted
     \<longrightarrow> cidr_addresses (nsu_Cidr s) \<inter> cidr_addresses (nsu_Cidr s') = {})"

definition subnets_apart :: "NetworkSubnet list \<Rightarrow> bool" where
  "subnets_apart ss \<longleftrightarrow> (\<forall>i < length ss. \<forall>j < length ss. i \<noteq> j \<longrightarrow> apart (ss ! i) (ss ! j))"

lemma apart_sym: "apart s s' \<longleftrightarrow> apart s' s"
  by (auto simp: apart_def)

definition doomed_empty :: "NetworkVpc list \<Rightarrow> NetworkSubnet list \<Rightarrow> bool" where
  "doomed_empty vs ss \<longleftrightarrow> (\<forall>s \<in> set ss. (nsu_TenantID s, nsu_VpcID s) \<in> doomed vs \<longrightarrow> nsu_State s = Deleted)"

definition calm :: "NetworkSubnet list \<Rightarrow> NetworkSubnet list \<Rightarrow> bool" where
  "calm ss ss' \<longleftrightarrow> length ss' = length ss \<and> (\<forall>i < length ss. nsu_TenantID (ss' ! i) = nsu_TenantID (ss ! i)
     \<and> nsu_VpcID (ss' ! i) = nsu_VpcID (ss ! i) \<and> nsu_Cidr (ss' ! i) = nsu_Cidr (ss ! i)
     \<and> (nsu_State (ss ! i) = Deleted \<longrightarrow> nsu_State (ss' ! i) = Deleted))"

definition rows_ok :: "NetworkVpc list \<Rightarrow> NetworkSubnet list \<Rightarrow> bool" where
  "rows_ok vs ss \<longleftrightarrow> subnets_apart ss \<and> doomed_empty vs ss"

lemma calm_refl [simp]: "calm ss ss"
  by (simp add: calm_def)

lemma calm_update:
  assumes "\<And>s. s \<in> set ss \<Longrightarrow> P s \<Longrightarrow> nsu_TenantID (f s) = nsu_TenantID s \<and> nsu_VpcID (f s) = nsu_VpcID s \<and> nsu_Cidr (f s) = nsu_Cidr s
      \<and> (nsu_State s = Deleted \<longrightarrow> nsu_State (f s) = Deleted)"
  shows "calm ss (update_where P f ss)"
  using assms by (auto simp: calm_def update_where_def)

lemma doomed_update:
  assumes "\<And>v. v \<in> set vs \<Longrightarrow> P v \<Longrightarrow> nv_TenantID (f v) = nv_TenantID v \<and> nv_VpcID (f v) = nv_VpcID v
      \<and> (nv_State (f v) = Deleting \<or> nv_State (f v) = Deleted \<longrightarrow> nv_State v = Deleting \<or> nv_State v = Deleted)"
  shows "doomed (update_where P f vs) \<subseteq> doomed vs"
  using assms by (auto simp: doomed_subset update_where_def) (auto simp: doomed_def image_iff)

lemma rows_ok_calm:
  assumes "rows_ok vs ss" and "doomed vs' \<subseteq> doomed vs" and "calm ss ss'"
  shows "rows_ok vs' ss'"
proof -
  have "apart (ss' ! i) (ss' ! j)" if "i < length ss'" "j < length ss'" "i \<noteq> j" for i j
  proof -
    have "apart (ss ! i) (ss ! j)"
      using assms(1,3) that by (simp add: rows_ok_def subnets_apart_def calm_def)
    then show ?thesis using assms(3) that unfolding apart_def calm_def by metis
  qed
  then have "subnets_apart ss'" by (simp add: subnets_apart_def)
  moreover have "nsu_State (ss' ! i) = Deleted" if "i < length ss'" "(nsu_TenantID (ss' ! i), nsu_VpcID (ss' ! i)) \<in> doomed vs'" for i
    using assms that by (simp add: rows_ok_def doomed_empty_def calm_def subset_iff)
  then have "doomed_empty vs' ss'" by (auto simp: doomed_empty_def in_set_conv_nth)
  ultimately show ?thesis by (simp add: rows_ok_def)
qed

lemma rows_ok_insert:
  assumes "rows_ok vs ss" and "(nsu_TenantID s, nsu_VpcID s) \<notin> doomed vs" and new: "\<And>x. x \<in> set ss \<Longrightarrow> apart x s"
  shows "rows_ok vs (ss @ [s])"
proof -
  have "apart ((ss @ [s]) ! i) ((ss @ [s]) ! j)" if "i < Suc (length ss)" "j < Suc (length ss)" "i \<noteq> j" for i j
    using assms(1) that new [OF nth_mem] new [OF nth_mem, unfolded apart_sym [of _ s]]
    by (cases "i = length ss"; cases "j = length ss") (simp_all add: nth_append rows_ok_def subnets_apart_def)
  then have "subnets_apart (ss @ [s])" by (simp add: subnets_apart_def)
  then show ?thesis using assms(1,2) by (auto simp: rows_ok_def doomed_empty_def)
qed

section \<open>The statements that leave the rows alone\<close>

lemmas statement_defs = q_InsertOperation_def q_InsertReconciliation_def q_InsertBinding_def q_InsertHistory_def insert_idempotency_def
  q_EnsureTenantNamespace_def insert_eip_def q_AdvanceEIP_def q_AdmitEIPDeletion_def insert_snat_def insert_claim_def
  q_ReleaseSnatClaim_def q_ConfirmSnatClaim_def q_SetSnatIntent_def q_AdvanceSnat_def q_AdmitSnatDeletion_def
  q_InsertBaseConnectivity_def q_SetBaseObservation_def q_TerminateBase_def q_RetireActiveOperation_def q_NotifyBaseParent_def
  q_NotifyBaseChildren_def q_AcquireLease_def q_ReleaseLease_def q_ScheduleDeletion_def q_RetireCancelledResource_def
  q_NotifyResource_def q_RunOperation_def q_CompleteAttempt_def q_BeginProviderMutation_def q_SaveBindingObservation_def
  q_AcquirePlatformLease_def q_RunPlatformOperation_def q_BeginPlatformMutation_def q_AdvancePlatform_def
  q_CompletePlatformAttempt_def q_ReleasePlatformLease_def q_SavePlatformImages_def q_RetireVlanSlot_def
  q_RetirePublicPoolSlot_def q_SaveDeviceProgress_def q_InsertPlatformHistory_def q_BeginLBComponentMutation_def
  q_SaveLBComponentObservation_def q_AdvanceLB_def q_SaveLBMemberObservation_def q_SaveLBGenerated_def q_ReleaseLBClaim_def
  q_BoundLBClaim_def q_ReleaseLBVIP_def q_ReleaseLBSubnetRefs_def q_InsertAttachment_def q_ConfirmAttachment_def
  q_ReleaseAttachment_def q_InsertAttachmentHistory_def q_ClaimAttachment_def q_FinishAttachment_def q_NotifyAttachment_def
  update_eip_def update_snat_def update_attachment_def update_lb_def q_UpdateLBIntent_def q_RetireLBMutation_def q_InsertLBListener_def
  q_ReserveLBVIP_def q_InsertLBConfiguration_def q_InsertLBMember_def q_InsertLBConfigurationMember_def q_InsertLBComponent_def
  q_InsertLB_def q_AdmitLBDeletion_def q_ReserveLBSubnet_def

interpretation rows: resource_statements "\<lambda>d. Q (db_vpcs d) (db_subnets d)" for Q
  by (unfold_locales; unfold statement_defs Let_def; rule keeps_stmt; ((auto; fail) | auto split: if_splits option.splits))


text \<open>Rows with the subnets fixed and the VPCs under deletion bounded: what an admission of a VPC and an update of one keep.\<close>

definition bounded_rows :: "NetworkSubnet list \<Rightarrow> (string \<times> string) set \<Rightarrow> db \<Rightarrow> bool" where
  "bounded_rows S D d \<longleftrightarrow> db_subnets d = S \<and> doomed (db_vpcs d) \<subseteq> D"

lemma bounded_resource_statements: "resource_statements (bounded_rows S D)"
  unfolding bounded_rows_def [abs_def]
  using rows.resource_statements_axioms [of "\<lambda>vs ss. ss = S \<and> doomed vs \<subseteq> D"] by simp

interpretation admission: vpc_admission "bounded_rows S D" for S D
proof (intro vpc_admission.intro resource_statements.axioms(1) [OF bounded_resource_statements] vpc_admission_axioms.intro)
  show "keeps (bounded_rows S D) (q_InsertVPC a b c d f g h)" for a b c d f g h
    unfolding q_InsertVPC_def Let_def
    by (rule keeps_stmt) (auto simp: bounded_rows_def doomed_subset split: if_splits)
  show "keeps (bounded_rows S D) (q_RequireVPCBase a b)" for a b
    unfolding q_RequireVPCBase_def
    by (rule keeps_stmt) (auto simp: bounded_rows_def doomed_subset update_where_def split: if_splits)
qed

lemma bounded_self [simp]: "bounded_rows (db_subnets d) (doomed (db_vpcs d)) d"
  by (simp add: bounded_rows_def)

lemma bounded_rows_ok: "bounded_rows (db_subnets d) (doomed (db_vpcs d)) d' \<Longrightarrow> rows_ok (db_vpcs d) (db_subnets d)
    \<Longrightarrow> rows_ok (db_vpcs d') (db_subnets d')"
  by (auto simp: bounded_rows_def elim: rows_ok_calm)

lemma transaction_keepsD: "transaction body e d = (r, d') \<Longrightarrow> keeps I body \<Longrightarrow> I d \<Longrightarrow> I d'"
  using transaction_keeps [of I body d e] by simp

lemma autocommit_keepsD: "autocommit q e d = (r, d') \<Longrightarrow> keeps I q \<Longrightarrow> I d \<Longrightarrow> I d'"
  using autocommit_keeps [of I q d e] by simp

lemma AcceptVPC_rows:
  "Postgres_AcceptVPC p e intent a d = (r, d') \<Longrightarrow> rows_ok (db_vpcs d) (db_subnets d) \<Longrightarrow> rows_ok (db_vpcs d') (db_subnets d')"
  unfolding Postgres_AcceptVPC_def
  by (rule bounded_rows_ok [OF transaction_keepsD [OF _ admission.keeps_acceptVPC bounded_self]])

section \<open>Deleting a VPC\<close>

lemma count_where_pos: "0 < count_where P xs \<longleftrightarrow> (\<exists>x \<in> set xs. P x)"
  by (auto simp: count_where_def filter_empty_conv)

lemma AdmitDeletion_bounded: "keeps (bounded_rows S (insert (tenant, i) D)) (q_AdmitDeletion tenant i version op)"
  unfolding q_AdmitDeletion_def update_vpc_def Let_def
  by (rule keeps_stmt) (auto simp: bounded_rows_def doomed_subset update_where_def vpc_row_def split: if_splits)

lemma wp_deleteVPC:
  "wp (deleteVPC tenant i) e (\<lambda>x d'. \<forall>a. x = Commit a \<longrightarrow> bounded_rows (db_subnets d) (insert (tenant, i) (doomed (db_vpcs d))) d'
       \<and> (\<forall>s \<in> set (db_subnets d). nsu_TenantID s = tenant \<and> nsu_VpcID s = i \<longrightarrow> nsu_State s = Deleted)) (\<lambda>_ _. True) d"
  (is "wp _ _ ?Q _ _")
proof -
  let ?I = "bounded_rows (db_subnets d) (insert (tenant, i) (doomed (db_vpcs d)))"
  note [keeps_rules] = AdmitDeletion_bounded
  have I: "?I d" by (auto simp: bounded_rows_def)
  have tail: "wp q e ?Q (\<lambda>_ _. True) d"
    if "keeps ?I q" "\<forall>s \<in> set (db_subnets d). nsu_TenantID s = tenant \<and> nsu_VpcID s = i \<longrightarrow> nsu_State s = Deleted" for q
    using that(2) by (auto intro: wp_keeps [OF that(1) I])
  show ?thesis
    unfolding deleteVPC_def q_LockVPC_def q_BlockingLBForVPC_def q_BlockingSnatForVPC_def q_CountBlockingSubnets_def
    by (rule wp_call, rule wp_query, rule wp_if, rule wp_ret, simp)
      ((rule wp_call, rule wp_query, rule wp_if, rule wp_throw, simp)+, rule tail, intro keeps_rules,
       auto simp: count_where_pos subnet_occupied_def)
qed


lemma DeleteVPC_rows:
  assumes "Postgres_DeleteVPC e tenant i d = (r, d')" and "rows_ok (db_vpcs d) (db_subnets d)"
  shows "rows_ok (db_vpcs d') (db_subnets d')"
  using transaction_db [OF wp_deleteVPC assms(1) [unfolded Postgres_DeleteVPC_def]] assms(2)
  by (auto simp: bounded_rows_def rows_ok_def doomed_empty_def)

section \<open>Subnets\<close>

lemma unique_row:
  assumes "distinct (map k xs)" and "x \<in> set xs" and "y \<in> set xs" and "k x = k y"
  shows "x = y"
  using assms by (auto simp: distinct_map inj_on_def)

lemma wp_then_keeps:
  assumes "keeps I q" and "I d" and "\<And>a d. I d \<Longrightarrow> wp (k a) e Q (\<lambda>_ _. True) d"
  shows "wp (andThen q k) e Q (\<lambda>_ _. True) d"
  by (rule wp_andThen, rule wp_keeps [OF assms(1,2)]) (simp_all add: assms(3))

lemma wp_call_keeps:
  assumes "keeps I q" and "I d" and "\<And>a d. I d \<Longrightarrow> wp (k a) e Q (\<lambda>_ _. True) d"
  shows "wp (call q k) e Q (\<lambda>_ _. True) d"
  unfolding call_def by (rule wp_then_keeps [OF keeps_wrapped [OF assms(1)]]) (simp_all add: assms(2,3))

lemma wp_call_row:
  assumes "\<And>x. x \<in> set (f d) \<Longrightarrow> P x \<Longrightarrow> wp (k x) e Q (\<lambda>_ _. True) d"
  shows "wp (call (query (\<lambda>d. find_row P (f d))) k) e Q (\<lambda>_ _. True) d"
  by (rule wp_call, rule wp_locked) (simp_all add: assms)

lemma wp_call_query:
  assumes "\<And>a. f d = Inr a \<Longrightarrow> wp (k a) e Q (\<lambda>_ _. True) d"
  shows "wp (call (query f) k) e Q (\<lambda>_ _. True) d"
  by (rule wp_call, rule wp_query) (simp_all add: assms)

lemma wp_call_time:
  assumes "\<And>now. wp (k now) e Q (\<lambda>_ _. True) d"
  shows "wp (call q_DatabaseTime k) e Q (\<lambda>_ _. True) d"
  unfolding q_DatabaseTime_def by (rule wp_call, rule wp_timed_query) (simp_all add: assms)

lemma wp_then_uuid: "(\<And>i. wp (k i) e Q R d) \<Longrightarrow> wp (andThen newUUID k) e Q R d"
  by (rule wp_andThen, rule wp_newUUID)

lemma wp_fail: "wp (throw x) e Q (\<lambda>_ _. True) d"
  by (rule wp_throw) simp

lemma AdmitSubnetDeletion_calm:
  assumes "subnets_ok (db_subnets d)" and "s \<in> set (db_subnets d)" and "subnet_row tenant i s" and "nsu_State s \<noteq> Deleted"
  shows "wp (q_AdmitSubnetDeletion tenant i version op) e
      (\<lambda>_ d'. db_vpcs d' = db_vpcs d \<and> calm (db_subnets d) (db_subnets d')) (\<lambda>_ _. True) d"
proof -
  have "x = s" if "x \<in> set (db_subnets d)" "subnet_row tenant i x" for x
    using assms that by (intro unique_row [of nsu_SubnetID "db_subnets d"]) (auto simp: subnets_ok_def subnet_row_def)
  then show ?thesis
    unfolding q_AdmitSubnetDeletion_def update_subnet_def Let_def
    using assms(4) by (intro wp_stmt) (auto split: sum.splits intro!: calm_update)
qed

lemma wp_deleteSubnet:
  assumes "subnets_ok (db_subnets d)"
  shows "wp (deleteSubnet tenant i) e (\<lambda>_ d'. db_vpcs d' = db_vpcs d \<and> calm (db_subnets d) (db_subnets d')) (\<lambda>_ _. True) d"
  (is "wp _ _ ?Q _ _")
proof -
  let ?I = "\<lambda>d'. db_vpcs d' = db_vpcs d \<and> db_subnets d' = db_subnets d"
  let ?J = "\<lambda>d'. db_vpcs d' = db_vpcs d \<and> calm (db_subnets d) (db_subnets d')"
  note frame = rows.keeps_InsertOperation [where Q = "\<lambda>V S. V = db_vpcs d \<and> S = db_subnets d"]
  note after = rows.keeps_ScheduleDeletion [where Q = "\<lambda>V S. V = db_vpcs d \<and> calm (db_subnets d) S"]
    rows.keeps_InsertHistory [where Q = "\<lambda>V S. V = db_vpcs d \<and> calm (db_subnets d) S"]
  have admit: "wp (call (q_AdmitSubnetDeletion tenant i (nsu_Version s) op) k) e ?Q (\<lambda>_ _. True) d'"
    if "?I d'" "s \<in> set (db_subnets d)" "subnet_row tenant i s" "nsu_State s \<noteq> Deleted" "\<And>a. keeps ?J (k a)" for s op k d'
    apply (rule wp_call)
    apply (rule wp_mono [OF AdmitSubnetDeletion_calm [of d' s]])
    using that assms by (auto intro: wp_keeps [of ?J])
  show ?thesis
    unfolding deleteSubnet_def q_GetSubnet_def q_LockVPC_def q_LockSubnet_def q_BlockingLBForSubnet_def q_CountAttachments_def
      q_GetOperation_def
    by (intro wp_call_row wp_call_query wp_call_time wp_then_uuid wp_fail wp_if wp_ret wp_call_keeps [OF frame] admit keeps_rules after)
      auto
qed

lemma DeleteSubnet_rows:
  assumes "Postgres_DeleteSubnet e tenant i d = (r, d')" and "subnets_ok (db_subnets d)" and "rows_ok (db_vpcs d) (db_subnets d)"
  shows "rows_ok (db_vpcs d') (db_subnets d')"
  using transaction_db [OF wp_deleteSubnet [OF assms(2)] assms(1) [unfolded Postgres_DeleteSubnet_def]] assms(3)
  by (auto elim: rows_ok_calm)

text \<open>The row that an accepted subnet adds.\<close>

definition adds_subnet :: "string \<Rightarrow> string \<Rightarrow> string \<Rightarrow> db \<Rightarrow> db \<Rightarrow> bool" where
  "adds_subnet tenant vpcID cidr d d' \<longleftrightarrow> db_vpcs d' = db_vpcs d \<and> (\<exists>s. db_subnets d' = db_subnets d @ [s]
     \<and> nsu_TenantID s = tenant \<and> nsu_VpcID s = vpcID \<and> nsu_Cidr s = cidr)"

lemma wp_newSubnet:
  "wp (newSubnet si a now) e
     (\<lambda>_. adds_subnet (vi_TenantID (si_VPCIntent si)) (si_VPCID si) (vi_CIDR (si_VPCIntent si)) d) (\<lambda>_ _. True) d"
  (is "wp _ _ (\<lambda>_. ?J) _ _")
proof -
  have "resource_statements ?J"
    unfolding adds_subnet_def [abs_def]
    using rows.resource_statements_axioms [of "\<lambda>vs ss. vs = db_vpcs d \<and> (\<exists>s. ss = db_subnets d @ [s]
       \<and> nsu_TenantID s = vi_TenantID (si_VPCIntent si) \<and> nsu_VpcID s = si_VPCID si \<and> nsu_Cidr s = vi_CIDR (si_VPCIntent si))"] by simp
  note after = quiet_statements.keeps_InsertOperation [OF resource_statements.axioms(1) [OF this]] quiet_statements.keeps_InsertReconciliation [OF resource_statements.axioms(1) [OF this]]
    quiet_statements.keeps_InsertBinding [OF resource_statements.axioms(1) [OF this]] quiet_statements.keeps_InsertHistory [OF resource_statements.axioms(1) [OF this]]
    quiet_statements.keeps_insert_idempotency [OF resource_statements.axioms(1) [OF this]] keeps_marshals
  have insert: "wp (call (q_InsertSubnet (vi_TenantID (si_VPCIntent si)) i (si_VPCID si) n x (vi_CIDR (si_VPCIntent si)) g t op) k) e (\<lambda>_. ?J) (\<lambda>_ _. True) d"
    if "\<And>a. keeps ?J (k a)" for i n x g t op k
    unfolding q_InsertSubnet_def Let_def
    by (rule wp_call, rule wp_stmt) (auto simp: adds_subnet_def intro!: wp_keeps [OF that])
  show ?thesis
    unfolding newSubnet_def Let_def q_InsertSubnetIdempotency_def
    by (intro wp_then_uuid insert keeps_rules after)
qed

lemma SubnetOverlaps_apart:
  assumes "\<forall>x \<in> set ss. nsu_TenantID x = t \<and> nsu_VpcID x = v \<and> subnet_occupied d x \<longrightarrow> cidr_overlap (nsu_Cidr x) c = Some False"
    and "s \<in> set ss" and "nsu_TenantID s' = t" and "nsu_VpcID s' = v" and "nsu_Cidr s' = c"
  shows "apart s s'"
proof (cases "nsu_TenantID s = t \<and> nsu_VpcID s = v \<and> nsu_State s \<noteq> Deleted")
  case True
  then have "cidr_overlap (nsu_Cidr s) c = Some False"
    using assms by (simp add: subnet_occupied_def)
  then show ?thesis using cidr_overlap_addresses [of "nsu_Cidr s" c False] assms(5) by (simp add: apart_def)
next
  case False
  then show ?thesis using assms by (auto simp: apart_def)
qed

lemma wp_SubnetOverlaps:
  assumes "wp (k True) e Q (\<lambda>_ _. True) d"
    and "\<forall>x \<in> set (db_subnets d). nsu_TenantID x = t \<and> nsu_VpcID x = v \<and> subnet_occupied d x \<longrightarrow> cidr_overlap (nsu_Cidr x) c = Some False
      \<Longrightarrow> wp (k False) e Q (\<lambda>_ _. True) d"
  shows "wp (call (q_SubnetOverlaps t v c) k) e Q (\<lambda>_ _. True) d"
proof -
  have decided: "wp (k a) e Q (\<lambda>_ _. True) d"
    if "(if list_ex (\<lambda>s. cidr_overlap (nsu_Cidr s) c = None) rs then Inl x
      else Inr (list_ex (\<lambda>s. cidr_overlap (nsu_Cidr s) c = Some True) rs)) = Inr a"
      and rs: "rs = filter (\<lambda>s. nsu_TenantID s = t \<and> nsu_VpcID s = v \<and> subnet_occupied d s) (db_subnets d)" for a rs x
  proof (cases a)
    case False
    have "cidr_overlap (nsu_Cidr s) c = Some False" if "s \<in> set rs" for s
      using False \<open>(if _ then _ else _) = Inr a\<close> that
      by (cases "cidr_overlap (nsu_Cidr s) c") (auto simp: list_ex_iff split: if_splits)
    then show ?thesis using assms(2) False rs by simp
  qed (use assms(1) in simp)
  show ?thesis
    unfolding q_SubnetOverlaps_def Let_def by (rule wp_call_query, erule decided, rule refl)
qed

lemma wp_acceptSubnet:
  assumes "vpcs_ok (db_vpcs d)"
  shows "wp (acceptSubnet si a freshness) e (\<lambda>x d'. rows_ok (db_vpcs d) (db_subnets d) \<longrightarrow> rows_ok (db_vpcs d') (db_subnets d')) (\<lambda>_ _. True) d"
  (is "wp _ _ ?Q _ _")
proof -
  let ?t = "vi_TenantID (si_VPCIntent si)" let ?v = "si_VPCID si" let ?c = "vi_CIDR (si_VPCIntent si)"
  have insert: "rows_ok (db_vpcs d) (db_subnets d) \<longrightarrow> rows_ok (db_vpcs d') (db_subnets d')"
    if vpc: "vpc \<in> set (db_vpcs d)" "vpc_row ?t ?v vpc" "nv_State vpc = Available"
      and free: "\<forall>x \<in> set (db_subnets d). nsu_TenantID x = ?t \<and> nsu_VpcID x = ?v \<and> subnet_occupied d x \<longrightarrow> cidr_overlap (nsu_Cidr x) ?c = Some False"
      and new: "adds_subnet ?t ?v ?c d d'" for vpc d'
  proof -
    have "x = vpc" if "x \<in> set (db_vpcs d)" "nv_VpcID x = ?v" for x
      using unique_row [of nv_VpcID "db_vpcs d" x vpc] that vpc assms by (simp add: vpcs_ok_def vpc_row_def)
    then have "(?t, ?v) \<notin> doomed (db_vpcs d)" using vpc(3) by (auto simp: doomed_def)
    then show ?thesis
      using new SubnetOverlaps_apart [OF free] by (auto simp: adds_subnet_def intro!: rows_ok_insert)
  qed
  have new: "wp (call (q_SubnetOverlaps ?t ?v ?c) (\<lambda>overlap. if overlap then throw x
      else andThen (newSubnet si a now) (\<lambda>value. ret (Commit value)))) e ?Q (\<lambda>_ _. True) d"
    if "vpc \<in> set (db_vpcs d)" "vpc_row ?t ?v vpc" "nv_State vpc = Available" for vpc now x
    by (rule wp_SubnetOverlaps, simp add: wp_fail)
      (simp only: if_False simp_thms, rule wp_bind_ret, rule wp_mono [OF wp_newSubnet insert [OF that]], simp_all)
  have same: "keeps ((=) d) q \<Longrightarrow> (\<And>a. wp (k a) e ?Q (\<lambda>_ _. True) d) \<Longrightarrow> wp (andThen q k) e ?Q (\<lambda>_ _. True) d" for q k
    by (rule wp_then_keeps [of "(=) d"]) auto
  have replay: "keeps ((=) d) (subnetReplay si)" "keeps ((=) d) (wrapped (q_LockSubnetCreationKey ?t (vi_IdempotencyKey (si_VPCIntent si))))"
    unfolding subnetReplay_def by (intro keeps_rules)+
  show ?thesis
    unfolding acceptSubnet_def Let_def q_LockVPC_def must_prefix_def
    by (intro wp_call_row, unfold call_def [of "q_LockSubnetCreationKey _ _"])
      (intro same [OF replay(1)] same [OF replay(2)] wp_option wp_ret wp_call_time wp_if wp_fail;
       auto intro!: new wp_andThen wp_ret wp_fail split: option.splits)
qed

lemma AcceptSubnet_rows:
  assumes "transaction (acceptSubnet si a freshness) e d = (r, d')" and "vpcs_ok (db_vpcs d)" and "rows_ok (db_vpcs d) (db_subnets d)"
  shows "rows_ok (db_vpcs d') (db_subnets d')"
  using transaction_db [OF wp_acceptSubnet [OF assms(2)] assms(1)] assms(3) by auto

section \<open>Outcomes of an executor\<close>

definition lockable :: "kind \<Rightarrow> bool" where
  "lockable k \<longleftrightarrow> k \<in> {KLoadBalancer, KEip, KSnat, KVpc, KSubnet}"

lemma returns_optional: "returns p (\<lambda>_. K) \<Longrightarrow> returns (optional p) (\<lambda>x. x \<noteq> None \<longrightarrow> K)"
  unfolding returns_def by (intro allI wp_optional, rule wp_mono [of p _ "\<lambda>_ _. K" "\<lambda>_ _. True"]) auto

lemma lockedWork_returns: "returns (lockedWork w) (\<lambda>_. lockable (rw_Kind (wk_Resource w)))"
proof -
  have "returns (lockResource r) (\<lambda>_. lockable (rw_Kind r))" for r
    unfolding lockResource_def Let_def by (intro returns_rules) (auto simp: lockable_def intro: returns_any)
  from returns_wrapped [OF returns_optional [OF this]] show ?thesis
    unfolding lockedWork_def call_def [of "optional (lockResource _)"]
    by (rule returns_bind) (auto intro!: returns_rules split: option.splits)
qed

lemma finishBaseConnectivity_returns:
  "returns (finishBaseConnectivity p w progress now)
     (\<lambda>q. if rw_Kind (wk_Resource w) = KVpc then lifecycle (rw_State (wk_Resource w)) (pg_State progress) \<longrightarrow> lifecycle (rw_State (wk_Resource w)) (pg_State q)
       else q = progress)"
proof -
  have "lifecycle (rw_State (wk_Resource w)) (pg_State progress)
      \<longrightarrow> lifecycle (rw_State (wk_Resource w)) (pg_State (base_progress w progress ready aggregate reason))" for ready aggregate reason
    by (cases "rw_State (wk_Resource w)") (auto simp: base_progress_def Let_def)
  then show ?thesis
    unfolding finishBaseConnectivity_def finish_vpc_base_def Let_def by (intro returns_rules) simp_all
qed

lemma wp_update_vpc:
  assumes "\<And>clk. Q (d\<lparr>db_vpcs := update_where (\<lambda>v. vpc_row tenant i v \<and> nv_Version v = version) (f clk) (db_vpcs d)\<rparr>)"
  shows "wp (update_vpc tenant i version f) e (\<lambda>_. Q) (\<lambda>_ _. True) d"
  unfolding update_vpc_def Let_def by (rule wp_stmt) (simp_all add: assms map_sum_def split: sum.splits)

lemma wp_update_subnet:
  assumes "\<And>clk. Q (d\<lparr>db_subnets := update_where (\<lambda>s. subnet_row tenant i s \<and> nsu_Version s = version) (f clk) (db_subnets d)\<rparr>)"
  shows "wp (update_subnet tenant i version f) e (\<lambda>_. Q) (\<lambda>_ _. True) d"
  unfolding update_subnet_def Let_def by (rule wp_stmt) (simp_all add: assms map_sum_def split: sum.splits)

lemma wp_advanceResource:
  assumes ok: "vpcs_ok (db_vpcs d)" "subnets_ok (db_subnets d)" and r: "row_tracked d r" "rw_TenantID r \<noteq> []" "lockable (rw_Kind r)"
    and lifecycle: "rw_Kind r = KVpc \<or> rw_Kind r = KSubnet \<Longrightarrow> lifecycle (rw_State r) (pg_State progress)"
  shows "wp (advanceResource r progress) e
     (\<lambda>_ d'. doomed (db_vpcs d') \<subseteq> doomed (db_vpcs d) \<and> calm (db_subnets d) (db_subnets d')) (\<lambda>_ _. True) d"
  (is "wp _ _ (\<lambda>_. ?J) _ _")
proof -
  have J: "resource_statements ?J"
    using rows.resource_statements_axioms [of "\<lambda>vs ss. doomed vs \<subseteq> doomed (db_vpcs d) \<and> calm (db_subnets d) ss"] by simp
  note laws = resource_statements.keeps_AdvanceLB [OF J] quiet_statements.keeps_AdvanceEIP [OF resource_statements.axioms(1) [OF J]]
    quiet_statements.keeps_AdvanceSnat [OF resource_statements.axioms(1) [OF J]]
  have others: "wp q e (\<lambda>_. ?J) (\<lambda>_ _. True) d" if "keeps ?J q" for q :: "ResourceWork prog"
    by (rule wp_keeps [OF that]) simp_all
  show ?thesis
  proof (cases "rw_Kind r")
    case KVpc
    obtain v where v: "v \<in> set (db_vpcs d)" "vpc_row (rw_TenantID r) (rw_ID r) v" "rw_Version r = nv_Version v \<longrightarrow> rw_State r = nv_State v"
      using r KVpc by (auto simp: row_tracked_def)
    have "x = v" if "x \<in> set (db_vpcs d)" "vpc_row (rw_TenantID r) (rw_ID r) x" for x
      using ok(1) that v by (intro unique_row [of nv_VpcID "db_vpcs d"]) (auto simp: vpcs_ok_def vpc_row_def)
    then have state: "nv_State x = rw_State r" if "x \<in> set (db_vpcs d)" "vpc_row (rw_TenantID r) (rw_ID r) x" "nv_Version x = rw_Version r" for x
      using v that by auto
    have next_state: "pg_State progress = Deleting \<or> pg_State progress = Deleted \<Longrightarrow> rw_State r = Deleting \<or> rw_State r = Deleted"
      using lifecycle KVpc by (cases "rw_State r") auto
    show ?thesis
      by (simp add: advanceResource_def q_AdvanceVPC_def KVpc Let_def, rule wp_bind_ret, rule wp_update_vpc, simp, rule doomed_update)
        (use next_state in \<open>simp add: state\<close>)
  next
    case KSubnet
    obtain s where s: "s \<in> set (db_subnets d)" "subnet_row (rw_TenantID r) (rw_ID r) s" "rw_Version r = nsu_Version s \<longrightarrow> rw_State r = nsu_State s"
      using r KSubnet by (auto simp: row_tracked_def)
    have "x = s" if "x \<in> set (db_subnets d)" "subnet_row (rw_TenantID r) (rw_ID r) x" for x
      using ok(2) that s by (intro unique_row [of nsu_SubnetID "db_subnets d"]) (auto simp: subnets_ok_def subnet_row_def)
    then have state: "nsu_State x = rw_State r" if "x \<in> set (db_subnets d)" "subnet_row (rw_TenantID r) (rw_ID r) x" "nsu_Version x = rw_Version r" for x
      using s that by auto
    have next_state: "rw_State r = Deleted \<Longrightarrow> pg_State progress = Deleted"
      using lifecycle KSubnet by simp
    show ?thesis
      by (simp add: advanceResource_def q_AdvanceSubnet_def KSubnet Let_def, rule wp_bind_ret, rule wp_update_subnet, simp, rule calm_update)
        (simp add: state next_state)
  qed (use r(3) in \<open>simp_all add: lockable_def advanceResource_def Let_def others keeps_rules laws\<close>)
qed

lemma tracked_same: "db_vpcs d' = db_vpcs d \<Longrightarrow> db_subnets d' = db_subnets d \<Longrightarrow> row_tracked d' r = row_tracked d r"
  by (simp add: row_tracked_def)

lemma wp_finish_records:
  assumes "vpcs_ok (db_vpcs d)" "subnets_ok (db_subnets d)" and "row_tracked d (wk_Resource w)" "rw_TenantID (wk_Resource w) \<noteq> []"
    "lockable (rw_Kind (wk_Resource w))"
    and "rw_Kind (wk_Resource w) = KVpc \<or> rw_Kind (wk_Resource w) = KSubnet \<Longrightarrow> lifecycle (rw_State (wk_Resource w)) (pg_State progress)"
  shows "wp (finish_records p w progress) e
     (\<lambda>_ d'. doomed (db_vpcs d') \<subseteq> doomed (db_vpcs d) \<and> calm (db_subnets d) (db_subnets d')) (\<lambda>_ _. True) d"
  (is "wp _ _ (\<lambda>_. ?J) _ _")
proof -
  let ?I = "\<lambda>d'. db_vpcs d' = db_vpcs d \<and> db_subnets d' = db_subnets d"
  note frame = rows.keeps_finishLB [where Q = "\<lambda>V S. V = db_vpcs d \<and> S = db_subnets d"]
  have J: "resource_statements ?J"
    using rows.resource_statements_axioms [of "\<lambda>vs ss. doomed vs \<subseteq> doomed (db_vpcs d) \<and> calm (db_subnets d) ss"] by simp
  note after = quiet_statements.keeps_CompleteAttempt [OF resource_statements.axioms(1) [OF J]] quiet_statements.keeps_SaveBindingObservation [OF resource_statements.axioms(1) [OF J]]
    quiet_statements.keeps_InsertHistory [OF resource_statements.axioms(1) [OF J]] quiet_statements.keeps_finish_lease [OF resource_statements.axioms(1) [OF J]]
  have advance: "wp (call (advanceResource (wk_Resource w) progress) k) e (\<lambda>_. ?J) (\<lambda>_ _. True) d'"
    if "?I d'" "\<And>a. keeps ?J (k a)" for k d'
  proof (rule wp_call, rule wp_mono [OF wp_advanceResource])
    show "wp (k a) e (\<lambda>_. ?J) (\<lambda>_ _. True) x"
      if "doomed (db_vpcs x) \<subseteq> doomed (db_vpcs d') \<and> calm (db_subnets d') (db_subnets x)" for a x
      using that \<open>?I d'\<close> by (intro wp_keeps [OF \<open>keeps ?J (k a)\<close>]) simp_all
  qed (use assms \<open>?I d'\<close> in \<open>simp_all add: tracked_same [of d' d]\<close>)
  show ?thesis
    unfolding finish_records_def Let_def
    by (rule wp_then_keeps [of ?I]) (intro keeps_rules frame, simp, intro advance keeps_rules after)
qed

lemma wp_finish:
  assumes ok: "db_ok d" and item: "item_ok d w" and lifecycle: "follows_lifecycle w progress"
  shows "wp (finish p w progress) e (\<lambda>_ d'. doomed (db_vpcs d') \<subseteq> doomed (db_vpcs d) \<and> calm (db_subnets d) (db_subnets d')) (\<lambda>_ _. True) d"
  (is "wp _ _ (\<lambda>_. ?J) _ _")
proof (cases "rw_TenantID (wk_Resource w) = []")
  case True
  show ?thesis
    unfolding finish_def using True
    by (simp, intro wp_keeps [OF rows.keeps_finishPlatform [where Q = "\<lambda>V S. V = db_vpcs d \<and> S = db_subnets d"]]) simp_all
next
  case False
  let ?r = "wk_Resource w"
  let ?I = "\<lambda>d'. db_vpcs d' = db_vpcs d \<and> db_subnets d' = db_subnets d"
  have follows: "rw_Kind ?r = KVpc \<or> rw_Kind ?r = KSubnet \<Longrightarrow> lifecycle (rw_State ?r) (pg_State progress)"
    using item lifecycle False by (auto simp: item_ok_def tracked_def row_tracked_def follows_lifecycle_def)
  have records: "wp (andThen (finishBaseConnectivity p w progress now) (\<lambda>progress.
      andThen (finish_records p w progress) (\<lambda>_. ret (Commit ())))) e (\<lambda>_. ?J) (\<lambda>_ _. True) d'"
    if "?I d'" "lockable (rw_Kind ?r)" for now d'
  proof (rule wp_andThen, rule wp_returns [OF finishBaseConnectivity_returns rows.keeps_finishBaseConnectivity])
    show "?I d'" by fact
    fix q and x :: db
    assume "if rw_Kind ?r = KVpc then lifecycle (rw_State ?r) (pg_State progress) \<longrightarrow> lifecycle (rw_State ?r) (pg_State q) else q = progress"
      and x: "?I x"
    then have "rw_Kind ?r = KVpc \<or> rw_Kind ?r = KSubnet \<Longrightarrow> lifecycle (rw_State ?r) (pg_State q)"
      using follows by (auto split: if_splits)
    then have "wp (finish_records p w q) e
        (\<lambda>_ d'. doomed (db_vpcs d') \<subseteq> doomed (db_vpcs x) \<and> calm (db_subnets x) (db_subnets d')) (\<lambda>_ _. True) x"
      using ok item False that x by (intro wp_finish_records) (simp_all add: db_ok_def item_ok_def tracked_def tracked_same [of x d])
    then show "wp (andThen (finish_records p w q) (\<lambda>_. ret (Commit ()))) e (\<lambda>_. ?J) (\<lambda>_ _. True) x"
      using x by (intro wp_bind_ret) simp
  qed simp
  show ?thesis
    unfolding finish_def finishTenant_def if_not_P [OF False]
    by (rule wp_andThen, rule wp_returns [OF lockedWork_returns keeps_lockedWork [where I = "\<lambda>d'. db_vpcs d' = db_vpcs d \<and> db_subnets d' = db_subnets d"]])
      (simp, intro wp_if wp_fail wp_call_time records, simp_all)
qed

lemma Finish_rows:
  assumes "Postgres_Finish p e w progress d = (r, d')" and "db_ok d" and "item_ok d w" and "follows_lifecycle w progress"
    and "rows_ok (db_vpcs d) (db_subnets d)"
  shows "rows_ok (db_vpcs d') (db_subnets d')"
  using transaction_db [OF wp_finish [OF assms(2-4)] assms(1) [unfolded Postgres_Finish_def]] assms(5) by (auto elim: rows_ok_calm)

section \<open>The reachable states\<close>

definition world_ok :: "world \<Rightarrow> bool" where
  "world_ok x \<longleftrightarrow> db_ok (fst x) \<and> rows_ok (db_vpcs (fst x)) (db_subnets (fst x)) \<and> (\<forall>w \<in> set (snd x). item_ok (fst x) w)"

lemma item_ok_evolves: "evolves d d' \<Longrightarrow> db_ok d \<Longrightarrow> item_ok d w \<Longrightarrow> item_ok d' w"
  using tracked_lasting [of "wk_Resource w"] by (auto simp: lasting_def item_ok_def)

lemma framed_rows:
  assumes "rows_ok (db_vpcs d) (db_subnets d)" and "(db_vpcs d', db_subnets d') = (db_vpcs d, db_subnets d)"
  shows "rows_ok (db_vpcs d') (db_subnets d')"
  using assms by simp

lemma step_rows_ok:
  assumes "repository_step p (d, ws) (d', ws')" and "world_ok (d, ws)"
  shows "rows_ok (db_vpcs d') (db_subnets d')"
proof -
  have ok: "db_ok d" "rows_ok (db_vpcs d) (db_subnets d)" "\<And>w. w \<in> set ws \<Longrightarrow> item_ok d w" "vpcs_ok (db_vpcs d)" "subnets_ok (db_subnets d)"
    using assms(2) by (auto simp: world_ok_def db_ok_def)
  note framed = transaction_keepsD [where I = "\<lambda>d. rows_ok (db_vpcs d) (db_subnets d)"]
    autocommit_keepsD [where I = "\<lambda>d. rows_ok (db_vpcs d) (db_subnets d)"]
  show ?thesis
    using assms(1)
  proof cases
    case step_AcceptVPC then show ?thesis using AcceptVPC_rows ok(2) by blast
  next
    case step_DeleteVPC then show ?thesis using DeleteVPC_rows ok(2) by blast
  next
    case step_AcceptSubnet then show ?thesis using AcceptSubnet_rows ok by blast
  next
    case step_DeleteSubnet then show ?thesis using DeleteSubnet_rows ok by blast
  next
    case step_Finish then show ?thesis using Finish_rows ok by blast
  qed (use ok(2) in \<open>auto simp: method_defs split: option.splits if_splits intro!: keeps_rules elim!: framed\<close>)
qed

lemma claim_saved: "returns (claim p owner lease turn) (\<lambda>x. \<forall>w. x \<noteq> Unsaved (Some w))"
  unfolding claim_def claim_tenant_def Let_def by (intro returns_rules) (simp_all split: option.splits)

lemma step_world_ok:
  assumes "repository_step p (d, ws) (d', ws')" and "world_ok (d, ws)"
  shows "world_ok (d', ws')"
proof -
  have ok: "db_ok d" "\<And>w. w \<in> set ws \<Longrightarrow> item_ok d w"
    using assms(2) by (auto simp: world_ok_def)
  have ev: "evolves d d'" by (rule step_evolves [OF assms(1)])
  then have "db_ok d'" using ok(1) db_ok_lasting by (auto simp: lasting_def)
  moreover have old: "item_ok d' w" if "w \<in> set ws" for w
    using item_ok_evolves [OF ev ok(1) ok(2) [OF that]] .
  have "item_ok d' w" if "w \<in> set ws'" for w
    using assms(1)
  proof cases
    case (step_Claim e owner lease turn r)
    have "item_ok d' x" if "r = Inr (Some x)" for x
      using transaction_Inr [OF wp_conj [OF wp_claim [OF ok(1), of p owner lease turn e] claim_saved [unfolded returns_def, rule_format], simplified]]
        step_Claim(2) that unfolding Postgres_Claim_def by blast
    then show ?thesis using \<open>w \<in> set ws'\<close> old step_Claim(1) by (auto split: sum.splits option.splits)
  qed (use that old in auto)
  ultimately show ?thesis
    using step_rows_ok [OF assms] by (simp add: world_ok_def)
qed

end
