(* ===== verification/Net_Sample.thy ===== *)
theory Net_Sample
  imports Net_Rows
begin

text \<open>
  A database with one available VPC, and the runs of the repository on it that the witnesses use. Programs are evaluated
  symbolically: the rules below run a program statement by statement and leave identifiers and fingerprints as they are.
\<close>

section \<open>Running programs\<close>

named_theorems run_rules \<open>rewrite rules that run a program\<close>

lemma call_run [run_rules]: "call p f e t = (case p e t of (Inl x, t) \<Rightarrow> (Inl (databaseFailure x), t) | (Inr a, t) \<Rightarrow> f a e t)"
  by (simp add: call_def andThen_def wrapped_def split: prod.splits sum.splits)

lemma stmt_run [run_rules]: "stmt f e t = (case ev_fault e (tx_calls t) of Some x \<Rightarrow> (Inl x, t\<lparr>tx_calls := Suc (tx_calls t)\<rparr>)
    | None \<Rightarrow> (case f (ev_clock e (tx_calls t)) (tx_db t) of Inl x \<Rightarrow> (Inl x, t\<lparr>tx_calls := Suc (tx_calls t)\<rparr>)
       | Inr (a, d) \<Rightarrow> (Inr a, t\<lparr>tx_calls := Suc (tx_calls t), tx_db := d\<rparr>)))"
  by (simp add: stmt_def Let_def split: option.splits sum.splits prod.splits)

lemmas [run_rules] = andThen_def query_def timed_query_def ret_def throw_def wrapped_def optional_def affected_def newUUID_def

text \<open>Only the statement that runs next is rewritten.\<close>

lemma andThen_cong: "p = p' \<Longrightarrow> andThen p f = andThen p' f"
  by simp

lemma call_cong: "p = p' \<Longrightarrow> call p f = call p' f"
  by simp

section \<open>The database\<close>

definition sample_id :: "char \<Rightarrow> nat \<Rightarrow> string" where
  "sample_id c n = replicate 31 c @ [char_of (48 + n)]"

lemma sample_id_inject [simp]: "n < 10 \<Longrightarrow> m < 10 \<Longrightarrow> sample_id a n = sample_id b m \<longleftrightarrow> a = b \<and> n = m"
  by (auto simp: sample_id_def)

definition sample_env :: "char \<Rightarrow> env" where
  "sample_env c = \<lparr>ev_clock = (\<lambda>_ _. ns_second), ev_uuid = sample_id c, ev_fault = (\<lambda>_. None), ev_skip = (\<lambda>_. False), ev_committed = True\<rparr>"

definition empty_db :: db where
  "empty_db = \<lparr>db_vpcs = [], db_subnets = [], db_eips = [], db_snats = [], db_claims = [], db_operations = [], db_reconciliations = [],
     db_bindings = [], db_idempotency = [], db_history = [], db_base = [], db_rollouts = [], db_namespaces = [], db_platform = [],
     db_pools = [], db_vlans = [], db_default_public = [], db_default_intranet = [], db_devices = [], db_platform_operations = [],
     db_platform_reconciliations = [], db_platform_history = [], db_attachments = [], db_attachment_history = [], db_lbs = [],
     db_lb_configurations = [], db_lb_configuration_members = [], db_lb_listeners = [], db_lb_members = [], db_lb_components = [],
     db_lb_generated = [], db_lb_subnets = [], db_lb_vips = [], db_lb_capabilities = []\<rparr>"

definition sample_postgres :: Postgres where
  "sample_postgres = \<lparr>pg_ClusterID = ''c'', pg_NamespacePrefix = ''ani-'', pg_baseFreshness = ns_second\<rparr>"

definition sample_attribution :: Attribution where
  "sample_attribution = \<lparr>at_Actor = ''a'', at_DirectCaller = ''a'', at_CorrelationID = []\<rparr>"

definition sample_vpc_id :: string where
  "sample_vpc_id = ''vpc_'' @ sample_id (CHR ''1'') 0"

definition sample_vpc :: NetworkVpc where
  "sample_vpc = \<lparr>nv_TenantID = ''t'', nv_VpcID = sample_vpc_id, nv_Name = ''n'', nv_Description = [], nv_Cidr = ''10.0.0.0/16'',
     nv_State = Available, nv_Reason = NoReason, nv_Version = 2, nv_CreatedAt = ns_second, nv_UpdatedAt = ns_second,
     nv_ObservedAt = Some ns_second, nv_LastOperationID = sample_id (CHR ''1'') 1, nv_BaseConnectivityRequired = False\<rparr>"

definition sample_db :: db where
  "sample_db = empty_db\<lparr>db_vpcs := [sample_vpc],
     db_operations := [\<lparr>nop_TenantID = ''t'', nop_OperationID = sample_id (CHR ''1'') 1, nop_Ref = RVpc sample_vpc_id, nop_Kind = ''create_vpc'',
       nop_State = Succeeded, nop_Reason = NoReason, nop_Attempt = 1, nop_ExecutionEpoch = 1, nop_CreatedAt = ns_second,
       nop_UpdatedAt = ns_second, nop_CompletedAt = Some ns_second, nop_NextAttemptAt = None\<rparr>],
     db_bindings := [\<lparr>nbi_TenantID = ''t'', nbi_Ref = RVpc sample_vpc_id, nbi_BindingID = sample_id (CHR ''1'') 2, nbi_ClusterID = ''c'',
       nbi_Namespace = ''ani-t'', nbi_ProviderName = ''vpc'', nbi_ProviderUid = ''u'', nbi_PendingAction = NoAction, nbi_PendingSince = None,
       nbi_CreateDispatched = True\<rparr>]\<rparr>"

definition sample_subnet_intent :: "string \<Rightarrow> string \<Rightarrow> SubnetIntent" where
  "sample_subnet_intent cidr key = \<lparr>si_VPCIntent = \<lparr>vi_TenantID = ''t'', vi_Name = ''s'', vi_CIDR = cidr, vi_Description = [],
     vi_IdempotencyKey = key\<rparr>, si_VPCID = sample_vpc_id, si_Gateway = []\<rparr>"

lemma sample_ids:
  "replace_all_dash (sample_id CHR ''1'' 0) = sample_id CHR ''1'' 0" "replace_all_dash (sample_id CHR ''2'' 0) = sample_id CHR ''2'' 0"
  "replace_all_dash (sample_id CHR ''3'' 0) = sample_id CHR ''3'' 0" "validVPCID sample_vpc_id"
  "validSubnetID (''subnet_'' @ sample_id CHR ''2'' 0)" "validSubnetID (''subnet_'' @ sample_id CHR ''3'' 0)"
  by code_simp+

lemma sample_db_ok: "db_ok sample_db"
  by (simp add: db_ok_def rows_ok_defs sample_db_def empty_db_def sample_vpc_def sample_ids unique_where_def op_active_def)

lemmas sample_defs = sample_env_def sample_db_def empty_db_def sample_vpc_def sample_postgres_def sample_subnet_intent_def

text \<open>What the acceptance of a subnet adds.\<close>

definition sample_subnet :: "char \<Rightarrow> string \<Rightarrow> NetworkSubnet" where
  "sample_subnet c cidr = \<lparr>nsu_TenantID = ''t'', nsu_SubnetID = ''subnet_'' @ sample_id c 0, nsu_VpcID = sample_vpc_id, nsu_Name = ''s'',
     nsu_Description = [], nsu_Cidr = cidr, nsu_Gateway = [], nsu_State = Provisioning, nsu_Reason = NoReason, nsu_Version = 1,
     nsu_CreatedAt = ns_second, nsu_UpdatedAt = ns_second, nsu_ObservedAt = None, nsu_LastOperationID = sample_id c 1\<rparr>"

definition accepted_subnet :: "char \<Rightarrow> string \<Rightarrow> string \<Rightarrow> db \<Rightarrow> db" where
  "accepted_subnet c cidr key d = (let i = ''subnet_'' @ sample_id c 0 in d\<lparr>
     db_subnets := db_subnets d @ [sample_subnet c cidr],
     db_operations := db_operations d @ [\<lparr>nop_TenantID = ''t'', nop_OperationID = sample_id c 1, nop_Ref = RSubnet i, nop_Kind = ''create_subnet'',
       nop_State = Queued, nop_Reason = NoReason, nop_Attempt = 0, nop_ExecutionEpoch = 0, nop_CreatedAt = ns_second,
       nop_UpdatedAt = ns_second, nop_CompletedAt = None, nop_NextAttemptAt = Some ns_second\<rparr>],
     db_reconciliations := db_reconciliations d @ [\<lparr>nre_TenantID = ''t'', nre_Ref = RSubnet i, nre_NextRunAt = Some ns_second,
       nre_LeaseOwner = None, nre_LeaseUntil = None, nre_LeaseEpoch = 0, nre_RequestedGeneration = 1, nre_ProcessedGeneration = 0,
       nre_RetryNotBefore = unix_epoch, nre_EvidenceHash = [], nre_EvidenceAppliedAt = unix_epoch, nre_Retired = False\<rparr>],
     db_bindings := db_bindings d @ [\<lparr>nbi_TenantID = ''t'', nbi_Ref = RSubnet i, nbi_BindingID = sample_id c 2, nbi_ClusterID = ''c'',
       nbi_Namespace = ''ani-t'', nbi_ProviderName = replace_underscore i, nbi_ProviderUid = [], nbi_PendingAction = NoAction,
       nbi_PendingSince = None, nbi_CreateDispatched = False\<rparr>],
     db_idempotency := db_idempotency d @ [\<lparr>nid_TenantID = ''t'', nid_OperationKind = ''create_subnet'', nid_IdempotencyKey = key,
       nid_Fingerprint = SubnetIntent_Fingerprint (sample_subnet_intent cidr key), nid_FingerprintVersion = 1, nid_Ref = RSubnet i,
       nid_OperationID = sample_id c 1, nid_Response = SnapSubnet ((subnet (sample_subnet c cidr))\<lparr>sn_ObservationStale := True\<rparr>),
       nid_CreatedAt = ns_second\<rparr>],
     db_history := db_history d @ [accepted_history ''t'' (sample_id c 3) (RSubnet i) (sample_id c 1) sample_attribution ns_second]\<rparr>)"

lemma sample_prefixes:
  "parse_v4_prefix ''10.0.0.0/16'' = Some (167772160, 16)" "parse_v4_prefix ''10.0.1.0/24'' = Some (167772416, 24)"
  "parse_v4_prefix ''10.0.2.0/24'' = Some (167772672, 24)"
  by (rule parse_v4_prefix_eval; simp add: v4_eval)+

lemma sample_contains:
  "v4_contains 167772160 16 167772416" "v4_contains 167772160 16 167772672"
  "cidr_overlap ''10.0.1.0/24'' ''10.0.2.0/24'' = Some False"
  by (simp_all add: cidr_overlap_def sample_prefixes v4_contains_div)

lemma sample_texts: "pg_text ''s''" "pg_text []"
  by code_simp+

lemma sample_names:
  "replace_underscore (''subnet_'' @ sample_id CHR ''2'' 0) \<noteq> replace_underscore (''subnet_'' @ sample_id CHR ''3'' 0)"
  by code_simp

lemma sample_times: "time_marshals ns_second" "time_sub ns_second ns_second = 0"
  by (simp_all add: time_marshals_def time_sub_def min_int64_def max_int64_def)

lemmas sample_values = sample_prefixes sample_contains sample_texts sample_names sample_times

lemmas accept_defs = transaction_def acceptSubnet_def subnetReplay_def newSubnet_def sample_defs run_rules Let_def
   q_LockVPC_def q_LockSubnetCreationKey_def advisory_lock_def q_GetSubnetIdempotency_def q_DatabaseTime_def must_prefix_def
   q_SubnetOverlaps_def q_InsertSubnet_def q_InsertOperation_def q_InsertReconciliation_def q_GetBinding_def q_InsertBinding_def
   marshals_def q_InsertSubnetIdempotency_def insert_idempotency_def q_InsertHistory_def find_row_def vpc_row_def idempotency_row_def
   accepted_subnet_def sample_subnet_def subnet_def binding_row_def subnet_occupied_def attachment_blocks_def accepted_history_def

lemma sample_first:
  "snd (transaction (acceptSubnet (sample_subnet_intent ''10.0.1.0/24'' ''k'') sample_attribution ns_second) (sample_env CHR ''2'') sample_db)
   = accepted_subnet CHR ''2'' ''10.0.1.0/24'' ''k'' sample_db"
  by (simp add: accept_defs sample_ids [simplified] sample_values [simplified] cong: call_cong andThen_cong)

lemma sample_second:
  "snd (transaction (acceptSubnet (sample_subnet_intent ''10.0.2.0/24'' ''l'') sample_attribution ns_second) (sample_env CHR ''3'')
     (accepted_subnet CHR ''2'' ''10.0.1.0/24'' ''k'' sample_db))
   = accepted_subnet CHR ''3'' ''10.0.2.0/24'' ''l'' (accepted_subnet CHR ''2'' ''10.0.1.0/24'' ''k'' sample_db)"
  by (simp add: accept_defs sample_ids [simplified] sample_values [simplified] cong: call_cong andThen_cong)

end
