(* ===== verification/Net_Guarantees.thy ===== *)
theory Net_Guarantees
  imports Net_Sample
begin

text \<open>
  What the repository guarantees in every state it reaches, whatever the clocks, the identifiers, the failing statements and
  the order of the transactions.
\<close>

section \<open>Reachable states\<close>

text \<open>A database without tenant rows, as the migrations leave it; the platform tables are arbitrary.\<close>

definition no_tenant_rows :: "db \<Rightarrow> bool" where
  "no_tenant_rows d \<longleftrightarrow> db_vpcs d = [] \<and> db_subnets d = [] \<and> db_eips d = [] \<and> db_snats d = [] \<and> db_claims d = [] \<and> db_operations d = []
     \<and> db_reconciliations d = [] \<and> db_bindings d = [] \<and> db_idempotency d = [] \<and> db_base d = [] \<and> db_namespaces d = [] \<and> db_attachments d = []
     \<and> db_lbs d = [] \<and> db_lb_vips d = [] \<and> db_lb_subnets d = []"

lemma no_tenant_rows_ok: "no_tenant_rows d \<Longrightarrow> db_ok d"
  by (simp add: no_tenant_rows_def db_ok_def rows_ok_defs unique_where_def)

lemma reaches_evolves: "reaches p x y \<Longrightarrow> evolves (fst x) (fst y)"
proof (induction rule: reaches_induct)
  case (step y z)
  then have "evolves (fst y) (fst z)" by (cases y; cases z) (simp add: step_evolves)
  with step.IH show ?case by (rule evolves_trans)
qed (rule evolves_refl)

lemma reaches_db_ok: "reaches p (d, ws) (d', ws') \<Longrightarrow> db_ok d \<Longrightarrow> db_ok d'"
  using reaches_evolves [of p "(d, ws)" "(d', ws')"] db_ok_lasting by (simp add: lasting_def)

lemma reaches_world_ok: "reaches p x y \<Longrightarrow> world_ok x \<Longrightarrow> world_ok y"
proof (induction rule: reaches_induct)
  case (step y z)
  then show ?case by (cases y; cases z) (simp add: step_world_ok)
qed

lemma no_subnets_world_ok: "db_ok d \<Longrightarrow> db_subnets d = [] \<Longrightarrow> world_ok (d, [])"
  by (simp add: world_ok_def rows_ok_def subnets_apart_def doomed_empty_def)

section \<open>Addresses and parents of subnets\<close>

text \<open>C1: Undeleted subnets of one VPC never share an address. The repository starts with consistent tables and no
  subnets; then any transactions run in any order, with failing statements and stale executors.\<close>

theorem live_subnets_never_overlap:
  assumes "db_ok d0" and "db_subnets d0 = []" and "reaches p (d0, []) (d, ws)"
    and "i < length (db_subnets d)" and "j < length (db_subnets d)" and "i \<noteq> j"
    and "nsu_TenantID (db_subnets d ! i) = nsu_TenantID (db_subnets d ! j)" and "nsu_VpcID (db_subnets d ! i) = nsu_VpcID (db_subnets d ! j)"
    and "nsu_State (db_subnets d ! i) \<noteq> Deleted" and "nsu_State (db_subnets d ! j) \<noteq> Deleted"
  shows "cidr_addresses (nsu_Cidr (db_subnets d ! i)) \<inter> cidr_addresses (nsu_Cidr (db_subnets d ! j)) = {}"
proof -
  have "world_ok (d, ws)" using reaches_world_ok [OF assms(3) no_subnets_world_ok] assms(1,2) by simp
  then have "apart (db_subnets d ! i) (db_subnets d ! j)" using assms(4-6) by (simp add: world_ok_def rows_ok_def subnets_apart_def)
  then show ?thesis using assms(7-10) by (simp add: apart_def)
qed

text \<open>The run of the witness: two subnets of the sample VPC are accepted.\<close>

definition two_subnets :: db where
  "two_subnets = accepted_subnet CHR ''3'' ''10.0.2.0/24'' ''l'' (accepted_subnet CHR ''2'' ''10.0.1.0/24'' ''k'' sample_db)"

lemma accept_reaches:
  assumes "reaches p x (d, ws)" and "snd (transaction (acceptSubnet si a f) e d) = d'"
  shows "reaches p x (d', ws)"
  using assms reaches_step [OF assms(1) step_AcceptSubnet, of si a f e "fst (transaction (acceptSubnet si a f) e d)" d'] by (simp add: prod_eq_iff)

lemma two_subnets_reached: "reaches sample_postgres (sample_db, []) (two_subnets, [])"
  unfolding two_subnets_def by (rule accept_reaches [OF accept_reaches [OF reaches_refl sample_first] sample_second])

lemma two_subnets_rows: "db_subnets two_subnets = [sample_subnet CHR ''2'' ''10.0.1.0/24'', sample_subnet CHR ''3'' ''10.0.2.0/24'']"
  by (simp add: two_subnets_def accepted_subnet_def Let_def sample_db_def empty_db_def)

theorem live_subnets_never_overlap_witness:
  "reaches sample_postgres (sample_db, []) (two_subnets, []) \<and> length (db_subnets two_subnets) = 2
   \<and> cidr_addresses (nsu_Cidr (db_subnets two_subnets ! 0)) \<inter> cidr_addresses (nsu_Cidr (db_subnets two_subnets ! 1)) = {}"
  using live_subnets_never_overlap [OF sample_db_ok _ two_subnets_reached, of 0 1] two_subnets_reached
  by (simp add: two_subnets_rows sample_subnet_def sample_db_def empty_db_def)

text \<open>C2: The VPC of an undeleted subnet is not being deleted and not deleted: no subnet is accepted below a VPC on its way
  out, and the deletion of a VPC is not admitted above a subnet.\<close>

theorem live_subnet_has_live_vpc:
  assumes "db_ok d0" and "db_subnets d0 = []" and "reaches p (d0, []) (d, ws)"
    and "s \<in> set (db_subnets d)" and "nsu_State s \<noteq> Deleted"
    and "v \<in> set (db_vpcs d)" and "nv_TenantID v = nsu_TenantID s" and "nv_VpcID v = nsu_VpcID s"
  shows "nv_State v \<noteq> Deleting \<and> nv_State v \<noteq> Deleted"
proof (rule ccontr)
  assume "\<not> ?thesis"
  then have "(nsu_TenantID s, nsu_VpcID s) \<in> doomed (db_vpcs d)" using assms(6-8) by (force simp: doomed_def image_iff)
  moreover have "world_ok (d, ws)" using reaches_world_ok [OF assms(3) no_subnets_world_ok] assms(1,2) by simp
  ultimately show False using assms(4,5) by (simp add: world_ok_def rows_ok_def doomed_empty_def)
qed

lemma two_subnets_vpcs: "db_vpcs two_subnets = [sample_vpc]"
  by (simp add: two_subnets_def accepted_subnet_def Let_def sample_db_def)

theorem live_subnet_has_live_vpc_witness:
  "sample_subnet CHR ''2'' ''10.0.1.0/24'' \<in> set (db_subnets two_subnets) \<and> sample_vpc \<in> set (db_vpcs two_subnets)
   \<and> nv_State sample_vpc \<noteq> Deleting \<and> nv_State sample_vpc \<noteq> Deleted"
  using live_subnet_has_live_vpc [OF sample_db_ok _ two_subnets_reached, of "sample_subnet CHR ''2'' ''10.0.1.0/24''" sample_vpc]
  by (simp add: two_subnets_rows two_subnets_vpcs sample_subnet_def sample_vpc_def sample_db_def empty_db_def)

section \<open>Types of the tables\<close>

text \<open>C7: From a database without tenant rows only well-typed tables are reached: identifiers of VPCs, subnets, addresses and
  bindings and load balancers follow their grammar and are unique, an address is claimed by one target at a time, a private
  address of a VPC is reserved by one load balancer at a time, a resource has one active operation, which is the one
  without completion time, one reconciliation row and one provider object, and no two resources share a provider object.\<close>

theorem reachable_tables_typed:
  assumes "no_tenant_rows d0" and "reaches p (d0, []) (d, ws)"
  shows "distinct (map nv_VpcID (db_vpcs d)) \<and> list_all (\<lambda>v. validVPCID (nv_VpcID v)) (db_vpcs d)
    \<and> distinct (map nsu_SubnetID (db_subnets d)) \<and> list_all (\<lambda>s. validSubnetID (nsu_SubnetID s)) (db_subnets d)
    \<and> distinct (map nei_EipID (db_eips d)) \<and> list_all (\<lambda>x. hex_id ''eip_'' (nei_EipID x)) (db_eips d)
    \<and> distinct (map nsn_SnatID (db_snats d)) \<and> list_all (\<lambda>x. hex_id ''snat_'' (nsn_SnatID x)) (db_snats d)
    \<and> distinct (map nlb_LbID (db_lbs d)) \<and> list_all (\<lambda>l. hex_id ''lb_'' (nlb_LbID l)) (db_lbs d)
    \<and> distinct (map (\<lambda>v. (nvi_TenantID v, nvi_ClusterID v, nvi_VpcID v, nvi_Address v)) (filter (\<lambda>v. nvi_ReleasedAt v = None) (db_lb_vips d)))
    \<and> distinct (map (\<lambda>c. (ncl_TenantID c, ncl_EipID c)) (filter (\<lambda>c. ncl_ReleasedAt c = None) (db_claims d)))
    \<and> distinct (map (\<lambda>x. (nop_TenantID x, nop_Ref x)) (filter op_active (db_operations d)))
    \<and> list_all (\<lambda>x. op_active x \<longleftrightarrow> nop_CompletedAt x = None) (db_operations d)
    \<and> distinct (map (\<lambda>r. (nre_TenantID r, nre_Ref r)) (db_reconciliations d))
    \<and> distinct (map (\<lambda>b. (nbi_TenantID b, nbi_Ref b)) (db_bindings d))
    \<and> distinct (map (\<lambda>b. (nbi_ClusterID b, ref_kind (nbi_Ref b), nbi_Namespace b, nbi_ProviderName b)) (db_bindings d))"
  using reaches_db_ok [OF assms(2) no_tenant_rows_ok [OF assms(1)]]
  by (simp add: db_ok_def rows_ok_defs unique_where_def)

definition sample_intent :: VPCIntent where
  "sample_intent = \<lparr>vi_TenantID = ''t'', vi_Name = ''s'', vi_CIDR = ''10.0.0.0/16'', vi_Description = [], vi_IdempotencyKey = ''k''\<rparr>"

definition one_vpc :: db where
  "one_vpc = snd (Postgres_AcceptVPC sample_postgres (sample_env CHR ''1'') sample_intent sample_attribution empty_db)"

lemma one_vpc_rows:
  "map nv_VpcID (db_vpcs one_vpc) = [sample_vpc_id]
   \<and> (\<exists>v. fst (Postgres_AcceptVPC sample_postgres (sample_env CHR ''1'') sample_intent sample_attribution empty_db) = Inr v)"
  by (simp add: one_vpc_def sample_intent_def Postgres_AcceptVPC_def acceptVPC_def newVPC_def q_LockCreationKey_def q_GetIdempotency_def q_InsertVPC_def
    q_EnsureTenantNamespace_def q_GetTenantNamespace_def q_LockConnectivityRollout_def q_GetConnectivityRollout_def
    q_InsertIdempotency_def vpc_def accept_defs sample_ids [unfolded sample_vpc_id_def, simplified] sample_values [simplified] sample_vpc_id_def
    cong: call_cong andThen_cong)

lemma one_vpc_reached: "reaches sample_postgres (empty_db, []) (one_vpc, [])"
  unfolding one_vpc_def by (rule reaches_step [OF reaches_refl step_AcceptVPC], rule prod.collapse [symmetric])

theorem reachable_tables_typed_witness:
  "map nv_VpcID (db_vpcs one_vpc) = [sample_vpc_id] \<and> list_all (\<lambda>v. validVPCID (nv_VpcID v)) (db_vpcs one_vpc)
   \<and> distinct (map (\<lambda>b. (nbi_TenantID b, nbi_Ref b)) (db_bindings one_vpc))"
  using reachable_tables_typed [OF _ one_vpc_reached] one_vpc_rows by (simp add: no_tenant_rows_def empty_db_def)

section \<open>Facts that stay\<close>

text \<open>C6: Whatever runs, recorded facts stay: acceptance snapshots, history and completed operations are never rewritten or
  dropped, nor are the configurations of load balancers, the identity of a provider object is written once, a claim stays
  released, the identity, network and creation time of VPCs and subnets and the identity, placement and addresses of load
  balancers never change and their versions never go back, and lease epochs never go back.\<close>

theorem recorded_facts_stay:
  assumes "db_ok d" and "reaches p (d, ws) (d', ws')"
  shows "set (db_idempotency d) \<subseteq> set (db_idempotency d') \<and> set (db_history d) \<subseteq> set (db_history d')
    \<and> set (db_lb_configurations d) \<subseteq> set (db_lb_configurations d')
    \<and> (\<forall>l \<in> set (db_lbs d). \<exists>l' \<in> set (db_lbs d'). nlb_TenantID l' = nlb_TenantID l \<and> nlb_LbID l' = nlb_LbID l \<and> nlb_VpcID l' = nlb_VpcID l
         \<and> nlb_SubnetID l' = nlb_SubnetID l \<and> nlb_PublicEipID l' = nlb_PublicEipID l \<and> nlb_PrivateIp l' = nlb_PrivateIp l
         \<and> nlb_Version l \<le> nlb_Version l' \<and> nlb_DesiredVersion l \<le> nlb_DesiredVersion l' \<and> nlb_AppliedVersion l \<le> nlb_AppliedVersion l')
    \<and> (\<forall>x \<in> set (db_operations d). nop_CompletedAt x \<noteq> None \<longrightarrow> x \<in> set (db_operations d'))
    \<and> (\<forall>c \<in> set (db_claims d). ncl_ReleasedAt c \<noteq> None \<longrightarrow> c \<in> set (db_claims d'))
    \<and> (\<forall>b \<in> set (db_bindings d). nbi_ProviderUid b \<noteq> [] \<longrightarrow> (\<exists>b' \<in> set (db_bindings d'). nbi_BindingID b' = nbi_BindingID b
         \<and> nbi_Ref b' = nbi_Ref b \<and> nbi_ProviderName b' = nbi_ProviderName b \<and> nbi_ProviderUid b' = nbi_ProviderUid b))
    \<and> (\<forall>v \<in> set (db_vpcs d). \<exists>v' \<in> set (db_vpcs d'). nv_TenantID v' = nv_TenantID v \<and> nv_VpcID v' = nv_VpcID v \<and> nv_Cidr v' = nv_Cidr v
         \<and> nv_CreatedAt v' = nv_CreatedAt v \<and> nv_Version v \<le> nv_Version v')
    \<and> (\<forall>s \<in> set (db_subnets d). \<exists>s' \<in> set (db_subnets d'). nsu_TenantID s' = nsu_TenantID s \<and> nsu_SubnetID s' = nsu_SubnetID s
         \<and> nsu_VpcID s' = nsu_VpcID s \<and> nsu_Cidr s' = nsu_Cidr s \<and> nsu_CreatedAt s' = nsu_CreatedAt s \<and> nsu_Version s \<le> nsu_Version s')
    \<and> (\<forall>r \<in> set (db_reconciliations d). \<exists>r' \<in> set (db_reconciliations d'). nre_TenantID r' = nre_TenantID r \<and> nre_Ref r' = nre_Ref r
         \<and> nre_LeaseEpoch r \<le> nre_LeaseEpoch r')"
proof -
  have ev: "evolves d d'" using reaches_evolves [OF assms(2)] by simp
  note grown = evolves_grows [OF ev assms(1)]
  show ?thesis
  proof (intro conjI ballI impI subsetI)
    show "x \<in> set (db_idempotency d')" if "x \<in> set (db_idempotency d)" for x using grows_member [OF grown(5) that] by auto
    show "x \<in> set (db_history d')" if "x \<in> set (db_history d)" for x using grows_member [OF grown(6) that] by auto
    show "x \<in> set (db_lb_configurations d')" if "x \<in> set (db_lb_configurations d)" for x using grows_member [OF grown(12) that] by auto
    show "x \<in> set (db_operations d')" if "x \<in> set (db_operations d)" "nop_CompletedAt x \<noteq> None" for x
      using grows_member [OF grown(3) that(1)] that(2) by (auto simp: operation_keeps_def)
    show "c \<in> set (db_claims d')" if "c \<in> set (db_claims d)" "ncl_ReleasedAt c \<noteq> None" for c
      using grows_member [OF grown(8) that(1)] that(2) by (auto simp: claim_keeps_def)
  qed (auto simp: binding_keeps_def vpc_keeps_def subnet_keeps_def reconciliation_keeps_def lb_keeps_def
      dest!: grows_member [OF grown(10)] grows_member [OF grown(4)] grows_member [OF grown(1)] grows_member [OF grown(2)] grows_member [OF grown(7)])
qed

theorem recorded_facts_stay_witness:
  "hd (db_operations sample_db) \<in> set (db_operations two_subnets) \<and> nop_CompletedAt (hd (db_operations sample_db)) = Some ns_second
   \<and> db_operations two_subnets \<noteq> db_operations sample_db"
  using recorded_facts_stay [OF sample_db_ok two_subnets_reached]
  by (simp add: two_subnets_def accepted_subnet_def Let_def sample_db_def empty_db_def)

section \<open>Idempotent acceptance\<close>

text \<open>The acceptance snapshot of a VPC, under its key.\<close>

definition vpc_snapshot :: "VPCIntent \<Rightarrow> VPC \<Rightarrow> NetworkIdempotency \<Rightarrow> bool" where
  "vpc_snapshot intent v x \<longleftrightarrow> idempotency_row (vi_TenantID intent) ''create_vpc'' (vi_IdempotencyKey intent) x \<and> nid_FingerprintVersion x = 1
     \<and> nid_Fingerprint x = VPCIntent_Fingerprint intent \<and> nid_Response x = SnapVpc v \<and> nid_Ref x = RVpc (vpc_ID v)
     \<and> vpc_TenantID v = vi_TenantID intent \<and> vpc_LastOperationID v = nid_OperationID x"

lemma find_row_unique: "x \<in> set xs \<Longrightarrow> P x \<Longrightarrow> (\<And>y. y \<in> set xs \<Longrightarrow> P y \<Longrightarrow> y = x) \<Longrightarrow> find_row P xs = Inr x"
proof -
  assume x: "x \<in> set xs" "P x" and unique: "\<And>y. y \<in> set xs \<Longrightarrow> P y \<Longrightarrow> y = x"
  have "filter P xs \<noteq> []" using x by (auto simp: filter_empty_conv)
  then obtain y ys where ys: "filter P xs = y # ys" by (cases "filter P xs") simp_all
  then have "y \<in> set (filter P xs)" by simp
  then have "y = x" using unique by simp
  then show "find_row P xs = Inr x" by (simp add: find_row_def ys)
qed

lemma wp_InsertVPC:
  assumes "\<And>row d. nv_VpcID row = i \<Longrightarrow> nv_TenantID row = tenant \<Longrightarrow> nv_LastOperationID row = op \<Longrightarrow> wp (k row) e Q (\<lambda>_ _. True) d"
  shows "wp (call (q_InsertVPC tenant i n x c t op) k) e Q (\<lambda>_ _. True) d"
  unfolding q_InsertVPC_def Let_def by (rule wp_call, rule wp_stmt) (auto intro: assms)

lemma wp_newVPC: "wp (newVPC p intent a) e (\<lambda>v d'. \<exists>x \<in> set (db_idempotency d'). vpc_snapshot intent v x) (\<lambda>_ _. True) d"
proof -
  have insert: "wp (call (q_InsertIdempotency (vi_TenantID intent) (vi_IdempotencyKey intent) (VPCIntent_Fingerprint intent) i op (SnapVpc v) t) k) e
      Q (\<lambda>_ _. True) d"
    if "\<And>d. \<exists>x \<in> set (db_idempotency d). vpc_snapshot intent v x \<Longrightarrow> wp (k ()) e Q (\<lambda>_ _. True) d"
      and "vpc_ID v = i" "vpc_TenantID v = vi_TenantID intent" "vpc_LastOperationID v = op" for i op v t k d Q
    unfolding q_InsertIdempotency_def insert_idempotency_def Let_def
    by (rule wp_call, rule wp_stmt) (auto simp: vpc_snapshot_def idempotency_row_def that(2-4) intro!: that(1))
  have history: "keeps (\<lambda>d. \<exists>x \<in> set (db_idempotency d). vpc_snapshot intent v x) (q_InsertHistory h)" for v h
    unfolding q_InsertHistory_def by (rule keeps_stmt) (auto split: if_splits)
  show ?thesis
    unfolding newVPC_def Let_def
    by (rule wp_call_any, rule wp_then_uuid, rule wp_then_uuid, rule wp_InsertVPC, (rule wp_call_any)+, rule wp_then_uuid,
        (rule wp_call_any)+, (rule wp_then_any)+, rule insert, rule wp_then_uuid, rule wp_call_keeps [OF history], assumption, rule wp_ret)
      (simp_all add: vpc_def)
qed

lemma wp_acceptVPC:
  "wp (acceptVPC p intent a) e (\<lambda>x d'. case x of Commit v \<Rightarrow> \<exists>x \<in> set (db_idempotency d'). vpc_snapshot intent v x
      | Unsaved v \<Rightarrow> \<exists>x \<in> set (db_idempotency d). vpc_snapshot intent v x) (\<lambda>_ _. True) d"
proof -
  have snapshot: "returns (vpc_replay intent x) (\<lambda>v. vpc_snapshot intent v x)"
    if "idempotency_row (vi_TenantID intent) ''create_vpc'' (vi_IdempotencyKey intent) x" for x
    unfolding vpc_replay_def
    by (cases "nid_Response x"; simp only: snapshot.case; intro returns_rules) (use that in \<open>simp_all add: vpc_snapshot_def\<close>)
  have replay: "wp (vpc_replay intent x) e (\<lambda>v _. \<exists>x \<in> set (db_idempotency d). vpc_snapshot intent v x) (\<lambda>_ _. True) d'"
    if "x \<in> set (db_idempotency d)" "idempotency_row (vi_TenantID intent) ''create_vpc'' (vi_IdempotencyKey intent) x" for x d'
    by (rule wp_mono [OF snapshot [OF that(2), unfolded returns_def, rule_format]]) (use that(1) in auto)
  show ?thesis
    unfolding acceptVPC_def q_LockCreationKey_def advisory_lock_def q_GetIdempotency_def
    by (rule wp_call_query, rule wp_call, rule wp_optional, rule wp_query)
      (auto dest!: find_row_Inr intro!: replay wp_bind_ret wp_newVPC)
qed

lemma AcceptVPC_snapshot:
  assumes "Postgres_AcceptVPC p e intent a d = (Inr v, d')"
  shows "\<exists>x \<in> set (db_idempotency d'). vpc_snapshot intent v x"
  using transaction_Inr [OF wp_acceptVPC assms [unfolded Postgres_AcceptVPC_def]] by auto

lemma AcceptVPC_replay:
  assumes "idempotency_ok (db_idempotency d)" and "x \<in> set (db_idempotency d)" and "vpc_snapshot intent v x" and "\<And>n. ev_fault e n = None"
    and "vi_TenantID intent' = vi_TenantID intent" and "vi_IdempotencyKey intent' = vi_IdempotencyKey intent"
  shows "Postgres_AcceptVPC p e intent' a d = (if VPCIntent_Fingerprint intent' = VPCIntent_Fingerprint intent then Inr v
    else Inl (Fail IdempotencyConflict ''key already accepted a different VPC intent''), d)"
proof -
  have "find_row (idempotency_row (vi_TenantID intent) ''create_vpc'' (vi_IdempotencyKey intent)) (db_idempotency d) = Inr x"
    using assms(1-3) by (intro find_row_unique unique_row [of "\<lambda>x. (nid_TenantID x, nid_OperationKind x, nid_IdempotencyKey x)" "db_idempotency d"])
      (simp_all add: vpc_snapshot_def idempotency_ok_def idempotency_row_def)
  then show ?thesis
    using assms(3)
    by (simp add: Postgres_AcceptVPC_def transaction_def acceptVPC_def vpc_replay_def q_LockCreationKey_def advisory_lock_def
      q_GetIdempotency_def vpc_snapshot_def run_rules assms(4-6) cong: call_cong andThen_cong)
qed

text \<open>C3: The acceptance of a VPC is idempotent for good: once a key has accepted an intent, and whatever ran since, the same
  key answers the same snapshot of the VPC to an equal intent and a conflict to any other, and changes nothing.\<close>

theorem AcceptVPC_idempotent:
  assumes "db_ok d" and "Postgres_AcceptVPC p e intent a d = (Inr v, d1)" and "reaches p (d1, ws) (d2, ws')"
    and "\<And>n. ev_fault e' n = None" and "vi_TenantID intent' = vi_TenantID intent" and "vi_IdempotencyKey intent' = vi_IdempotencyKey intent"
  shows "Postgres_AcceptVPC p e' intent' a' d2 = (if VPCIntent_Fingerprint intent' = VPCIntent_Fingerprint intent then Inr v
    else Inl (Fail IdempotencyConflict ''key already accepted a different VPC intent''), d2)"
proof -
  have d1: "db_ok d1"
    using reaches_db_ok [OF reaches_step [OF reaches_refl step_AcceptVPC [OF assms(2)]] assms(1)] .
  obtain x where "x \<in> set (db_idempotency d1)" and x: "vpc_snapshot intent v x" using AcceptVPC_snapshot [OF assms(2)] by blast
  then have "x \<in> set (db_idempotency d2)"
    using grows_member [OF evolves_grows(5) [OF reaches_evolves [OF assms(3), simplified] d1]] by auto
  moreover have "idempotency_ok (db_idempotency d2)" using reaches_db_ok [OF assms(3) d1] by (simp add: db_ok_def)
  ultimately show ?thesis using AcceptVPC_replay x assms(4-6) by blast
qed

theorem AcceptVPC_idempotent_witness:
  "\<exists>v. Postgres_AcceptVPC sample_postgres (sample_env CHR ''1'') sample_intent sample_attribution empty_db = (Inr v, one_vpc)
     \<and> Postgres_AcceptVPC sample_postgres (sample_env CHR ''2'') sample_intent sample_attribution one_vpc = (Inr v, one_vpc)"
proof -
  obtain v where v: "Postgres_AcceptVPC sample_postgres (sample_env CHR ''1'') sample_intent sample_attribution empty_db = (Inr v, one_vpc)"
    using one_vpc_rows by (auto simp: one_vpc_def prod_eq_iff)
  have "db_ok empty_db" by (rule no_tenant_rows_ok) (simp add: no_tenant_rows_def empty_db_def)
  from AcceptVPC_idempotent [OF this v reaches_refl, of "sample_env CHR ''2''" sample_intent sample_attribution] v show ?thesis
    by (auto simp: sample_env_def)
qed

end
