(* ===== verification/Net_Fences.thy ===== *)
theory Net_Fences
  imports Net_Guarantees
begin

text \<open>
  Leases of the executor: who takes one, and that a write without one is refused.
\<close>

section \<open>Refused transactions\<close>

lemma transaction_refused:
  assumes "wp body e (\<lambda>_ _. False) (\<lambda>_ _. True) d"
  shows "\<exists>x. transaction body e d = (Inl x, d)"
  using assms [unfolded wp_def, rule_format, of 1 0]
  by (auto simp: transaction_def split: option.splits prod.splits sum.splits)

lemma returns_row: "returns (query (\<lambda>d. find_row P (f d))) P"
  unfolding returns_def by (auto intro!: wp_query dest!: find_row_Inr)

lemma returns_locks:
  "returns (q_LockVPC t i) (vpc_row t i)" "returns (q_LockSubnet t i) (subnet_row t i)" "returns (q_LockEIP t i) (eip_row t i)"
  "returns (q_LockSnat t i) (snat_row t i)" "returns (q_LockLB t i) (lb_row t i)"
  unfolding q_LockVPC_def q_LockSubnet_def q_LockEIP_def q_LockSnat_def q_LockLB_def by (rule returns_row)+

definition same_resource :: "ResourceWork \<Rightarrow> ResourceWork \<Rightarrow> bool" where
  "same_resource r row \<longleftrightarrow> rw_TenantID row = rw_TenantID r \<and> rw_ID row = rw_ID r"

text \<open>The row that is locked for an item is the row of its resource.\<close>

lemma lockResource_returns: "returns (lockResource r) (same_resource r)"
  unfolding lockResource_def lockLBWork_def Let_def
  by (rule returns_ret returns_throw returns_if returns_option returns_locks [THEN returns_bind] returns_andThen
    | simp add: same_resource_def vpcWork_def subnetWork_def eipWork_def snatWork_def lbWork_def zero_work_def
      vpc_row_def subnet_row_def eip_row_def snat_row_def lb_row_def; fail)+

section \<open>Writes need the lease\<close>

definition has_lease :: "env \<Rightarrow> db \<Rightarrow> Work \<Rightarrow> bool" where
  "has_lease e d w \<longleftrightarrow> (\<exists>r \<in> set (db_reconciliations d). \<exists>n k.
     holds_lease (rw_TenantID (wk_Resource w)) (rw_ID (wk_Resource w)) (wk_Owner w) (wk_Epoch w) (ev_clock e n k) r)"

lemma lockedWork_refused:
  assumes "\<not> has_lease e d w"
  shows "wp (lockedWork w) e (\<lambda>_ _. False) (\<lambda>_ _. True) d"
proof -
  have lease: "wp (call (optional (q_CheckLease (rw_TenantID row) (rw_ID row) (wk_Owner w) (wk_Epoch w))) (\<lambda>l. case l of
      None \<Rightarrow> throw ErrLeaseLost | Some _ \<Rightarrow> ret ())) e (\<lambda>_ _. False) (\<lambda>_ _. True) d"
    if "same_resource (wk_Resource w) row" for row
    unfolding q_CheckLease_def
    by (rule wp_call, rule wp_optional, rule wp_timed_query)
      (use assms that in \<open>auto simp: same_resource_def has_lease_def intro: wp_fail dest!: find_row_Inr\<close>)
  have lock: "wp (optional (lockResource (wk_Resource w))) e
      (\<lambda>x d'. d' = d \<and> pred_option (same_resource (wk_Resource w)) x) (\<lambda>_ _. True) d"
    by (rule wp_optional, rule wp_mono [OF wp_conj [OF lockResource_returns [unfolded returns_def, rule_format] keepsD [OF keeps_lockResource refl]]]) auto
  show ?thesis
    unfolding lockedWork_def
    by (rule wp_call, rule wp_mono [OF lock]) (auto intro!: wp_fail lease split: option.splits)
qed

lemma then_refused: "wp p e (\<lambda>_ _. False) (\<lambda>_ _. True) d \<Longrightarrow> wp (andThen p f) e (\<lambda>_ _. False) (\<lambda>_ _. True) d"
  by (rule wp_andThen, erule wp_mono) simp_all

text \<open>C4: An executor whose lease is over, was released or was taken by a later epoch cannot write: the outcome of an
  attempt and the intention to call the provider are refused, and the database stays as it is.\<close>

theorem writes_need_the_lease:
  assumes "rw_TenantID (wk_Resource w) \<noteq> []" and "\<not> has_lease e d w"
  shows "(\<exists>x. Postgres_Finish p e w progress d = (Inl x, d)) \<and> (\<exists>x. Postgres_BeginMutation p e w act identity d = (Inl x, d))
    \<and> (\<exists>x. Postgres_BeginLoadBalancerMutation p e w c act identity d = (Inl x, d))"
proof -
  note refused = transaction_refused [OF then_refused [OF lockedWork_refused [OF assms(2)]]]
  have "\<exists>x. Postgres_BeginMutation p e w act identity d = (Inl x, d)"
    unfolding Postgres_BeginMutation_def beginMutation_def beginTenantMutation_def Let_def using assms(1) by (simp add: refused)
  moreover have "\<exists>x. Postgres_Finish p e w progress d = (Inl x, d)"
    unfolding Postgres_Finish_def finish_def finishTenant_def if_not_P [OF assms(1)] by (rule refused)
  ultimately show ?thesis
    unfolding Postgres_BeginLoadBalancerMutation_def beginLoadBalancerMutation_def
    by (auto simp: refused split: option.splits)
qed

text \<open>The witness: an item of a subnet whose lease was never taken.\<close>

definition sample_work :: "string \<Rightarrow> Work" where
  "sample_work i = \<lparr>wk_GateReason = NoReason, wk_CancelUnsent = False, wk_Requirement = \<lparr>rq_RequestedGeneration = 1, rq_AppliedAt = 0, rq_Hash = []\<rparr>,
     wk_Resource = zero_work\<lparr>rw_TenantID := ''t'', rw_ID := i, rw_Kind := KSubnet, rw_VPCID := sample_vpc_id, rw_Version := 1\<rparr>,
     wk_Operation = \<lparr>op_ID = [], op_TenantID = ''t'', op_ResourceID = i, op_ResourceType = ''subnet'', op_Kind = ''create_subnet'', op_State = Queued,
       op_Reason = NoReason, op_CreatedAt = 0, op_UpdatedAt = 0, op_CompletedAt = None, op_NextAttemptAt = None\<rparr>,
     wk_ActiveOperation = True, wk_BindingID = [], wk_KnownIdentity = [], wk_PendingAction = NoAction, wk_Owner = ''w'', wk_Epoch = 1,
     wk_Attempt = 1, wk_Now = 0\<rparr>"

theorem writes_need_the_lease_witness:
  "\<not> has_lease (sample_env CHR ''4'') two_subnets (sample_work (''subnet_'' @ sample_id CHR ''2'' 0))
   \<and> (\<exists>x. Postgres_Finish sample_postgres (sample_env CHR ''4'') (sample_work (''subnet_'' @ sample_id CHR ''2'' 0)) zero_progress two_subnets
      = (Inl x, two_subnets))"
proof -
  have lease: "\<not> has_lease (sample_env CHR ''4'') two_subnets (sample_work (''subnet_'' @ sample_id CHR ''2'' 0))"
    by (simp add: has_lease_def holds_lease_def sample_work_def two_subnets_def accepted_subnet_def sample_db_def empty_db_def Let_def)
  from writes_need_the_lease [OF _ this, of sample_postgres zero_progress] lease show ?thesis
    by (simp add: sample_work_def)
qed

section \<open>Taking a lease\<close>

text \<open>A tenant's item was claimed from a row whose lease was over, in the next epoch.\<close>

definition took_lease :: "env \<Rightarrow> db \<Rightarrow> Work \<Rightarrow> bool" where
  "took_lease e d w \<longleftrightarrow> rw_TenantID (wk_Resource w) = [] \<or> (\<exists>r \<in> set (db_reconciliations d). \<exists>n.
     nre_TenantID r = rw_TenantID (wk_Resource w) \<and> ref_id (nre_Ref r) = rw_ID (wk_Resource w)
     \<and> \<not> lease_live (ev_clock e n 1) (nre_LeaseUntil r) \<and> wk_Epoch w = nre_LeaseEpoch r + 1)"

lemma took_platform: "rw_TenantID (wk_Resource w) = [] \<Longrightarrow> took_lease e d w"
  by (simp add: took_lease_def)

lemma wp_of_returns: "returns p P \<Longrightarrow> (\<And>a d. P a \<Longrightarrow> Q a d) \<Longrightarrow> wp p e Q (\<lambda>_ _. True) d"
  unfolding returns_def by (blast intro: wp_mono)

lemma hydrateLBWork_same: "returns (hydrateLBWork r b) (same_resource r)"
  unfolding hydrateLBWork_def by (intro returns_rules) (simp add: same_resource_def)

lemma wp_AcquireLease:
  assumes "\<And>r n lease d'. r \<in> set (db_reconciliations d) \<Longrightarrow> work_row tenant i r \<Longrightarrow> \<not> lease_live (ev_clock e n 1) (nre_LeaseUntil r)
      \<Longrightarrow> nre_LeaseEpoch lease = nre_LeaseEpoch r + 1 \<Longrightarrow> wp (k (Some lease)) e Q (\<lambda>_ _. True) d'"
    and "wp (k None) e Q (\<lambda>_ _. True) d"
  shows "wp (call (optional (q_AcquireLease tenant i owner micros)) k) e Q (\<lambda>_ _. True) d"
proof -
  have "wp (q_AcquireLease tenant i owner micros) e (\<lambda>lease d'. \<exists>r \<in> set (db_reconciliations d). \<exists>n. work_row tenant i r
      \<and> \<not> lease_live (ev_clock e n 1) (nre_LeaseUntil r) \<and> nre_LeaseEpoch lease = nre_LeaseEpoch r + 1) (\<lambda>_ d'. d' = d) d"
    unfolding q_AcquireLease_def Let_def
    by (rule wp_stmt) (auto simp: map_sum_def dest!: find_row_Inr split: sum.splits)
  then show ?thesis
    by (intro wp_call wp_optional, elim wp_mono) (use assms in auto)
qed

lemma claim_tenant_lease:
  "wp (claim_tenant p owner lease r) e (\<lambda>x _. \<forall>w. x = Commit (Some w) \<longrightarrow> took_lease e d w) (\<lambda>_ _. True) d"
proof -
  have resource: "returns (if rw_Kind r = KLoadBalancer then wrapped (hydrateLBWork r b) else ret r) (same_resource r)" for b
    by (intro returns_if returns_wrapped hydrateLBWork_same returns_ret) (simp add: same_resource_def)
  show ?thesis
    unfolding claim_tenant_def Let_def
    apply (rule wp_AcquireLease)
    subgoal for row n lease' d'
      apply (simp only: option.case)
      apply (rule wp_of_returns [where P = "\<lambda>x. \<forall>w. x = Commit (Some w) \<longrightarrow> wk_Epoch w = nre_LeaseEpoch lease' \<and> same_resource r (wk_Resource w)"])
       apply ((rule returns_call returns_ret returns_bind [OF resource] returns_andThen)+, simp)
      apply (auto simp: took_lease_def same_resource_def work_row_def)
      done
    apply (simp add: wp_ret)
    done
qed

lemma claim_lease:
  "wp (claim p owner lease turn) e (\<lambda>x _. \<forall>w. x = Commit (Some w) \<longrightarrow> took_lease e d w) (\<lambda>_ _. True) d"
proof -
  let ?I = "\<lambda>d'. db_reconciliations d' = db_reconciliations d"
  let ?Q = "\<lambda>x _. \<forall>w. x = Commit (Some w) \<longrightarrow> took_lease e d w"
  have leases: "keeps ?I (q_AcquirePlatformLease i owner m)" "keeps ?I (q_RunPlatformOperation i op n)" for i m op n
    unfolding q_AcquirePlatformLease_def q_RunPlatformOperation_def Let_def by (rule keeps_stmt; auto)+
  have "keeps ?I (claimPlatform p owner lease)"
    unfolding claimPlatform_def platformSnapshot_def Let_def by (intro keeps_rules leases)
  then have platform: "keeps ?I (if b then claimPlatform p owner lease else ret None)" for b
    by (intro keeps_rules)
  have first: "wp (if b then claimPlatform p owner lease else ret None) e
      (\<lambda>x d'. ?I d' \<and> pred_option (\<lambda>w. rw_TenantID (wk_Resource w) = []) x) (\<lambda>_ _. True) d'" if "?I d'" for b d'
    by (rule wp_returns [OF returns_if [OF claimPlatform_returns returns_ret] platform that]) auto
  have none: "wp (claimPlatform p owner lease) e (\<lambda>x _. pred_option (\<lambda>w. rw_TenantID (wk_Resource w) = []) x) (\<lambda>_ _. True) d'" for d'
    using claimPlatform_returns [unfolded returns_def] by blast
  have tenant: "wp (claim_tenant p owner lease r) e ?Q (\<lambda>_ _. True) d'" if "?I d'" for r d'
    by (rule wp_mono [OF claim_tenant_lease]) (simp_all add: took_lease_def that)
  have last: "wp (andThen (claimPlatform p owner lease) (\<lambda>w. ret (case w of None \<Rightarrow> Unsaved None | Some w \<Rightarrow> Commit (Some w)))) e ?Q (\<lambda>_ _. True) d'" for d'
    by (rule wp_bind_ret, rule wp_mono [OF none]) (auto simp: took_lease_def split: option.splits)
  show ?thesis
    unfolding claim_def
    by (rule wp_andThen, rule wp_mono [OF first])
      (auto simp: took_platform split: option.splits intro!: wp_ret wp_call_keeps [OF keeps_optional [OF keeps_claimResource], of ?I] last tenant)
qed

text \<open>C5: A tenant's item is only claimed from a row whose lease is over, in the epoch after the row's: two executors never
  hold the same epoch of a resource.\<close>

theorem claim_takes_a_free_lease:
  assumes "Postgres_Claim p e owner lease turn d = (Inr (Some w), d')" and "rw_TenantID (wk_Resource w) \<noteq> []"
  shows "\<exists>r \<in> set (db_reconciliations d). \<exists>n. nre_TenantID r = rw_TenantID (wk_Resource w) \<and> ref_id (nre_Ref r) = rw_ID (wk_Resource w)
     \<and> \<not> lease_live (ev_clock e n 1) (nre_LeaseUntil r) \<and> wk_Epoch w = nre_LeaseEpoch r + 1"
  using transaction_Inr [OF wp_conj [OF claim_lease claim_saved [unfolded returns_def, rule_format], simplified]
      assms(1) [unfolded Postgres_Claim_def]] assms(2)
  by (auto simp: took_lease_def)

text \<open>The witness: the subnet that the sample run accepted is claimed.\<close>

definition one_subnet :: db where
  "one_subnet = accepted_subnet CHR ''2'' ''10.0.1.0/24'' ''k'' sample_db"

lemma one_subnet_claimed:
  "\<exists>w. fst (Postgres_Claim sample_postgres (sample_env CHR ''4'') ''w'' (30 * ns_second) 1 one_subnet) = Inr (Some w)
     \<and> rw_TenantID (wk_Resource w) = ''t'' \<and> wk_Epoch w = 1"
  by (simp add: Postgres_Claim_def claim_def claimResource_def claim_candidate_def claim_tenant_def q_DueResourceCandidates_def
    due_def parent_vpc_def parent_eip_def first_col_def q_TryLockWorkVPC_def try_lock_def q_LockSubnet_def q_AcquireLease_def q_GetOperation_def
    q_RunOperation_def baseWorkGate_def subnetWork_def zero_work_def ref_kind_def work_row_def subnet_row_def lease_live_def op_active_def
    one_subnet_def sample_vpc_id_def accept_defs cong: call_cong andThen_cong)

theorem claim_takes_a_free_lease_witness:
  "\<exists>w. fst (Postgres_Claim sample_postgres (sample_env CHR ''4'') ''w'' (30 * ns_second) 1 one_subnet) = Inr (Some w)
     \<and> (\<exists>r \<in> set (db_reconciliations one_subnet). nre_TenantID r = ''t'' \<and> nre_LeaseEpoch r + 1 = wk_Epoch w)"
proof -
  obtain w where w: "fst (Postgres_Claim sample_postgres (sample_env CHR ''4'') ''w'' (30 * ns_second) 1 one_subnet) = Inr (Some w)"
    "rw_TenantID (wk_Resource w) = ''t''"
    using one_subnet_claimed by blast
  then have "Postgres_Claim sample_postgres (sample_env CHR ''4'') ''w'' (30 * ns_second) 1 one_subnet = (Inr (Some w),
      snd (Postgres_Claim sample_postgres (sample_env CHR ''4'') ''w'' (30 * ns_second) 1 one_subnet))"
    by (simp add: prod_eq_iff)
  from claim_takes_a_free_lease [OF this] w show ?thesis by fastforce
qed

end
