(* ===== verification/Net_Composition.thy ===== *)
theory Net_Composition
  imports Net_Fences Net_Network
begin

text \<open>
  The use cases over the repository: the PostgreSQL repository is an instance of the one that \<^verbatim>\<open>Network\<close> calls, and its
  VPC listing meets the contract that the pages of a listing rely on.
\<close>

section \<open>The repository of the use cases\<close>

text \<open>The methods of \<^verbatim>\<open>Postgres\<close> as a \<^verbatim>\<open>NetworkRepository\<close>; each call runs in the environment \<open>e\<close>, the lookup of a subnet
  replay before its transaction in \<open>e0\<close>.\<close>

definition postgres_repository :: "Postgres \<Rightarrow> env \<Rightarrow> env \<Rightarrow> db NetworkRepository" where
  "postgres_repository p e0 e = \<lparr>nr_AcceptSubnet = Postgres_AcceptSubnet e0 e, nr_GetSubnet = Postgres_GetSubnet e,
     nr_ListSubnets = Postgres_ListSubnets e, nr_DeleteSubnet = Postgres_DeleteSubnet e, nr_AcceptVPC = Postgres_AcceptVPC p e,
     nr_GetVPC = Postgres_GetVPC False e, nr_GetOperation = Postgres_GetOperation e, nr_ListVPCs = Postgres_ListVPCs e,
     nr_DeleteVPC = Postgres_DeleteVPC e\<rparr>"

section \<open>The listing\<close>

definition faultless :: "env \<Rightarrow> env" where
  "faultless e = e\<lparr>ev_fault := (\<lambda>_. None)\<rparr>"

text \<open>The VPCs that a listing asks for, newest first.\<close>

definition listed :: "string \<Rightarrow> string \<Rightarrow> string \<Rightarrow> db \<Rightarrow> VPC list" where
  "listed tenant name state d = map (\<lambda>v. vpc_of_row (vpc_joined d v)) (newest_first (\<lambda>v. (nv_CreatedAt v, nv_VpcID v))
     (filter (\<lambda>v. nv_TenantID v = tenant \<and> (name = [] \<or> nv_Name v = name) \<and> state_matches state (nv_State v)) (db_vpcs d)))"

definition listable :: "db \<Rightarrow> bool" where
  "listable d \<longleftrightarrow> vpcs_ok (db_vpcs d) \<and> (\<forall>v \<in> set (db_vpcs d). time_marshals (nv_CreatedAt v) \<and> \<not> time_is_zero (nv_CreatedAt v))"

lemma vpc_of_row_key: "vpc_key (vpc_of_row (vpc_joined d v)) = (nv_CreatedAt v, nv_VpcID v)" "vpc_ID (vpc_of_row (vpc_joined d v)) = nv_VpcID v"
  "vpc_CreatedAt (vpc_of_row (vpc_joined d v)) = nv_CreatedAt v"
  by (simp_all add: vpc_key_def vpc_of_row_def vpc_joined_def vpc_def Let_def split: sum.splits)

lemma newest_first_filter: "filter P (newest_first k xs) = newest_first k (filter P xs)"
  by (simp add: newest_first_def filter_sort flip: rev_filter)

lemma newest_first_strict:
  assumes "distinct (map k xs)"
  shows "sorted_wrt (\<lambda>a b. k b < k a) (newest_first k xs)"
proof -
  have "distinct (map k (sort_key k xs))" using assms by (simp add: distinct_map)
  then have "sorted_wrt (<) (map k (sort_key k xs))" by (simp add: strict_sorted_iff)
  then show ?thesis by (simp add: newest_first_def sorted_wrt_rev sorted_wrt_map)
qed

interpretation listing: vpc_listing "Postgres_ListVPCs (faultless e)" listed listable for e
proof unfold_locales
  fix d t f
  show "Postgres_ListVPCs (faultless e) t f d = (Inr (take (nat (vf_Limit f)) (filter (after_filter f) (listed t (vf_Name f) (vf_State f) d))), d)"
    by (simp add: Postgres_ListVPCs_def autocommit_def q_ListVPCs_def run_rules faultless_def listed_def filter_map o_def after_filter_def
      vpc_of_row_key newest_first_filter keyset_after_def take_map conj_ac cong: call_cong)
next
  fix d t nm st
  assume "listable d"
  then have "distinct (map (\<lambda>v. (nv_CreatedAt v, nv_VpcID v)) (filter (\<lambda>v. nv_TenantID v = t \<and> (nm = [] \<or> nv_Name v = nm) \<and> state_matches st (nv_State v)) (db_vpcs d)))"
    by (auto simp: listable_def vpcs_ok_def distinct_map inj_on_def)
  then show "sorted_wrt (\<lambda>a b. vpc_key b < vpc_key a) (listed t nm st d)"
    unfolding listed_def sorted_wrt_map vpc_of_row_key by (rule newest_first_strict)
next
  fix d t nm st v
  assume "listable d" and "v \<in> set (listed t nm st d)"
  then show "validVPCID (vpc_ID v) \<and> time_marshals (vpc_CreatedAt v) \<and> \<not> time_is_zero (vpc_CreatedAt v)"
    by (auto simp: listed_def listable_def vpcs_ok_def list_all_iff vpc_of_row_key newest_first_def)
qed

text \<open>C20: A client that follows the cursors of the VPC list over an unchanged database reaches the end, and has then seen
  exactly the VPCs of the tenant that match, newest first and each once.\<close>

theorem listing_reaches_every_vpc:
  assumes "listable d" and "n_repository n = postgres_repository p e0 (faultless e)" and "uuid_printed up"
    and "ParseTenant up (lv_TenantID r) = Inr tenant" and "normalizeList (lv_Name r) (lv_State r) (lv_Limit r) = Inr f" and "lv_Cursor r = []"
  shows "vpc_pages up n d r items \<longleftrightarrow> items = map (Network_observation n) (listed tenant (vf_Name f) (vf_State f) d)"
  using listing.pages_are_the_rows [OF assms(1) _ assms(4,3,5,6)] assms(2) by (simp add: postgres_repository_def)

definition sample_network :: "env \<Rightarrow> db Network" where
  "sample_network e = \<lparr>n_repository = postgres_repository sample_postgres e (faultless e), n_cursorKey = replicate 32 CHR ''k'',
     n_freshness = ns_second, n_now = ns_second\<rparr>"

definition sample_list :: ListVPCs where
  "sample_list = \<lparr>lv_TenantID = sample_uuid, lv_Name = [], lv_State = [], lv_Cursor = [], lv_Limit = 1\<rparr>"

definition listed_db :: db where
  "listed_db = sample_db\<lparr>db_vpcs := [sample_vpc\<lparr>nv_TenantID := sample_uuid\<rparr>]\<rparr>"

lemma sample_printed: "uuid_printed sample_parse"
  by (simp add: uuid_printed_def sample_parse_def sample_uuid_def lower_hex_def)

lemma sample_normalized: "normalizeList [] [] 1 = Inr \<lparr>vf_Name = [], vf_State = [], vf_AfterID = [], vf_AfterCreatedAt = 0, vf_Limit = 2\<rparr>"
  by (simp add: normalizeList_def Let_def trim_space_def valid_utf8_def rune_count_def has_control_def rune_values_def state_filter_ok_def wrap32_def)

lemma listed_db_vpcs: "listed sample_uuid [] [] listed_db = [vpc_of_row (vpc_joined listed_db (sample_vpc\<lparr>nv_TenantID := sample_uuid\<rparr>))]"
  by (simp add: listed_def listed_db_def newest_first_def sample_vpc_def state_matches_def)

theorem listing_reaches_every_vpc_witness:
  "\<exists>v. vpc_pages sample_parse (sample_network (sample_env CHR ''1'')) listed_db sample_list [v] \<and> vpc_ID v = sample_vpc_id"
proof -
  have "listable listed_db"
    by (simp add: listable_def listed_db_def vpcs_ok_def sample_vpc_def sample_ids sample_times time_is_zero_def)
  from listing_reaches_every_vpc [OF this _ sample_printed, of "sample_network (sample_env CHR ''1'')" sample_postgres "sample_env CHR ''1''" "sample_env CHR ''1''" sample_list]
  have "vpc_pages sample_parse (sample_network (sample_env CHR ''1'')) listed_db sample_list
      [Network_observation (sample_network (sample_env CHR ''1'')) (vpc_of_row (vpc_joined listed_db (sample_vpc\<lparr>nv_TenantID := sample_uuid\<rparr>)))]"
    by (simp add: sample_network_def sample_list_def sample_tenant sample_normalized listed_db_vpcs)
  then show ?thesis
    by (intro exI conjI) (auto simp: Network_observation_def Let_def vpc_of_row_key sample_vpc_def)
qed

section \<open>A description that the database cannot hold\<close>

text \<open>C21: A request to create a VPC whose description holds a zero character, and which is valid with an empty description, passes
  the validation: the character is a legal part of the description, which has at most 1024 characters. When no VPC was accepted
  under the key of the request yet and no statement fails for another reason, the insertion is refused, since a text column cannot
  hold the character: the request is answered as if the database were down, and nothing is stored.\<close>

theorem zero_character_is_unavailable:
  assumes "NewVPCIntent up (cv_TenantID r) (cv_Name r) (cv_CIDR r) [] (cv_IdempotencyKey r) = Inr intent"
    and "valid_utf8 (cv_Description r)" and "rune_count (cv_Description r) \<le> 1024" and "char_of (0::nat) \<in> set (cv_Description r)"
    and "validateAttribution (cv_Attribution r) = None"
    and "\<forall>x \<in> set (db_idempotency d). \<not> idempotency_row (vi_TenantID intent) ''create_vpc'' (vi_IdempotencyKey intent) x"
    and "n_repository n = postgres_repository p e0 (faultless e)"
  shows "NewVPCIntent up (cv_TenantID r) (cv_Name r) (cv_CIDR r) (cv_Description r) (cv_IdempotencyKey r) = Inr (intent\<lparr>vi_Description := cv_Description r\<rparr>)
    \<and> Network_CreateVPC up n r d = (Inl (BizError DependencyUnavailable ''Network database unavailable''
      (Some (OtherError ''invalid byte sequence for encoding UTF8: 0x00''))), d)"
proof -
  have valid: "NewVPCIntent up (cv_TenantID r) (cv_Name r) (cv_CIDR r) (cv_Description r) (cv_IdempotencyKey r) = Inr (intent\<lparr>vi_Description := cv_Description r\<rparr>)"
    using assms(1-3) by (auto simp: NewVPCIntent_Inr_iff)
  have "filter (idempotency_row (vi_TenantID intent) ''create_vpc'' (vi_IdempotencyKey intent)) (db_idempotency d) = []"
    using assms(6) by (simp add: filter_empty_conv)
  then have "Network_CreateVPC up n r d = (Inl (BizError DependencyUnavailable ''Network database unavailable''
      (Some (OtherError ''invalid byte sequence for encoding UTF8: 0x00''))), d)"
    using assms(4)
    by (simp add: Network_CreateVPC_def valid assms(5,7) postgres_repository_def Postgres_AcceptVPC_def transaction_def faultless_def acceptVPC_def
      q_LockCreationKey_def advisory_lock_def q_GetIdempotency_def find_row_def newVPC_def q_DatabaseTime_def q_InsertVPC_def pg_text_def
      databaseFailure_def run_rules Let_def cong: call_cong andThen_cong)
  with valid show ?thesis by simp
qed

theorem zero_character_is_unavailable_witness:
  "\<exists>r x. char_of (0::nat) \<in> set (cv_Description r) \<and> Network_CreateVPC sample_parse (sample_network (sample_env CHR ''1'')) r empty_db = (Inl x, empty_db)
     \<and> reason_of x = DependencyUnavailable"
proof -
  let ?r = "\<lparr>cv_TenantID = sample_uuid, cv_Name = ''lb'', cv_CIDR = ''10.0.0.0/24'', cv_Description = [char_of (0::nat)], cv_IdempotencyKey = ''key'',
     cv_Attribution = ec_Attribution sample_caller\<rparr>"
  have "runes [char_of (0::nat)] = [(0, [char_of (0::nat)])]" by (subst runes_ascii) simp_all
  then have "valid_utf8 [char_of (0::nat)]" "rune_count [char_of (0::nat)] = 1" by (simp_all add: valid_utf8_def rune_count_def)
  then show ?thesis
    using zero_character_is_unavailable [of sample_parse ?r sample_vpc_intent empty_db "sample_network (sample_env CHR ''1'')" sample_postgres
        "sample_env CHR ''1''" "sample_env CHR ''1''"] Net_Egress.sample_intent Net_Egress.sample_attribution
    by (intro exI [of _ ?r]) (simp add: sample_network_def empty_db_def)
qed

end
