(* ===== verification/Spec2Isabelle.thy ===== *)
theory Spec2Isabelle
  imports Net_LB_Worker Net_Attachment Net_Composition
begin

text \<open>
  Verification of the network control plane \<^verbatim>\<open>ani-resource-service\<close>.

  The service keeps VPCs, subnets, elastic addresses, SNAT bindings, load balancers, attachments of Pods and the platform resources
  below them in PostgreSQL, and brings a Kubernetes network provider to the recorded state. A request is validated by a use case of
  \<^verbatim>\<open>internal/biz/network\<close>, admitted by one transaction of \<^verbatim>\<open>internal/data/network\<close>, and carried out later by workers that
  claim the work under a lease, look at the provider, send at most one guarded request and store the outcome.

  \<^bold>\<open>Parts and theories.\<close>

  \<^item> Shared ground: \<open>Net_Prelude\<close> (strings as byte lists, UTF-8 runes, Go errors and reasons, int64 and int32 arithmetic, the
    result type), \<open>Net_Netip\<close> (\<^verbatim>\<open>net/netip\<close>: addresses, prefixes, parsing and printing), \<open>Net_Codec\<close> (SHA-256, HMAC, base64,
    hexadecimal), \<open>Net_Json\<close> (\<^verbatim>\<open>encoding/json\<close>: printing, parsing, strings), \<open>Net_Time\<close> and \<open>Net_Rfc3339\<close> (\<^verbatim>\<open>time.Time\<close> and its
    text), \<open>Net_Float\<close> (\<^verbatim>\<open>float64\<close> arithmetic with its rounding, for the retry delay).
  \<^item> Domain values and requests: \<open>Net_Domain\<close> and \<open>Net_Types\<close> for \<^verbatim>\<open>vpc.go\<close>, \<^verbatim>\<open>subnet.go\<close>, \<^verbatim>\<open>network.go\<close>; \<open>Net_Egress\<close> for
    \<^verbatim>\<open>egress.go\<close> and \<^verbatim>\<open>platform_intranet.go\<close>; \<open>Net_LoadBalancer\<close> for \<^verbatim>\<open>load_balancer.go\<close>; \<open>Net_Cursor\<close> for the signed cursors
    of \<^verbatim>\<open>list.go\<close>; \<open>Net_Network\<close> for the use cases of VPCs and subnets and for all lists; \<open>Net_Attachment\<close> for \<^verbatim>\<open>attachment.go\<close>
    and \<^verbatim>\<open>attachment_worker.go\<close>.
  \<^item> Workers: \<open>Net_Worker\<close> for \<^verbatim>\<open>worker.go\<close>, \<^verbatim>\<open>egress_worker.go\<close> and \<^verbatim>\<open>observation.go\<close>; \<open>Net_LB_Worker\<close> for
    \<^verbatim>\<open>load_balancer_worker.go\<close> and the entry \<^verbatim>\<open>Worker.Step\<close>. The repository and the provider are records of functions on a world
    of any type, so that a call may change the world in any way, fail, time out or lose its answer.
  \<^item> Database: \<open>Net_Database\<close> (the rows of \<^verbatim>\<open>sqlcgen/models.go\<close> and the tables as lists of rows), \<open>Net_Prog\<close> (programs of statements,
    transactions, the environment with clock, generated identifiers and faults, weakest preconditions), \<open>Net_Queries\<close>,
    \<open>Net_Queries_Egress\<close>, \<open>Net_Queries_Work\<close>, \<open>Net_Queries_LB\<close> (the statements of \<^verbatim>\<open>sqlcgen/*.sql.go\<close>, with the constraints of the
    schema they meet).
  \<^item> Repository: \<open>Net_Store\<close> for \<^verbatim>\<open>postgres.go\<close>, \<^verbatim>\<open>subnet.go\<close>, \<^verbatim>\<open>DeleteVPC\<close> and the admission part of
    \<^verbatim>\<open>base_connectivity.go\<close>; \<open>Net_Store_Egress\<close> for \<^verbatim>\<open>egress.go\<close>; \<open>Net_Store_Work\<close> for \<^verbatim>\<open>worker.go\<close>, \<^verbatim>\<open>resource_work.go\<close>, \<^verbatim>\<open>platform_worker.go\<close>,
    \<^verbatim>\<open>load_balancer_worker.go\<close>, \<^verbatim>\<open>observation.go\<close> and the executor part of \<^verbatim>\<open>base_connectivity.go\<close>; \<open>Net_Store_Attachment\<close> for
    \<^verbatim>\<open>attachment.go\<close> and \<^verbatim>\<open>attachment_worker.go\<close>; \<open>Net_Store_LB\<close> for \<^verbatim>\<open>load_balancers.go\<close>.
  \<^item> Reasoning about the repository: \<open>Net_Statements\<close> (locales: what all statements of a group keep, every program built from them
    keeps), \<open>Net_Evolution\<close> (how tables may change, interpreting those locales), \<open>Net_Steps\<close> (the repository as a transition system
    with the items that executors hold), \<open>Net_Rows\<close> (the invariant of VPC and subnet rows), \<open>Net_Sample\<close> (a small database and runs on
    it), \<open>Net_Guarantees\<close> (invariants over all runs), \<open>Net_Fences\<close> (leases and epochs), \<open>Net_Composition\<close> (use cases over the
    repository).

  A definition has the name of the Go function or type it translates, with a prefix where the name is taken: \<open>Network_CreateVPC\<close>
  is \<^verbatim>\<open>Network.CreateVPC\<close>, \<open>Postgres_AcceptVPC\<close> the transaction \<^verbatim>\<open>Postgres.AcceptVPC\<close> and \<open>acceptVPC\<close> the program inside it, \<open>q_X\<close>
  the statement \<^verbatim>\<open>X\<close>. A field has a prefix of its record.

  \<^bold>\<open>What is shown.\<close>

  \<^item> Over every run of the repository, with any clock, any identifiers, failing statements, a commit that reports an error and
    executors that write late: live subnets of a VPC never overlap, a live subnet has a live VPC, tables stay well typed (unique
    identifiers, one active operation per resource, one claim per address), recorded facts stay, a key keeps its answer, an
    executor without the lease of its epoch cannot write, a claim takes a free lease (\<open>Net_Guarantees\<close>, \<open>Net_Fences\<close>).
  \<^item> For every provider and every repository: a worker sends a request only directly after its committed intention, never repeats
    a lost create, records \<open>Deleted\<close> only on observed absence or for an item that was never dispatched, keeps the marker of an
    uncertain outcome, follows the lifecycle, and reports no error but those of the repository (\<open>Net_Worker\<close>, \<open>Net_LB_Worker\<close>,
    \<open>Net_Attachment\<close>); the retry delay stays within its bounds in floating point (\<open>Net_Worker\<close>).
  \<^item> For requests: normal forms, stability under resubmission, authorization, and cursors that decode to themselves and are
    accepted only when signed (\<open>Net_Network\<close>, \<open>Net_Egress\<close>, \<open>Net_LoadBalancer\<close>, \<open>Net_Cursor\<close>).
  \<^item> For the composition: following the cursors of the VPC list ends with exactly the matching VPCs; a description with a zero
    character passes the validation and fails in the database (\<open>Net_Composition\<close>).

  \<^bold>\<open>Modelling decisions.\<close>

  \<^item> A transaction is one atomic step: the code takes row and advisory locks before it reads what it decides on, and the steps are
    interleaved in any order. A statement may fail at any point (\<open>ev_fault\<close>); this also stands for the constraints of the schema
    that are not written out, for deadlocks and for lost connections. A failed transaction leaves the database as it was; a failed
    commit may have happened or not.
  \<^item> The clock is read per statement (\<open>ev_clock\<close>) and may give any time. Times are nanoseconds since the zero time, printed in UTC.
  \<^item> Stored snapshots are typed values instead of JSON text; what a marshalling refuses (years beyond 9999) is a branch.
  \<^item> Go visits the keys of a map in any order: the order is an argument (\<open>Net_Store_LB\<close>).
  \<^item> The one recursion with fuel is the JSON parser, which starts with twice the length of its input and one; lemma
    \<open>json_fuel\<close> shows that more fuel never changes the result. All other loops are structural or have a termination proof.
  \<^item> \<^verbatim>\<open>uuid.Parse\<close> and generated identifiers are arguments, with the documented behaviour as hypotheses where it is needed.
  \<^item> Floating point rounds after every operation, as on amd64; an out-of-range conversion gives the least integer, as there.

  \<^bold>\<open>Findings.\<close> Lemma \<open>zero_character_is_unavailable\<close> of \<open>Net_Composition\<close> shows a request that the validation accepts and no
  database can store. The others show in the definitions: \<open>NormalizePublicPool\<close> checks the limit of excluded ranges before it adds the
  gateways, \<open>observation_old\<close> takes an observation in the future as fresh, unlike \<open>observation_stale\<close> and \<open>freshTime\<close>, and the
  product in \<open>worker_policy_ok\<close> wraps for a very long request timeout.

  \<^bold>\<open>Not modelled.\<close>

  \<^item> The Kubernetes adapter (\<^verbatim>\<open>kc*.go\<close>, \<^verbatim>\<open>node_facts*.go\<close>): requests and objects of client-go, which are not part of the repository;
    the workers are proved for every answer it can give.
  \<^item> Admission and deletion of platform resources (\<^verbatim>\<open>platform.go\<close> from \<^verbatim>\<open>GetPlatform\<close> on) and their capability summary: an operator's
    interface on the same pattern as the modelled admissions; platform rows are read by the modelled parts and advanced by the
    modelled executor. The transition system therefore starts from any platform rows and has no step that adds some.
  \<^item> The one-time migration \<^verbatim>\<open>base_backfill.go\<close>, the schema migrations, opening and closing of the connection pool.
  \<^item> gRPC services, servers, process wiring, telemetry, the instance consumer client and generated code: translation and I/O.
\<close>

end
